(* ===== verification/Iso_Date.thy ===== *)
theory Iso_Date
  imports Prelude
begin

text \<open>
  UTC instants. An instant is the number of milliseconds since 1970-01-01T00:00:00Z (the time value
  of an ECMAScript \<open>Date\<close>); \<open>date_ms\<close> is \<open>new Date(s).getTime()\<close>, with \<open>None\<close> for \<open>NaN\<close>, on the
  UTC form \<open>YYYY-MM-DD\<close> and \<open>YYYY-MM-DDTHH:MM:SS(.f+)?Z\<close> of the ECMAScript date-time string format,
  as Node's engine reads it: a day up to 31 is accepted in every month and carries over, fractions
  are cut to milliseconds. Other strings, which the engine may still read in its own way, are
  \<open>NaN\<close> here. \<open>to_iso\<close> is \<open>Date.prototype.toISOString\<close> for years 0 to 9999. The calendar functions are the
  ones of the ECMAScript specification (day number of a year, month offsets); \<open>civil_of_days\<close>
  inverts them and the round trips are proved here.
\<close>

section \<open>The proleptic Gregorian calendar\<close>

definition leap :: "int \<Rightarrow> bool" where
  "leap y \<longleftrightarrow> y mod 4 = 0 \<and> (y mod 100 \<noteq> 0 \<or> y mod 400 = 0)"

definition day_from_year :: "int \<Rightarrow> int" where
  "day_from_year y = 365 * (y - 1970) + (y - 1969) div 4 - (y - 1901) div 100 + (y - 1601) div 400"

definition month_start :: "bool \<Rightarrow> int \<Rightarrow> int" where
  "month_start lp m =
     (if m \<le> 1 then 0 else if m = 2 then 31
      else (if m = 3 then 59 else if m = 4 then 90 else if m = 5 then 120 else if m = 6 then 151
            else if m = 7 then 181 else if m = 8 then 212 else if m = 9 then 243
            else if m = 10 then 273 else if m = 11 then 304 else if m = 12 then 334 else 365)
           + (if lp then 1 else 0))"

definition days_of_civil :: "int \<Rightarrow> int \<Rightarrow> int \<Rightarrow> int" where
  "days_of_civil y m d = day_from_year y + month_start (leap y) m + (d - 1)"

definition year_of_days :: "int \<Rightarrow> int" where
  "year_of_days n =
     (let e = 1970 + (n * 400) div 146097
      in if day_from_year (e + 1) \<le> n then e + 1 else if n < day_from_year e then e - 1 else e)"

definition month_of_doy :: "bool \<Rightarrow> int \<Rightarrow> int" where
  "month_of_doy lp r =
     (if r < month_start lp 2 then 1 else if r < month_start lp 3 then 2
      else if r < month_start lp 4 then 3 else if r < month_start lp 5 then 4
      else if r < month_start lp 6 then 5 else if r < month_start lp 7 then 6
      else if r < month_start lp 8 then 7 else if r < month_start lp 9 then 8
      else if r < month_start lp 10 then 9 else if r < month_start lp 11 then 10
      else if r < month_start lp 12 then 11 else 12)"

definition civil_of_days :: "int \<Rightarrow> int \<times> int \<times> int" where
  "civil_of_days n =
     (let y = year_of_days n; r = n - day_from_year y; m = month_of_doy (leap y) r
      in (y, m, r - month_start (leap y) m + 1))"

definition month_length :: "int \<Rightarrow> int \<Rightarrow> int" where
  "month_length y m = month_start (leap y) (m + 1) - month_start (leap y) m"

definition valid_civil :: "int \<Rightarrow> int \<Rightarrow> int \<Rightarrow> bool" where
  "valid_civil y m d \<longleftrightarrow> 1 \<le> m \<and> m \<le> 12 \<and> 1 \<le> d \<and> d \<le> month_length y m"

lemma div_succ:
  fixes a k :: int
  assumes "0 < k"
  shows "(a + 1) div k = a div k + (if (a + 1) mod k = 0 then 1 else 0)"
proof (cases "a mod k = k - 1")
  case True
  have "a + 1 = k * (a div k + 1) + 0"
    using div_mult_mod_eq [of a k] True by (simp add: algebra_simps)
  with assms int_div_pos_eq [of "a + 1" k "a div k + 1" 0] int_mod_pos_eq [of "a + 1" k "a div k + 1" 0]
  show ?thesis by simp
next
  case False
  have "0 \<le> a mod k" "a mod k < k" using assms by simp_all
  with False have r: "0 \<le> a mod k + 1" "a mod k + 1 < k" by simp_all
  have "a + 1 = k * (a div k) + (a mod k + 1)" by simp
  from int_div_pos_eq [OF this r] int_mod_pos_eq [OF this r]
  show ?thesis using \<open>0 \<le> a mod k\<close> by simp
qed

lemma leap_rule:
  "(C \<Longrightarrow> B) \<Longrightarrow> (B \<Longrightarrow> A) \<Longrightarrow>
     (if A then 1 else 0) - (if B then 1 else 0) + (if C then 1 else 0)
       = (if A \<and> (\<not> B \<or> C) then 1 else (0::int))"
  by (cases A; cases B; cases C) simp_all

lemma year_length: "day_from_year (y + 1) = day_from_year y + (if leap y then 366 else 365)"
proof -
  have s: "y - 1968 = y + (- 492) * 4" "y - 1900 = y + (- 19) * 100" "y - 1600 = y + (- 4) * 400"
    by simp_all
  have m: "(y - 1968) mod 4 = y mod 4" "(y - 1900) mod 100 = y mod 100"
    "(y - 1600) mod 400 = y mod 400"
    unfolding s by (simp_all only: mod_mult_self1)
  have d: "y mod 400 = 0 \<Longrightarrow> y mod 100 = 0" "y mod 100 = 0 \<Longrightarrow> y mod 4 = 0"
    using dvd_trans [of 100 400 y] dvd_trans [of 4 100 y]
    by (simp_all add: dvd_eq_mod_eq_0 [symmetric])
  define p4 p100 p400 :: int
    where "p4 = (if y mod 4 = 0 then 1 else 0)" and "p100 = (if y mod 100 = 0 then 1 else 0)"
      and "p400 = (if y mod 400 = 0 then 1 else 0)"
  note p = p4_def p100_def p400_def
  have e: "y - 1969 + 1 = y - 1968" "y - 1901 + 1 = y - 1900" "y - 1601 + 1 = y - 1600" by simp_all
  have "(y - 1968) div 4 = (y - 1969) div 4 + p4"
    by (rule div_succ [of 4 "y - 1969", OF zero_less_numeral, unfolded e m, folded p])
  moreover have "(y - 1900) div 100 = (y - 1901) div 100 + p100"
    by (rule div_succ [of 100 "y - 1901", OF zero_less_numeral, unfolded e m, folded p])
  moreover have "(y - 1600) div 400 = (y - 1601) div 400 + p400"
    by (rule div_succ [of 400 "y - 1601", OF zero_less_numeral, unfolded e m, folded p])
  ultimately have "day_from_year (y + 1) = day_from_year y + 365 + p4 - p100 + p400"
    by (simp add: day_from_year_def)
  moreover have "p4 - p100 + p400 = (if leap y then 1 else 0)"
    unfolding p leap_def using d by (rule leap_rule)
  ultimately show ?thesis by (simp split: if_splits)
qed

lemma day_from_year_mono: "a \<le> b \<Longrightarrow> day_from_year a + 365 * (b - a) \<le> day_from_year b"
proof (induction b rule: int_ge_induct)
  case base
  then show ?case by simp
next
  case (step b)
  then show ?case using year_length [of b] by (auto simp: algebra_simps)
qed

lemma div_bounds:
  fixes a k :: int
  assumes "0 < k"
  shows "k * (a div k) \<le> a" "a < k * (a div k) + k"
  using div_mult_mod_eq [of a k] pos_mod_bound [OF assms, of a] pos_mod_sign [OF assms, of a]
  by (simp_all only: mult.commute [of k])

lemma day_from_year_bounds:
  "146097 * (y - 1970) - 600 \<le> 400 * day_from_year y"
  "400 * day_from_year y \<le> 146097 * (y - 1970) + 600"
proof -
  define q where "q = (y - 1969) div 4"
  define c where "c = (y - 1901) div 100"
  define g where "g = (y - 1601) div 400"
  note b = div_bounds [of 4 "y - 1969", folded q_def, OF zero_less_numeral]
    div_bounds [of 100 "y - 1901", folded c_def, OF zero_less_numeral]
    div_bounds [of 400 "y - 1601", folded g_def, OF zero_less_numeral]
  have eq: "400 * day_from_year y = 146000 * (y - 1970) + 400 * q - 400 * c + 400 * g"
    unfolding day_from_year_def q_def [symmetric] c_def [symmetric] g_def [symmetric] by simp
  show "146097 * (y - 1970) - 600 \<le> 400 * day_from_year y"
    using b eq by (simp only: int_distrib)
  show "400 * day_from_year y \<le> 146097 * (y - 1970) + 600"
    using b eq by (simp only: int_distrib)
qed

lemma year_of_days_bounds:
  "day_from_year (year_of_days n) \<le> n" "n < day_from_year (year_of_days n + 1)"
proof -
  define e where "e = 1970 + (n * 400) div 146097"
  have "146097 * (e - 1970) \<le> 400 * n" "400 * n < 146097 * (e - 1970) + 146097"
    using div_bounds [of 146097 "n * 400"] by (simp_all add: e_def)
  note b = this day_from_year_bounds [of "e - 1"] day_from_year_bounds [of "e + 2"]
  have "day_from_year (e - 1) \<le> n" using b by simp
  moreover have "n < day_from_year (e + 2)" using b by simp
  ultimately show "day_from_year (year_of_days n) \<le> n" "n < day_from_year (year_of_days n + 1)"
    unfolding year_of_days_def Let_def e_def [symmetric] by (auto simp: algebra_simps)
qed

lemma year_of_days_unique:
  assumes "day_from_year y \<le> n" "n < day_from_year (y + 1)"
  shows "year_of_days n = y"
proof (rule antisym)
  show "year_of_days n \<le> y"
    using day_from_year_mono [of "y + 1" "year_of_days n"] year_of_days_bounds [of n] assms
    by (cases "year_of_days n \<le> y") auto
  show "y \<le> year_of_days n"
    using day_from_year_mono [of "year_of_days n + 1" y] year_of_days_bounds [of n] assms
    by (cases "y \<le> year_of_days n") auto
qed

lemma month_cases: "1 \<le> m \<Longrightarrow> m \<le> 12 \<Longrightarrow> m \<in> set [1, 2, 3, 4, 5, 6, 7, 8, 9, 10, 11, 12 :: int]"
proof -
  have "set [1..12 :: int] = set [1, 2, 3, 4, 5, 6, 7, 8, 9, 10, 11, 12]"
    by (simp add: upto_rec1 del: set_upto)
  moreover assume "1 \<le> m" "m \<le> 12"
  ultimately show ?thesis by (metis atLeastAtMost_iff set_upto)
qed

lemma month_of_doy_start:
  assumes "1 \<le> m" "m \<le> 12" "month_start lp m \<le> r" "r < month_start lp (m + 1)"
  shows "month_of_doy lp r = m"
  using month_cases [OF assms(1,2)] assms(3,4)
  by (cases lp) (auto simp: month_start_def month_of_doy_def)

lemma month_of_doy_range:
  assumes "0 \<le> r" "r < (if lp then 366 else 365)"
  shows "1 \<le> month_of_doy lp r \<and> month_of_doy lp r \<le> 12
    \<and> month_start lp (month_of_doy lp r) \<le> r \<and> r < month_start lp (month_of_doy lp r + 1)"
  using assms by (cases lp) (simp_all add: month_start_def month_of_doy_def)

lemma month_start_mono_end:
  "1 \<le> m \<Longrightarrow> m \<le> 12 \<Longrightarrow> 0 \<le> month_start lp m \<and> month_start lp (m + 1) \<le> (if lp then 366 else 365)"
  by (auto simp: month_start_def)

lemma valid_civil_civil_of_days:
  "case civil_of_days n of (y, m, d) \<Rightarrow> valid_civil y m d \<and> days_of_civil y m d = n"
proof -
  define y where "y = year_of_days n"
  define r where "r = n - day_from_year y"
  have "0 \<le> r" "r < (if leap y then 366 else 365)"
    using year_of_days_bounds [of n] year_length [of y] by (auto simp: r_def y_def)
  from month_of_doy_range [OF this] show ?thesis
    by (simp add: civil_of_days_def Let_def valid_civil_def days_of_civil_def month_length_def
        y_def [symmetric] r_def [symmetric]) (simp add: r_def)
qed

lemma civil_of_days_of_civil:
  assumes "valid_civil y m d"
  shows "civil_of_days (days_of_civil y m d) = (y, m, d)"
proof -
  let ?n = "days_of_civil y m d"
  have m: "1 \<le> m" "m \<le> 12" and d: "1 \<le> d" "d \<le> month_length y m"
    using assms by (auto simp: valid_civil_def)
  have bounds: "month_start (leap y) m \<le> ?n - day_from_year y"
    "?n - day_from_year y < month_start (leap y) (m + 1)"
    using d by (simp_all add: days_of_civil_def month_length_def)
  have "day_from_year y \<le> ?n" "?n < day_from_year (y + 1)"
    using bounds month_start_mono_end [OF m, of "leap y"] year_length [of y] by auto
  then have "year_of_days ?n = y" by (rule year_of_days_unique)
  moreover have "month_of_doy (leap y) (?n - day_from_year y) = m"
    by (rule month_of_doy_start [OF m bounds])
  ultimately show ?thesis
    by (simp add: civil_of_days_def Let_def days_of_civil_def)
qed

text \<open>Day of the week, 0 for Sunday (ECMAScript \<open>WeekDay\<close>).\<close>

definition week_day :: "int \<Rightarrow> int" where
  "week_day n = (n + 4) mod 7"

section \<open>Reading and writing UTC timestamps\<close>

definition digit_val :: "char \<Rightarrow> int" where
  "digit_val c = of_char c - 48"

definition digit_char :: "int \<Rightarrow> char" where
  "digit_char k = char_of (nat (48 + k))"

definition nums :: "string \<Rightarrow> int option" where
  "nums s = (if s \<noteq> [] \<and> list_all is_digit s then Some (foldl (\<lambda>a c. 10 * a + digit_val c) 0 s) else None)"

definition sub :: "nat \<Rightarrow> nat \<Rightarrow> string \<Rightarrow> string" where
  "sub i n s = take n (drop i s)"

definition day_ms :: int where
  "day_ms = 86400000"

text \<open>The optional fraction and the mandatory \<open>Z\<close>: milliseconds, cut after three digits.\<close>

definition fraction_ms :: "string \<Rightarrow> int option" where
  "fraction_ms r =
     (if r = ''Z'' then Some 0
      else if sub 0 1 r = ''.'' \<and> 3 \<le> length r \<and> last r = CHR ''Z'' then
        (case nums (butlast (tl r)) of None \<Rightarrow> None
         | Some _ \<Rightarrow> nums (take 3 (butlast (tl r) @ ''00'')))
      else None)"

definition date_part :: "string \<Rightarrow> int option" where
  "date_part s =
     (case (nums (sub 0 4 s), nums (sub 5 2 s), nums (sub 8 2 s)) of
        (Some y, Some m, Some d) \<Rightarrow>
          (if sub 4 1 s = ''-'' \<and> sub 7 1 s = ''-'' \<and> 1 \<le> m \<and> m \<le> 12 \<and> 1 \<le> d \<and> d \<le> 31
           then Some (days_of_civil y m d * day_ms) else None)
      | _ \<Rightarrow> None)"

definition time_part :: "string \<Rightarrow> int option" where
  "time_part s =
     (case (nums (sub 11 2 s), nums (sub 14 2 s), nums (sub 17 2 s), fraction_ms (drop 19 s)) of
        (Some h, Some mi, Some sec, Some f) \<Rightarrow>
          (if sub 10 1 s = ''T'' \<and> sub 13 1 s = '':'' \<and> sub 16 1 s = '':'' \<and> mi < 60 \<and> sec < 60
              \<and> (h < 24 \<or> h = 24 \<and> mi = 0 \<and> sec = 0 \<and> f = 0)
           then Some (h * 3600000 + mi * 60000 + sec * 1000 + f) else None)
      | _ \<Rightarrow> None)"

definition date_ms :: "string \<Rightarrow> int option" where
  "date_ms s =
     (case date_part s of None \<Rightarrow> None
      | Some d \<Rightarrow> (if length s = 10 then Some d else map_option (\<lambda>t. d + t) (time_part s)))"

text \<open>
  The pattern the repository calls UTC RFC3339:
  \<open>^[0-9]{4}-[0-9]{2}-[0-9]{2}T[0-9]{2}:[0-9]{2}:[0-9]{2}(?:\.[0-9]{1,9})?Z$\<close>.
\<close>

definition is_utc_datetime :: "string \<Rightarrow> bool" where
  "is_utc_datetime s \<longleftrightarrow>
     19 < length s \<and> last s = CHR ''Z''
     \<and> list_all is_digit (sub 0 4 s @ sub 5 2 s @ sub 8 2 s @ sub 11 2 s @ sub 14 2 s @ sub 17 2 s)
     \<and> sub 4 1 s = ''-'' \<and> sub 7 1 s = ''-'' \<and> sub 10 1 s = ''T'' \<and> sub 13 1 s = '':'' \<and> sub 16 1 s = '':''
     \<and> (length s = 20
         \<or> sub 19 1 s = ''.'' \<and> 22 \<le> length s \<and> length s \<le> 30 \<and> list_all is_digit (butlast (drop 20 s)))"

definition pad2 :: "int \<Rightarrow> string" where
  "pad2 n = [digit_char (n div 10), digit_char (n mod 10)]"

definition pad3 :: "int \<Rightarrow> string" where
  "pad3 n = digit_char (n div 100) # pad2 (n mod 100)"

definition pad4 :: "int \<Rightarrow> string" where
  "pad4 n = pad2 (n div 100) @ pad2 (n mod 100)"

definition to_iso :: "int \<Rightarrow> string" where
  "to_iso ms =
     (case civil_of_days (ms div day_ms) of (y, m, d) \<Rightarrow>
        let r = ms mod day_ms in
        pad4 y @ ''-'' @ pad2 m @ ''-'' @ pad2 d @ ''T'' @ pad2 (r div 3600000) @ '':''
        @ pad2 (r div 60000 mod 60) @ '':'' @ pad2 (r div 1000 mod 60) @ ''.'' @ pad3 (r mod 1000) @ ''Z'')"

text \<open>The instants whose year has four digits.\<close>

definition iso_range :: "int \<Rightarrow> bool" where
  "iso_range ms \<longleftrightarrow> - 62167219200000 \<le> ms \<and> ms < 253402300800000"

lemma digit_char_digit:
  assumes "0 \<le> k" "k \<le> 9"
  shows "is_digit (digit_char k)" "digit_val (digit_char k) = k"
proof -
  have "(of_char (digit_char k) :: nat) = nat (48 + k)"
    using assms by (simp add: digit_char_def)
  moreover from this have "(of_char (digit_char k) :: int) = 48 + k"
    using assms by (metis add_nonneg_nonneg int_nat_eq of_nat_of_char zero_le_numeral)
  ultimately show "is_digit (digit_char k)" "digit_val (digit_char k) = k"
    using assms by (auto simp: is_digit_def digit_val_def)
qed

lemma nums_pad2: "0 \<le> n \<Longrightarrow> n \<le> 99 \<Longrightarrow> nums (pad2 n) = Some n"
  by (simp add: nums_def pad2_def digit_char_digit)

lemma nums_pad3: "0 \<le> n \<Longrightarrow> n \<le> 999 \<Longrightarrow> nums (pad3 n) = Some n"
  by (simp add: nums_def pad3_def pad2_def digit_char_digit)

lemma nums_pad4: "0 \<le> n \<Longrightarrow> n \<le> 9999 \<Longrightarrow> nums (pad4 n) = Some n"
  by (simp add: nums_def pad4_def pad2_def digit_char_digit)

lemma length_pad [simp]: "length (pad2 n) = 2" "length (pad3 n) = 3" "length (pad4 n) = 4"
  by (simp_all add: pad2_def pad3_def pad4_def)

lemma iso_range_year:
  assumes "iso_range ms" "civil_of_days (ms div day_ms) = (y, m, d)"
  shows "0 \<le> y" "y \<le> 9999"
proof -
  let ?n = "ms div day_ms"
  have n: "- 719528 \<le> ?n" "?n < 2932897"
    using assms(1) by (auto simp: iso_range_def day_ms_def)
  have y: "y = year_of_days ?n" using assms(2) by (simp add: civil_of_days_def Let_def)
  have "day_from_year 0 = - 719528" "day_from_year 10000 = 2932897"
    by (simp_all add: day_from_year_def)
  with n year_of_days_bounds [of ?n] day_from_year_mono [of "y + 1" 0] day_from_year_mono [of 10000 y]
  show "0 \<le> y" "y \<le> 9999"
    unfolding y by (smt (verit))+
qed

lemma hms_split:
  "r div 3600000 * 3600000 + r div 60000 mod 60 * 60000 + r div 1000 mod 60 * 1000 + r mod 1000 = (r :: int)"
proof -
  have "r div 60000 = r div 1000 div 60" "r div 3600000 = r div 1000 div 60 div 60"
    using zdiv_zmult2_eq [of 60 r 1000] zdiv_zmult2_eq [of 60 "r div 1000" 60]
      zdiv_zmult2_eq [of 3600 r 1000] by simp_all
  moreover define a b where "a = r div 1000" and "b = a div 60"
  ultimately have e: "r div 60000 = b" "r div 3600000 = b div 60" by simp_all
  show ?thesis
    unfolding e a_def [symmetric]
    using div_mult_mod_eq [of r 1000, folded a_def] div_mult_mod_eq [of a 60, folded b_def]
      div_mult_mod_eq [of b 60]
    by linarith
qed

lemma mod_range:
  fixes k x :: int
  assumes "0 < k"
  shows "0 \<le> x mod k" "x mod k \<le> k - 1"
  using pos_mod_bound [OF assms, of x] pos_mod_sign [OF assms, of x] by simp_all

lemma time_part_format:
  assumes "length p = 10" "0 \<le> h" "h \<le> 23" "0 \<le> mi" "mi \<le> 59" "0 \<le> sec" "sec \<le> 59"
    "0 \<le> f" "f \<le> 999"
  shows "time_part (p @ ''T'' @ pad2 h @ '':'' @ pad2 mi @ '':'' @ pad2 sec @ ''.'' @ pad3 f @ ''Z'')
    = Some (h * 3600000 + mi * 60000 + sec * 1000 + f)"
proof -
  have "fraction_ms (''.'' @ pad3 f @ ''Z'') = Some f"
    using assms by (simp add: fraction_ms_def sub_def butlast_append nums_pad3)
  then show ?thesis
    using assms by (simp add: time_part_def sub_def nums_pad2)
qed

lemma to_iso_fields:
  assumes "iso_range ms" "civil_of_days (ms div day_ms) = (y, m, d)"
  shows "date_part (to_iso ms) = Some (ms div day_ms * day_ms)"
    and "time_part (to_iso ms) = Some (ms mod day_ms)"
    and "length (to_iso ms) = 24"
proof -
  have v: "valid_civil y m d" "days_of_civil y m d = ms div day_ms"
    using valid_civil_civil_of_days [of "ms div day_ms"] assms(2) by simp_all
  then have m: "1 \<le> m" "m \<le> 12" and d: "1 \<le> d" "d \<le> 31"
    by (auto simp: valid_civil_def month_length_def month_start_def split: if_splits)
  define r where "r = ms mod day_ms"
  have r: "0 \<le> r" "r < 86400000" by (simp_all add: r_def day_ms_def)
  have i: "to_iso ms = pad4 y @ ''-'' @ pad2 m @ ''-'' @ pad2 d @ ''T'' @ pad2 (r div 3600000) @ '':''
      @ pad2 (r div 60000 mod 60) @ '':'' @ pad2 (r div 1000 mod 60) @ ''.'' @ pad3 (r mod 1000) @ ''Z''"
    using assms(2) by (simp add: to_iso_def r_def Let_def)
  show "length (to_iso ms) = 24" by (simp add: i)
  show "date_part (to_iso ms) = Some (ms div day_ms * day_ms)"
    using iso_range_year [OF assms] m d v(2)
    by (simp add: date_part_def i sub_def nums_pad4 nums_pad2)
  have h: "0 \<le> r div 3600000"
    using r(1) by (simp add: pos_imp_zdiv_nonneg_iff)
  have h': "r div 3600000 \<le> 23"
    using div_bounds(1) [of 3600000 r, OF zero_less_numeral] r(2) by linarith
  have b: "r div 60000 mod 60 \<le> 59" "r div 1000 mod 60 \<le> 59" "r mod 1000 \<le> 999"
    using mod_range(2) [of 60 "r div 60000"] mod_range(2) [of 60 "r div 1000"]
      mod_range(2) [of 1000 r] by simp_all
  note z = mod_range(1) [OF zero_less_numeral]
  have l: "length (pad4 y @ ''-'' @ pad2 m @ ''-'' @ pad2 d) = 10" by simp
  show "time_part (to_iso ms) = Some (ms mod day_ms)"
    using time_part_format [OF l h h' z b(1) z b(2) z b(3)]
    by (simp only: i append_assoc hms_split r_def [symmetric])
qed

theorem date_ms_to_iso: "iso_range ms \<Longrightarrow> date_ms (to_iso ms) = Some ms"
proof -
  assume h: "iso_range ms"
  obtain y m d where c: "civil_of_days (ms div day_ms) = (y, m, d)" by (metis prod_cases3)
  show ?thesis using to_iso_fields [OF h c] by (simp add: date_ms_def)
qed

end
