(* ===== verification/Finance_Types.thy ===== *)
theory Finance_Types
  imports Json Iso_Date
begin

text \<open>
  The contract of the finance read model (\<open>domains/finance/src/types.ts\<close>), its error codes, the
  cents arithmetic of \<open>money.ts\<close> and the instants of \<open>dates.ts\<close>. Cents are ECMAScript numbers that
  the code keeps inside the safe integers: they are \<open>int\<close> here, with every check of the code written
  out, and a sum of two safe integers is safe exactly when the rounded sum is. The constant fields
  (\<open>schema_version\<close>, \<open>read_model_only\<close>, \<open>provider_mutations\<close>, \<open>basis\<close>, \<open>omitted: false\<close>) are not
  carried. An absent and a null \<open>due_at\<close> are the same \<open>None\<close>: every reader tests its truth value.
\<close>

section \<open>The contract\<close>

datatype fin_freshness = FF_FRESH | FF_STALE | FF_UNKNOWN | FF_ERROR

datatype billing_mode = BM_ONE_TIME | BM_RECURRING | BM_UNKNOWN

datatype billing_cycle = BC_MONTHLY | BC_YEARLY | BC_WEEKLY | BC_NONE

datatype finance_event_kind =
    Contract_Signed | Invoice_Issued | Payment_Confirmed | Settlement_Received | Invoice_Overdue
  | Refund | Chargeback | Expense | Cash_Balance | Manual_Adjustment | Contract_Cancelled

datatype adjustment_target =
    AT_Contratada | AT_Faturada | AT_Paga | AT_Recebida | AT_Expense | AT_Cash_Balance

datatype fin_actor_kind = FA_Human | FA_Agent | FA_System

datatype incomplete_reason =
    IR_Empty_Input | IR_Paid_Without_Settlement | IR_Invoice_Without_Contract
  | IR_Unknown_Billing_Mode | IR_Non_Monthly_Recurring_Omitted | IR_Missing_Reliable_Expenses
  | IR_Missing_Cash_Balance | IR_Missing_Due_Date | IR_Mixed_Currency_Rejected
  | IR_Refund_Exceeds_Received | IR_Chargeback_Exceeds_Received | IR_Manual_Cash_Assertion
  | IR_Low_Confidence_Input

datatype finance_error =
    FINANCE_CURRENCY_INVALID | FINANCE_MONEY_NOT_INTEGER | FINANCE_MONEY_NEGATIVE
  | FINANCE_MONEY_OVERFLOW | FINANCE_DATETIME_INVALID | FINANCE_WINDOW_INVALID
  | FINANCE_SECRET_KEY_FORBIDDEN | FINANCE_STRING_INVALID | FINANCE_FRESHNESS_INVALID
  | FINANCE_CONFIDENCE_INVALID | FINANCE_SOURCE_INVALID | FINANCE_ACTOR_INVALID
  | FINANCE_EVENT_KIND_INVALID | FINANCE_BILLING_MODE_INVALID | FINANCE_BILLING_CYCLE_INVALID
  | FINANCE_ADJUSTMENT_TARGET_INVALID | FINANCE_EVENT_INVALID | FINANCE_EVENT_UNKNOWN_KEY
  | FINANCE_EVENT_ID_INVALID | FINANCE_IDEMPOTENCY_KEY_INVALID | FINANCE_SETTLEMENT_FLAG_INVALID
  | FINANCE_FIXTURE_INVALID | FINANCE_FRESHNESS_WINDOW_INVALID | FINANCE_ADJUSTMENT_INVALID
  | FINANCE_ADJUSTMENT_UNKNOWN_KEY | FINANCE_PROVIDER_MUTATION_FORBIDDEN | FINANCE_MIXED_CURRENCY
  | FINANCE_ADJUSTMENT_SOURCE

type_synonym 'a fin_result = "finance_error + 'a"

record fin_source =
  fs_system :: string
  fs_kind :: string
  fs_locator :: string
  fs_label :: "string option"

record fin_actor =
  fa_kind :: fin_actor_kind
  fa_id :: string
  fa_display_name :: "string option"

record fin_money =
  fm_amount_cents :: int
  fm_currency :: string

record fin_provenance =
  fp_source :: fin_source
  fp_observed_at :: string
  fp_freshness :: fin_freshness
  fp_confidence :: rat
  fp_window_seconds :: rat

record money_figure =
  mf_amount_cents :: int
  mf_currency :: string
  mf_source :: fin_source
  mf_observed_at :: string
  mf_freshness :: fin_freshness
  mf_confidence :: rat
  mf_incomplete :: bool
  mf_incomplete_reasons :: "incomplete_reason list"

record time_window =
  tw_from :: string
  tw_to :: string

record finance_event =
  fe_id :: string
  fe_idempotency_key :: string
  fe_kind :: finance_event_kind
  fe_occurred_at :: string
  fe_amount_cents :: int
  fe_currency :: string
  fe_client_id :: string
  fe_obligation_id :: string
  fe_billing_mode :: billing_mode
  fe_settlement_proven :: bool
  fe_source :: fin_source
  fe_observed_at :: string
  fe_freshness :: fin_freshness
  fe_confidence :: rat
  fe_billing_cycle :: "billing_cycle option"
  fe_offer_code :: "string option"
  fe_invoice_id :: "string option"
  fe_contract_id :: "string option"
  fe_due_at :: "string option"
  fe_adjustment_target :: "adjustment_target option"
  fe_notes :: "string option"

record aggregate_options =
  ao_as_of :: string
  ao_cash_in_window :: time_window
  ao_freshness_window_seconds :: "rat option"
  ao_scope :: "string option"
  ao_snapshot_id :: "string option"

datatype aging_key = AK_current | AK_d1_30 | AK_d31_60 | AK_d61_90 | AK_d91_plus | AK_unknown

record aging_bucket =
  ab_key :: aging_key
  ab_amount_cents :: int
  ab_obligation_count :: nat

record client_share =
  sh_client_id :: string
  sh_amount_cents :: int
  sh_share_bps :: int

text \<open>
  \<open>ArAging\<close> and \<open>ClientConcentration\<close> are a figure without its amount (the figure of \<open>a_receber\<close> they
  are computed from) beside their rows.
\<close>

record ar_aging =
  aa_figure :: money_figure
  aa_buckets :: "aging_bucket list"

record client_concentration =
  co_figure :: money_figure
  co_clients :: "client_share list"
  co_top_share_bps :: int

datatype runway_reason = RW_missing_reliable_expenses | RW_missing_cash_balance | RW_non_positive_burn

record runway_estimate =
  rw_months :: int
  rw_cash_balance_cents :: int
  rw_monthly_burn_cents :: int
  rw_currency :: string
  rw_source :: fin_source
  rw_observed_at :: string
  rw_freshness :: fin_freshness
  rw_confidence :: rat

datatype runway =
    Runway_Omitted runway_reason fin_source string fin_freshness rat
  | Runway_Estimated runway_estimate

record finance_figures =
  fg_contratada :: money_figure
  fg_faturada :: money_figure
  fg_paga :: money_figure
  fg_recebida :: money_figure
  fg_vencida :: money_figure
  fg_a_receber :: money_figure

record finance_read_model =
  rm_id :: string
  rm_scope :: string
  rm_generated_at :: string
  rm_as_of :: string
  rm_currency :: string
  rm_figures :: finance_figures
  rm_cash_in :: money_figure
  rm_cash_in_window :: time_window
  rm_mrr :: money_figure
  rm_ar_aging :: ar_aging
  rm_concentracao :: client_concentration
  rm_runway :: runway
  rm_incomplete_data :: bool
  rm_incomplete_reasons :: "incomplete_reason list"
  rm_provenance :: fin_provenance
  rm_adjustments_applied :: nat
  rm_event_count :: nat

record finance_stub =
  st_receivables_open :: fin_money
  st_receivables_overdue :: fin_money

section \<open>Cents\<close>

definition max_safe :: int where
  "max_safe = 9007199254740991"

definition is_safe :: "int \<Rightarrow> bool" where
  "is_safe n \<longleftrightarrow> - max_safe \<le> n \<and> n \<le> max_safe"

text \<open>\<open>^[A-Z]{3}$\<close>\<close>

definition currency_pattern :: "string \<Rightarrow> bool" where
  "currency_pattern s \<longleftrightarrow> length s = 3 \<and> list_all is_upper s"

definition assert_currency :: "string \<Rightarrow> string fin_result" where
  "assert_currency s = require (currency_pattern s) FINANCE_CURRENCY_INVALID (Inr s)"

definition assert_cents :: "int \<Rightarrow> int fin_result" where
  "assert_cents n = require (is_safe n) FINANCE_MONEY_NOT_INTEGER (Inr n)"

definition add_cents :: "int \<Rightarrow> int \<Rightarrow> int fin_result" where
  "add_cents a b =
     bindE (assert_cents a) (\<lambda>x. bindE (assert_cents b) (\<lambda>y.
     require (is_safe (x + y)) FINANCE_MONEY_OVERFLOW (Inr (x + y))))"

definition sub_cents_floor :: "int \<Rightarrow> int \<Rightarrow> int fin_result" where
  "sub_cents_floor a b =
     bindE (assert_cents a) (\<lambda>x. bindE (assert_cents b) (\<lambda>y.
     require (is_safe (x - y)) FINANCE_MONEY_OVERFLOW (Inr (if x - y < 0 then 0 else x - y))))"

definition assert_non_negative_cents :: "int \<Rightarrow> int fin_result" where
  "assert_non_negative_cents n =
     bindE (assert_cents n) (\<lambda>cents. require (\<not> cents < 0) FINANCE_MONEY_NEGATIVE (Inr cents))"

definition money :: "int \<Rightarrow> string \<Rightarrow> fin_money fin_result" where
  "money amount currency =
     bindE (assert_cents amount) (\<lambda>a. bindE (assert_currency currency) (\<lambda>c.
     Inr \<lparr>fm_amount_cents = a, fm_currency = c\<rparr>))"

lemma assert_cents_Inr [guards, simp]: "assert_cents n = Inr m \<longleftrightarrow> is_safe n \<and> m = n"
  by (auto simp: assert_cents_def)

lemma add_cents_Inr [guards, simp]:
  "add_cents a b = Inr c \<longleftrightarrow> is_safe a \<and> is_safe b \<and> is_safe c \<and> c = a + b"
  by (auto simp: add_cents_def)

lemma sub_cents_floor_Inr [guards, simp]:
  "sub_cents_floor a b = Inr c \<longleftrightarrow> is_safe a \<and> is_safe b \<and> is_safe (a - b) \<and> c = max 0 (a - b)"
  by (auto simp: sub_cents_floor_def)

lemma is_safe_0 [simp]: "is_safe 0"
  by (simp add: is_safe_def max_safe_def)

lemma is_safe_between: "is_safe b \<Longrightarrow> 0 \<le> a \<Longrightarrow> a \<le> b \<Longrightarrow> is_safe a"
  by (simp add: is_safe_def max_safe_def)

section \<open>Instants\<close>

definition fin_parse_utc :: "string \<Rightarrow> int fin_result" where
  "fin_parse_utc s =
     require (is_utc_datetime s) FINANCE_DATETIME_INVALID (
     require_some (date_ms s) FINANCE_DATETIME_INVALID Inr)"

definition compare_utc :: "string \<Rightarrow> string \<Rightarrow> int fin_result" where
  "compare_utc a b = bindE (fin_parse_utc a) (\<lambda>x. bindE (fin_parse_utc b) (\<lambda>y. Inr (x - y)))"

definition is_in_window :: "string \<Rightarrow> string \<Rightarrow> string \<Rightarrow> bool fin_result" where
  "is_in_window occurred_at from_ts to_ts =
     bindE (fin_parse_utc occurred_at) (\<lambda>t.
     bindE (fin_parse_utc from_ts) (\<lambda>start.
     bindE (fin_parse_utc to_ts) (\<lambda>stop.
     require (\<not> stop < start) FINANCE_WINDOW_INVALID (Inr (start \<le> t \<and> t \<le> stop)))))"

definition age_seconds :: "string \<Rightarrow> string \<Rightarrow> int fin_result" where
  "age_seconds observed_at as_of =
     bindE (fin_parse_utc observed_at) (\<lambda>observed.
     bindE (fin_parse_utc as_of) (\<lambda>as_of_ms. Inr (max 0 ((as_of_ms - observed) div 1000))))"

definition days_between :: "string \<Rightarrow> string \<Rightarrow> int fin_result" where
  "days_between from_ts to_ts =
     bindE (fin_parse_utc from_ts) (\<lambda>start.
     bindE (fin_parse_utc to_ts) (\<lambda>stop. Inr ((stop - start) div 86400000)))"

definition valid_utc :: "string \<Rightarrow> bool" where
  "valid_utc s \<longleftrightarrow> is_utc_datetime s \<and> date_ms s \<noteq> None"

lemma fin_parse_utc_Inr [guards, simp]: "fin_parse_utc s = Inr t \<longleftrightarrow> is_utc_datetime s \<and> date_ms s = Some t"
  by (cases "date_ms s") (auto simp: fin_parse_utc_def)

lemma valid_utc_iff: "valid_utc s \<longleftrightarrow> is_ok (fin_parse_utc s)"
  by (cases "date_ms s") (auto simp: valid_utc_def fin_parse_utc_def require_def)

end
