(* ===== verification/Finance_Validate.thy ===== *)
theory Finance_Validate
  imports Finance_Types
begin

text \<open>
  \<open>domains/finance/src/validate.ts\<close>: the readers of untrusted JSON. Each reader returns the value or
  the first error in the order of the code; the field names that only go into messages are dropped.
  \<open>event_json\<close> is the object an event is as JSON, the form in which the aggregate revalidates the
  events it is given.
\<close>

section \<open>Lexical rules\<close>

text \<open>
  \<open>/^(.*[_-])?(api[_-]?key|...|private[_-]?key)$/i\<close>: one of the words, alone or after a prefix that
  ends in an underscore or a hyphen and holds no line break.
\<close>

definition lower_char :: "char \<Rightarrow> char" where
  "lower_char c = (if is_upper c then char_of ((of_char c :: nat) + 32) else c)"

definition secret_words :: "string list" where
  "secret_words =
     [''apikey'', ''api_key'', ''api-key'', ''accesstoken'', ''access_token'', ''access-token'',
      ''authorization'', ''password'', ''secret'', ''token'', ''cookie'', ''credential'',
      ''privatekey'', ''private_key'', ''private-key'']"

definition secret_prefix :: "string \<Rightarrow> bool" where
  "secret_prefix p \<longleftrightarrow>
     p = [] \<or> last p \<in> {CHR ''_'', CHR ''-''} \<and> list_all (\<lambda>c. (of_char c :: nat) \<notin> {10, 13}) p"

definition secret_key :: "string \<Rightarrow> bool" where
  "secret_key k \<longleftrightarrow>
     (let l = map lower_char k
      in list_ex (\<lambda>w. ends_with l w \<and> secret_prefix (take (length l - length w) l)) secret_words)"

definition event_keys :: "string list" where
  "event_keys =
     [''id'', ''idempotency_key'', ''kind'', ''occurred_at'', ''amount_cents'', ''currency'', ''client_id'',
      ''obligation_id'', ''billing_mode'', ''settlement_proven'', ''source'', ''observed_at'',
      ''freshness_status'', ''confidence'', ''billing_cycle'', ''offer_code'', ''invoice_id'', ''contract_id'',
      ''due_at'', ''adjustment_target'', ''notes'']"

definition adjustment_keys :: "string list" where
  "adjustment_keys =
     [''idempotency_key'', ''target'', ''amount_cents'', ''currency'', ''reason'', ''created_by'',
      ''effective_at'', ''source'', ''observed_at'', ''freshness_status'', ''confidence'', ''obligation_id'',
      ''client_id'', ''billing_mode'', ''billing_cycle'', ''offer_code'', ''provider_mutation'']"

definition kebab_char :: "char \<Rightarrow> bool" where
  "kebab_char c \<longleftrightarrow> is_lower c \<or> is_digit c \<or> c = CHR ''-''"

text \<open>\<open>^cc:[a-z][a-z0-9-]*:[A-Za-z0-9._~-]+$\<close>\<close>

definition resource_id_pattern :: "string \<Rightarrow> bool" where
  "resource_id_pattern s \<longleftrightarrow>
     (let t = takeWhile (\<lambda>c. c \<noteq> CHR '':'') (drop 3 s); u = drop (length t + 4) s
      in starts_with s ''cc:'' \<and> t \<noteq> [] \<and> is_lower (hd t) \<and> list_all kebab_char t
         \<and> u \<noteq> [] \<and> list_all (\<lambda>c. is_alnum c \<or> c \<in> set ''._~-'') u)"

text \<open>\<open>^[A-Za-z0-9._:~/-]+$\<close>\<close>

definition idempotency_key_pattern :: "string \<Rightarrow> bool" where
  "idempotency_key_pattern s \<longleftrightarrow> s \<noteq> [] \<and> list_all (\<lambda>c. is_alnum c \<or> c \<in> set ''._:~/-'') s"

text \<open>\<open>^[a-z][a-z0-9-]*$\<close>, \<open>^[a-z][a-z0-9._-]*$\<close> and \<open>^[A-Za-z0-9._:@-]+$\<close>\<close>

definition source_system_pattern :: "string \<Rightarrow> bool" where
  "source_system_pattern s \<longleftrightarrow> s \<noteq> [] \<and> is_lower (hd s) \<and> list_all kebab_char s"

definition source_kind_pattern :: "string \<Rightarrow> bool" where
  "source_kind_pattern s \<longleftrightarrow>
     s \<noteq> [] \<and> is_lower (hd s) \<and> list_all (\<lambda>c. kebab_char c \<or> c \<in> set ''._'') s"

definition fin_actor_id_pattern :: "string \<Rightarrow> bool" where
  "fin_actor_id_pattern s \<longleftrightarrow> s \<noteq> [] \<and> list_all (\<lambda>c. is_alnum c \<or> c \<in> set ''._:@-'') s"

section \<open>Readers\<close>

type_synonym json_object = "(string \<times> json) list"

text \<open>\<open>value.field\<close>, with \<open>None\<close> for \<open>undefined\<close>.\<close>

definition field :: "json_object \<Rightarrow> string \<Rightarrow> json option" where
  "field obj k = map_of obj k"

definition reject_secret_keys :: "json_object \<Rightarrow> 'a fin_result \<Rightarrow> 'a fin_result" where
  "reject_secret_keys obj k = require (\<not> list_ex (\<lambda>(key, _). secret_key key) obj) FINANCE_SECRET_KEY_FORBIDDEN k"

definition known_keys :: "string list \<Rightarrow> json_object \<Rightarrow> bool" where
  "known_keys keys obj \<longleftrightarrow> list_all (\<lambda>(key, _). key \<in> set keys) obj"

definition require_string :: "json option \<Rightarrow> nat \<Rightarrow> nat \<Rightarrow> string fin_result" where
  "require_string v lo hi =
     (case v of
        Some (JStr s) \<Rightarrow> require (lo \<le> length s \<and> length s \<le> hi) FINANCE_STRING_INVALID (Inr s)
      | _ \<Rightarrow> Inl FINANCE_STRING_INVALID)"

text \<open>A value of a string enumeration, given as the table of its names.\<close>

definition parse_enum :: "(string \<times> 'a) list \<Rightarrow> finance_error \<Rightarrow> json option \<Rightarrow> 'a fin_result" where
  "parse_enum table e v =
     (case v of
        Some (JStr s) \<Rightarrow> (case map_of table s of None \<Rightarrow> Inl e | Some x \<Rightarrow> Inr x)
      | _ \<Rightarrow> Inl e)"

definition name_of :: "(string \<times> 'a) list \<Rightarrow> 'a \<Rightarrow> string" where
  "name_of table x = (case List.find (\<lambda>(_, y). y = x) table of Some (s, _) \<Rightarrow> s | None \<Rightarrow> [])"

definition freshness_names :: "(string \<times> fin_freshness) list" where
  "freshness_names = [(''FRESH'', FF_FRESH), (''STALE'', FF_STALE), (''UNKNOWN'', FF_UNKNOWN), (''ERROR'', FF_ERROR)]"

definition kind_names :: "(string \<times> finance_event_kind) list" where
  "kind_names =
     [(''contract_signed'', Contract_Signed), (''invoice_issued'', Invoice_Issued),
      (''payment_confirmed'', Payment_Confirmed), (''settlement_received'', Settlement_Received),
      (''invoice_overdue'', Invoice_Overdue), (''refund'', Refund), (''chargeback'', Chargeback),
      (''expense'', Expense), (''cash_balance'', Cash_Balance), (''manual_adjustment'', Manual_Adjustment),
      (''contract_cancelled'', Contract_Cancelled)]"

definition billing_mode_names :: "(string \<times> billing_mode) list" where
  "billing_mode_names = [(''ONE_TIME'', BM_ONE_TIME), (''RECURRING'', BM_RECURRING), (''UNKNOWN'', BM_UNKNOWN)]"

definition billing_cycle_names :: "(string \<times> billing_cycle) list" where
  "billing_cycle_names =
     [(''MONTHLY'', BC_MONTHLY), (''YEARLY'', BC_YEARLY), (''WEEKLY'', BC_WEEKLY), (''NONE'', BC_NONE)]"

definition target_names :: "(string \<times> adjustment_target) list" where
  "target_names =
     [(''contratada'', AT_Contratada), (''faturada'', AT_Faturada), (''paga'', AT_Paga),
      (''recebida'', AT_Recebida), (''expense'', AT_Expense), (''cash_balance'', AT_Cash_Balance)]"

definition fin_actor_kind_names :: "(string \<times> fin_actor_kind) list" where
  "fin_actor_kind_names = [(''human'', FA_Human), (''agent'', FA_Agent), (''system'', FA_System)]"

definition parse_freshness :: "json option \<Rightarrow> fin_freshness fin_result" where
  "parse_freshness = parse_enum freshness_names FINANCE_FRESHNESS_INVALID"

definition parse_kind :: "json option \<Rightarrow> finance_event_kind fin_result" where
  "parse_kind = parse_enum kind_names FINANCE_EVENT_KIND_INVALID"

definition parse_billing_mode :: "json option \<Rightarrow> billing_mode fin_result" where
  "parse_billing_mode = parse_enum billing_mode_names FINANCE_BILLING_MODE_INVALID"

definition parse_billing_cycle :: "json option \<Rightarrow> billing_cycle fin_result" where
  "parse_billing_cycle = parse_enum billing_cycle_names FINANCE_BILLING_CYCLE_INVALID"

definition parse_adjustment_target :: "json option \<Rightarrow> adjustment_target fin_result" where
  "parse_adjustment_target = parse_enum target_names FINANCE_ADJUSTMENT_TARGET_INVALID"

definition parse_confidence :: "json option \<Rightarrow> rat fin_result" where
  "parse_confidence v =
     (case v of
        Some (JNum r) \<Rightarrow> require (0 \<le> r \<and> r \<le> 1) FINANCE_CONFIDENCE_INVALID (Inr r)
      | _ \<Rightarrow> Inl FINANCE_CONFIDENCE_INVALID)"

text \<open>\<open>assertCents\<close> on a JSON value: an integer, and a safe one.\<close>

definition parse_cents :: "json option \<Rightarrow> int fin_result" where
  "parse_cents v =
     (case v of
        Some (JNum r) \<Rightarrow> require (is_integer r) FINANCE_MONEY_NOT_INTEGER (assert_cents \<lfloor>r\<rfloor>)
      | _ \<Rightarrow> Inl FINANCE_MONEY_NOT_INTEGER)"

text \<open>\<open>if (value.x !== undefined) out.x = parse(value.x)\<close>\<close>

definition parse_optional :: "(json option \<Rightarrow> 'a fin_result) \<Rightarrow> json option \<Rightarrow> 'a option fin_result" where
  "parse_optional p v = (case v of None \<Rightarrow> Inr None | Some j \<Rightarrow> bindE (p (Some j)) (\<lambda>x. Inr (Some x)))"

definition parse_timestamp :: "json option \<Rightarrow> string fin_result" where
  "parse_timestamp v =
     bindE (require_string v 20 40) (\<lambda>s. bindE (fin_parse_utc s) (\<lambda>_. Inr s))"

definition parse_source_ref :: "json option \<Rightarrow> fin_source fin_result" where
  "parse_source_ref v =
     (case v of
        Some (JObj obj) \<Rightarrow>
          reject_secret_keys obj (
          bindE (require_string (field obj ''system'') 1 64) (\<lambda>system.
          require (source_system_pattern system) FINANCE_SOURCE_INVALID (
          bindE (require_string (field obj ''kind'') 1 64) (\<lambda>kind.
          require (source_kind_pattern kind) FINANCE_SOURCE_INVALID (
          bindE (require_string (field obj ''locator'') 1 512) (\<lambda>locator.
          bindE (parse_optional (\<lambda>v. require_string v 1 128) (field obj ''label'')) (\<lambda>label.
          Inr \<lparr>fs_system = system, fs_kind = kind, fs_locator = locator, fs_label = label\<rparr>)))))))
      | _ \<Rightarrow> Inl FINANCE_SOURCE_INVALID)"

definition parse_actor_ref :: "json option \<Rightarrow> fin_actor fin_result" where
  "parse_actor_ref v =
     (case v of
        Some (JObj obj) \<Rightarrow>
          reject_secret_keys obj (
          bindE (parse_enum fin_actor_kind_names FINANCE_ACTOR_INVALID (field obj ''kind'')) (\<lambda>kind.
          bindE (require_string (field obj ''id'') 1 128) (\<lambda>id.
          require (fin_actor_id_pattern id) FINANCE_ACTOR_INVALID (
          bindE (parse_optional (\<lambda>v. require_string v 1 128) (field obj ''display_name'')) (\<lambda>name.
          Inr \<lparr>fa_kind = kind, fa_id = id, fa_display_name = name\<rparr>)))))
      | _ \<Rightarrow> Inl FINANCE_ACTOR_INVALID)"

definition parse_time_window :: "json option \<Rightarrow> time_window fin_result" where
  "parse_time_window v =
     (case v of
        Some (JObj obj) \<Rightarrow>
          bindE (require_string (field obj ''from'') 20 40) (\<lambda>from_ts.
          bindE (require_string (field obj ''to'') 20 40) (\<lambda>to_ts.
          bindE (fin_parse_utc from_ts) (\<lambda>start.
          bindE (fin_parse_utc to_ts) (\<lambda>stop.
          require (\<not> stop < start) FINANCE_WINDOW_INVALID (
          Inr \<lparr>tw_from = from_ts, tw_to = to_ts\<rparr>)))))
      | _ \<Rightarrow> Inl FINANCE_WINDOW_INVALID)"

text \<open>\<open>due_at\<close>: absent, null, or a timestamp.\<close>

definition parse_due_at :: "json option \<Rightarrow> string option fin_result" where
  "parse_due_at v =
     (case v of None \<Rightarrow> Inr None | Some JNull \<Rightarrow> Inr None | Some j \<Rightarrow> bindE (parse_timestamp (Some j)) (\<lambda>s. Inr (Some s)))"

text \<open>\<open>settlement_proven\<close> must agree with the kind: a settlement is proven, a confirmation is not.\<close>

definition parse_settlement_proven :: "finance_event_kind \<Rightarrow> json option \<Rightarrow> bool fin_result" where
  "parse_settlement_proven kind v =
     (case v of
        Some (JBool b) \<Rightarrow>
          require (\<not> (kind = Settlement_Received \<and> \<not> b)) FINANCE_SETTLEMENT_FLAG_INVALID (
          require (\<not> (kind = Payment_Confirmed \<and> b)) FINANCE_SETTLEMENT_FLAG_INVALID (Inr b))
      | _ \<Rightarrow> Inl FINANCE_SETTLEMENT_FLAG_INVALID)"

definition parse_finance_event :: "json \<Rightarrow> finance_event fin_result" where
  "parse_finance_event value =
     (case value of
        JObj obj \<Rightarrow>
          reject_secret_keys obj (
          require (known_keys event_keys obj) FINANCE_EVENT_UNKNOWN_KEY (
          bindE (require_string (field obj ''id'') 1 128) (\<lambda>id.
          require (resource_id_pattern id) FINANCE_EVENT_ID_INVALID (
          bindE (require_string (field obj ''idempotency_key'') 1 256) (\<lambda>key.
          require (idempotency_key_pattern key) FINANCE_IDEMPOTENCY_KEY_INVALID (
          bindE (parse_kind (field obj ''kind'')) (\<lambda>kind.
          bindE (parse_timestamp (field obj ''occurred_at'')) (\<lambda>occurred_at.
          bindE (parse_cents (field obj ''amount_cents'')) (\<lambda>amount.
          require (\<not> (kind \<noteq> Manual_Adjustment \<and> amount < 0)) FINANCE_MONEY_NEGATIVE (
          bindE (bindE (require_string (field obj ''currency'') 3 3) assert_currency) (\<lambda>currency.
          bindE (require_string (field obj ''client_id'') 1 64) (\<lambda>client_id.
          bindE (require_string (field obj ''obligation_id'') 1 128) (\<lambda>obligation_id.
          bindE (parse_billing_mode (field obj ''billing_mode'')) (\<lambda>mode.
          bindE (parse_settlement_proven kind (field obj ''settlement_proven'')) (\<lambda>proven.
          bindE (parse_source_ref (field obj ''source'')) (\<lambda>source.
          bindE (parse_timestamp (field obj ''observed_at'')) (\<lambda>observed_at.
          bindE (parse_freshness (field obj ''freshness_status'')) (\<lambda>freshness.
          bindE (parse_confidence (field obj ''confidence'')) (\<lambda>confidence.
          bindE (parse_optional parse_billing_cycle (field obj ''billing_cycle'')) (\<lambda>cycle.
          bindE (parse_optional (\<lambda>v. require_string v 1 64) (field obj ''offer_code'')) (\<lambda>offer_code.
          bindE (parse_optional (\<lambda>v. require_string v 1 128) (field obj ''invoice_id'')) (\<lambda>invoice_id.
          bindE (parse_optional (\<lambda>v. require_string v 1 128) (field obj ''contract_id'')) (\<lambda>contract_id.
          bindE (parse_due_at (field obj ''due_at'')) (\<lambda>due_at.
          bindE (parse_optional parse_adjustment_target (field obj ''adjustment_target'')) (\<lambda>target.
          require (\<not> (kind = Manual_Adjustment \<and> target = None)) FINANCE_ADJUSTMENT_TARGET_INVALID (
          bindE (parse_optional (\<lambda>v. require_string v 1 512) (field obj ''notes'')) (\<lambda>notes.
          Inr \<lparr>fe_id = id, fe_idempotency_key = key, fe_kind = kind, fe_occurred_at = occurred_at,
               fe_amount_cents = amount, fe_currency = currency, fe_client_id = client_id,
               fe_obligation_id = obligation_id, fe_billing_mode = mode, fe_settlement_proven = proven,
               fe_source = source, fe_observed_at = observed_at, fe_freshness = freshness,
               fe_confidence = confidence, fe_billing_cycle = cycle, fe_offer_code = offer_code,
               fe_invoice_id = invoice_id, fe_contract_id = contract_id, fe_due_at = due_at,
               fe_adjustment_target = target, fe_notes = notes\<rparr>)))))))))))))))))))))))))))
      | _ \<Rightarrow> Inl FINANCE_EVENT_INVALID)"

record fixture_document =
  fd_id :: string
  fd_as_of :: string
  fd_cash_in_window :: time_window
  fd_freshness_window_seconds :: "rat option"
  fd_events :: "finance_event list"

definition parse_window_seconds :: "json option \<Rightarrow> rat fin_result" where
  "parse_window_seconds v =
     (case v of
        Some (JNum r) \<Rightarrow> require (is_integer r \<and> \<not> r < 0) FINANCE_FRESHNESS_WINDOW_INVALID (Inr r)
      | _ \<Rightarrow> Inl FINANCE_FRESHNESS_WINDOW_INVALID)"

definition parse_fixture_document :: "json \<Rightarrow> fixture_document fin_result" where
  "parse_fixture_document value =
     (case value of
        JObj obj \<Rightarrow>
          reject_secret_keys obj (
          bindE (require_string (field obj ''id'') 1 128) (\<lambda>id.
          bindE (parse_timestamp (field obj ''as_of'')) (\<lambda>as_of.
          bindE (parse_time_window (field obj ''cash_in_window'')) (\<lambda>window.
          (case field obj ''events'' of
             Some (JArr rows) \<Rightarrow>
               bindE (mapE parse_finance_event rows) (\<lambda>events.
               bindE (parse_optional parse_window_seconds (field obj ''freshness_window_seconds'')) (\<lambda>seconds.
               Inr \<lparr>fd_id = id, fd_as_of = as_of, fd_cash_in_window = window,
                    fd_freshness_window_seconds = seconds, fd_events = events\<rparr>))
           | _ \<Rightarrow> Inl FINANCE_FIXTURE_INVALID)))))
      | _ \<Rightarrow> Inl FINANCE_FIXTURE_INVALID)"

record adjustment_input =
  ai_idempotency_key :: string
  ai_target :: adjustment_target
  ai_amount_cents :: int
  ai_currency :: string
  ai_reason :: string
  ai_created_by :: fin_actor
  ai_effective_at :: string
  ai_source :: fin_source
  ai_observed_at :: string
  ai_freshness :: fin_freshness
  ai_confidence :: rat
  ai_obligation_id :: string
  ai_client_id :: string
  ai_billing_mode :: "billing_mode option"
  ai_billing_cycle :: "billing_cycle option"
  ai_offer_code :: "string option"

definition parse_manual_adjustment :: "json \<Rightarrow> adjustment_input fin_result" where
  "parse_manual_adjustment value =
     (case value of
        JObj obj \<Rightarrow>
          reject_secret_keys obj (
          require (known_keys adjustment_keys obj) FINANCE_ADJUSTMENT_UNKNOWN_KEY (
          require (field obj ''provider_mutation'' \<in> {None, Some (JStr ''forbidden'')}) FINANCE_PROVIDER_MUTATION_FORBIDDEN (
          bindE (require_string (field obj ''idempotency_key'') 1 256) (\<lambda>key.
          require (idempotency_key_pattern key) FINANCE_IDEMPOTENCY_KEY_INVALID (
          require (case field obj ''amount_cents'' of Some (JNum _) \<Rightarrow> True | _ \<Rightarrow> False) FINANCE_MONEY_NOT_INTEGER (
          bindE (parse_adjustment_target (field obj ''target'')) (\<lambda>target.
          bindE (parse_cents (field obj ''amount_cents'')) (\<lambda>amount.
          bindE (bindE (require_string (field obj ''currency'') 3 3) assert_currency) (\<lambda>currency.
          bindE (require_string (field obj ''reason'') 1 512) (\<lambda>reason.
          bindE (parse_actor_ref (field obj ''created_by'')) (\<lambda>created_by.
          bindE (require_string (field obj ''effective_at'') 20 40) (\<lambda>effective_at.
          bindE (parse_source_ref (field obj ''source'')) (\<lambda>source.
          bindE (require_string (field obj ''observed_at'') 20 40) (\<lambda>observed_at.
          bindE (parse_freshness (field obj ''freshness_status'')) (\<lambda>freshness.
          bindE (parse_confidence (field obj ''confidence'')) (\<lambda>confidence.
          bindE (require_string (field obj ''obligation_id'') 1 128) (\<lambda>obligation_id.
          bindE (require_string (field obj ''client_id'') 1 64) (\<lambda>client_id.
          bindE (fin_parse_utc effective_at) (\<lambda>_.
          bindE (fin_parse_utc observed_at) (\<lambda>_.
          bindE (parse_optional parse_billing_mode (field obj ''billing_mode'')) (\<lambda>mode.
          bindE (parse_optional parse_billing_cycle (field obj ''billing_cycle'')) (\<lambda>cycle.
          bindE (parse_optional (\<lambda>v. require_string v 1 64) (field obj ''offer_code'')) (\<lambda>offer_code.
          Inr \<lparr>ai_idempotency_key = key, ai_target = target, ai_amount_cents = amount, ai_currency = currency,
               ai_reason = reason, ai_created_by = created_by, ai_effective_at = effective_at, ai_source = source,
               ai_observed_at = observed_at, ai_freshness = freshness, ai_confidence = confidence,
               ai_obligation_id = obligation_id, ai_client_id = client_id, ai_billing_mode = mode,
               ai_billing_cycle = cycle, ai_offer_code = offer_code\<rparr>)))))))))))))))))))))))
      | _ \<Rightarrow> Inl FINANCE_ADJUSTMENT_INVALID)"

section \<open>Events as JSON\<close>

definition opt_entry :: "string \<Rightarrow> ('a \<Rightarrow> json) \<Rightarrow> 'a option \<Rightarrow> json_object" where
  "opt_entry k f v = (case v of None \<Rightarrow> [] | Some x \<Rightarrow> [(k, f x)])"

definition source_json :: "fin_source \<Rightarrow> json" where
  "source_json s =
     JObj ([(''kind'', JStr (fs_kind s))] @ opt_entry ''label'' JStr (fs_label s) @
           [(''locator'', JStr (fs_locator s)), (''system'', JStr (fs_system s))])"

definition event_json :: "finance_event \<Rightarrow> json" where
  "event_json e =
     JObj (opt_entry ''adjustment_target'' (\<lambda>t. JStr (name_of target_names t)) (fe_adjustment_target e) @
       [(''amount_cents'', JNum (of_int (fe_amount_cents e)))] @
       opt_entry ''billing_cycle'' (\<lambda>c. JStr (name_of billing_cycle_names c)) (fe_billing_cycle e) @
       [(''billing_mode'', JStr (name_of billing_mode_names (fe_billing_mode e))),
        (''client_id'', JStr (fe_client_id e)), (''confidence'', JNum (fe_confidence e))] @
       opt_entry ''contract_id'' JStr (fe_contract_id e) @
       [(''currency'', JStr (fe_currency e))] @
       opt_entry ''due_at'' JStr (fe_due_at e) @
       [(''freshness_status'', JStr (name_of freshness_names (fe_freshness e))),
        (''id'', JStr (fe_id e)), (''idempotency_key'', JStr (fe_idempotency_key e))] @
       opt_entry ''invoice_id'' JStr (fe_invoice_id e) @
       [(''kind'', JStr (name_of kind_names (fe_kind e)))] @
       opt_entry ''notes'' JStr (fe_notes e) @
       [(''obligation_id'', JStr (fe_obligation_id e)), (''observed_at'', JStr (fe_observed_at e)),
        (''occurred_at'', JStr (fe_occurred_at e))] @
       opt_entry ''offer_code'' JStr (fe_offer_code e) @
       [(''settlement_proven'', JBool (fe_settlement_proven e)), (''source'', source_json (fe_source e))])"

end
