(* ===== verification/Attention_Types.thy ===== *)
theory Attention_Types
  imports Finance_Validate "HOL-Library.Product_Lexorder"
begin

text \<open>
  \<open>intelligence/attention/src/types.ts\<close> and \<open>taxonomy.ts\<close>: the vocabulary and the records of the
  engine that ranks what needs attention, and the numbers and sorts it takes from the language. A
  confidence is an exact rational; weights, limits and scores are whole numbers. Text is built of 8-bit
  characters, so the Portuguese sentences are literal.
\<close>

section \<open>Vocabulary\<close>

datatype at_freshness = AF_FRESH | AF_STALE | AF_UNKNOWN | AF_ERROR

datatype severity = SV_Critical | SV_High | SV_Medium | SV_Low

datatype signal_status = SS_Open | SS_Acknowledged | SS_Resolved | SS_Dismissed

datatype horizon = HZ_Now | HZ_Today | HZ_This_Week

datatype at_actor_kind = AK_Human | AK_Agent | AK_System

datatype signal_category =
    CT_Receita | CT_Cliente | CT_Prazo | CT_Risco_Operacional | CT_Blocker | CT_Estetica | CT_Refactor

datatype signal_domain =
    DM_Finance | DM_Commercial | DM_Clients | DM_Infrastructure | DM_Engineering | DM_Inbound | DM_Company

datatype item_kind = IK_Work | IK_Dados_Stale

datatype override_action = OA_Pin | OA_Reorder | OA_Dismiss

text \<open>The \<open>code\<close> of the thrown error; its message and path are not modelled. \<open>AT_Error\<close> is a plain \<open>Error\<close>.\<close>

datatype attention_error = AT_Validation | AT_Config | AT_Error

type_synonym 'a at_result = "attention_error + 'a"

definition weight_denom :: int where
  "weight_denom = 10000"

definition score_scale :: int where
  "score_scale = 1000"

fun severity_rank :: "severity \<Rightarrow> nat" where
  "severity_rank SV_Critical = 0"
| "severity_rank SV_High = 1"
| "severity_rank SV_Medium = 2"
| "severity_rank SV_Low = 3"

fun freshness_rank :: "at_freshness \<Rightarrow> nat" where
  "freshness_rank AF_ERROR = 0"
| "freshness_rank AF_STALE = 1"
| "freshness_rank AF_UNKNOWN = 2"
| "freshness_rank AF_FRESH = 3"

fun freshness_text :: "at_freshness \<Rightarrow> string" where
  "freshness_text AF_FRESH = ''FRESH''"
| "freshness_text AF_STALE = ''STALE''"
| "freshness_text AF_UNKNOWN = ''UNKNOWN''"
| "freshness_text AF_ERROR = ''ERROR''"

fun category_text :: "signal_category \<Rightarrow> string" where
  "category_text CT_Receita = ''receita''"
| "category_text CT_Cliente = ''cliente''"
| "category_text CT_Prazo = ''prazo''"
| "category_text CT_Risco_Operacional = ''risco_operacional''"
| "category_text CT_Blocker = ''blocker''"
| "category_text CT_Estetica = ''estetica''"
| "category_text CT_Refactor = ''refactor''"

fun horizon_text :: "horizon \<Rightarrow> string" where
  "horizon_text HZ_Now = ''now''"
| "horizon_text HZ_Today = ''today''"
| "horizon_text HZ_This_Week = ''this_week''"

definition signal_categories :: "signal_category list" where
  "signal_categories =
     [CT_Receita, CT_Cliente, CT_Prazo, CT_Risco_Operacional, CT_Blocker, CT_Estetica, CT_Refactor]"

lemma set_signal_categories [simp]: "c \<in> set signal_categories"
  by (cases c) (simp_all add: signal_categories_def)

lemma freshness_rank_eq_iff [simp]: "freshness_rank a = freshness_rank b \<longleftrightarrow> a = b"
  by (cases a; cases b) simp_all

lemma severity_rank_eq_iff [simp]: "severity_rank a = severity_rank b \<longleftrightarrow> a = b"
  by (cases a; cases b) simp_all

section \<open>Records\<close>

record at_source =
  as_system :: string
  as_kind :: string
  as_locator :: string
  as_label :: "string option"

record at_actor =
  ta_kind :: at_actor_kind
  ta_id :: string
  ta_display_name :: "string option"

record at_money =
  am_amount_cents :: int
  am_currency :: string

record at_provenance =
  ap_source :: at_source
  ap_observed_at :: string
  ap_freshness_status :: at_freshness
  ap_confidence :: rat
  ap_freshness_window_seconds :: "int option"

record evidence_ref =
  ev_source :: at_source
  ev_note :: "string option"

record attention_signal =
  sg_id :: string
  sg_title :: string
  sg_summary :: string
  sg_category :: signal_category
  sg_domain :: signal_domain
  sg_scope :: string
  sg_impact :: int
  sg_urgency :: int
  sg_severity :: severity
  sg_status :: signal_status
  sg_correlation_key :: string
  sg_evidence_refs :: "evidence_ref list"
  sg_provenance :: at_provenance
  sg_money :: "at_money option"
  sg_recommended_action :: "string option"
  sg_related_ids :: "string list option"

record kill_rule =
  kr_categories :: "signal_category list"
  kr_min_severity :: severity
  kr_min_impact :: int

record scoring_config =
  sc_category_weights :: "signal_category \<Rightarrow> int"
  sc_impact_weight_bp :: int
  sc_urgency_weight_bp :: int
  sc_freshness_bp :: "at_freshness \<Rightarrow> int"
  sc_kill_rule :: kill_rule
  sc_today_limit :: int
  sc_atencao_agora_limit :: int
  sc_eligible_statuses :: "signal_status list"

record kill_rule_patch =
  kp_categories :: "signal_category list option"
  kp_min_severity :: "severity option"
  kp_min_impact :: "int option"

record scoring_config_patch =
  sp_category_weights :: "(signal_category \<Rightarrow> int option) option"
  sp_impact_weight_bp :: "int option"
  sp_urgency_weight_bp :: "int option"
  sp_freshness_bp :: "(at_freshness \<Rightarrow> int option) option"
  sp_kill_rule :: "kill_rule_patch option"
  sp_today_limit :: "int option"
  sp_atencao_agora_limit :: "int option"
  sp_eligible_statuses :: "signal_status list option"

record founder_override =
  fo_actor :: at_actor
  fo_at :: string
  fo_action :: override_action
  fo_target_ids :: "string list"

record rank_input =
  ri_signals :: "attention_signal list"
  ri_config :: scoring_config
  ri_clock_now :: string
  ri_override :: "founder_override option"

record score_breakdown =
  sb_category :: signal_category
  sb_category_weight :: int
  sb_category_tier :: int
  sb_impact :: int
  sb_urgency :: int
  sb_impact_weight :: rat
  sb_urgency_weight :: rat
  sb_impact_weight_bp :: int
  sb_urgency_weight_bp :: int
  sb_axis :: int
  sb_raw :: int
  sb_freshness_status :: at_freshness
  sb_freshness_multiplier :: rat
  sb_freshness_bp :: int
  sb_confidence :: rat
  sb_confidence_bp :: int
  sb_score_milli :: int
  sb_score :: rat
  sb_kill_rule_applied :: bool
  sb_merge_count :: nat
  sb_freshness_demoted :: bool
  sb_source_freshness_status :: at_freshness

record scored_candidate =
  cd_id :: string
  cd_title :: string
  cd_summary :: string
  cd_category :: signal_category
  cd_domain :: signal_domain
  cd_scope :: string
  cd_impact :: int
  cd_urgency :: int
  cd_severity :: severity
  cd_status :: signal_status
  cd_item_kind :: item_kind
  cd_correlation_key :: string
  cd_evidence_refs :: "evidence_ref list"
  cd_provenance :: at_provenance
  cd_recommended_action :: "string option"
  cd_related_ids :: "string list"
  cd_source_ids :: "string list"
  cd_money :: "at_money option"
  cd_merge_count :: nat
  cd_forced_by_kill_rule :: bool
  cd_score_milli :: int
  cd_breakdown :: score_breakdown

record ranked_item =
  rk_id :: string
  rk_rank :: nat
  rk_title :: string
  rk_reason :: string
  rk_evidence_refs :: "evidence_ref list"
  rk_score :: rat
  rk_score_milli :: int
  rk_score_breakdown :: score_breakdown
  rk_category :: signal_category
  rk_domain :: signal_domain
  rk_scope :: string
  rk_severity :: severity
  rk_status :: signal_status
  rk_item_kind :: item_kind
  rk_provenance :: at_provenance
  rk_horizon :: horizon
  rk_attention_item_ids :: "string list"
  rk_forced_by_kill_rule :: bool
  rk_merge_count :: nat
  rk_recommended_action :: "string option"

record ranking_snapshot =
  rs_now :: "string list"
  rs_today :: "string list"

record override_audit =
  oa_id :: string
  oa_at :: string
  oa_actor :: at_actor
  oa_override_action :: override_action
  oa_target_ids :: "string list"
  oa_previous_ranking :: ranking_snapshot
  oa_resulting_ranking :: ranking_snapshot

record rank_output =
  ro_generated_at :: string
  ro_provenance :: at_provenance
  ro_config_fingerprint :: string
  ro_attention_now :: "ranked_item list"
  ro_today :: "ranked_item list"
  ro_audit :: "override_audit list"

record priority_recommendation =
  pr_id :: string
  pr_scope :: string
  pr_rank :: nat
  pr_title :: string
  pr_rationale :: string
  pr_provenance :: at_provenance
  pr_generated_at :: string
  pr_horizon :: horizon
  pr_attention_item_ids :: "string list"

section \<open>Numbers as text\<close>

text \<open>\<open>String(n)\<close> of a whole number\<close>

fun show_nat :: "nat \<Rightarrow> string" where
  "show_nat n = (if n < 10 then [char_of (48 + n)] else show_nat (n div 10) @ [char_of (48 + n mod 10)])"

declare show_nat.simps [simp del]

definition show_int :: "int \<Rightarrow> string" where
  "show_int n = (if n < 0 then CHR ''-'' # show_nat (nat (- n)) else show_nat (nat n))"

lemma digit_of_nat: "n < 10 \<Longrightarrow> is_digit (char_of (48 + n :: nat))"
  by (simp add: is_digit_def of_char_of)

lemma show_nat_digits: "list_all is_digit (show_nat n) \<and> show_nat n \<noteq> []"
proof (induction n rule: show_nat.induct)
  case (1 n)
  then show ?case
    by (subst (1 2) show_nat.simps) (auto simp: digit_of_nat)
qed

section \<open>Sorting with a comparator\<close>

text \<open>
  \<open>[...xs].sort(cmp)\<close>: the stable sort that puts an element before the first one it does not come
  after. \<open>xs.sort()\<close> on strings is \<open>sort\<close>, by code units.
\<close>

fun js_insert :: "('a \<Rightarrow> 'a \<Rightarrow> int) \<Rightarrow> 'a \<Rightarrow> 'a list \<Rightarrow> 'a list" where
  "js_insert cmp x [] = [x]"
| "js_insert cmp x (y # ys) = (if cmp x y \<le> 0 then x # y # ys else y # js_insert cmp x ys)"

definition js_sort :: "('a \<Rightarrow> 'a \<Rightarrow> int) \<Rightarrow> 'a list \<Rightarrow> 'a list" where
  "js_sort cmp xs = foldr (js_insert cmp) xs []"

text \<open>Reading a chain of comparisons as a lexicographic key.\<close>

lemma cmp_if_le: "(if c then x else y) \<le> (0 :: int) \<longleftrightarrow> (if c then x \<le> 0 else y \<le> 0)"
  by simp

lemma cmp_descending: "(- a, x) \<le> (- b :: int, y :: 'k :: linorder) \<longleftrightarrow> (if a \<noteq> b then b - a \<le> 0 else x \<le> y)"
  by auto

lemma cmp_flag_first: "(\<not> p, x) \<le> (\<not> q, y :: 'k :: linorder) \<longleftrightarrow> (if p \<noteq> q then p else x \<le> y)"
  by auto

lemma cmp_ascending: "(if a < b then -1 else if b < a then 1 else 0) \<le> (0 :: int) \<longleftrightarrow> a \<le> (b :: 'k :: linorder)"
  by auto

lemmas cmp_key = cmp_ascending cmp_descending cmp_flag_first

lemma js_insert_key:
  assumes "\<And>x y. cmp x y \<le> 0 \<longleftrightarrow> (key x :: 'k :: linorder) \<le> key y"
  shows "js_insert cmp x ys = insort_key key x ys"
  by (induction ys) (simp_all add: assms)

lemma js_sort_key:
  assumes "\<And>x y. cmp x y \<le> 0 \<longleftrightarrow> (key x :: 'k :: linorder) \<le> key y"
  shows "js_sort cmp xs = sort_key key xs"
  by (simp add: js_sort_def sort_key_def js_insert_key [OF assms] cong: foldr_cong)

end
