(* ===== verification/Attention_Score.thy ===== *)
theory Attention_Score
  imports Attention_Types
begin

text \<open>
  \<open>intelligence/attention/src/default-config.ts\<close> and \<open>score.ts\<close>: the scoring configuration and its
  checks, the integer score with its breakdown, and the comparator of candidates. A configuration
  patch is taken at its declared type: the code does not check the types of a patch.
\<close>

section \<open>Configuration\<close>

fun default_category_weights :: "signal_category \<Rightarrow> int" where
  "default_category_weights CT_Receita = 100"
| "default_category_weights CT_Cliente = 90"
| "default_category_weights CT_Prazo = 80"
| "default_category_weights CT_Risco_Operacional = 85"
| "default_category_weights CT_Blocker = 95"
| "default_category_weights CT_Estetica = 10"
| "default_category_weights CT_Refactor = 15"

fun default_freshness_bp :: "at_freshness \<Rightarrow> int" where
  "default_freshness_bp AF_FRESH = 10000"
| "default_freshness_bp AF_UNKNOWN = 5500"
| "default_freshness_bp AF_STALE = 4500"
| "default_freshness_bp AF_ERROR = 3500"

definition default_scoring_config :: scoring_config where
  "default_scoring_config =
     \<lparr>sc_category_weights = default_category_weights, sc_impact_weight_bp = 7000, sc_urgency_weight_bp = 3000,
      sc_freshness_bp = default_freshness_bp,
      sc_kill_rule = \<lparr>kr_categories = [CT_Risco_Operacional, CT_Blocker], kr_min_severity = SV_Critical,
                      kr_min_impact = 0\<rparr>,
      sc_today_limit = 3, sc_atencao_agora_limit = 10, sc_eligible_statuses = [SS_Open, SS_Acknowledged]\<rparr>"

definition category_tier :: "signal_category \<Rightarrow> int" where
  "category_tier c = (if c = CT_Estetica \<or> c = CT_Refactor then 1 else 2)"

definition assert_valid_config :: "scoring_config \<Rightarrow> 'a at_result \<Rightarrow> 'a at_result" where
  "assert_valid_config c k =
     require (sc_impact_weight_bp c + sc_urgency_weight_bp c = weight_denom) AT_Config (
     require (\<not> sc_impact_weight_bp c \<le> sc_urgency_weight_bp c) AT_Config (
     require (\<not> (sc_today_limit c < 1 \<or> sc_today_limit c > 3)) AT_Config (
     require (\<not> (sc_atencao_agora_limit c < 1 \<or> sc_atencao_agora_limit c > 99)) AT_Config (
     require (list_all (\<lambda>cat. 0 \<le> sc_category_weights c cat \<and> sc_category_weights c cat \<le> 10000)
                signal_categories) AT_Config (
     require (list_all (\<lambda>f. 0 \<le> sc_freshness_bp c f \<and> sc_freshness_bp c f \<le> weight_denom)
                [AF_FRESH, AF_UNKNOWN, AF_STALE, AF_ERROR]) AT_Config k)))))"

text \<open>\<open>{ ...base, ...patch }\<close> for a record indexed by an enumeration\<close>

definition spread :: "('k \<Rightarrow> 'v) \<Rightarrow> ('k \<Rightarrow> 'v option) option \<Rightarrow> 'k \<Rightarrow> 'v" where
  "spread base patch k = (case patch of None \<Rightarrow> base k | Some p \<Rightarrow> or_else (p k) (base k))"

definition merge_kill_rule :: "kill_rule \<Rightarrow> kill_rule_patch option \<Rightarrow> kill_rule" where
  "merge_kill_rule d patch =
     \<lparr>kr_categories = or_else (Option.bind patch kp_categories) (kr_categories d),
      kr_min_severity = or_else (Option.bind patch kp_min_severity) (kr_min_severity d),
      kr_min_impact = or_else (Option.bind patch kp_min_impact) (kr_min_impact d)\<rparr>"

definition merge_scoring_config :: "scoring_config_patch option \<Rightarrow> scoring_config at_result" where
  "merge_scoring_config partial =
     (case partial of
        None \<Rightarrow> Inr default_scoring_config
      | Some p \<Rightarrow>
          (let d = default_scoring_config;
               merged =
                 \<lparr>sc_category_weights = spread (sc_category_weights d) (sp_category_weights p),
                  sc_impact_weight_bp = or_else (sp_impact_weight_bp p) (sc_impact_weight_bp d),
                  sc_urgency_weight_bp = or_else (sp_urgency_weight_bp p) (sc_urgency_weight_bp d),
                  sc_freshness_bp = spread (sc_freshness_bp d) (sp_freshness_bp p),
                  sc_kill_rule = merge_kill_rule (sc_kill_rule d) (sp_kill_rule p),
                  sc_today_limit = or_else (sp_today_limit p) (sc_today_limit d),
                  sc_atencao_agora_limit = or_else (sp_atencao_agora_limit p) (sc_atencao_agora_limit d),
                  sc_eligible_statuses = or_else (sp_eligible_statuses p) (sc_eligible_statuses d)\<rparr>
           in assert_valid_config merged (Inr merged)))"

text \<open>What \<open>assertValidConfig\<close> accepts.\<close>

definition valid_config :: "scoring_config \<Rightarrow> bool" where
  "valid_config c \<longleftrightarrow> assert_valid_config c (Inr ()) = Inr ()"

lemma assert_valid_config_Inr [guards, simp]: "assert_valid_config c k = Inr x \<longleftrightarrow> valid_config c \<and> k = Inr x"
  by (auto simp: valid_config_def assert_valid_config_def)

lemma valid_configD:
  assumes "valid_config c"
  shows "sc_impact_weight_bp c + sc_urgency_weight_bp c = 10000" "sc_urgency_weight_bp c < sc_impact_weight_bp c"
    "1 \<le> sc_today_limit c" "sc_today_limit c \<le> 3" "1 \<le> sc_atencao_agora_limit c" "sc_atencao_agora_limit c \<le> 99"
    "0 \<le> sc_category_weights c cat" "sc_category_weights c cat \<le> 10000"
    "0 \<le> sc_freshness_bp c f" "sc_freshness_bp c f \<le> 10000"
  using assms
  by (auto simp: valid_config_def assert_valid_config_def weight_denom_def list_all_iff elim!: allE [of _ cat])
    (cases f; simp)+

lemma valid_default_config: "valid_config default_scoring_config"
  by (simp add: valid_config_def assert_valid_config_def default_scoring_config_def weight_denom_def
      signal_categories_def)

lemma merge_scoring_config_valid: "merge_scoring_config p = Inr c \<Longrightarrow> valid_config c"
  by (auto simp: merge_scoring_config_def valid_default_config Let_def split: option.splits)

section \<open>Canonical text of a configuration\<close>

text \<open>
  The values a configuration is made of: whole numbers, strings of the enumerations (which need no
  escapes in JSON), arrays and objects. \<open>canonicalize\<close> writes the entries of an object in the order of
  their keys.
\<close>

datatype config_value =
    CV_Int int
  | CV_Str string
  | CV_Arr "config_value list"
  | CV_Obj "(string \<times> config_value) list"

definition json_quote :: "string \<Rightarrow> string" where
  "json_quote s = ''\"'' @ s @ ''\"''"

fun canonicalize :: "config_value \<Rightarrow> string" where
  "canonicalize (CV_Int n) = show_int n"
| "canonicalize (CV_Str s) = json_quote s"
| "canonicalize (CV_Arr vs) = ''['' @ join '','' (map canonicalize vs) @ '']''"
| "canonicalize (CV_Obj es) =
     ''{'' @ join '','' (map (\<lambda>(k, t). json_quote k @ '':'' @ t)
                     (sort_key fst (map (\<lambda>(k, v). (k, canonicalize v)) es))) @ ''}''"

fun severity_text :: "severity \<Rightarrow> string" where
  "severity_text SV_Critical = ''critical''"
| "severity_text SV_High = ''high''"
| "severity_text SV_Medium = ''medium''"
| "severity_text SV_Low = ''low''"

fun status_text :: "signal_status \<Rightarrow> string" where
  "status_text SS_Open = ''open''"
| "status_text SS_Acknowledged = ''acknowledged''"
| "status_text SS_Resolved = ''resolved''"
| "status_text SS_Dismissed = ''dismissed''"

definition config_value :: "scoring_config \<Rightarrow> config_value" where
  "config_value c =
     CV_Obj
       [(''category_weights'',
         CV_Obj (map (\<lambda>k. (category_text k, CV_Int (sc_category_weights c k))) signal_categories)),
        (''impact_weight_bp'', CV_Int (sc_impact_weight_bp c)),
        (''urgency_weight_bp'', CV_Int (sc_urgency_weight_bp c)),
        (''freshness_bp'',
         CV_Obj (map (\<lambda>f. (freshness_text f, CV_Int (sc_freshness_bp c f)))
                   [AF_FRESH, AF_UNKNOWN, AF_STALE, AF_ERROR])),
        (''kill_rule'',
         CV_Obj [(''categories'', CV_Arr (map (\<lambda>k. CV_Str (category_text k)) (kr_categories (sc_kill_rule c)))),
                 (''min_severity'', CV_Str (severity_text (kr_min_severity (sc_kill_rule c)))),
                 (''min_impact'', CV_Int (kr_min_impact (sc_kill_rule c)))]),
        (''today_limit'', CV_Int (sc_today_limit c)),
        (''atencao_agora_limit'', CV_Int (sc_atencao_agora_limit c)),
        (''eligible_statuses'', CV_Arr (map (\<lambda>s. CV_Str (status_text s)) (sc_eligible_statuses c)))]"

section \<open>Score\<close>

definition score_milli_from_breakdown :: "score_breakdown \<Rightarrow> int" where
  "score_milli_from_breakdown b =
     (let axis = sb_impact_weight_bp b * sb_impact b + sb_urgency_weight_bp b * sb_urgency b;
          raw = (sb_category_weight b * axis) div weight_denom
      in (raw * score_scale * sb_freshness_bp b * sb_confidence_bp b) div (weight_denom * weight_denom))"

record score_subject =
  sj_category :: signal_category
  sj_impact :: int
  sj_urgency :: int
  sj_provenance :: at_provenance
  sj_merge_count :: nat
  sj_source_freshness_status :: at_freshness

definition build_breakdown :: "score_subject \<Rightarrow> scoring_config \<Rightarrow> bool \<Rightarrow> score_breakdown" where
  "build_breakdown s c forced =
     (let category_weight = sc_category_weights c (sj_category s);
          status = ap_freshness_status (sj_provenance s);
          bp = sc_freshness_bp c status;
          axis = sc_impact_weight_bp c * sj_impact s + sc_urgency_weight_bp c * sj_urgency s;
          b = \<lparr>sb_category = sj_category s, sb_category_weight = category_weight,
               sb_category_tier = category_tier (sj_category s), sb_impact = sj_impact s,
               sb_urgency = sj_urgency s,
               sb_impact_weight = of_int (sc_impact_weight_bp c) / of_int weight_denom,
               sb_urgency_weight = of_int (sc_urgency_weight_bp c) / of_int weight_denom,
               sb_impact_weight_bp = sc_impact_weight_bp c, sb_urgency_weight_bp = sc_urgency_weight_bp c,
               sb_axis = axis, sb_raw = (category_weight * axis) div weight_denom,
               sb_freshness_status = status, sb_freshness_multiplier = of_int bp / of_int weight_denom,
               sb_freshness_bp = bp, sb_confidence = ap_confidence (sj_provenance s),
               sb_confidence_bp = js_round (ap_confidence (sj_provenance s) * of_int weight_denom),
               sb_score_milli = 0, sb_score = 0, sb_kill_rule_applied = forced,
               sb_merge_count = sj_merge_count s, sb_freshness_demoted = (status \<noteq> AF_FRESH),
               sb_source_freshness_status = sj_source_freshness_status s\<rparr>;
          milli = score_milli_from_breakdown b
      in b\<lparr>sb_score_milli := milli, sb_score := of_int milli / of_int score_scale\<rparr>)"

definition severity_at_least :: "severity \<Rightarrow> severity \<Rightarrow> bool" where
  "severity_at_least actual lo \<longleftrightarrow> severity_rank actual \<le> severity_rank lo"

definition assert_impact_dominates_urgency :: "scoring_config \<Rightarrow> unit at_result" where
  "assert_impact_dominates_urgency c =
     require (\<not> sc_impact_weight_bp c \<le> sc_urgency_weight_bp c) AT_Config (Inr ())"

section \<open>Order of candidates\<close>

text \<open>Negative when the first candidate ranks above the second.\<close>

definition compare_attention :: "scored_candidate \<Rightarrow> scored_candidate \<Rightarrow> int" where
  "compare_attention a b =
     (if cd_forced_by_kill_rule a \<noteq> cd_forced_by_kill_rule b
      then (if cd_forced_by_kill_rule a then -1 else 1)
      else if sb_category_tier (cd_breakdown a) \<noteq> sb_category_tier (cd_breakdown b)
      then sb_category_tier (cd_breakdown b) - sb_category_tier (cd_breakdown a)
      else if cd_score_milli a \<noteq> cd_score_milli b then cd_score_milli b - cd_score_milli a
      else if sb_category_weight (cd_breakdown a) \<noteq> sb_category_weight (cd_breakdown b)
      then sb_category_weight (cd_breakdown b) - sb_category_weight (cd_breakdown a)
      else if cd_impact a \<noteq> cd_impact b then cd_impact b - cd_impact a
      else if cd_urgency a \<noteq> cd_urgency b then cd_urgency b - cd_urgency a
      else if cd_id a < cd_id b then -1
      else if cd_id b < cd_id a then 1
      else 0)"

definition sort_candidates :: "scored_candidate list \<Rightarrow> scored_candidate list" where
  "sort_candidates items = js_sort compare_attention items"

text \<open>The comparator is the lexicographic order of one key, so it is a total preorder.\<close>

definition attention_rank :: "scored_candidate \<Rightarrow> bool \<times> int \<times> int \<times> int \<times> int \<times> int \<times> string" where
  "attention_rank a =
     (\<not> cd_forced_by_kill_rule a, - sb_category_tier (cd_breakdown a), - cd_score_milli a,
      - sb_category_weight (cd_breakdown a), - cd_impact a, - cd_urgency a, cd_id a)"

lemma compare_attention_le: "compare_attention a b \<le> 0 \<longleftrightarrow> attention_rank a \<le> attention_rank b"
  unfolding compare_attention_def attention_rank_def cmp_key cmp_if_le [of "cd_forced_by_kill_rule a \<noteq> _"]
    cmp_if_le [of "cd_forced_by_kill_rule a"] cmp_if_le [of "_ \<noteq> (_ :: int)"]
  by simp

lemma compare_attention_zero: "compare_attention a b = 0 \<Longrightarrow> cd_id a = cd_id b"
  by (simp add: compare_attention_def split: if_splits)

lemma sort_candidates_key: "sort_candidates items = sort_key attention_rank items"
  unfolding sort_candidates_def by (rule js_sort_key) (rule compare_attention_le)

lemma sort_candidates_mset [simp]: "mset (sort_candidates items) = mset items"
  by (simp add: sort_candidates_key)

lemma sort_candidates_set [simp]: "set (sort_candidates items) = set items"
  by (simp add: sort_candidates_key)

lemma sort_candidates_sorted: "sorted_wrt (\<lambda>a b. attention_rank a \<le> attention_rank b) (sort_candidates items)"
  using sorted_sort_key [of attention_rank items] by (simp add: sort_candidates_key sorted_map)

end
