(* ===== verification/Attention_Merge.thy ===== *)
theory Attention_Merge
  imports Attention_Score
begin

text \<open>
  \<open>intelligence/attention/src/merge.ts\<close>, \<open>freshness.ts\<close> and \<open>kill-rules.ts\<close>: signals with the same
  correlation key become one merged signal, every merged signal whose data is not fresh adds a work
  item that asks for new data, and the kill rule picks the signals that come first. \<open>localeCompare\<close> is
  the comparison of collation keys, given by the function \<open>collate\<close>.
\<close>

section \<open>Merging correlated signals\<close>

record merged_signal = attention_signal +
  mg_source_ids :: "string list"
  mg_merge_count :: nat
  mg_item_kind :: item_kind
  mg_source_freshness_status :: at_freshness

definition evidence_key :: "evidence_ref \<Rightarrow> string" where
  "evidence_key r =
     as_system (ev_source r) @ ''|'' @ as_kind (ev_source r) @ ''|'' @ as_locator (ev_source r) @ ''|''
     @ or_else (ev_note r) []"

text \<open>The loop with a \<open>seen\<close> set of keys\<close>

fun first_of_key :: "('a \<Rightarrow> 'k) \<Rightarrow> 'k list \<Rightarrow> 'a list \<Rightarrow> 'a list" where
  "first_of_key key seen [] = []"
| "first_of_key key seen (x # xs) =
     (if key x \<in> set seen then first_of_key key seen xs else x # first_of_key key (key x # seen) xs)"

definition merge_evidence :: "(string \<Rightarrow> string) \<Rightarrow> attention_signal list \<Rightarrow> evidence_ref list" where
  "merge_evidence collate items =
     first_of_key evidence_key [] (concat (map sg_evidence_refs (sort_key (\<lambda>s. collate (sg_id s)) items)))"

definition merge_related :: "attention_signal list \<Rightarrow> string list" where
  "merge_related items = sort (unique_strings (concat (map (\<lambda>s. or_else (sg_related_ids s) []) items)))"

text \<open>\<open>for (const item of items) if (better(item, best)) best = item\<close>\<close>

fun best_of :: "('a \<Rightarrow> 'a \<Rightarrow> bool) \<Rightarrow> 'a \<Rightarrow> 'a list \<Rightarrow> 'a" where
  "best_of better best [] = best"
| "best_of better best (x # xs) = best_of better (if better x best then x else best) xs"

definition worst_freshness :: "attention_signal list \<Rightarrow> at_freshness" where
  "worst_freshness items =
     (let statuses = map (\<lambda>s. ap_freshness_status (sg_provenance s)) items
      in best_of (\<lambda>a b. freshness_rank a < freshness_rank b)
           (case statuses of [] \<Rightarrow> AF_UNKNOWN | f # _ \<Rightarrow> f) statuses)"

definition latest_observed :: "attention_signal list \<Rightarrow> string" where
  "latest_observed items =
     (let times = map (\<lambda>s. ap_observed_at (sg_provenance s)) items
      in best_of (\<lambda>a b. b < a) (case times of [] \<Rightarrow> [] | t # _ \<Rightarrow> t) times)"

definition worst_severity :: "severity \<Rightarrow> attention_signal list \<Rightarrow> severity" where
  "worst_severity start items = best_of (\<lambda>a b. severity_rank a < severity_rank b) start (map sg_severity items)"

definition compare_canonical :: "(string \<Rightarrow> string) \<Rightarrow> attention_signal \<Rightarrow> attention_signal \<Rightarrow> int" where
  "compare_canonical collate a b =
     (if sg_impact a \<noteq> sg_impact b then sg_impact b - sg_impact a
      else if sg_urgency a \<noteq> sg_urgency b then sg_urgency b - sg_urgency a
      else if collate (sg_id a) < collate (sg_id b) then -1
      else if collate (sg_id b) < collate (sg_id a) then 1
      else 0)"

definition pick_canonical :: "(string \<Rightarrow> string) \<Rightarrow> attention_signal list \<Rightarrow> attention_signal at_result" where
  "pick_canonical collate items =
     (case js_sort (compare_canonical collate) items of [] \<Rightarrow> Inl AT_Error | s # _ \<Rightarrow> Inr s)"

definition merge_source :: "(string \<Rightarrow> string) \<Rightarrow> attention_signal list \<Rightarrow> at_source at_result" where
  "merge_source collate items =
     bindE (pick_canonical collate items) (\<lambda>canonical.
     if length (unique_strings (map (\<lambda>s. as_system (ap_source (sg_provenance s))) items)) = 1
     then Inr (ap_source (sg_provenance canonical))
     else Inr \<lparr>as_system = ''governance'', as_kind = ''merged-signal'',
               as_locator = take 512 (join '','' (sort (map (\<lambda>s. as_locator (ap_source (sg_provenance s))) items))),
               as_label = Some ''merged''\<rparr>)"

text \<open>\<open>items.map(f).find((w) => w !== undefined)\<close>\<close>

definition first_present :: "('a \<Rightarrow> 'b option) \<Rightarrow> 'a list \<Rightarrow> 'b option" where
  "first_present f items = (case List.find (\<lambda>s. f s \<noteq> None) items of None \<Rightarrow> None | Some s \<Rightarrow> f s)"

definition merge_one :: "(string \<Rightarrow> string) \<Rightarrow> attention_signal list \<Rightarrow> merged_signal at_result" where
  "merge_one collate items =
     bindE (pick_canonical collate items) (\<lambda>canonical.
     bindE (merge_source collate items) (\<lambda>source.
     let ids = sort (map sg_id items);
         worst = worst_freshness items
     in Inr
       \<lparr>sg_id = (case ids of [] \<Rightarrow> sg_id canonical | i # _ \<Rightarrow> i),
        sg_title = sg_title canonical, sg_summary = sg_summary canonical,
        sg_category = sg_category canonical, sg_domain = sg_domain canonical, sg_scope = sg_scope canonical,
        sg_impact = Max (set (map sg_impact items)), sg_urgency = Max (set (map sg_urgency items)),
        sg_severity = worst_severity (sg_severity canonical) items, sg_status = sg_status canonical,
        sg_correlation_key = sg_correlation_key canonical, sg_evidence_refs = merge_evidence collate items,
        sg_provenance =
          \<lparr>ap_source = source, ap_observed_at = latest_observed items, ap_freshness_status = worst,
           ap_confidence = Min (set (map (\<lambda>s. ap_confidence (sg_provenance s)) items)),
           ap_freshness_window_seconds =
             first_present (\<lambda>s. ap_freshness_window_seconds (sg_provenance s)) items\<rparr>,
        sg_money = or_option (sg_money canonical) (first_present sg_money items),
        sg_recommended_action = sg_recommended_action canonical, sg_related_ids = Some (merge_related items),
        mg_source_ids = ids, mg_merge_count = length items, mg_item_kind = IK_Work,
        mg_source_freshness_status = worst\<rparr>))"

text \<open>The groups in the order their keys first occur, each with its members in order.\<close>

fun add_to_group :: "'k \<Rightarrow> 'a \<Rightarrow> ('k \<times> 'a list) list \<Rightarrow> ('k \<times> 'a list) list" where
  "add_to_group k x [] = [(k, [x])]"
| "add_to_group k x ((k', g) # gs) = (if k' = k then (k', g @ [x]) # gs else (k', g) # add_to_group k x gs)"

definition group_signals :: "attention_signal list \<Rightarrow> (string \<times> attention_signal list) list" where
  "group_signals signals = foldl (\<lambda>gs s. add_to_group (sg_correlation_key s) s gs) [] signals"

definition merge_signals :: "(string \<Rightarrow> string) \<Rightarrow> attention_signal list \<Rightarrow> merged_signal list at_result" where
  "merge_signals collate signals =
     bindE (mapE (\<lambda>(_, g). merge_one collate g) (group_signals signals)) (\<lambda>merged.
     Inr (sort_key (\<lambda>m. collate (sg_id m)) merged))"

section \<open>Work items for data that is not fresh\<close>

text \<open>The text after the last colon, each character outside \<open>[A-Za-z0-9._~-]\<close> replaced, at most 80 characters.\<close>

definition slug_safe :: "char \<Rightarrow> bool" where
  "slug_safe c \<longleftrightarrow> is_alnum c \<or> c \<in> set ''._~-''"

definition slug_from_id :: "string \<Rightarrow> string" where
  "slug_from_id i =
     take 80 (map (\<lambda>c. if slug_safe c then c else CHR ''-'') (rev (takeWhile (\<lambda>c. c \<noteq> CHR '':'') (rev i))))"

definition stale_title :: "merged_signal \<Rightarrow> string" where
  "stale_title m = take 200 (''Dados stale: '' @ sg_title m)"

definition stale_summary :: "merged_signal \<Rightarrow> string" where
  "stale_summary m =
     ''A observa'' @ [CHR 0xE7, CHR 0xE3] @ ''o de \"'' @ sg_title m @ ''\" est'' @ [CHR 0xE1] @ '' ''
     @ freshness_text (ap_freshness_status (sg_provenance m)) @ '' (observed_at ''
     @ ap_observed_at (sg_provenance m) @ ''). O item original foi despromovido; atualize a fonte antes de decidir.''"

definition stale_action :: "merged_signal \<Rightarrow> string" where
  "stale_action m =
     (let s = ap_source (sg_provenance m)
      in ''Atualizar dados da fonte '' @ as_system s @ '':'' @ as_kind s @ '' ('' @ as_locator s @ '').'')"

definition synthesize_dados_stale :: "merged_signal \<Rightarrow> string \<Rightarrow> merged_signal option" where
  "synthesize_dados_stale m generated_at =
     (let p = sg_provenance m in
      if ap_freshness_status p = AF_FRESH then None
      else Some
       \<lparr>sg_id = ''cc:attention-item:dados-stale-'' @ slug_from_id (sg_id m),
        sg_title = stale_title m, sg_summary = stale_summary m, sg_category = CT_Risco_Operacional,
        sg_domain = sg_domain m, sg_scope = sg_scope m,
        sg_impact = max 40 (min 100 (sg_impact m)), sg_urgency = max 50 (sg_urgency m),
        sg_severity = (if sg_severity m = SV_Low then SV_Medium else sg_severity m),
        sg_status = SS_Open, sg_correlation_key = ''stale:'' @ sg_correlation_key m,
        sg_evidence_refs =
          \<lparr>ev_source = ap_source p,
           ev_note = Some (''freshness_status='' @ freshness_text (ap_freshness_status p)
                           @ '' observed_at='' @ ap_observed_at p)\<rparr> # sg_evidence_refs m,
        sg_provenance =
          \<lparr>ap_source = \<lparr>as_system = ''governance'', as_kind = ''attention-engine'',
                        as_locator = ''dados-stale/'' @ slug_from_id (sg_id m), as_label = Some ''dados-stale''\<rparr>,
           ap_observed_at = generated_at, ap_freshness_status = AF_FRESH, ap_confidence = 1,
           ap_freshness_window_seconds = None\<rparr>,
        sg_money = None, sg_recommended_action = Some (stale_action m),
        sg_related_ids = Some (sg_id m # mg_source_ids m),
        mg_source_ids = sg_id m # mg_source_ids m, mg_merge_count = 1, mg_item_kind = IK_Dados_Stale,
        mg_source_freshness_status = ap_freshness_status p\<rparr>)"

definition append_dados_stale :: "merged_signal list \<Rightarrow> string \<Rightarrow> merged_signal list" where
  "append_dados_stale merged generated_at =
     merged @ List.map_filter (\<lambda>m. synthesize_dados_stale m generated_at) merged"

definition is_dados_stale_id :: "string \<Rightarrow> bool" where
  "is_dados_stale_id i \<longleftrightarrow> starts_with i ''cc:attention-item:dados-stale-''"

definition is_dados_stale_title :: "string \<Rightarrow> bool" where
  "is_dados_stale_title t \<longleftrightarrow> starts_with t ''Dados stale:''"

section \<open>Kill rule\<close>

definition is_kill_rule :: "merged_signal \<Rightarrow> scoring_config \<Rightarrow> bool" where
  "is_kill_rule m c \<longleftrightarrow>
     mg_item_kind m \<noteq> IK_Dados_Stale
     \<and> sg_category m \<in> set (kr_categories (sc_kill_rule c))
     \<and> severity_at_least (sg_severity m) (kr_min_severity (sc_kill_rule c))
     \<and> \<not> sg_impact m < kr_min_impact (sc_kill_rule c)"

end
