(* ===== verification/Attention_Rank.thy ===== *)
theory Attention_Rank
  imports Attention_Merge
begin

text \<open>
  \<open>intelligence/attention/src/diversity.ts\<close>, \<open>override.ts\<close>, \<open>explain.ts\<close> and \<open>rank.ts\<close>: the
  domain-diverse choice for today, the founder's override with its audit record, the reason text of an
  item, and the ranking pipeline. The SHA-256 digest (in hexadecimal) comes from the runtime and is a
  parameter, and so are the collation keys of \<open>localeCompare\<close>.
\<close>

section \<open>Domain-diverse choice\<close>

text \<open>
  The loop keeps the picked items and the used indices. An iteration looks for the first unused index
  whose domain is new, then for the first unused index, and leaves when there is none.
\<close>

definition next_diverse :: "('a \<Rightarrow> 'd) \<Rightarrow> 'a list \<Rightarrow> 'a list \<Rightarrow> nat list \<Rightarrow> nat option" where
  "next_diverse domain ordered picked used =
     (case List.find (\<lambda>i. i \<notin> set used \<and> domain (ordered ! i) \<notin> set (map domain picked)) [0..<length ordered] of
        Some i \<Rightarrow> Some i
      | None \<Rightarrow> List.find (\<lambda>i. i \<notin> set used) [0..<length ordered])"

function diverse_loop :: "('a \<Rightarrow> 'd) \<Rightarrow> 'a list \<Rightarrow> nat \<Rightarrow> 'a list \<Rightarrow> nat list \<Rightarrow> 'a list" where
  "diverse_loop domain ordered n picked used =
     (if length picked < n
      then (case next_diverse domain ordered picked used of
              None \<Rightarrow> picked
            | Some i \<Rightarrow> diverse_loop domain ordered n (picked @ [ordered ! i]) (used @ [i]))
      else picked)"
  by pat_completeness auto
termination
  by (relation "measure (\<lambda>(_, _, n, picked, _). n - length picked)") auto

declare diverse_loop.simps [simp del]

definition diverse_top_n :: "('a \<Rightarrow> 'd) \<Rightarrow> 'a list \<Rightarrow> int \<Rightarrow> 'a list" where
  "diverse_top_n domain ordered n = (if n \<le> 0 then [] else diverse_loop domain ordered (nat n) [] [])"

section \<open>Founder override\<close>

definition snapshot_of :: "scored_candidate list \<Rightarrow> scored_candidate list \<Rightarrow> ranking_snapshot" where
  "snapshot_of nw today = \<lparr>rs_now = map cd_id nw, rs_today = map cd_id today\<rparr>"

text \<open>The last item with an id is the one the map keeps.\<close>

definition index_by_id :: "scored_candidate list \<Rightarrow> string \<Rightarrow> scored_candidate option" where
  "index_by_id items = map_of (rev (map (\<lambda>i. (cd_id i, i)) items))"

definition resolve_targets :: "string list \<Rightarrow> (string \<Rightarrow> scored_candidate option) \<Rightarrow> scored_candidate list" where
  "resolve_targets target_ids by_id = List.map_filter by_id (unique_strings target_ids)"

definition without_ids :: "scored_candidate list \<Rightarrow> scored_candidate list \<Rightarrow> scored_candidate list" where
  "without_ids gone items = filter (\<lambda>i. cd_id i \<notin> set (map cd_id gone)) items"

definition fill_today :: "scored_candidate list \<Rightarrow> scored_candidate list \<Rightarrow> int \<Rightarrow> scored_candidate list" where
  "fill_today pinned pool limit =
     (let remaining = max 0 (limit - int (length pinned));
          filled = (if remaining > 0 then diverse_top_n cd_domain (without_ids pinned pool) remaining else [])
      in take (nat limit) (pinned @ filled))"

definition apply_pin :: "scored_candidate list \<Rightarrow> scored_candidate list \<Rightarrow> scored_candidate list \<Rightarrow> scoring_config
    \<Rightarrow> scored_candidate list \<times> scored_candidate list" where
  "apply_pin nw pool targets c =
     (take (nat (sc_atencao_agora_limit c)) (targets @ without_ids targets nw),
      fill_today (take (nat (sc_today_limit c)) targets) pool (sc_today_limit c))"

definition apply_reorder :: "scored_candidate list \<Rightarrow> scored_candidate list \<Rightarrow> scored_candidate list \<Rightarrow> scoring_config
    \<Rightarrow> scored_candidate list \<times> scored_candidate list" where
  "apply_reorder nw pool targets c =
     (let today = fill_today (take (nat (sc_today_limit c)) targets) pool (sc_today_limit c)
      in (take (nat (sc_atencao_agora_limit c)) (today @ without_ids today nw), today))"

definition apply_dismiss :: "scored_candidate list \<Rightarrow> scored_candidate list \<Rightarrow> scored_candidate list \<Rightarrow> scoring_config
    \<Rightarrow> scored_candidate list \<times> scored_candidate list" where
  "apply_dismiss nw pool targets c =
     (take (nat (sc_atencao_agora_limit c)) (without_ids targets nw),
      diverse_top_n cd_domain (without_ids targets pool) (sc_today_limit c))"

definition apply_override :: "scored_candidate list \<Rightarrow> scored_candidate list \<Rightarrow> scored_candidate list
    \<Rightarrow> founder_override option \<Rightarrow> scoring_config
    \<Rightarrow> scored_candidate list \<times> scored_candidate list \<times> override_audit list" where
  "apply_override nw today pool ov c =
     (case ov of
        None \<Rightarrow> (nw, today, [])
      | Some ov \<Rightarrow>
          (let targets = resolve_targets (fo_target_ids ov) (index_by_id pool);
               next = (case fo_action ov of
                         OA_Pin \<Rightarrow> apply_pin nw pool targets c
                       | OA_Reorder \<Rightarrow> apply_reorder nw pool targets c
                       | OA_Dismiss \<Rightarrow> apply_dismiss nw pool targets c)
           in (fst next, snd next,
               [\<lparr>oa_id = ''cc:audit-event:founder-override-'' @ filter slug_safe (fo_at ov),
                 oa_at = fo_at ov, oa_actor = fo_actor ov, oa_override_action = fo_action ov,
                 oa_target_ids = fo_target_ids ov, oa_previous_ranking = snapshot_of nw today,
                 oa_resulting_ranking = snapshot_of (fst next) (snd next)\<rparr>])))"

section \<open>The reason of an item\<close>

definition pad_start :: "nat \<Rightarrow> string \<Rightarrow> string" where
  "pad_start n s = replicate (n - length s) (CHR ''0'') @ s"

text \<open>\<open>%\<close> keeps the sign of the dividend, so its absolute value is the remainder of the absolute value.\<close>

definition format_score :: "int \<Rightarrow> string" where
  "format_score milli = show_int (milli div 1000) @ ''.'' @ pad_start 3 (show_int (\<bar>milli\<bar> mod 1000))"

definition reason_max_length :: nat where
  "reason_max_length = 2000"

record reason_parts =
  rp_plain :: "string list"
  rp_formula :: string
  rp_evidence :: "string option"

text \<open>
  \<open>(bp / 10000).toFixed(2)\<close>: the quotient is rounded to the nearest double, \<open>m / 2 ^ k\<close> with a 53-bit
  \<open>m\<close>, and the nearest hundredth of that double is printed, the larger one when two are equally near.
\<close>

fun double_scale :: "nat \<Rightarrow> int \<Rightarrow> nat \<Rightarrow> nat" where
  "double_scale 0 bp k = k"
| "double_scale (Suc fuel) bp k = (if bp * 2 ^ k \<ge> 10000 * 2 ^ 52 then k else double_scale fuel bp (Suc k))"

definition to_fixed2 :: "int \<Rightarrow> string" where
  "to_fixed2 bp =
     (if bp = 0 then ''0.00''
      else let k = double_scale 14 bp 52;
               m = (2 * bp * 2 ^ k + 10000) div 20000;
               n = (200 * m + 2 ^ k) div (2 ^ (k + 1))
           in show_int (n div 100) @ ''.'' @ pad_start 2 (show_int (n mod 100)))"

definition build_plain_notes :: "scored_candidate \<Rightarrow> string list" where
  "build_plain_notes i =
     (let b = cd_breakdown i in
      (if cd_item_kind i = IK_Dados_Stale
       then [''Dados stale: freshness original '' @ freshness_text (sb_source_freshness_status b)
             @ '' reduz prioridade do sinal-fonte; este item pede atualiza'' @ [CHR 0xE7, CHR 0xE3]
             @ ''o da evid'' @ [CHR 0xEA] @ ''ncia.''] else [])
      @ (if cd_forced_by_kill_rule i
         then [''KILL-RULE: risco cr'' @ [CHR 0xED] @ ''tico for'' @ [CHR 0xE7] @ ''ado em ATEN''
               @ [CHR 0xC7, CHR 0xC3] @ ''O AGORA.''] else [])
      @ (if sb_merge_count b > 1
         then [''Sinal mesclado ('' @ show_nat (sb_merge_count b) @ '' correla'' @ [CHR 0xE7, CHR 0xF5]
               @ ''es; impacto e urg'' @ [CHR 0xEA] @ ''ncia = max).''] else [])
      @ (if sb_freshness_demoted b \<and> cd_item_kind i = IK_Work
         then [''Freshness '' @ freshness_text (sb_freshness_status b) @ '' aplica multiplicador ''
               @ to_fixed2 (sb_freshness_bp b) @ '' (despromo'' @ [CHR 0xE7, CHR 0xE3] @ ''o).''] else []))"

definition build_score_formula :: "score_breakdown \<Rightarrow> horizon \<Rightarrow> string" where
  "build_score_formula b hz =
     ''Score '' @ format_score (sb_score_milli b) @ '' = peso_categoria '' @ show_int (sb_category_weight b)
     @ '' (tier '' @ show_int (sb_category_tier b) @ '', '' @ category_text (sb_category b) @ '') ''
     @ [CHR 0xD7] @ '' eixo '' @ show_int (sb_axis b) @ '' (impacto '' @ show_int (sb_impact b) @ [CHR 0xD7]
     @ show_int (sb_impact_weight_bp b) @ ''/10000 + urg'' @ [CHR 0xEA] @ ''ncia '' @ show_int (sb_urgency b)
     @ [CHR 0xD7] @ show_int (sb_urgency_weight_bp b) @ ''/10000) '' @ [CHR 0xD7] @ '' freshness_bp ''
     @ show_int (sb_freshness_bp b) @ '' '' @ [CHR 0xD7] @ '' confidence_bp '' @ show_int (sb_confidence_bp b)
     @ '' / 10000'' @ [CHR 0xB2] @ '', horizonte '' @ horizon_text hz @ ''.''"

definition build_evidence_sentence :: "scored_candidate \<Rightarrow> string option" where
  "build_evidence_sentence i =
     (let locators = join ''; '' (take 4 (map (\<lambda>e. as_system (ev_source e) @ '':'' @ as_kind (ev_source e) @ '':''
                                               @ as_locator (ev_source e)) (cd_evidence_refs i)))
      in if length locators > 0 then Some (''Evid'' @ [CHR 0xEA] @ ''ncias: '' @ locators @ ''.'') else None)"

definition build_reason_parts :: "scored_candidate \<Rightarrow> horizon \<Rightarrow> reason_parts" where
  "build_reason_parts i hz =
     \<lparr>rp_plain = build_plain_notes i, rp_formula = build_score_formula (cd_breakdown i) hz,
      rp_evidence = build_evidence_sentence i\<rparr>"

definition join_reason_parts :: "reason_parts \<Rightarrow> string" where
  "join_reason_parts p =
     take reason_max_length
       (join '' '' (rp_plain p @ [rp_formula p] @ (case rp_evidence p of None \<Rightarrow> [] | Some e \<Rightarrow> [e])))"

text \<open>A match of \<open>/Score -?\d+\.\d{3} = peso_categoria /\<close> at the start of the text\<close>

definition score_sentence_here :: "string \<Rightarrow> bool" where
  "score_sentence_here s \<longleftrightarrow>
     starts_with s ''Score ''
     \<and> (let t = drop 6 s; u = (if starts_with t ''-'' then drop 1 t else t); v = dropWhile is_digit u
        in takeWhile is_digit u \<noteq> [] \<and> starts_with v ''.'' \<and> length (take 3 (drop 1 v)) = 3
           \<and> list_all is_digit (take 3 (drop 1 v)) \<and> starts_with (drop 4 v) '' = peso_categoria '')"

text \<open>\<open>SCORE_SENTENCE_RE.exec(reason)?.index\<close>\<close>

fun score_sentence_index :: "string \<Rightarrow> nat option" where
  "score_sentence_index [] = None"
| "score_sentence_index (c # s) =
     (if score_sentence_here (c # s) then Some 0 else map_option Suc (score_sentence_index s))"

definition split_reason :: "string \<Rightarrow> string \<times> string" where
  "split_reason reason =
     (case score_sentence_index reason of
        None \<Rightarrow> (js_trim reason, [])
      | Some k \<Rightarrow> (js_trim (take k reason), js_trim (drop k reason)))"

definition build_reason :: "scored_candidate \<Rightarrow> horizon \<Rightarrow> string" where
  "build_reason i hz = join_reason_parts (build_reason_parts i hz)"

text \<open>Why the first candidate ranks above the second, for a pair in that order.\<close>

definition explain_terms :: "score_breakdown \<Rightarrow> string" where
  "explain_terms b =
     ''peso '' @ show_int (sb_category_weight b) @ '' '' @ [CHR 0xD7] @ '' raw '' @ show_int (sb_raw b) @ '' ''
     @ [CHR 0xD7] @ '' freshness_bp '' @ show_int (sb_freshness_bp b) @ '' '' @ [CHR 0xD7] @ '' confidence_bp ''
     @ show_int (sb_confidence_bp b)"

definition explain_pair :: "scored_candidate \<Rightarrow> scored_candidate \<Rightarrow> string" where
  "explain_pair a b =
     (let x = cd_breakdown a; y = cd_breakdown b;
          tier = (\<lambda>c s. category_text (cd_category c) @ '' (tier '' @ show_int (sb_category_tier s) @ '')'')
      in cd_id a @ '' vence '' @ cd_id b @ '': '' @
        (if cd_forced_by_kill_rule a \<and> \<not> cd_forced_by_kill_rule b
         then ''kill-rule (risco cr'' @ [CHR 0xED] @ ''tico) tem preced'' @ [CHR 0xEA]
              @ ''ncia sobre trabalho sem kill-rule.''
         else if sb_category_tier x \<noteq> sb_category_tier y
         then ''categoria '' @ tier a x @ '' outrank '' @ tier b y @ ''.''
         else if cd_score_milli a \<noteq> cd_score_milli b
         then ''score_milli '' @ show_int (cd_score_milli a) @ '' > '' @ show_int (cd_score_milli b) @ '' (A: ''
              @ explain_terms x @ ''; B: '' @ explain_terms y @ '').''
         else if sb_category_weight x \<noteq> sb_category_weight y
         then ''empate de score, peso de categoria '' @ show_int (sb_category_weight x) @ '' > ''
              @ show_int (sb_category_weight y) @ ''.''
         else if cd_impact a \<noteq> cd_impact b
         then ''empate de score/peso, impacto '' @ show_int (cd_impact a) @ '' > '' @ show_int (cd_impact b) @ ''.''
         else if cd_urgency a \<noteq> cd_urgency b
         then ''empate at'' @ [CHR 0xE9] @ '' impacto, urg'' @ [CHR 0xEA] @ ''ncia '' @ show_int (cd_urgency a)
              @ '' > '' @ show_int (cd_urgency b) @ ''.''
         else ''empate total, desempate lexicogr'' @ [CHR 0xE1] @ ''fico de id.''))"

definition to_ranked_item :: "scored_candidate \<Rightarrow> nat \<Rightarrow> horizon \<Rightarrow> ranked_item" where
  "to_ranked_item i rank hz =
     \<lparr>rk_id = cd_id i, rk_rank = rank, rk_title = cd_title i, rk_reason = build_reason i hz,
      rk_evidence_refs = cd_evidence_refs i, rk_score = sb_score (cd_breakdown i),
      rk_score_milli = cd_score_milli i, rk_score_breakdown = cd_breakdown i, rk_category = cd_category i,
      rk_domain = cd_domain i, rk_scope = cd_scope i, rk_severity = cd_severity i, rk_status = cd_status i,
      rk_item_kind = cd_item_kind i, rk_provenance = cd_provenance i, rk_horizon = hz,
      rk_attention_item_ids = cd_source_ids i, rk_forced_by_kill_rule = cd_forced_by_kill_rule i,
      rk_merge_count = cd_merge_count i, rk_recommended_action = cd_recommended_action i\<rparr>"

section \<open>Pipeline\<close>

definition to_candidate :: "merged_signal \<Rightarrow> scoring_config \<Rightarrow> scored_candidate" where
  "to_candidate m c =
     (let forced = is_kill_rule m c;
          b = build_breakdown
                \<lparr>sj_category = sg_category m, sj_impact = sg_impact m, sj_urgency = sg_urgency m,
                 sj_provenance = sg_provenance m, sj_merge_count = mg_merge_count m,
                 sj_source_freshness_status = mg_source_freshness_status m\<rparr> c forced
      in \<lparr>cd_id = sg_id m, cd_title = sg_title m, cd_summary = sg_summary m, cd_category = sg_category m,
          cd_domain = sg_domain m, cd_scope = sg_scope m, cd_impact = sg_impact m, cd_urgency = sg_urgency m,
          cd_severity = sg_severity m, cd_status = sg_status m, cd_item_kind = mg_item_kind m,
          cd_correlation_key = sg_correlation_key m, cd_evidence_refs = sg_evidence_refs m,
          cd_provenance = sg_provenance m, cd_recommended_action = sg_recommended_action m,
          cd_related_ids = or_else (sg_related_ids m) [], cd_source_ids = mg_source_ids m,
          cd_money = sg_money m, cd_merge_count = mg_merge_count m, cd_forced_by_kill_rule = forced,
          cd_score_milli = sb_score_milli b, cd_breakdown = b\<rparr>)"

definition engine_provenance :: "string \<Rightarrow> at_provenance" where
  "engine_provenance generated_at =
     \<lparr>ap_source = \<lparr>as_system = ''governance'', as_kind = ''attention-engine'',
                   as_locator = ''control-center/intelligence/attention'', as_label = Some ''attention-engine''\<rparr>,
      ap_observed_at = generated_at, ap_freshness_status = AF_FRESH, ap_confidence = 1,
      ap_freshness_window_seconds = None\<rparr>"

text \<open>\<open>items.map((item, i) => toRankedItem(item, i + 1, horizon))\<close>\<close>

definition rank_items :: "scored_candidate list \<Rightarrow> horizon \<Rightarrow> ranked_item list" where
  "rank_items items hz = map (\<lambda>(i, item). to_ranked_item item (i + 1) hz) (enumerate 0 items)"

record attention_env =
  ae_collate :: "string \<Rightarrow> string"
  ae_sha256 :: "string \<Rightarrow> string"

definition fingerprint_config :: "attention_env \<Rightarrow> scoring_config \<Rightarrow> string" where
  "fingerprint_config E c = take 16 (ae_sha256 E (canonicalize (config_value c)))"

definition ordered_candidates :: "attention_env \<Rightarrow> rank_input \<Rightarrow> scored_candidate list at_result" where
  "ordered_candidates E input =
     (let c = ri_config input;
          eligible = filter (\<lambda>s. sg_status s \<in> set (sc_eligible_statuses c)) (ri_signals input)
      in bindE (merge_signals (ae_collate E) eligible) (\<lambda>merged.
         Inr (sort_candidates
                (map (\<lambda>m. to_candidate m c) (append_dados_stale merged (ri_clock_now input))))))"

definition rank_attention :: "attention_env \<Rightarrow> rank_input \<Rightarrow> rank_output at_result" where
  "rank_attention E input =
     (let c = ri_config input in
      bindE (ordered_candidates E input) (\<lambda>ordered.
      let now_list = take (nat (sc_atencao_agora_limit c)) ordered;
          today_list = diverse_top_n cd_domain ordered (sc_today_limit c)
      in case apply_override now_list today_list ordered (ri_override input) c of (nw, today, audit) \<Rightarrow>
         Inr \<lparr>ro_generated_at = ri_clock_now input, ro_provenance = engine_provenance (ri_clock_now input),
              ro_config_fingerprint = fingerprint_config E c, ro_attention_now = rank_items nw HZ_Now,
              ro_today = rank_items today HZ_Today, ro_audit = audit\<rparr>))"

text \<open>\<open>id.split(":").slice(2).join("-")\<close>\<close>

fun split_colon :: "string \<Rightarrow> string list" where
  "split_colon [] = [[]]"
| "split_colon (c # s) =
     (if c = CHR '':'' then [] # split_colon s
      else case split_colon s of [] \<Rightarrow> [[c]] | p # ps \<Rightarrow> (c # p) # ps)"

definition as_priority_recommendations :: "rank_output \<Rightarrow> horizon \<Rightarrow> priority_recommendation list" where
  "as_priority_recommendations out hz =
     map (\<lambda>i. \<lparr>pr_id = take 128 (''cc:priority-recommendation:'' @ horizon_text hz @ ''-'' @ show_nat (rk_rank i)
                         @ ''-'' @ join ''-'' (drop 2 (split_colon (rk_id i)))),
                pr_scope = rk_scope i, pr_rank = rk_rank i, pr_title = rk_title i, pr_rationale = rk_reason i,
                pr_provenance = rk_provenance i, pr_generated_at = ro_generated_at out, pr_horizon = hz,
                pr_attention_item_ids = rk_attention_item_ids i\<rparr>)
       (if hz = HZ_Now then ro_attention_now out else ro_today out)"

end
