(* ===== verification/Attention_Merge_Laws.thy ===== *)
theory Attention_Merge_Laws
  imports Attention_Merge
begin

text \<open>
  What merging keeps: the groups are the classes of the correlation key, every signal goes into exactly
  one merged signal, the merged signal is at least as severe and at most as trusted as each of its
  members, and where it depends on the order of the members and where it does not.
\<close>

section \<open>Groups\<close>

lemma group_signals_add:
  assumes "distinct (map fst gs)"
  shows "add_to_group k x gs =
     (if k \<in> fst ` set gs then map (\<lambda>(k', g). (k', if k' = k then g @ [x] else g)) gs else gs @ [(k, [x])])"
  using assms
proof (induction gs)
  case (Cons p gs)
  obtain k' g where p: "p = (k', g)" by force
  have "map (\<lambda>(k'', g). (k'', if k'' = k' then g @ [x] else g)) gs = gs" if "k' \<notin> fst ` set gs"
    using that by (intro map_idI) (force simp: image_iff)
  with Cons p show ?case by auto
qed simp

lemma unique_from_append:
  "unique_from seen (xs @ [x]) =
     unique_from seen xs @ (if x \<in> set seen \<union> set xs then [] else [x])"
  by (induction seen xs rule: unique_from.induct) auto

lemma unique_strings_snoc: "unique_strings (xs @ [x]) = unique_strings xs @ (if x \<in> set xs then [] else [x])"
  by (simp add: unique_strings_def unique_from_append)

text \<open>The groups are the classes of the correlation key.\<close>

lemma group_signals_classes:
  "group_signals xs =
     map (\<lambda>k. (k, filter (\<lambda>s. sg_correlation_key s = k) xs)) (unique_strings (map sg_correlation_key xs))"
proof (induction xs rule: rev_induct)
  case (snoc x xs)
  let ?k = "sg_correlation_key x" and ?u = "unique_strings (map sg_correlation_key xs)"
  have "group_signals (xs @ [x]) = add_to_group ?k x (group_signals xs)"
    by (simp add: group_signals_def)
  also have "\<dots> = (if ?k \<in> set ?u
      then map (\<lambda>k. (k, filter (\<lambda>s. sg_correlation_key s = k) (xs @ [x]))) ?u
      else map (\<lambda>k. (k, filter (\<lambda>s. sg_correlation_key s = k) xs)) ?u @ [(?k, [x])])"
    by (simp add: snoc group_signals_add o_def image_image)
  also have "\<dots> = map (\<lambda>k. (k, filter (\<lambda>s. sg_correlation_key s = k) (xs @ [x])))
      (unique_strings (map sg_correlation_key (xs @ [x])))"
    by (cases "?k \<in> set ?u") (auto simp: unique_strings_snoc filter_empty_conv rev_image_eqI)
  finally show ?case .
qed (simp add: group_signals_def unique_strings_def)

lemma js_sort_mset [simp]:
  assumes "\<And>x y. cmp x y \<le> 0 \<longleftrightarrow> (key x :: 'k :: linorder) \<le> key y"
  shows "mset (js_sort cmp xs) = mset xs"
  by (simp add: js_sort_key [OF assms])

definition canonical_rank :: "(string \<Rightarrow> string) \<Rightarrow> attention_signal \<Rightarrow> int \<times> int \<times> string" where
  "canonical_rank collate s = (- sg_impact s, - sg_urgency s, collate (sg_id s))"

lemma pick_canonical_key:
  "pick_canonical collate items =
     (case sort_key (canonical_rank collate) items of [] \<Rightarrow> Inl AT_Error | s # _ \<Rightarrow> Inr s)"
proof -
  have "compare_canonical collate a b \<le> 0 \<longleftrightarrow> canonical_rank collate a \<le> canonical_rank collate b" for a b
    unfolding compare_canonical_def canonical_rank_def cmp_key cmp_if_le [of "_ \<noteq> (_ :: int)"] by simp
  then have "js_sort (compare_canonical collate) items = sort_key (canonical_rank collate) items"
    by (rule js_sort_key)
  then show ?thesis by (simp add: pick_canonical_def)
qed

lemma pick_canonical_total:
  assumes "items \<noteq> []"
  obtains s where "pick_canonical collate items = Inr s" "s \<in> set items"
proof -
  have "sort_key (canonical_rank collate) items \<noteq> []"
    using assms by (metis mset_sort mset_zero_iff_right)
  then obtain s t where st: "sort_key (canonical_rank collate) items = s # t"
    by (cases "sort_key (canonical_rank collate) items") auto
  moreover from st have "s \<in> set items" by (metis list.set_intros(1) set_sort)
  ultimately show thesis by (intro that [of s]) (simp_all add: pick_canonical_key)
qed

lemma merge_source_total:
  assumes "items \<noteq> []"
  obtains s where "merge_source collate items = Inr s"
proof -
  obtain c where "pick_canonical collate items = Inr c" using assms by (rule pick_canonical_total)
  then show thesis
    by (cases "length (unique_strings (map (\<lambda>s. as_system (ap_source (sg_provenance s))) items)) = 1")
      (auto simp: merge_source_def intro: that)
qed

lemma merge_one_total:
  assumes "items \<noteq> []"
  obtains m where "merge_one collate items = Inr m"
proof -
  obtain s where "pick_canonical collate items = Inr s" using assms by (rule pick_canonical_total)
  moreover obtain r where "merge_source collate items = Inr r" using assms by (rule merge_source_total)
  ultimately show thesis by (intro that) (simp add: merge_one_def Let_def)
qed

section \<open>The best of a list\<close>

lemma best_of_rank:
  assumes "\<And>a b. better a b \<longleftrightarrow> (rank a :: 'k :: linorder) < rank b"
  shows "best_of better x xs \<in> insert x (set xs) \<and> (\<forall>y \<in> insert x (set xs). rank (best_of better x xs) \<le> rank y)"
proof (induction xs arbitrary: x)
  case (Cons y ys)
  show ?case
  proof (cases "better y x")
    case True
    with Cons [of y] assms [of y x] show ?thesis by (auto intro: order.trans less_imp_le)
  next
    case False
    with Cons [of x] assms [of y x] show ?thesis by (auto intro: order.trans simp: not_less)
  qed
qed simp

lemma best_of_unique:
  assumes "\<And>a b. better a b \<longleftrightarrow> (rank a :: 'k :: linorder) < rank b" "\<And>a b. rank a = rank b \<Longrightarrow> a = b"
    "insert x (set xs) = insert y (set ys)"
  shows "best_of better x xs = best_of better y ys"
proof -
  let ?a = "best_of better x xs" and ?b = "best_of better y ys"
  have "rank ?a \<le> rank ?b" "rank ?b \<le> rank ?a"
    using best_of_rank [of better rank x xs, OF assms(1)] best_of_rank [of better rank y ys, OF assms(1)] assms(3) by auto
  then show ?thesis using assms(2) order.antisym by blast
qed

lemma worst_freshness_bound:
  assumes "s \<in> set items"
  shows "freshness_rank (worst_freshness items) \<le> freshness_rank (ap_freshness_status (sg_provenance s))"
proof -
  let ?l = "map (\<lambda>s. ap_freshness_status (sg_provenance s)) items"
  from assms have "ap_freshness_status (sg_provenance s) \<in> set ?l" by simp
  moreover have "worst_freshness items =
      best_of (\<lambda>a b. freshness_rank a < freshness_rank b) (case ?l of [] \<Rightarrow> AF_UNKNOWN | f # _ \<Rightarrow> f) ?l"
    by (simp only: worst_freshness_def Let_def)
  ultimately show ?thesis
    using best_of_rank [of "\<lambda>a b. freshness_rank a < freshness_rank b" freshness_rank
        "case ?l of [] \<Rightarrow> AF_UNKNOWN | f # _ \<Rightarrow> f" ?l]
    by auto
qed

lemma worst_severity_bound:
  "s \<in> set items \<Longrightarrow> severity_rank (worst_severity v items) \<le> severity_rank (sg_severity s)"
  using best_of_rank [of "\<lambda>a b. severity_rank a < severity_rank b" severity_rank v "map sg_severity items"]
  by (simp add: worst_severity_def)

section \<open>One group\<close>

lemma merge_oneD:
  assumes "merge_one collate items = Inr m"
  shows "items \<noteq> []" "mg_source_ids m = sort (map sg_id items)" "mg_merge_count m = length items"
    "mg_item_kind m = IK_Work" "sg_id m = hd (sort (map sg_id items))"
    "\<exists>s \<in> set items. sg_correlation_key m = sg_correlation_key s \<and> sg_category m = sg_category s"
    "sg_impact m = Max (sg_impact ` set items)" "sg_urgency m = Max (sg_urgency ` set items)"
    "\<exists>v. sg_severity m = worst_severity v items"
    "ap_freshness_status (sg_provenance m) = worst_freshness items"
    "ap_confidence (sg_provenance m) = Min ((\<lambda>s. ap_confidence (sg_provenance s)) ` set items)"
    "mg_source_freshness_status m = ap_freshness_status (sg_provenance m)"
proof -
  from assms obtain c r where c: "pick_canonical collate items = Inr c"
    and r: "merge_source collate items = Inr r" by (auto simp: merge_one_def)
  show ne: "items \<noteq> []"
    using c by (auto simp: pick_canonical_key)
  obtain s where s: "pick_canonical collate items = Inr s" "s \<in> set items"
    using ne by (rule pick_canonical_total)
  have "sort (map sg_id items) \<noteq> []" using ne by (metis length_sort length_map length_0_conv)
  then have hd: "(case sort (map sg_id items) of [] \<Rightarrow> sg_id c | i # _ \<Rightarrow> i) = hd (sort (map sg_id items))"
    by (cases "sort (map sg_id items)") simp_all
  note eq = assms [unfolded merge_one_def c r bindE_simps Let_def hd, THEN sum.inject(2) [THEN iffD1], symmetric]
  show "mg_source_ids m = sort (map sg_id items)" "mg_merge_count m = length items"
    "mg_item_kind m = IK_Work" "sg_id m = hd (sort (map sg_id items))"
    "sg_impact m = Max (sg_impact ` set items)" "sg_urgency m = Max (sg_urgency ` set items)"
    "\<exists>v. sg_severity m = worst_severity v items"
    "ap_freshness_status (sg_provenance m) = worst_freshness items"
    "ap_confidence (sg_provenance m) = Min ((\<lambda>s. ap_confidence (sg_provenance s)) ` set items)"
    "mg_source_freshness_status m = ap_freshness_status (sg_provenance m)"
    by (auto simp: eq)
  show "\<exists>s \<in> set items. sg_correlation_key m = sg_correlation_key s \<and> sg_category m = sg_category s"
    using s c by (auto simp: eq)
qed

text \<open>No member is more severe, more urgent, staler or less trusted than the merged signal says.\<close>

lemma merge_one_conservative:
  assumes "merge_one collate items = Inr m" "s \<in> set items"
  shows "sg_impact s \<le> sg_impact m" "sg_urgency s \<le> sg_urgency m"
    "severity_rank (sg_severity m) \<le> severity_rank (sg_severity s)"
    "freshness_rank (ap_freshness_status (sg_provenance m)) \<le> freshness_rank (ap_freshness_status (sg_provenance s))"
    "ap_confidence (sg_provenance m) \<le> ap_confidence (sg_provenance s)" "sg_id s \<in> set (mg_source_ids m)"
  using merge_oneD [OF assms(1)] assms(2) worst_severity_bound [of s items] worst_freshness_bound [of s items]
  by auto

section \<open>All groups\<close>

definition signal_class :: "attention_signal list \<Rightarrow> string \<Rightarrow> attention_signal list" where
  "signal_class xs k = filter (\<lambda>s. sg_correlation_key s = k) xs"

lemma mapE_total:
  assumes "\<And>x. x \<in> set xs \<Longrightarrow> f x = Inr (g x)"
  shows "mapE f xs = Inr (map g xs)"
  using assms by (induction xs) auto

text \<open>Merging never fails: it merges each class of the correlation key and sorts the results.\<close>

lemma merge_signals_total:
  obtains f where "\<And>k. k \<in> sg_correlation_key ` set xs \<Longrightarrow> merge_one collate (signal_class xs k) = Inr (f k)"
    "merge_signals collate xs =
       Inr (sort_key (\<lambda>m. collate (sg_id m)) (map f (unique_strings (map sg_correlation_key xs))))"
proof -
  have "\<exists>m. merge_one collate (signal_class xs k) = Inr m" if "k \<in> sg_correlation_key ` set xs" for k
  proof -
    from that have "signal_class xs k \<noteq> []" by (auto simp: signal_class_def filter_empty_conv)
    then obtain m where "merge_one collate (signal_class xs k) = Inr m" by (rule merge_one_total)
    then show ?thesis ..
  qed
  then obtain f where f: "\<And>k. k \<in> sg_correlation_key ` set xs \<Longrightarrow> merge_one collate (signal_class xs k) = Inr (f k)"
    by metis
  have "mapE (\<lambda>(_, g). merge_one collate g) (group_signals xs) =
      Inr (map (\<lambda>(k, _). f k) (group_signals xs))"
    by (rule mapE_total) (auto simp: group_signals_classes signal_class_def [symmetric] f)
  then have "merge_signals collate xs =
       Inr (sort_key (\<lambda>m. collate (sg_id m)) (map f (unique_strings (map sg_correlation_key xs))))"
    by (simp add: merge_signals_def group_signals_classes o_def)
  with f show thesis by (rule that)
qed

lemma merge_signals_ok: "\<exists>ms. merge_signals collate xs = Inr ms"
  by (rule merge_signals_total [of xs collate]) (rule exI)

lemma mset_classes:
  assumes "distinct ks" "\<And>x. x \<in> set xs \<Longrightarrow> key x \<in> set ks"
  shows "mset (concat (map (\<lambda>k. filter (\<lambda>x. key x = k) xs) ks)) = mset xs"
  using assms(2)
proof (induction xs)
  case (Cons x xs)
  have "mset (concat (map (\<lambda>k. filter (\<lambda>y. key y = k) (x # xs)) ls)) =
      (if key x \<in> set ls then {#x#} else {#}) + mset (concat (map (\<lambda>k. filter (\<lambda>y. key y = k) xs) ls))"
    if "distinct ls" for ls
    using that by (induction ls) auto
  from this [OF assms(1)] Cons show ?case by simp
qed (induction ks; simp)

lemma mset_concat_cong: "(\<And>x. x \<in> set xs \<Longrightarrow> mset (f x) = mset (g x)) \<Longrightarrow> mset (concat (map f xs)) = mset (concat (map g xs))"
  by (induction xs) auto

lemma mset_concat_mset: "mset xs = mset ys \<Longrightarrow> mset (concat (map f xs)) = mset (concat (map f ys))"
  by (metis mset_concat mset_map sum_mset_sum_list map_map)

lemma merge_signals_sources:
  assumes "merge_signals collate xs = Inr ms"
  shows "mset (concat (map mg_source_ids ms)) = mset (map sg_id xs)"
    "m \<in> set ms \<Longrightarrow> merge_one collate (signal_class xs (sg_correlation_key m)) = Inr m"
    "sg_correlation_key ` set ms = sg_correlation_key ` set xs" "distinct (map sg_correlation_key ms)"
proof -
  obtain f where f: "\<And>k. k \<in> sg_correlation_key ` set xs \<Longrightarrow> merge_one collate (signal_class xs k) = Inr (f k)"
    and ms: "ms = sort_key (\<lambda>m. collate (sg_id m)) (map f (unique_strings (map sg_correlation_key xs)))"
    using merge_signals_total [of xs collate] assms by (metis sum.inject(2))
  let ?ks = "unique_strings (map sg_correlation_key xs)"
  have key: "sg_correlation_key (f k) = k" if "k \<in> sg_correlation_key ` set xs" for k
    using merge_oneD(6) [OF f [OF that]] by (auto simp: signal_class_def)
  have src: "mset (mg_source_ids (f k)) = mset (map sg_id (filter (\<lambda>s. sg_correlation_key s = k) xs))"
    if "k \<in> set ?ks" for k
    using merge_oneD(2) [OF f [of k]] that by (simp add: signal_class_def)
  have "mset (concat (map mg_source_ids ms)) = mset (concat (map mg_source_ids (map f ?ks)))"
    unfolding ms by (rule mset_concat_mset) simp
  also have "\<dots> = mset (concat (map (\<lambda>k. map sg_id (filter (\<lambda>s. sg_correlation_key s = k) xs)) ?ks))"
    unfolding map_map o_def by (rule mset_concat_cong) (rule src)
  also have "\<dots> = mset (map sg_id (concat (map (\<lambda>k. filter (\<lambda>s. sg_correlation_key s = k) xs) ?ks)))"
    by (simp add: map_concat o_def)
  also have "\<dots> = mset (map sg_id xs)"
    using mset_classes [of ?ks xs sg_correlation_key] by (simp only: mset_map) simp
  finally show "mset (concat (map mg_source_ids ms)) = mset (map sg_id xs)" .
  show "merge_one collate (signal_class xs (sg_correlation_key m)) = Inr m" if "m \<in> set ms"
    using that by (auto simp: ms f key)
  show "sg_correlation_key ` set ms = sg_correlation_key ` set xs"
    by (auto simp: ms key image_image)
  have "map sg_correlation_key (map f ?ks) = ?ks"
    unfolding map_map by (rule map_idI) (simp add: key)
  then have "distinct (map sg_correlation_key (map f ?ks))" by (simp only: distinct_unique_strings)
  moreover have "mset (map sg_correlation_key ms) = mset (map sg_correlation_key (map f ?ks))"
    by (simp only: ms mset_map mset_sort)
  ultimately show "distinct (map sg_correlation_key ms)" by (metis mset_eq_imp_distinct_iff)
qed

section \<open>Order of the members\<close>

lemma sort_key_mset_eq:
  assumes "mset xs = mset ys" "inj_on (key :: 'a \<Rightarrow> 'k :: linorder) (set xs)"
  shows "sort_key key xs = sort_key key ys"
  by (rule sort_key_inj_key_eq) (use assms in simp_all)

lemma merge_evidence_mset:
  assumes "mset xs = mset ys" "inj_on (\<lambda>s. collate (sg_id s)) (set xs)"
  shows "merge_evidence collate xs = merge_evidence collate ys"
  by (simp add: merge_evidence_def sort_key_mset_eq [OF assms])

lemma pick_canonical_mset:
  assumes "mset xs = mset ys" "inj_on (\<lambda>s. collate (sg_id s)) (set xs)"
  shows "pick_canonical collate xs = pick_canonical collate ys"
proof -
  have "inj_on (canonical_rank collate) (set xs)"
    using assms(2) by (auto simp: inj_on_def canonical_rank_def)
  from sort_key_mset_eq [OF assms(1) this] show ?thesis by (simp add: pick_canonical_key)
qed

lemma sort_mset_eq: "mset xs = mset ys \<Longrightarrow> sort xs = sort (ys :: 'a :: linorder list)"
  by (rule sort_key_mset_eq) auto

lemma length_unique_mset: "set xs = set ys \<Longrightarrow> length (unique_strings xs) = length (unique_strings ys)"
  by (metis distinct_card distinct_unique_strings set_unique_strings)

lemma merge_source_mset:
  assumes "mset xs = mset ys" "inj_on (\<lambda>s. collate (sg_id s)) (set xs)"
  shows "merge_source collate xs = merge_source collate ys"
proof -
  have "sort (map (\<lambda>s. as_locator (ap_source (sg_provenance s))) xs)
      = sort (map (\<lambda>s. as_locator (ap_source (sg_provenance s))) ys)"
    by (rule sort_mset_eq) (simp add: assms(1))
  moreover have "length (unique_strings (map (\<lambda>s. as_system (ap_source (sg_provenance s))) xs))
      = length (unique_strings (map (\<lambda>s. as_system (ap_source (sg_provenance s))) ys))"
    by (rule length_unique_mset) (simp add: mset_eq_setD [OF assms(1)])
  ultimately show ?thesis by (simp only: merge_source_def pick_canonical_mset [OF assms])
qed

lemma merge_related_set: "set xs = set ys \<Longrightarrow> merge_related xs = merge_related ys"
  unfolding merge_related_def
  by (rule sort_mset_eq) (simp add: set_eq_iff_mset_eq_distinct [symmetric])

lemma insert_head: "xs \<noteq> [] \<Longrightarrow> insert (case map f xs of [] \<Rightarrow> d | x # _ \<Rightarrow> x) (set (map f xs)) = f ` set xs"
  by (cases xs) auto

lemma worst_freshness_set:
  assumes "set xs = set ys"
  shows "worst_freshness xs = worst_freshness ys"
proof (cases "xs = []")
  case False
  with assms have "ys \<noteq> []" by auto
  then show ?thesis
    unfolding worst_freshness_def Let_def
    by (intro best_of_unique [of _ freshness_rank])
      (simp_all only: insert_head [OF False] insert_head freshness_rank_eq_iff assms not_False_eq_True)
qed (use assms in simp)

lemma latest_observed_set:
  assumes "set xs = set ys"
  shows "latest_observed xs = latest_observed ys"
proof (cases "xs = []")
  case False
  have "best_of (\<lambda>a b. b < a) t ts = fold max ts t" for t and ts :: "string list"
    by (induction ts arbitrary: t) (auto simp: max_def)
  then have eq: "best_of (\<lambda>a b. b < a) t ts = Max (insert t (set ts))" for t and ts :: "string list"
    by (simp add: Max.set_eq_fold [symmetric])
  from False assms have "ys \<noteq> []" by auto
  then show ?thesis
    unfolding latest_observed_def Let_def eq by (simp only: insert_head [OF False] insert_head assms not_False_eq_True)
qed (use assms in simp)

lemma worst_severity_set: "set xs = set ys \<Longrightarrow> worst_severity v xs = worst_severity v ys"
  unfolding worst_severity_def by (rule best_of_unique [of _ severity_rank]) auto

text \<open>All values that are present agree.\<close>

definition agree :: "('a \<Rightarrow> 'b option) \<Rightarrow> 'a list \<Rightarrow> bool" where
  "agree f items \<longleftrightarrow> list_all (\<lambda>x. list_all (\<lambda>y. f x = None \<or> f y = None \<or> f x = f y) items) items"

lemma first_present_set:
  assumes "set xs = set ys" "agree f xs"
  shows "first_present f xs = first_present f ys"
proof (cases "List.find (\<lambda>s. f s \<noteq> None) xs")
  case None
  with assms have "List.find (\<lambda>s. f s \<noteq> None) ys = None" by (auto simp: find_None_iff)
  with None show ?thesis by (simp add: first_present_def)
next
  case (Some s)
  then have s: "s \<in> set xs" "f s \<noteq> None" using find_Some_in by fastforce+
  with assms have "List.find (\<lambda>s. f s \<noteq> None) ys \<noteq> None" by (auto simp: find_None_iff)
  then obtain t where t: "List.find (\<lambda>s. f s \<noteq> None) ys = Some t" by auto
  then have "t \<in> set ys" "f t \<noteq> None" using find_Some_in by fastforce+
  moreover from this(1) s(1) assms have "f s = None \<or> f t = None \<or> f s = f t"
    by (auto simp: agree_def list_all_iff)
  ultimately have "f s = f t" using s(2) by metis
  with Some t show ?thesis by (simp add: first_present_def)
qed

lemma merge_one_mset:
  assumes "mset xs = mset ys" "inj_on (\<lambda>s. collate (sg_id s)) (set xs)"
    "agree sg_money xs" "agree (\<lambda>s. ap_freshness_window_seconds (sg_provenance s)) xs"
  shows "merge_one collate xs = merge_one collate ys"
proof -
  have set: "set xs = set ys" using assms(1) by (rule mset_eq_setD)
  have "sort (map sg_id xs) = sort (map sg_id ys)" by (rule sort_mset_eq) (simp add: assms(1))
  moreover have "length xs = length ys" using assms(1) by (rule mset_eq_length)
  ultimately show ?thesis
    unfolding merge_one_def set_map
    by (simp only: pick_canonical_mset [OF assms(1,2)] merge_source_mset [OF assms(1,2)]
        merge_evidence_mset [OF assms(1,2)] worst_freshness_set [OF set] latest_observed_set [OF set]
        worst_severity_set [OF set] merge_related_set [OF set] first_present_set [OF set assms(3)]
        first_present_set [OF set assms(4)] set)
qed

lemma merge_one_id: "merge_one collate items = Inr m \<Longrightarrow> \<exists>s \<in> set items. sg_id m = sg_id s"
proof -
  assume m: "merge_one collate items = Inr m"
  then have "sort (map sg_id items) \<noteq> []" using merge_oneD(1) by (metis length_sort length_map length_0_conv)
  then have "hd (sort (map sg_id items)) \<in> set (sort (map sg_id items))" by (rule hd_in_set)
  with merge_oneD(5) [OF m] show ?thesis by auto
qed

lemma merge_signals_mset:
  assumes mset: "mset xs = mset ys" and inj: "inj_on (\<lambda>s. collate (sg_id s)) (set xs)"
    and agree: "\<And>k. agree sg_money (signal_class xs k)"
      "\<And>k. agree (\<lambda>s. ap_freshness_window_seconds (sg_provenance s)) (signal_class xs k)"
  shows "merge_signals collate xs = merge_signals collate ys"
proof -
  have set: "set xs = set ys" using mset by (rule mset_eq_setD)
  let ?kx = "unique_strings (map sg_correlation_key xs)" and ?ky = "unique_strings (map sg_correlation_key ys)"
  obtain f where f: "\<And>k. k \<in> sg_correlation_key ` set xs \<Longrightarrow> merge_one collate (signal_class xs k) = Inr (f k)"
    and fx: "merge_signals collate xs = Inr (sort_key (\<lambda>m. collate (sg_id m)) (map f ?kx))"
    using merge_signals_total [of xs collate] by blast
  obtain g where g: "\<And>k. k \<in> sg_correlation_key ` set ys \<Longrightarrow> merge_one collate (signal_class ys k) = Inr (g k)"
    and gy: "merge_signals collate ys = Inr (sort_key (\<lambda>m. collate (sg_id m)) (map g ?ky))"
    using merge_signals_total [of ys collate] by blast
  have "merge_one collate (signal_class xs k) = merge_one collate (signal_class ys k)" for k
    by (rule merge_one_mset)
      (use mset inj agree in \<open>auto simp: signal_class_def mset_filter intro: inj_on_subset\<close>)
  with f g set have fg: "f k = g k" if "k \<in> set ?ky" for k
    using that by (metis set_unique_strings set_map sum.inject(2))
  have "mset ?kx = mset ?ky"
    by (simp add: set_eq_iff_mset_eq_distinct [symmetric] set)
  moreover have "map f ?ky = map g ?ky" by (rule map_cong) (simp_all only: fg)
  ultimately have eq: "mset (map f ?kx) = mset (map g ?ky)" by (metis mset_map)
  have id: "\<exists>s \<in> set xs. sg_id (f k) = sg_id s \<and> sg_correlation_key s = k" if "k \<in> set ?kx" for k
    using merge_one_id [OF f [of k]] that by (auto simp: signal_class_def)
  have "k = l" if kl: "k \<in> set ?kx" "l \<in> set ?kx" and same: "collate (sg_id (f k)) = collate (sg_id (f l))" for k l
  proof -
    obtain s t where "s \<in> set xs" "sg_id (f k) = sg_id s" "sg_correlation_key s = k"
      "t \<in> set xs" "sg_id (f l) = sg_id t" "sg_correlation_key t = l"
      using id [OF kl(1)] id [OF kl(2)] by blast
    with same inj_onD [OF inj, of s t] show ?thesis by simp
  qed
  then have "inj_on (\<lambda>m. collate (sg_id m)) (set (map f ?kx))"
    by (fastforce simp: inj_on_def)
  from sort_key_mset_eq [OF eq this] show ?thesis by (simp only: fx gy)
qed

end
