(* ===== verification/Attention_Rank_Laws.thy ===== *)
theory Attention_Rank_Laws
  imports Attention_Rank Attention_Merge_Laws
begin

text \<open>
  The laws of the ranking: what the diverse choice picks, how the total order shapes the two lists, what
  an override does to them, the bounds of the score, and the reason text with its decomposition.
\<close>

section \<open>Diverse choice\<close>

text \<open>Which index an iteration takes.\<close>

lemma next_diverse_Some:
  assumes "next_diverse domain ordered picked used = Some i"
  shows "i < length ordered" "i \<notin> set used"
    "domain (ordered ! i) \<in> set (map domain picked) \<Longrightarrow>
       j < length ordered \<Longrightarrow> j \<notin> set used \<Longrightarrow> domain (ordered ! j) \<in> set (map domain picked)"
proof -
  let ?p = "\<lambda>i. i \<notin> set used \<and> domain (ordered ! i) \<notin> set (map domain picked)"
  consider (new) "List.find ?p [0..<length ordered] = Some i"
    | (again) "List.find ?p [0..<length ordered] = None" "List.find (\<lambda>i. i \<notin> set used) [0..<length ordered] = Some i"
    using assms by (auto simp: next_diverse_def split: option.splits)
  note cases = this
  show "i < length ordered"
    by (rule cases) (auto dest: find_Some_in)
  show "i \<notin> set used"
    by (rule cases) (auto dest: find_Some_in)
  show "domain (ordered ! j) \<in> set (map domain picked)"
    if "domain (ordered ! i) \<in> set (map domain picked)" "j < length ordered" "j \<notin> set used"
    by (rule cases) (use that in \<open>auto dest: find_Some_in simp: find_None_iff\<close>)
qed

lemma next_diverse_None:
  "next_diverse domain ordered picked used = None \<Longrightarrow> j < length ordered \<Longrightarrow> j \<in> set used"
  by (auto simp: next_diverse_def find_None_iff split: option.splits)

text \<open>The state of the loop: the picked items are those at the used indices, and a domain is picked
  again only when every domain is.\<close>

definition diverse_state :: "('a \<Rightarrow> 'd) \<Rightarrow> 'a list \<Rightarrow> 'a list \<Rightarrow> nat list \<Rightarrow> bool" where
  "diverse_state domain ordered picked used \<longleftrightarrow>
     picked = map (\<lambda>i. ordered ! i) used \<and> distinct used \<and> set used \<subseteq> {..<length ordered}
     \<and> (distinct (map domain picked) \<or> domain ` set ordered \<subseteq> domain ` set picked)"

lemma diverse_state_step:
  assumes st: "diverse_state domain ordered picked used"
    and next_i: "next_diverse domain ordered picked used = Some i"
  shows "diverse_state domain ordered (picked @ [ordered ! i]) (used @ [i])"
proof -
  note n = next_diverse_Some [OF next_i]
  have "distinct (map domain (picked @ [ordered ! i])) \<or>
      domain ` set ordered \<subseteq> domain ` set (picked @ [ordered ! i])"
  proof (cases "domain (ordered ! i) \<in> set (map domain picked)")
    case True
    have "domain x \<in> domain ` set picked" if "x \<in> set ordered" for x
    proof -
      from that obtain j where j: "j < length ordered" "x = ordered ! j" by (auto simp: in_set_conv_nth)
      show ?thesis
      proof (cases "j \<in> set used")
        case True
        with st j show ?thesis by (auto simp: diverse_state_def)
      next
        case False
        with n(3) [OF True j(1)] j(2) show ?thesis by simp
      qed
    qed
    then show ?thesis by auto
  next
    case False
    with st show ?thesis by (auto simp: diverse_state_def)
  qed
  with st n(1,2) show ?thesis by (simp add: diverse_state_def)
qed

lemma diverse_loop_result:
  assumes "diverse_state domain ordered picked used" "length picked \<le> n"
  shows "\<exists>us. diverse_state domain ordered (diverse_loop domain ordered n picked used) us
     \<and> length us = min n (length ordered) \<and> take (length used) us = used"
  using assms
proof (induction domain ordered n picked used rule: diverse_loop.induct)
  case (1 domain ordered n picked used)
  have len: "length picked = length used" using "1.prems"(1) by (simp add: diverse_state_def)
  have le: "length used \<le> length ordered"
    using "1.prems"(1) card_mono [of "{..<length ordered}" "set used"]
    by (simp add: diverse_state_def distinct_card)
  show ?case
  proof (cases "length picked < n")
    case False
    with "1.prems" len le show ?thesis
      by (subst diverse_loop.simps) (auto intro!: exI [of _ used])
  next
    case True
    show ?thesis
    proof (cases "next_diverse domain ordered picked used")
      case None
      then have "{..<length ordered} \<subseteq> set used" by (auto dest: next_diverse_None)
      with "1.prems"(1) have "length used = length ordered"
        by (auto simp: diverse_state_def distinct_card [symmetric] dest: antisym)
      with None True "1.prems" len show ?thesis
        by (subst diverse_loop.simps) (auto intro!: exI [of _ used])
    next
      case (Some i)
      have loop: "diverse_loop domain ordered n picked used =
          diverse_loop domain ordered n (picked @ [ordered ! i]) (used @ [i])"
        using True Some by (subst diverse_loop.simps) simp
      from True have "length (picked @ [ordered ! i]) \<le> n" by simp
      from "1.IH" [OF True Some diverse_state_step [OF "1.prems"(1) Some] this]
      obtain us where us: "diverse_state domain ordered (diverse_loop domain ordered n picked used) us"
        "length us = min n (length ordered)" "take (length (used @ [i])) us = used @ [i]"
        unfolding loop by blast
      from us(3) have "take (length used) us = used"
        by (metis append_eq_conv_conj length_append take_add take_take min.absorb1 le_add1)
      with us(1,2) show ?thesis by blast
    qed
  qed
qed

lemma diverse_top_n_result:
  obtains us where "diverse_state domain ordered (diverse_top_n domain ordered n) us"
    "length us = min (nat n) (length ordered)"
  using diverse_loop_result [of domain ordered "[]" "[]" "nat n"]
  by (cases "n \<le> 0") (auto simp: diverse_top_n_def diverse_state_def)

lemma diverse_top_n_length [simp]: "length (diverse_top_n domain ordered n) = min (nat n) (length ordered)"
  by (rule diverse_top_n_result [of domain ordered n]) (simp add: diverse_state_def)

lemma diverse_top_n_subset: "set (diverse_top_n domain ordered n) \<subseteq> set ordered"
  by (rule diverse_top_n_result [of domain ordered n]) (auto simp: diverse_state_def)

lemma diverse_top_n_diverse:
  "distinct (map domain (diverse_top_n domain ordered n)) \<or>
     domain ` set ordered \<subseteq> domain ` set (diverse_top_n domain ordered n)"
  by (rule diverse_top_n_result [of domain ordered n]) (auto simp: diverse_state_def)

lemma diverse_top_n_distinct: "distinct ordered \<Longrightarrow> distinct (diverse_top_n domain ordered n)"
proof (rule diverse_top_n_result [of domain ordered n])
  fix us
  assume "distinct ordered" and st: "diverse_state domain ordered (diverse_top_n domain ordered n) us"
  then have "inj_on ((!) ordered) (set us)"
    by (intro inj_on_nth) (auto simp: diverse_state_def)
  with st show "distinct (diverse_top_n domain ordered n)" by (simp add: diverse_state_def distinct_map)
qed

lemma diverse_top_n_head:
  assumes "0 < n" "ordered \<noteq> []"
  shows "hd (diverse_top_n domain ordered n) = hd ordered"
proof -
  have up: "[0..<length ordered] = 0 # [1..<length ordered]" using assms(2) by (simp add: upt_conv_Cons)
  have "next_diverse domain ordered [] [] = Some 0" by (simp add: next_diverse_def up)
  then have loop: "diverse_top_n domain ordered n = diverse_loop domain ordered (nat n) [ordered ! 0] [0]"
    using assms(1) by (simp add: diverse_top_n_def) (subst diverse_loop.simps, simp)
  have "diverse_state domain ordered [ordered ! 0] [0]" using assms(2) by (simp add: diverse_state_def)
  moreover have "length [ordered ! 0] \<le> nat n" using assms(1) by simp
  ultimately obtain us where us: "diverse_state domain ordered (diverse_top_n domain ordered n) us"
      "take (length [0 :: nat]) us = [0]"
    using diverse_loop_result unfolding loop by blast
  then obtain vs where "us = 0 # vs" by (cases us) auto
  with us(1) assms(2) show ?thesis by (simp add: diverse_state_def hd_conv_nth)
qed

section \<open>Score\<close>

lemma js_round_range:
  assumes "0 \<le> x" "x \<le> of_int n"
  shows "0 \<le> js_round x \<and> js_round x \<le> n"
  using assms by (auto simp: js_round_def floor_le_iff le_floor_iff)

lemma div_mult_bound: "0 \<le> a \<Longrightarrow> 0 \<le> b \<Longrightarrow> b \<le> d \<Longrightarrow> 0 < d \<Longrightarrow> (a * b) div d \<le> (a :: int)"
  by (metis mult_left_mono zdiv_mono1 nonzero_mult_div_cancel_right less_irrefl)

lemma build_breakdown_score:
  assumes c: "valid_config c" "0 \<le> sc_urgency_weight_bp c"
    and range: "0 \<le> sj_impact s" "sj_impact s \<le> 100" "0 \<le> sj_urgency s" "sj_urgency s \<le> 100"
    and conf: "0 \<le> ap_confidence (sj_provenance s)" "ap_confidence (sj_provenance s) \<le> 1"
  shows "0 \<le> sb_score_milli (build_breakdown s c k)"
    "sb_score_milli (build_breakdown s c k) \<le> 1000 * sb_raw (build_breakdown s c k)"
    "sb_raw (build_breakdown s c k) \<le> 100 * sc_category_weights c (sj_category s)"
proof -
  let ?axis = "sc_impact_weight_bp c * sj_impact s + sc_urgency_weight_bp c * sj_urgency s"
  let ?w = "sc_category_weights c (sj_category s)" and ?f = "sc_freshness_bp c (ap_freshness_status (sj_provenance s))"
  let ?cf = "js_round (ap_confidence (sj_provenance s) * 10000)"
  note v = valid_configD [OF c(1)]
  have axis: "0 \<le> ?axis" "?axis \<le> 1000000"
  proof -
    show "0 \<le> ?axis" using v(2) c(2) range by simp
    have "?axis \<le> sc_impact_weight_bp c * 100 + sc_urgency_weight_bp c * 100"
      using v(2) c(2) range by (intro add_mono mult_left_mono) auto
    with v(1) show "?axis \<le> 1000000" by simp
  qed
  have w: "0 \<le> ?w" "0 \<le> ?f" "?f \<le> 10000" using v by auto
  have cf: "0 \<le> ?cf" "?cf \<le> 10000" using js_round_range [of "ap_confidence (sj_provenance s) * 10000" 10000] conf by auto
  let ?raw = "(?w * ?axis) div 10000"
  have raw: "0 \<le> ?raw" using axis w by (simp add: pos_imp_zdiv_nonneg_iff)
  have "?raw \<le> (?w * 1000000) div 10000" using axis w by (intro zdiv_mono1 mult_left_mono) auto
  also have "\<dots> = ?w * 100" by simp
  finally show "sb_raw (build_breakdown s c k) \<le> 100 * ?w"
    by (simp add: build_breakdown_def Let_def weight_denom_def)
  have "sb_score_milli (build_breakdown s c k) = (?raw * 1000 * ?f * ?cf) div (10000 * 10000)"
    by (simp only: build_breakdown_def Let_def weight_denom_def score_milli_from_breakdown_def score_scale_def
        score_breakdown.simps of_int_numeral)
  also have "?raw * 1000 * ?f * ?cf = ?raw * 1000 * (?f * ?cf)" by (rule mult.assoc)
  finally have milli: "sb_score_milli (build_breakdown s c k) = (?raw * 1000 * (?f * ?cf)) div 100000000" by simp
  have "?f * ?cf \<le> 10000 * 10000" using w cf by (intro mult_mono) auto
  then have "(?raw * 1000 * (?f * ?cf)) div 100000000 \<le> ?raw * 1000"
    using raw w cf by (intro div_mult_bound) auto
  then show "sb_score_milli (build_breakdown s c k) \<le> 1000 * sb_raw (build_breakdown s c k)"
    unfolding milli by (simp add: build_breakdown_def Let_def weight_denom_def)
  show "0 \<le> sb_score_milli (build_breakdown s c k)"
    unfolding milli using raw w cf by (simp add: pos_imp_zdiv_nonneg_iff)
qed

lemma build_breakdown_reconstructs:
  "score_milli_from_breakdown (build_breakdown s c k) = sb_score_milli (build_breakdown s c k)"
  by (simp add: build_breakdown_def Let_def score_milli_from_breakdown_def)

section \<open>The two lists\<close>

lemma length_rank_items [simp]: "length (rank_items xs hz) = length xs"
  by (simp add: rank_items_def)

lemma nth_rank_items: "i < length xs \<Longrightarrow> rank_items xs hz ! i = to_ranked_item (xs ! i) (i + 1) hz"
  by (simp add: rank_items_def nth_enumerate_eq)

lemma map_rank_items:
  assumes "\<And>x n. f (to_ranked_item x n hz) = g x"
  shows "map f (rank_items xs hz) = map g xs"
  by (rule nth_equalityI) (simp_all add: nth_rank_items assms)

lemma rank_items_ids [simp]: "map rk_id (rank_items xs hz) = map cd_id xs"
  and rank_items_domains [simp]: "map rk_domain (rank_items xs hz) = map cd_domain xs"
  and rank_items_forced [simp]: "map rk_forced_by_kill_rule (rank_items xs hz) = map cd_forced_by_kill_rule xs"
  by (rule map_rank_items, simp add: to_ranked_item_def)+

lemma rank_items_ranks: "map rk_rank (rank_items xs hz) = [1..<Suc (length xs)]"
  by (rule nth_equalityI) (simp_all add: nth_rank_items to_ranked_item_def del: upt_Suc)

lemma set_rank_items:
  assumes "\<And>x n. f (to_ranked_item x n hz) = g x"
  shows "f ` set (rank_items xs hz) = g ` set xs"
  using map_rank_items [of f hz g xs, OF assms] by (metis set_map)

lemma sorted_rank_items:
  assumes "sorted_wrt P xs" "\<And>x y m n. P x y \<Longrightarrow> Q (to_ranked_item x m hz) (to_ranked_item y n hz)"
  shows "sorted_wrt Q (rank_items xs hz)"
  using assms by (auto simp: sorted_wrt_iff_nth_less nth_rank_items)

lemma rank_attentionD:
  assumes "rank_attention E input = Inr out"
  obtains cs nw today audit where "ordered_candidates E input = Inr cs"
    "apply_override (take (nat (sc_atencao_agora_limit (ri_config input))) cs)
       (diverse_top_n cd_domain cs (sc_today_limit (ri_config input))) cs (ri_override input) (ri_config input)
     = (nw, today, audit)"
    "ro_attention_now out = rank_items nw HZ_Now" "ro_today out = rank_items today HZ_Today" "ro_audit out = audit"
proof -
  from assms obtain cs where cs: "ordered_candidates E input = Inr cs"
    by (auto simp: rank_attention_def Let_def)
  obtain nw today audit where ov: "apply_override (take (nat (sc_atencao_agora_limit (ri_config input))) cs)
       (diverse_top_n cd_domain cs (sc_today_limit (ri_config input))) cs (ri_override input) (ri_config input)
     = (nw, today, audit)" using prod_cases3 by blast
  have out: "out = \<lparr>ro_generated_at = ri_clock_now input, ro_provenance = engine_provenance (ri_clock_now input),
      ro_config_fingerprint = fingerprint_config E (ri_config input), ro_attention_now = rank_items nw HZ_Now,
      ro_today = rank_items today HZ_Today, ro_audit = audit\<rparr>"
    using assms by (simp only: rank_attention_def Let_def cs bindE_simps ov prod.case sum.inject)
  show thesis by (rule that [OF cs ov]) (simp_all add: out)
qed

lemma ordered_candidates_total: "\<exists>cs. ordered_candidates E input = Inr cs"
proof -
  let ?xs = "filter (\<lambda>s. sg_status s \<in> set (sc_eligible_statuses (ri_config input))) (ri_signals input)"
  obtain ms where "merge_signals (ae_collate E) ?xs = Inr ms"
    using merge_signals_ok [of "ae_collate E" ?xs] by (elim exE)
  then show ?thesis by (simp add: ordered_candidates_def Let_def)
qed

lemma rank_attention_total: "\<exists>out. rank_attention E input = Inr out"
proof -
  obtain cs where "ordered_candidates E input = Inr cs" using ordered_candidates_total by blast
  then show ?thesis by (cases "apply_override (take (nat (sc_atencao_agora_limit (ri_config input))) cs)
    (diverse_top_n cd_domain cs (sc_today_limit (ri_config input))) cs (ri_override input) (ri_config input)")
      (simp add: rank_attention_def Let_def)
qed

lemma ordered_candidates_sorted:
  "ordered_candidates E input = Inr cs \<Longrightarrow> sorted_wrt (\<lambda>a b. attention_rank a \<le> attention_rank b) cs"
  by (auto simp: ordered_candidates_def Let_def sort_candidates_sorted)

end
