(* ===== verification/Attention_Reason.thy ===== *)
theory Attention_Reason
  imports Attention_Rank
begin

text \<open>
  The reason text of an item and its decomposition: no plain note can be taken for the score sentence,
  the score sentence is found where it starts, and trimming takes away the joining blank only.
\<close>

section \<open>A mark of the score sentence\<close>

text \<open>\<open>Sc\<close> starts the score sentence and occurs in no plain note.\<close>

fun has_sc :: "string \<Rightarrow> bool" where
  "has_sc (a # b # s) \<longleftrightarrow> a = CHR ''S'' \<and> b = CHR ''c'' \<or> has_sc (b # s)"
| "has_sc _ \<longleftrightarrow> False"

lemma has_sc_append:
  "has_sc (s @ t) \<longleftrightarrow>
     has_sc s \<or> has_sc t \<or> (s \<noteq> [] \<and> t \<noteq> [] \<and> last s = CHR ''S'' \<and> hd t = CHR ''c'')"
proof (induction s)
  case (Cons c s)
  then show ?case by (cases s; cases t) auto
qed simp

lemma no_sc_here: "\<not> has_sc (s @ t) \<Longrightarrow> s @ t \<noteq> [] \<Longrightarrow> \<not> score_sentence_here (s @ t)"
  by (cases "s @ t" rule: has_sc.cases) (auto simp: score_sentence_here_def starts_with_def)

lemma score_sentence_sc: "score_sentence_here s \<Longrightarrow> \<exists>t. s = CHR ''S'' # CHR ''c'' # t"
  by (cases s rule: has_sc.cases) (auto simp: score_sentence_here_def starts_with_def)

text \<open>The search passes over a prefix without the mark.\<close>

lemma score_sentence_index_skip:
  assumes "\<not> has_sc s" "s = [] \<or> last s \<noteq> CHR ''S''" "score_sentence_here t" "t \<noteq> []"
  shows "score_sentence_index (s @ t) = Some (length s)"
  using assms(1,2)
proof (induction s)
  case Nil
  from assms(3,4) show ?case by (cases t) auto
next
  case (Cons c s)
  have "\<not> score_sentence_here (c # s @ t)"
  proof
    assume "score_sentence_here (c # s @ t)"
    then obtain u where "c # s @ t = CHR ''S'' # CHR ''c'' # u" using score_sentence_sc by blast
    with Cons.prems show False by (cases s) auto
  qed
  moreover have "\<not> has_sc s" using Cons.prems(1) by (cases s) auto
  moreover have "s = [] \<or> last s \<noteq> CHR ''S''" using Cons.prems(2) by auto
  ultimately show ?case using Cons.IH by simp
qed

section \<open>Digits\<close>

lemma digits_no_sc: "list_all is_digit s \<Longrightarrow> \<not> has_sc s"
  by (induction s rule: has_sc.induct) (auto simp: is_digit_def)

lemma digits_ends: "list_all is_digit s \<Longrightarrow> s \<noteq> [] \<Longrightarrow> is_digit (hd s) \<and> is_digit (last s)"
  by (auto simp: list_all_iff)

lemma digit_neq [simp]: "is_digit c \<Longrightarrow> c \<noteq> CHR ''S''" "is_digit c \<Longrightarrow> c \<noteq> CHR ''c''"
  by (auto simp: is_digit_def)

lemma show_int_no_sc: "\<not> has_sc (show_int n)"
  using show_nat_digits digits_no_sc by (auto simp: show_int_def has_sc_append [of "[CHR ''-'']", simplified])

lemma show_int_ends: "show_int n \<noteq> [] \<and> last (show_int n) \<noteq> CHR ''S'' \<and> hd (show_int n) \<noteq> CHR ''c''"
proof (cases "n < 0")
  case True
  then show ?thesis
    using show_nat_digits [of "nat (- n)"] digits_ends [of "show_nat (nat (- n))"] by (auto simp: show_int_def)
next
  case False
  then show ?thesis
    using show_nat_digits [of "nat n"] digits_ends [of "show_nat (nat n)"] by (auto simp: show_int_def)
qed

lemma pad_start_no_sc: "list_all is_digit s \<Longrightarrow> list_all is_digit (pad_start n s)"
  by (auto simp: pad_start_def list_all_iff is_digit_def set_replicate_conv_if)

lemma show_int_nonneg: "0 \<le> n \<Longrightarrow> list_all is_digit (show_int n)"
  using show_nat_digits by (simp add: show_int_def)

lemma length_show_nat: "n < 10 ^ k \<Longrightarrow> 0 < k \<Longrightarrow> length (show_nat n) \<le> k"
proof (induction k arbitrary: n)
  case (Suc k)
  show ?case
  proof (cases "n < 10")
    case False
    with Suc.prems have "n div 10 < 10 ^ k" "0 < k" by (auto intro: Suc_le_lessD ccontr)
    with Suc.IH [of "n div 10"] False show ?thesis by (subst show_nat.simps) simp
  qed (subst show_nat.simps, simp)
qed simp

lemma pad_three:
  assumes "0 \<le> n" "n < 1000"
  shows "length (pad_start 3 (show_int n)) = 3" "list_all is_digit (pad_start 3 (show_int n))"
proof -
  have "length (show_int n) \<le> 3" using assms length_show_nat [of "nat n" 3] by (simp add: show_int_def)
  then show "length (pad_start 3 (show_int n)) = 3" by (simp add: pad_start_def)
  show "list_all is_digit (pad_start 3 (show_int n))"
    by (rule pad_start_no_sc) (rule show_int_nonneg [OF assms(1)])
qed

section \<open>The score sentence\<close>

lemma score_sentence_start:
  assumes "0 \<le> m" "m < 1000"
  shows "score_sentence_here (''Score '' @ show_int n @ ''.'' @ pad_start 3 (show_int m) @ '' = peso_categoria '' @ t)"
proof -
  define d p where "d = show_nat (nat \<bar>n\<bar>)" and "p = pad_start 3 (show_int m)"
  have d: "list_all is_digit d" "d \<noteq> []" using show_nat_digits by (simp_all add: d_def)
  have p: "list_all is_digit p" "length p = 3" using pad_three [OF assms] by (simp_all add: p_def)
  then obtain x y z where xyz: "p = [x, y, z]" by (metis length_Suc_conv length_0_conv numeral_3_eq_3)
  have n: "show_int n = (if n < 0 then CHR ''-'' # d else d)" by (simp add: show_int_def d_def)
  have dot: "takeWhile is_digit (d @ CHR ''.'' # s) = d" "dropWhile is_digit (d @ CHR ''.'' # s) = CHR ''.'' # s" for s
    using d by (simp_all add: takeWhile_append2 dropWhile_append2 list_all_iff is_digit_def)
  obtain c d' where cd: "d = c # d'" "is_digit c" using d by (cases d) auto
  then have "c \<noteq> CHR ''-''" by (auto simp: is_digit_def)
  then have "(if starts_with (show_int n @ s) ''-'' then drop 1 (show_int n @ s) else show_int n @ s) = d @ s" for s
    by (simp add: n starts_with_def cd)
  note strip = this
  let ?r = "CHR ''.'' # p @ '' = peso_categoria '' @ t"
  have "starts_with (''Score '' @ show_int n @ ?r) ''Score ''" "drop 6 (''Score '' @ show_int n @ ?r) = show_int n @ ?r"
    by (simp_all add: starts_with_def)
  then have "score_sentence_here (''Score '' @ show_int n @ ?r)"
    unfolding score_sentence_here_def Let_def
    by (simp only: strip dot) (use d p xyz in \<open>simp add: starts_with_def\<close>)
  then show ?thesis by (simp add: p_def)
qed

lemma score_formula_here: "score_sentence_here (build_score_formula b hz @ t)"
  using score_sentence_start [of "\<bar>sb_score_milli b\<bar> mod 1000" "sb_score_milli b div 1000"]
  by (simp add: build_score_formula_def format_score_def del: append_Cons)

section \<open>The plain notes\<close>

definition plain_note :: "string \<Rightarrow> bool" where
  "plain_note s \<longleftrightarrow> \<not> has_sc s \<and> s \<noteq> [] \<and> hd s \<noteq> CHR ''c'' \<and> \<not> js_space (hd s) \<and> last s = CHR ''.''"

lemmas mark_append = has_sc_append append_is_Nil_conv hd_append last_append

lemma to_fixed2_text: "\<not> has_sc (to_fixed2 n) \<and> to_fixed2 n \<noteq> [] \<and> last (to_fixed2 n) \<noteq> CHR ''S'' \<and> hd (to_fixed2 n) \<noteq> CHR ''c''"
proof (cases "n = 0")
  case True
  then show ?thesis by (simp add: to_fixed2_def)
next
  case False
  define w f where "w = (let k = double_scale 14 n 52 in
      (200 * ((2 * n * 2 ^ k + 10000) div 20000) + 2 ^ k) div (2 ^ (k + 1)) div 100)"
    and "f = pad_start 2 (show_int ((let k = double_scale 14 n 52 in
      (200 * ((2 * n * 2 ^ k + 10000) div 20000) + 2 ^ k) div (2 ^ (k + 1))) mod 100))"
  have eq: "to_fixed2 n = show_int w @ ''.'' @ f" using False by (simp add: to_fixed2_def w_def f_def Let_def)
  have f: "list_all is_digit f"
    unfolding f_def by (rule pad_start_no_sc) (rule show_int_nonneg, simp)
  then have "\<not> has_sc (''.'' @ f)" using digits_no_sc [of f] by (cases f) auto
  moreover have "f = [] \<or> last f \<noteq> CHR ''S''" using f by (auto simp: list_all_iff)
  ultimately show ?thesis
    unfolding eq using show_int_no_sc [of w] show_int_ends [of w] by (auto simp: has_sc_append)
qed

lemma show_nat_text: "\<not> has_sc (show_nat n) \<and> show_nat n \<noteq> [] \<and> last (show_nat n) \<noteq> CHR ''S'' \<and> hd (show_nat n) \<noteq> CHR ''c''"
  using show_nat_digits [of n] digits_no_sc digits_ends [of "show_nat n"] by auto

lemma freshness_text_text:
  "\<not> has_sc (freshness_text f) \<and> freshness_text f \<noteq> [] \<and> last (freshness_text f) \<noteq> CHR ''S'' \<and> hd (freshness_text f) \<noteq> CHR ''c''"
  by (cases f) simp_all

lemma plain_note_stale:
  "plain_note (''Dados stale: freshness original '' @ freshness_text f
     @ '' reduz prioridade do sinal-fonte; este item pede atualiza'' @ [CHR 0xE7, CHR 0xE3]
     @ ''o da evid'' @ [CHR 0xEA] @ ''ncia.'')"
  by (cases f) (simp_all add: plain_note_def js_space_def)

lemma plain_note_kill:
  "plain_note (''KILL-RULE: risco cr'' @ [CHR 0xED] @ ''tico for'' @ [CHR 0xE7] @ ''ado em ATEN''
     @ [CHR 0xC7, CHR 0xC3] @ ''O AGORA.'')"
  by (simp add: plain_note_def js_space_def)

lemma plain_note_merged:
  "plain_note (''Sinal mesclado ('' @ show_nat n @ '' correla'' @ [CHR 0xE7, CHR 0xF5]
     @ ''es; impacto e urg'' @ [CHR 0xEA] @ ''ncia = max).'')"
  using show_nat_text [of n]
  by (simp add: plain_note_def js_space_def mark_append del: append_Cons append_Nil append.simps)

lemma plain_note_demoted:
  "plain_note (''Freshness '' @ freshness_text f @ '' aplica multiplicador ''
     @ to_fixed2 n @ '' (despromo'' @ [CHR 0xE7, CHR 0xE3] @ ''o).'')"
  using to_fixed2_text [of n] freshness_text_text [of f]
  by (simp add: plain_note_def js_space_def mark_append del: append_Cons append_Nil append.simps)

lemma build_plain_notes_plain: "s \<in> set (build_plain_notes i) \<Longrightarrow> plain_note s"
  unfolding build_plain_notes_def Let_def
  by (auto simp only: set_append Un_iff set_simps insert_iff empty_iff plain_note_stale plain_note_kill
      plain_note_merged plain_note_demoted split: if_splits)

section \<open>Joining and splitting\<close>

lemma join_append: "ps \<noteq> [] \<Longrightarrow> qs \<noteq> [] \<Longrightarrow> join sep (ps @ qs) = join sep ps @ sep @ join sep qs"
proof (induction ps)
  case (Cons p ps)
  then show ?case by (cases ps; cases qs) simp_all
qed simp

lemma join_plain:
  assumes "ps \<noteq> []" "\<And>s. s \<in> set ps \<Longrightarrow> plain_note s"
  shows "plain_note (join '' '' ps)"
  using assms
proof (induction ps)
  case (Cons p ps)
  show ?case
  proof (cases "ps = []")
    case False
    then have "join '' '' (p # ps) = p @ '' '' @ join '' '' ps" by (cases ps) simp_all
    moreover have "plain_note p" "plain_note (join '' '' ps)" using Cons False by auto
    moreover from this(2) have "\<not> has_sc ('' '' @ join '' '' ps)"
      by (cases "join '' '' ps") (auto simp: plain_note_def)
    ultimately show ?thesis by (auto simp: plain_note_def has_sc_append)
  qed (use Cons in simp)
qed simp

lemma dropWhile_none: "s \<noteq> [] \<Longrightarrow> \<not> p (hd s) \<Longrightarrow> dropWhile p s = s"
  by (cases s) simp_all

lemma js_trim_id: "s \<noteq> [] \<Longrightarrow> \<not> js_space (hd s) \<Longrightarrow> \<not> js_space (last s) \<Longrightarrow> js_trim s = s"
  by (simp add: js_trim_def dropWhile_none hd_rev)

lemma js_space_blank: "js_space (CHR '' '')"
  by (simp add: js_space_def)

lemma js_trim_blank: "s \<noteq> [] \<Longrightarrow> \<not> js_space (hd s) \<Longrightarrow> \<not> js_space (last s) \<Longrightarrow> js_trim (s @ '' '') = s"
  by (simp add: js_trim_def dropWhile_none hd_rev js_space_blank)

definition technical_part :: "scored_candidate \<Rightarrow> horizon \<Rightarrow> string" where
  "technical_part i hz =
     build_score_formula (cd_breakdown i) hz
     @ (case build_evidence_sentence i of None \<Rightarrow> [] | Some e \<Rightarrow> '' '' @ e)"

lemma technical_part_ends:
  "hd (technical_part i hz) = CHR ''S'' \<and> technical_part i hz \<noteq> [] \<and> last (technical_part i hz) = CHR ''.''"
  by (auto simp: technical_part_def build_score_formula_def build_evidence_sentence_def Let_def
      split: option.splits)

lemma technical_part_here: "score_sentence_here (technical_part i hz)"
  unfolding technical_part_def by (rule score_formula_here)

lemma reason_text:
  assumes "length (join '' '' (build_plain_notes i)) + length (technical_part i hz) < 2000"
  shows "build_reason i hz =
     (if build_plain_notes i = [] then [] else join '' '' (build_plain_notes i) @ '' '') @ technical_part i hz"
proof -
  let ?ps = "build_plain_notes i" and ?f = "build_score_formula (cd_breakdown i) hz"
  let ?qs = "[?f] @ (case build_evidence_sentence i of None \<Rightarrow> [] | Some e \<Rightarrow> [e])"
  have "join '' '' ?qs = technical_part i hz"
    by (simp add: technical_part_def split: option.split)
  then have "join '' '' (?ps @ ?qs) = (if ?ps = [] then [] else join '' '' ?ps @ '' '') @ technical_part i hz"
    by (cases "?ps = []") (simp_all only: join_append append_Nil append_assoc if_True if_False, simp_all add: join_append)
  then show ?thesis
    using assms by (auto simp: build_reason_def build_reason_parts_def join_reason_parts_def reason_max_length_def)
qed

end
