(* ===== verification/Attention_Validate.thy ===== *)
theory Attention_Validate
  imports Attention_Rank
begin

text \<open>
  \<open>intelligence/attention/src/validate.ts\<close> and the entry \<open>rankFromUnknown\<close>: the readers of a ranking
  request. Every reading error has the code \<open>AT_Validation\<close>. The patch of the configuration is the
  argument \<open>patch\<close>: the code takes \<open>request.config\<close> at its declared type once it is an object without
  secret-bearing keys. The clock is read when the request has no \<open>now\<close>.
\<close>

section \<open>Lexical rules\<close>

text \<open>\<open>/^(secret|token|password|authorization|api[_-]?key|cookie|credential|private[_-]?key)$/i\<close>\<close>

definition at_secret_words :: "string list" where
  "at_secret_words =
     [''secret'', ''token'', ''password'', ''authorization'', ''apikey'', ''api_key'', ''api-key'', ''cookie'',
      ''credential'', ''privatekey'', ''private_key'', ''private-key'']"

definition at_secret_key :: "string \<Rightarrow> bool" where
  "at_secret_key k \<longleftrightarrow> map lower_char k \<in> set at_secret_words"

fun has_secret_key :: "json \<Rightarrow> bool" where
  "has_secret_key (JArr xs) = list_ex has_secret_key xs"
| "has_secret_key (JObj es) = list_ex (\<lambda>(k, v). at_secret_key k \<or> has_secret_key v) es"
| "has_secret_key _ = False"

definition assert_no_secret_keys :: "json \<Rightarrow> 'a at_result \<Rightarrow> 'a at_result" where
  "assert_no_secret_keys v k = require (\<not> has_secret_key v) AT_Validation k"

text \<open>
  The scope pattern: a fixed scope, \<open>repo:name\<close> or \<open>repo:owner/name\<close>, \<open>client:slug\<close> for a kebab-case
  slug that is no placeholder, or \<open>kind:rest\<close> for another kind.
\<close>

definition fixed_scopes :: "string list" where
  "fixed_scopes = [''company'', ''commercial'', ''finance'', ''clients'', ''infrastructure'', ''inbound'']"

definition placeholder_clients :: "string list" where
  "placeholder_clients =
     [''anonimo'', ''anonymous'', ''client'', ''cliente'', ''default'', ''desconhecido'', ''na'', ''n-a'',
      ''nao-identificado'', ''nao-informado'', ''no-name'', ''none'', ''null'', ''placeholder'',
      ''sem-identidade'', ''sem-nome'', ''tbd'', ''undefined'', ''unidentified'', ''unknown'']"

definition repo_char :: "char \<Rightarrow> bool" where
  "repo_char c \<longleftrightarrow> is_alnum c \<or> c \<in> set ''._-''"

definition repo_pattern :: "string \<Rightarrow> bool" where
  "repo_pattern s \<longleftrightarrow>
     (let a = takeWhile (\<lambda>c. c \<noteq> CHR ''/'') s; b = drop (length a) s
      in a \<noteq> [] \<and> list_all repo_char a \<and> (b = [] \<or> (1 < length b \<and> list_all repo_char (tl b))))"

text \<open>\<open>[a-z0-9]+(?:-[a-z0-9]+)*\<close>: no hyphen at either end and no two in a row.\<close>

fun kebab_slug :: "string \<Rightarrow> bool" where
  "kebab_slug [] = False"
| "kebab_slug [c] = (is_lower c \<or> is_digit c)"
| "kebab_slug (c # d # s) = ((is_lower c \<or> is_digit c) \<and> (if d = CHR ''-'' then kebab_slug s else kebab_slug (d # s)))"

definition scope_pattern :: "string \<Rightarrow> bool" where
  "scope_pattern s \<longleftrightarrow>
     (let kind = takeWhile (\<lambda>c. c \<noteq> CHR '':'') s; rest = drop (length kind + 1) s
      in s \<in> set fixed_scopes
         \<or> (length kind < length s \<and>
            (kind = ''repo'' \<and> repo_pattern rest
             \<or> kind = ''client'' \<and> kebab_slug rest \<and> rest \<notin> set placeholder_clients
             \<or> kind \<notin> set (fixed_scopes @ [''repo'', ''client'']) \<and> kind \<noteq> [] \<and> is_lower (hd kind)
               \<and> list_all kebab_char kind \<and> rest \<noteq> []
               \<and> list_all (\<lambda>c. is_alnum c \<or> c \<in> set ''._:~-'') rest)))"

section \<open>Readers\<close>

definition expect_string :: "json option \<Rightarrow> nat \<Rightarrow> nat \<Rightarrow> string at_result" where
  "expect_string v lo hi =
     (case v of
        Some (JStr s) \<Rightarrow> require (\<not> (length (js_trim s) < lo \<or> hi < length s)) AT_Validation (Inr s)
      | _ \<Rightarrow> Inl AT_Validation)"

definition expect_int :: "json option \<Rightarrow> int \<Rightarrow> int \<Rightarrow> int at_result" where
  "expect_int v lo hi =
     (case v of
        Some (JNum r) \<Rightarrow> require (is_integer r \<and> \<not> \<lfloor>r\<rfloor> < lo \<and> \<not> hi < \<lfloor>r\<rfloor>) AT_Validation (Inr \<lfloor>r\<rfloor>)
      | _ \<Rightarrow> Inl AT_Validation)"

text \<open>A value of a string enumeration, given as the table of its names.\<close>

definition expect_enum :: "json option \<Rightarrow> (string \<times> 'a) list \<Rightarrow> 'a at_result" where
  "expect_enum v names =
     (case v of
        Some (JStr s) \<Rightarrow> (case map_of names s of None \<Rightarrow> Inl AT_Validation | Some x \<Rightarrow> Inr x)
      | _ \<Rightarrow> Inl AT_Validation)"

definition expect_optional :: "(json option \<Rightarrow> 'a at_result) \<Rightarrow> json option \<Rightarrow> 'a option at_result" where
  "expect_optional p v = (case v of None \<Rightarrow> Inr None | Some j \<Rightarrow> bindE (p (Some j)) (\<lambda>x. Inr (Some x)))"

definition expect_record :: "json option \<Rightarrow> (json_object \<Rightarrow> 'a at_result) \<Rightarrow> 'a at_result" where
  "expect_record v k = (case v of Some (JObj obj) \<Rightarrow> k obj | _ \<Rightarrow> Inl AT_Validation)"

text \<open>An array whose length is between the bounds.\<close>

definition expect_array :: "json option \<Rightarrow> nat \<Rightarrow> nat \<Rightarrow> (json list \<Rightarrow> 'a at_result) \<Rightarrow> 'a at_result" where
  "expect_array v lo hi k =
     (case v of
        Some (JArr xs) \<Rightarrow> require (\<not> length xs < lo \<and> \<not> hi < length xs) AT_Validation (k xs)
      | _ \<Rightarrow> Inl AT_Validation)"

definition expect_utc :: "json option \<Rightarrow> string at_result" where
  "expect_utc v = bindE (expect_string v 20 40) (\<lambda>s. require (is_utc_datetime s) AT_Validation (Inr s))"

definition expect_resource_id :: "json option \<Rightarrow> string at_result" where
  "expect_resource_id v =
     bindE (expect_string v 6 128) (\<lambda>s. require (resource_id_pattern s) AT_Validation (Inr s))"

definition category_names :: "(string \<times> signal_category) list" where
  "category_names = map (\<lambda>c. (category_text c, c)) signal_categories"

definition domain_names :: "(string \<times> signal_domain) list" where
  "domain_names =
     [(''finance'', DM_Finance), (''commercial'', DM_Commercial), (''clients'', DM_Clients),
      (''infrastructure'', DM_Infrastructure), (''engineering'', DM_Engineering), (''inbound'', DM_Inbound),
      (''company'', DM_Company)]"

definition severity_names :: "(string \<times> severity) list" where
  "severity_names = map (\<lambda>s. (severity_text s, s)) [SV_Critical, SV_High, SV_Medium, SV_Low]"

definition status_names :: "(string \<times> signal_status) list" where
  "status_names = map (\<lambda>s. (status_text s, s)) [SS_Open, SS_Acknowledged, SS_Resolved, SS_Dismissed]"

definition at_freshness_names :: "(string \<times> at_freshness) list" where
  "at_freshness_names = map (\<lambda>f. (freshness_text f, f)) [AF_FRESH, AF_STALE, AF_UNKNOWN, AF_ERROR]"

definition at_actor_kind_names :: "(string \<times> at_actor_kind) list" where
  "at_actor_kind_names = [(''human'', AK_Human), (''agent'', AK_Agent), (''system'', AK_System)]"

definition override_action_names :: "(string \<times> override_action) list" where
  "override_action_names = [(''pin'', OA_Pin), (''reorder'', OA_Reorder), (''dismiss'', OA_Dismiss)]"

definition read_source :: "json option \<Rightarrow> at_source at_result" where
  "read_source v = expect_record v (\<lambda>obj.
     bindE (expect_string (field obj ''system'') 1 64) (\<lambda>system.
     require (source_system_pattern system) AT_Validation (
     bindE (expect_string (field obj ''kind'') 1 64) (\<lambda>kind.
     require (source_kind_pattern kind) AT_Validation (
     bindE (expect_string (field obj ''locator'') 1 512) (\<lambda>locator.
     bindE (expect_optional (\<lambda>v. expect_string v 1 128) (field obj ''label'')) (\<lambda>label.
     Inr \<lparr>as_system = system, as_kind = kind, as_locator = locator, as_label = label\<rparr>)))))))"

definition read_confidence :: "json option \<Rightarrow> rat at_result" where
  "read_confidence v =
     (case v of
        Some (JNum r) \<Rightarrow> require (\<not> r < 0 \<and> \<not> 1 < r) AT_Validation (Inr r)
      | _ \<Rightarrow> Inl AT_Validation)"

definition read_provenance :: "json option \<Rightarrow> at_provenance at_result" where
  "read_provenance v = expect_record v (\<lambda>obj.
     bindE (expect_utc (field obj ''observed_at'')) (\<lambda>observed_at.
     bindE (expect_enum (field obj ''freshness_status'') at_freshness_names) (\<lambda>status.
     bindE (read_confidence (field obj ''confidence'')) (\<lambda>confidence.
     bindE (read_source (field obj ''source'')) (\<lambda>source.
     bindE (expect_optional (\<lambda>v. expect_int v 0 2592000) (field obj ''freshness_window_seconds'')) (\<lambda>window.
     Inr \<lparr>ap_source = source, ap_observed_at = observed_at, ap_freshness_status = status,
          ap_confidence = confidence, ap_freshness_window_seconds = window\<rparr>))))))"

definition read_money :: "json option \<Rightarrow> at_money at_result" where
  "read_money v = expect_record v (\<lambda>obj.
     bindE (expect_int (field obj ''amount_cents'') (- 1000000000000) 1000000000000) (\<lambda>amount.
     bindE (expect_string (field obj ''currency'') 3 3) (\<lambda>currency.
     require (currency_pattern currency) AT_Validation (
     Inr \<lparr>am_amount_cents = amount, am_currency = currency\<rparr>))))"

definition read_evidence_ref :: "json option \<Rightarrow> evidence_ref at_result" where
  "read_evidence_ref v = expect_record v (\<lambda>obj.
     bindE (read_source (field obj ''source'')) (\<lambda>source.
     bindE (expect_optional (\<lambda>v. expect_string v 1 256) (field obj ''note'')) (\<lambda>note.
     Inr \<lparr>ev_source = source, ev_note = note\<rparr>)))"

definition read_actor :: "json option \<Rightarrow> at_actor at_result" where
  "read_actor v = expect_record v (\<lambda>obj.
     bindE (expect_enum (field obj ''kind'') at_actor_kind_names) (\<lambda>kind.
     bindE (expect_string (field obj ''id'') 1 128) (\<lambda>i.
     require (fin_actor_id_pattern i) AT_Validation (
     bindE (expect_optional (\<lambda>v. expect_string v 1 128) (field obj ''display_name'')) (\<lambda>name.
     Inr \<lparr>ta_kind = kind, ta_id = i, ta_display_name = name\<rparr>)))))"

definition parse_signal :: "json \<Rightarrow> attention_signal at_result" where
  "parse_signal v = expect_record (Some v) (\<lambda>obj.
     assert_no_secret_keys v (
     bindE (expect_resource_id (field obj ''id'')) (\<lambda>i.
     bindE (expect_string (field obj ''scope'') 2 128) (\<lambda>scope.
     require (scope_pattern scope) AT_Validation (
     bindE (expect_string (field obj ''correlation_key'') 1 128) (\<lambda>key.
     expect_array (field obj ''evidence_refs'') 1 32 (\<lambda>refs.
     bindE (expect_string (field obj ''title'') 1 200) (\<lambda>title.
     bindE (expect_string (field obj ''summary'') 1 2000) (\<lambda>summary.
     bindE (expect_enum (field obj ''category'') category_names) (\<lambda>category.
     bindE (expect_enum (field obj ''domain'') domain_names) (\<lambda>domain.
     bindE (expect_int (field obj ''impact'') 0 100) (\<lambda>impact.
     bindE (expect_int (field obj ''urgency'') 0 100) (\<lambda>urgency.
     bindE (expect_enum (field obj ''severity'') severity_names) (\<lambda>severity.
     bindE (expect_enum (field obj ''status'') status_names) (\<lambda>status.
     bindE (mapE (\<lambda>r. read_evidence_ref (Some r)) refs) (\<lambda>evidence.
     bindE (read_provenance (field obj ''provenance'')) (\<lambda>provenance.
     bindE (expect_optional read_money (field obj ''money'')) (\<lambda>money.
     bindE (expect_optional (\<lambda>v. expect_string v 1 1000) (field obj ''recommended_action'')) (\<lambda>action.
     bindE (expect_optional (\<lambda>v. expect_array v 0 32 (mapE (\<lambda>r. expect_resource_id (Some r))))
              (field obj ''related_ids'')) (\<lambda>related.
     Inr \<lparr>sg_id = i, sg_title = title, sg_summary = summary, sg_category = category, sg_domain = domain,
          sg_scope = scope, sg_impact = impact, sg_urgency = urgency, sg_severity = severity,
          sg_status = status, sg_correlation_key = key, sg_evidence_refs = evidence,
          sg_provenance = provenance, sg_money = money, sg_recommended_action = action,
          sg_related_ids = related\<rparr>))))))))))))))))))))"

definition parse_override :: "json \<Rightarrow> founder_override at_result" where
  "parse_override v = expect_record (Some v) (\<lambda>obj.
     assert_no_secret_keys v (
     bindE (expect_utc (field obj ''at'')) (\<lambda>stamp.
     expect_array (field obj ''target_ids'') 1 16 (\<lambda>targets.
     bindE (read_actor (field obj ''actor'')) (\<lambda>actor.
     bindE (expect_enum (field obj ''action'') override_action_names) (\<lambda>action.
     bindE (mapE (\<lambda>t. expect_resource_id (Some t)) targets) (\<lambda>ids.
     Inr \<lparr>fo_actor = actor, fo_at = stamp, fo_action = action, fo_target_ids = ids\<rparr>)))))))"

definition empty_patch :: scoring_config_patch where
  "empty_patch =
     \<lparr>sp_category_weights = None, sp_impact_weight_bp = None, sp_urgency_weight_bp = None,
      sp_freshness_bp = None, sp_kill_rule = None, sp_today_limit = None, sp_atencao_agora_limit = None,
      sp_eligible_statuses = None\<rparr>"

definition parse_partial_config :: "scoring_config_patch \<Rightarrow> json option \<Rightarrow> scoring_config_patch at_result" where
  "parse_partial_config patch v =
     (case v of
        None \<Rightarrow> Inr empty_patch
      | Some j \<Rightarrow> expect_record v (\<lambda>_. assert_no_secret_keys j (Inr patch)))"

definition parse_rank_request :: "string \<Rightarrow> scoring_config_patch \<Rightarrow> json \<Rightarrow> rank_input at_result" where
  "parse_rank_request clock patch v = expect_record (Some v) (\<lambda>req.
     assert_no_secret_keys v (
     expect_array (field req ''signals'') 0 500 (\<lambda>xs.
     bindE (mapE parse_signal xs) (\<lambda>signals.
     require (distinct (map sg_id signals)) AT_Validation (
     bindE (if field req ''now'' = None then Inr clock else expect_utc (field req ''now'')) (\<lambda>now.
     bindE (bindE (parse_partial_config patch (field req ''config'')) (\<lambda>p. merge_scoring_config (Some p))) (\<lambda>config.
     bindE (case field req ''override'' of
              None \<Rightarrow> Inr None
            | Some JNull \<Rightarrow> Inr None
            | Some j \<Rightarrow> bindE (parse_override j) (\<lambda>ov. Inr (Some ov))) (\<lambda>ov.
     Inr \<lparr>ri_signals = signals, ri_config = config, ri_clock_now = now, ri_override = ov\<rparr>))))))))"

definition rank_from_unknown :: "attention_env \<Rightarrow> string \<Rightarrow> scoring_config_patch \<Rightarrow> json \<Rightarrow> rank_output at_result" where
  "rank_from_unknown E clock patch v = bindE (parse_rank_request clock patch v) (rank_attention E)"

text \<open>\<open>frozenClock\<close>: the instant every reading of the clock gives, in milliseconds.\<close>

definition frozen_clock :: "string \<Rightarrow> int at_result" where
  "frozen_clock s =
     require (is_utc_datetime s) AT_Validation (require_some (date_ms s) AT_Validation Inr)"

section \<open>What a reading guarantees\<close>

lemma expect_string_Inr [guards, simp]:
  "expect_string v lo hi = Inr s \<longleftrightarrow> v = Some (JStr s) \<and> lo \<le> length (js_trim s) \<and> length s \<le> hi"
  by (auto simp: expect_string_def not_less split: option.splits json.splits)

lemma expect_int_Inr [guards, simp]:
  "expect_int v lo hi = Inr n \<longleftrightarrow> v = Some (JNum (of_int n)) \<and> lo \<le> n \<and> n \<le> hi"
  by (auto simp: expect_int_def not_less is_integer_def split: option.splits json.splits)

lemma expect_record_Inr [guards, simp]: "expect_record v k = Inr x \<longleftrightarrow> (\<exists>obj. v = Some (JObj obj) \<and> k obj = Inr x)"
  by (auto simp: expect_record_def split: option.splits json.splits)

lemma expect_array_Inr [guards, simp]:
  "expect_array v lo hi k = Inr x \<longleftrightarrow> (\<exists>xs. v = Some (JArr xs) \<and> lo \<le> length xs \<and> length xs \<le> hi \<and> k xs = Inr x)"
  by (auto simp: expect_array_def not_less split: option.splits json.splits)

lemma expect_utc_Inr [guards, simp]:
  "expect_utc v = Inr s \<longleftrightarrow> expect_string v 20 40 = Inr s \<and> is_utc_datetime s"
  by (auto simp: expect_utc_def)

lemma expect_resource_id_Inr [guards, simp]:
  "expect_resource_id v = Inr s \<longleftrightarrow> expect_string v 6 128 = Inr s \<and> resource_id_pattern s"
  by (auto simp: expect_resource_id_def)

lemma read_confidence_Inr [guards, simp]: "read_confidence v = Inr r \<longleftrightarrow> v = Some (JNum r) \<and> 0 \<le> r \<and> r \<le> 1"
  by (auto simp: read_confidence_def not_less split: option.splits json.splits)

lemma assert_no_secret_keys_Inr [guards, simp]:
  "assert_no_secret_keys v k = Inr x \<longleftrightarrow> \<not> has_secret_key v \<and> k = Inr x"
  by (simp add: assert_no_secret_keys_def)

text \<open>The rules of a request, record by record; the values of an enumeration follow from their types.\<close>

definition text_within :: "nat \<Rightarrow> nat \<Rightarrow> string \<Rightarrow> bool" where
  "text_within lo hi s \<longleftrightarrow> lo \<le> length (js_trim s) \<and> length s \<le> hi"

definition valid_stamp :: "string \<Rightarrow> bool" where
  "valid_stamp s \<longleftrightarrow> text_within 20 40 s \<and> is_utc_datetime s"

definition valid_resource_id :: "string \<Rightarrow> bool" where
  "valid_resource_id s \<longleftrightarrow> text_within 6 128 s \<and> resource_id_pattern s"

definition valid_source :: "at_source \<Rightarrow> bool" where
  "valid_source x \<longleftrightarrow>
     text_within 1 64 (as_system x) \<and> source_system_pattern (as_system x)
     \<and> text_within 1 64 (as_kind x) \<and> source_kind_pattern (as_kind x)
     \<and> text_within 1 512 (as_locator x) \<and> pred_option (text_within 1 128) (as_label x)"

definition valid_provenance :: "at_provenance \<Rightarrow> bool" where
  "valid_provenance p \<longleftrightarrow>
     valid_source (ap_source p) \<and> valid_stamp (ap_observed_at p) \<and> 0 \<le> ap_confidence p \<and> ap_confidence p \<le> 1
     \<and> pred_option (\<lambda>w. 0 \<le> w \<and> w \<le> 2592000) (ap_freshness_window_seconds p)"

definition valid_money :: "at_money \<Rightarrow> bool" where
  "valid_money m \<longleftrightarrow>
     - 1000000000000 \<le> am_amount_cents m \<and> am_amount_cents m \<le> 1000000000000
     \<and> text_within 3 3 (am_currency m) \<and> currency_pattern (am_currency m)"

definition valid_evidence_ref :: "evidence_ref \<Rightarrow> bool" where
  "valid_evidence_ref e \<longleftrightarrow> valid_source (ev_source e) \<and> pred_option (text_within 1 256) (ev_note e)"

definition valid_actor :: "at_actor \<Rightarrow> bool" where
  "valid_actor a \<longleftrightarrow>
     text_within 1 128 (ta_id a) \<and> fin_actor_id_pattern (ta_id a)
     \<and> pred_option (text_within 1 128) (ta_display_name a)"

definition valid_signal :: "attention_signal \<Rightarrow> bool" where
  "valid_signal s \<longleftrightarrow>
     valid_resource_id (sg_id s) \<and> text_within 2 128 (sg_scope s) \<and> scope_pattern (sg_scope s)
     \<and> text_within 1 128 (sg_correlation_key s) \<and> text_within 1 200 (sg_title s) \<and> text_within 1 2000 (sg_summary s)
     \<and> 0 \<le> sg_impact s \<and> sg_impact s \<le> 100 \<and> 0 \<le> sg_urgency s \<and> sg_urgency s \<le> 100
     \<and> 1 \<le> length (sg_evidence_refs s) \<and> length (sg_evidence_refs s) \<le> 32
     \<and> list_all valid_evidence_ref (sg_evidence_refs s) \<and> valid_provenance (sg_provenance s)
     \<and> pred_option valid_money (sg_money s) \<and> pred_option (text_within 1 1000) (sg_recommended_action s)
     \<and> pred_option (\<lambda>ids. length ids \<le> 32 \<and> list_all valid_resource_id ids) (sg_related_ids s)"

definition valid_override :: "founder_override \<Rightarrow> bool" where
  "valid_override ov \<longleftrightarrow>
     valid_stamp (fo_at ov) \<and> valid_actor (fo_actor ov)
     \<and> 1 \<le> length (fo_target_ids ov) \<and> length (fo_target_ids ov) \<le> 16 \<and> list_all valid_resource_id (fo_target_ids ov)"

definition valid_rank_input :: "string \<Rightarrow> rank_input \<Rightarrow> bool" where
  "valid_rank_input clock i \<longleftrightarrow>
     length (ri_signals i) \<le> 500 \<and> distinct (map sg_id (ri_signals i)) \<and> list_all valid_signal (ri_signals i)
     \<and> valid_config (ri_config i) \<and> (ri_clock_now i = clock \<or> valid_stamp (ri_clock_now i))
     \<and> pred_option valid_override (ri_override i)"

lemma expect_optional_sound:
  assumes "expect_optional p v = Inr r" "\<And>j x. p (Some j) = Inr x \<Longrightarrow> P x"
  shows "pred_option P r"
  using assms by (auto simp: expect_optional_def split: option.splits)

lemma mapE_sound:
  assumes "mapE p xs = Inr ys" "\<And>x y. p x = Inr y \<Longrightarrow> P y"
  shows "list_all P ys"
  using mapE_Inr_set [OF assms(1)] assms(2) by (auto simp: list_all_iff)

lemma expect_string_sound: "expect_string v lo hi = Inr s \<Longrightarrow> text_within lo hi s"
  by (simp add: text_within_def)

lemma expect_resource_id_sound: "expect_resource_id v = Inr s \<Longrightarrow> valid_resource_id s"
  by (simp add: valid_resource_id_def text_within_def)

lemma expect_utc_sound: "expect_utc v = Inr s \<Longrightarrow> valid_stamp s"
  by (simp add: valid_stamp_def text_within_def)

lemma read_source_sound: "read_source v = Inr x \<Longrightarrow> valid_source x"
  unfolding read_source_def valid_source_def
  by (clarsimp simp: text_within_def) (erule expect_optional_sound, simp add: text_within_def)

lemma read_money_sound: "read_money v = Inr m \<Longrightarrow> valid_money m"
  unfolding read_money_def valid_money_def by (clarsimp simp: text_within_def)

lemma read_evidence_ref_sound: "read_evidence_ref v = Inr e \<Longrightarrow> valid_evidence_ref e"
  unfolding read_evidence_ref_def valid_evidence_ref_def
  by (clarsimp simp: read_source_sound) (erule expect_optional_sound, erule expect_string_sound)

lemma read_actor_sound: "read_actor v = Inr a \<Longrightarrow> valid_actor a"
  unfolding read_actor_def valid_actor_def
  by (clarsimp simp: text_within_def) (erule expect_optional_sound, simp add: text_within_def)

lemma read_provenance_sound: "read_provenance v = Inr p \<Longrightarrow> valid_provenance p"
  unfolding read_provenance_def valid_provenance_def
  by (clarsimp simp: read_source_sound valid_stamp_def text_within_def) (erule expect_optional_sound, simp)

lemma expect_related_sound:
  assumes "expect_array v 0 32 (mapE (\<lambda>r. expect_resource_id (Some r))) = Inr ids"
  shows "length ids \<le> 32 \<and> list_all valid_resource_id ids"
proof -
  from assms obtain xs where "length xs \<le> 32" and ids: "mapE (\<lambda>r. expect_resource_id (Some r)) xs = Inr ids"
    by (auto simp only: expect_array_Inr)
  moreover have "list_all valid_resource_id ids" using ids by (rule mapE_sound) (rule expect_resource_id_sound)
  ultimately show ?thesis using mapE_Inr_length [OF ids] by simp
qed

lemma parse_signal_sound:
  assumes "parse_signal v = Inr s"
  shows "valid_signal s"
proof -
  from assms obtain obj refs where
    sound: "expect_resource_id (field obj ''id'') = Inr (sg_id s)" "expect_string (field obj ''scope'') 2 128 = Inr (sg_scope s)"
      "scope_pattern (sg_scope s)" "expect_string (field obj ''correlation_key'') 1 128 = Inr (sg_correlation_key s)"
      "expect_string (field obj ''title'') 1 200 = Inr (sg_title s)" "expect_string (field obj ''summary'') 1 2000 = Inr (sg_summary s)"
      "expect_int (field obj ''impact'') 0 100 = Inr (sg_impact s)" "expect_int (field obj ''urgency'') 0 100 = Inr (sg_urgency s)"
      "read_provenance (field obj ''provenance'') = Inr (sg_provenance s)"
    and refs: "1 \<le> length refs" "length refs \<le> 32" "mapE (\<lambda>r. read_evidence_ref (Some r)) refs = Inr (sg_evidence_refs s)"
    and opts: "expect_optional read_money (field obj ''money'') = Inr (sg_money s)"
      "expect_optional (\<lambda>v. expect_string v 1 1000) (field obj ''recommended_action'') = Inr (sg_recommended_action s)"
      "expect_optional (\<lambda>v. expect_array v 0 32 (mapE (\<lambda>r. expect_resource_id (Some r)))) (field obj ''related_ids'')
         = Inr (sg_related_ids s)"
    by (auto simp only: parse_signal_def expect_record_Inr expect_array_Inr assert_no_secret_keys_Inr
        require_Inr bindE_Inr sum.inject option.inject attention_signal.select_convs)
  have "list_all valid_evidence_ref (sg_evidence_refs s)" using refs(3) by (rule mapE_sound) (rule read_evidence_ref_sound)
  moreover have "pred_option valid_money (sg_money s)" using opts(1) by (rule expect_optional_sound) (rule read_money_sound)
  moreover have "pred_option (text_within 1 1000) (sg_recommended_action s)"
    using opts(2) by (rule expect_optional_sound) (rule expect_string_sound)
  moreover have "pred_option (\<lambda>ids. length ids \<le> 32 \<and> list_all valid_resource_id ids) (sg_related_ids s)"
    using opts(3) by (rule expect_optional_sound) (rule expect_related_sound)
  ultimately show ?thesis
    using sound refs mapE_Inr_length [OF refs(3)]
    by (simp add: valid_signal_def valid_resource_id_def text_within_def read_provenance_sound)
qed

lemma parse_override_sound:
  assumes "parse_override v = Inr ov"
  shows "valid_override ov"
proof -
  from assms obtain obj targets where
    "expect_utc (field obj ''at'') = Inr (fo_at ov)" "1 \<le> length targets" "length targets \<le> 16"
    "read_actor (field obj ''actor'') = Inr (fo_actor ov)"
    and ids: "mapE (\<lambda>t. expect_resource_id (Some t)) targets = Inr (fo_target_ids ov)"
    by (auto simp only: parse_override_def expect_record_Inr expect_array_Inr assert_no_secret_keys_Inr
        require_Inr bindE_Inr sum.inject option.inject founder_override.select_convs)
  moreover have "list_all valid_resource_id (fo_target_ids ov)"
    using ids by (rule mapE_sound) (rule expect_resource_id_sound)
  ultimately show ?thesis
    using mapE_Inr_length [OF ids] by (simp add: valid_override_def expect_utc_sound read_actor_sound del: expect_utc_Inr)
qed

lemma parse_rank_request_valid:
  assumes "parse_rank_request clock patch v = Inr i"
  shows "\<not> has_secret_key v \<and> valid_rank_input clock i"
proof -
  from assms obtain req xs signals now p config ov where
    parts: "length xs \<le> 500" "mapE parse_signal xs = Inr signals" "distinct (map sg_id signals)"
      "merge_scoring_config (Some p) = Inr config"
      "(case field req ''override'' of None \<Rightarrow> Inr None | Some JNull \<Rightarrow> Inr None
        | Some j \<Rightarrow> bindE (parse_override j) (\<lambda>ov. Inr (Some ov))) = Inr ov"
      "(if field req ''now'' = None then Inr clock else expect_utc (field req ''now'')) = Inr now"
    and i: "i = \<lparr>ri_signals = signals, ri_config = config, ri_clock_now = now, ri_override = ov\<rparr>"
    by (auto simp only: parse_rank_request_def expect_record_Inr expect_array_Inr assert_no_secret_keys_Inr
        require_Inr bindE_Inr sum.inject option.inject)
  have secrets: "\<not> has_secret_key v" using assms by (auto simp: parse_rank_request_def)
  have "list_all valid_signal signals" using parts(2) by (rule mapE_sound) (rule parse_signal_sound)
  moreover have "length signals \<le> 500" using mapE_Inr_length [OF parts(2)] parts(1) by simp
  moreover have "valid_config config" using parts(4) by (rule merge_scoring_config_valid)
  moreover have "pred_option valid_override ov"
    using parts(5) by (auto split: option.splits json.splits dest: parse_override_sound)
  moreover have "now = clock \<or> valid_stamp now"
    using parts(6) by (auto split: if_splits simp del: expect_utc_Inr dest: expect_utc_sound)
  ultimately show ?thesis using parts(3) secrets by (simp add: valid_rank_input_def i)
qed

end
