(* ===== verification/Attention_Properties.thy ===== *)
theory Attention_Properties
  imports Attention_Rank_Laws Attention_Reason Attention_Validate
begin

text \<open>
  What the ranking of attention guarantees, each guarantee applied to a small example, and the
  behaviours of the code that its comments do not promise.
\<close>

section \<open>Examples\<close>

definition sample_attention_env :: attention_env where
  "sample_attention_env = \<lparr>ae_collate = (\<lambda>s. s), ae_sha256 = (\<lambda>s. s)\<rparr>"

definition sample_at_provenance :: at_provenance where
  "sample_at_provenance =
     \<lparr>ap_source = \<lparr>as_system = ''crm'', as_kind = ''lead'', as_locator = ''l/1'', as_label = None\<rparr>,
      ap_observed_at = ''2026-01-05T10:00:00Z'', ap_freshness_status = AF_FRESH, ap_confidence = 9 / 10,
      ap_freshness_window_seconds = Some 60\<rparr>"

definition sample_signal :: "string \<Rightarrow> signal_category \<Rightarrow> severity \<Rightarrow> string \<Rightarrow> attention_signal" where
  "sample_signal i cat sev key =
     \<lparr>sg_id = i, sg_title = ''t'', sg_summary = ''s'', sg_category = cat, sg_domain = DM_Commercial,
      sg_scope = ''company'', sg_impact = 80, sg_urgency = 20, sg_severity = sev, sg_status = SS_Open,
      sg_correlation_key = key, sg_evidence_refs = [], sg_provenance = sample_at_provenance, sg_money = None,
      sg_recommended_action = None, sg_related_ids = None\<rparr>"

definition refactor_signal :: attention_signal where
  "refactor_signal = sample_signal ''cc:x:a'' CT_Refactor SV_Low ''ka''"

definition blocker_signal :: attention_signal where
  "blocker_signal = sample_signal ''cc:x:b'' CT_Blocker SV_Critical ''kb''"

definition sample_actor :: at_actor where
  "sample_actor = \<lparr>ta_kind = AK_Human, ta_id = ''founder'', ta_display_name = None\<rparr>"

definition sample_override :: "override_action \<Rightarrow> founder_override" where
  "sample_override action =
     \<lparr>fo_actor = sample_actor, fo_at = ''2026-01-05T11:00:00Z'', fo_action = action, fo_target_ids = [''cc:x:a'']\<rparr>"

definition sample_input :: "founder_override option \<Rightarrow> rank_input" where
  "sample_input ov =
     \<lparr>ri_signals = [refactor_signal, blocker_signal],
      ri_config = default_scoring_config\<lparr>sc_atencao_agora_limit := 1\<rparr>,
      ri_clock_now = ''2026-01-05T12:00:00Z'', ri_override = ov\<rparr>"

lemma sample_input_ranked: "\<exists>out cs. rank_attention sample_attention_env (sample_input ov) = Inr out
    \<and> ordered_candidates sample_attention_env (sample_input ov) = Inr cs"
  using rank_attention_total ordered_candidates_total by blast


section \<open>Merging\<close>

text \<open>The merged signal \<open>m\<close> represents \<open>s\<close>: it names it as a source and does not play it down.\<close>

definition represents :: "merged_signal \<Rightarrow> attention_signal \<Rightarrow> bool" where
  "represents m s \<longleftrightarrow>
     sg_id s \<in> set (mg_source_ids m) \<and> sg_correlation_key m = sg_correlation_key s
     \<and> sg_impact s \<le> sg_impact m \<and> sg_urgency s \<le> sg_urgency m
     \<and> severity_rank (sg_severity m) \<le> severity_rank (sg_severity s)
     \<and> freshness_rank (ap_freshness_status (sg_provenance m)) \<le> freshness_rank (ap_freshness_status (sg_provenance s))
     \<and> ap_confidence (sg_provenance m) \<le> ap_confidence (sg_provenance s)"

text \<open>
  C34. Merging loses nothing and plays nothing down. Every signal is a source of exactly one merged
  signal, the merged signals have different correlation keys, and the one that represents a signal is
  at least as severe, as urgent and as high in impact, and neither fresher nor more trusted.
\<close>

theorem merging_conserves_signals:
  assumes "s \<in> set signals"
  shows "\<exists>ms m. merge_signals collate signals = Inr ms \<and> distinct (map sg_correlation_key ms)
    \<and> mset (concat (map mg_source_ids ms)) = mset (map sg_id signals) \<and> m \<in> set ms \<and> represents m s"
proof -
  obtain ms where ms: "merge_signals collate signals = Inr ms" using merge_signals_ok by blast
  note src = merge_signals_sources [OF ms]
  from assms src(3) obtain m where m: "m \<in> set ms" "sg_correlation_key m = sg_correlation_key s"
    by (metis imageE imageI)
  from assms m(2) have "s \<in> set (signal_class signals (sg_correlation_key m))" by (simp add: signal_class_def)
  with merge_one_conservative [OF src(2) [OF m(1)]] m(2) have "represents m s" by (simp add: represents_def)
  with ms src(1,4) m(1) show ?thesis by blast
qed

theorem merging_conserves_signals_witness:
  "\<exists>ms m. merge_signals (\<lambda>s. s) [refactor_signal, blocker_signal] = Inr ms \<and> m \<in> set ms \<and> represents m blocker_signal"
  using merging_conserves_signals [of blocker_signal "[refactor_signal, blocker_signal]" "\<lambda>s. s"] by auto

text \<open>
  C35. The order of the signals does not matter: two permutations of the same signals merge to the same
  list, when ids have different collation keys and the signals of a group that give a freshness window,
  or an amount of money, give the same one.
\<close>

theorem merging_order_independent:
  assumes "mset xs = mset ys" "inj_on (\<lambda>s. collate (sg_id s)) (set xs)"
    "\<And>k. agree sg_money (filter (\<lambda>s. sg_correlation_key s = k) xs)"
    "\<And>k. agree (\<lambda>s. ap_freshness_window_seconds (sg_provenance s)) (filter (\<lambda>s. sg_correlation_key s = k) xs)"
  shows "merge_signals collate xs = merge_signals collate ys"
  by (rule merge_signals_mset) (use assms in \<open>simp_all add: signal_class_def\<close>)

theorem merging_order_independent_witness:
  "merge_signals (\<lambda>s. s) [refactor_signal, blocker_signal] = merge_signals (\<lambda>s. s) [blocker_signal, refactor_signal]"
  by (rule merging_order_independent)
    (auto simp: agree_def refactor_signal_def blocker_signal_def sample_signal_def inj_on_def)

text \<open>
  The comment of \<open>mergeSignals\<close> says that the order of the members does not affect the result. The
  freshness window is the first one given: swapping two correlated signals changes the merged one.
\<close>

definition windowed :: "string \<Rightarrow> int \<Rightarrow> attention_signal" where
  "windowed i w =
     (sample_signal i CT_Receita SV_High ''k'')\<lparr>sg_provenance := sample_at_provenance\<lparr>ap_freshness_window_seconds := Some w\<rparr>\<rparr>"

lemma merging_depends_on_order:
  "merge_signals (\<lambda>s. s) [windowed ''cc:x:a'' 60, windowed ''cc:x:b'' 3600]
   \<noteq> merge_signals (\<lambda>s. s) [windowed ''cc:x:b'' 3600, windowed ''cc:x:a'' 60]"
proof -
  have window: "map_sum id (map (\<lambda>m. ap_freshness_window_seconds (sg_provenance m))) (merge_signals (\<lambda>s. s) [a, b])
      = Inr [ap_freshness_window_seconds (sg_provenance a)]"
    if ab: "sg_correlation_key b = sg_correlation_key a" "ap_freshness_window_seconds (sg_provenance a) \<noteq> None" for a b
  proof -
    obtain m where "merge_one (\<lambda>s. s) [a, b] = Inr m" using merge_one_total [of "[a, b]"] by blast
    moreover from this have "ap_freshness_window_seconds (sg_provenance m) = ap_freshness_window_seconds (sg_provenance a)"
      using ab(2) by (auto simp: merge_one_def Let_def first_present_def)
    ultimately show ?thesis using ab(1) by (simp add: merge_signals_def group_signals_def)
  qed
  have "map_sum id (map (\<lambda>m. ap_freshness_window_seconds (sg_provenance m)))
          (merge_signals (\<lambda>s. s) [windowed ''cc:x:a'' 60, windowed ''cc:x:b'' 3600])
        \<noteq> map_sum id (map (\<lambda>m. ap_freshness_window_seconds (sg_provenance m)))
          (merge_signals (\<lambda>s. s) [windowed ''cc:x:b'' 3600, windowed ''cc:x:a'' 60])"
    by (simp add: window windowed_def sample_signal_def)
  then show ?thesis by metis
qed

section \<open>Ranking\<close>

definition outranks :: "ranked_item \<Rightarrow> ranked_item \<Rightarrow> bool" where
  "outranks a b \<longleftrightarrow>
     (rk_forced_by_kill_rule a \<and> \<not> rk_forced_by_kill_rule b)
     \<or> (rk_forced_by_kill_rule a = rk_forced_by_kill_rule b
        \<and> (sb_category_tier (rk_score_breakdown b) < sb_category_tier (rk_score_breakdown a)
           \<or> sb_category_tier (rk_score_breakdown b) = sb_category_tier (rk_score_breakdown a)
             \<and> rk_score_milli b \<le> rk_score_milli a))"

text \<open>Every kill-rule candidate is shown, unless kill-rule items fill the list.\<close>

definition shows_kill_rules :: "nat \<Rightarrow> scored_candidate list \<Rightarrow> ranked_item list \<Rightarrow> bool" where
  "shows_kill_rules limit cs shown \<longleftrightarrow>
     (\<forall>c \<in> set cs. cd_forced_by_kill_rule c \<longrightarrow>
        cd_id c \<in> rk_id ` set shown \<or> length shown = limit \<and> (\<forall>i \<in> set shown. rk_forced_by_kill_rule i))"

lemma attention_rank_outranks:
  "attention_rank a \<le> attention_rank b \<Longrightarrow> outranks (to_ranked_item a m hz) (to_ranked_item b n hz)"
  unfolding attention_rank_def cmp_key outranks_def by (simp add: to_ranked_item_def split: if_splits)

lemma attention_rank_forced:
  "attention_rank a \<le> attention_rank b \<Longrightarrow> cd_forced_by_kill_rule b \<Longrightarrow> cd_forced_by_kill_rule a"
  unfolding attention_rank_def cmp_key by (simp split: if_splits)

lemma take_shows_kill_rules:
  assumes "sorted_wrt (\<lambda>a b. attention_rank a \<le> attention_rank b) cs"
  shows "shows_kill_rules n cs (rank_items (take n cs) hz)"
  unfolding shows_kill_rules_def
proof (intro ballI impI)
  fix c assume c: "c \<in> set cs" "cd_forced_by_kill_rule c"
  have ids: "rk_id ` set (rank_items (take n cs) hz) = cd_id ` set (take n cs)"
    by (rule set_rank_items) (simp add: to_ranked_item_def)
  have forced: "rk_forced_by_kill_rule ` set (rank_items (take n cs) hz) = cd_forced_by_kill_rule ` set (take n cs)"
    by (rule set_rank_items) (simp add: to_ranked_item_def)
  show "cd_id c \<in> rk_id ` set (rank_items (take n cs) hz)
      \<or> length (rank_items (take n cs) hz) = n \<and> (\<forall>i \<in> set (rank_items (take n cs) hz). rk_forced_by_kill_rule i)"
  proof (cases "c \<in> set (take n cs)")
    case False
    then have d: "c \<in> set (drop n cs)" using c(1) by (metis append_take_drop_id Un_iff set_append)
    then have "n < length cs" by (metis drop_eq_Nil empty_iff empty_set not_le)
    moreover have "cd_forced_by_kill_rule a" if "a \<in> set (take n cs)" for a
    proof -
      have "sorted_wrt (\<lambda>a b. attention_rank a \<le> attention_rank b) (take n cs @ drop n cs)"
        using assms by simp
      with that d have "attention_rank a \<le> attention_rank c" unfolding sorted_wrt_append by blast
      then show ?thesis using c(2) by (rule attention_rank_forced)
    qed
    then have "\<forall>i \<in> set (rank_items (take n cs) hz). rk_forced_by_kill_rule i" using forced by (metis imageE imageI)
    ultimately show ?thesis by simp
  qed (simp add: ids)
qed

text \<open>
  The items \<open>shown\<close> are the best of the candidates \<open>cs\<close>: they are part of them as a multiset, and none of the
  candidates that are left out would come before one that is shown.
\<close>

definition shows_best :: "horizon \<Rightarrow> scored_candidate list \<Rightarrow> ranked_item list \<Rightarrow> bool" where
  "shows_best hz cs shown \<longleftrightarrow>
     (\<exists>best rest. shown = rank_items best hz \<and> mset cs = mset best + mset rest
        \<and> (\<forall>a \<in> set best. \<forall>b \<in> set rest. outranks (to_ranked_item a 1 hz) (to_ranked_item b 1 hz)))"

lemma take_shows_best:
  assumes "sorted_wrt (\<lambda>a b. attention_rank a \<le> attention_rank b) cs"
  shows "shows_best hz cs (rank_items (take n cs) hz)"
  unfolding shows_best_def
proof (intro exI conjI ballI)
  show "mset cs = mset (take n cs) + mset (drop n cs)" by (simp flip: mset_append)
  fix a b assume ab: "a \<in> set (take n cs)" "b \<in> set (drop n cs)"
  have "sorted_wrt (\<lambda>a b. attention_rank a \<le> attention_rank b) (take n cs @ drop n cs)" using assms by simp
  with ab have "attention_rank a \<le> attention_rank b" unfolding sorted_wrt_append by blast
  then show "outranks (to_ranked_item a 1 hz) (to_ranked_item b 1 hz)" by (rule attention_rank_outranks)
qed (rule refl)

text \<open>
  C33. Without an override, "attention now" is the best part of all candidates in order: it has as many
  items as the limit and the candidates allow, every one of them comes before every candidate left out,
  ranks count from one, an item comes before another only when it is forced by a kill rule and the other
  is not, or is in a higher category tier, or in the same tier with at least the same score; and a
  kill-rule candidate is only left out of a list full of kill-rule items.
\<close>

theorem attention_now_ordered:
  assumes "rank_attention E input = Inr out" "ordered_candidates E input = Inr cs" "ri_override input = None"
  shows "shows_best HZ_Now cs (ro_attention_now out)
    \<and> sorted_wrt outranks (ro_attention_now out)
    \<and> map rk_rank (ro_attention_now out) = [1..<Suc (length (ro_attention_now out))]
    \<and> length (ro_attention_now out) = min (nat (sc_atencao_agora_limit (ri_config input))) (length cs)
    \<and> shows_kill_rules (nat (sc_atencao_agora_limit (ri_config input))) cs (ro_attention_now out)"
proof -
  let ?n = "nat (sc_atencao_agora_limit (ri_config input))"
  have now: "ro_attention_now out = rank_items (take ?n cs) HZ_Now"
    by (rule rank_attentionD [OF assms(1)]) (use assms(2,3) in \<open>simp add: apply_override_def\<close>)
  have sorted: "sorted_wrt (\<lambda>a b. attention_rank a \<le> attention_rank b) cs"
    using assms(2) by (rule ordered_candidates_sorted)
  then have "sorted_wrt outranks (rank_items (take ?n cs) HZ_Now)"
    by (rule sorted_rank_items [OF sorted_wrt_take]) (rule attention_rank_outranks)
  with take_shows_kill_rules [OF sorted] take_shows_best [OF sorted] show ?thesis
    by (simp add: now rank_items_ranks min.commute del: upt_Suc)
qed

theorem attention_now_ordered_witness:
  "\<exists>out cs. rank_attention sample_attention_env (sample_input None) = Inr out
     \<and> shows_best HZ_Now cs (ro_attention_now out)
     \<and> sorted_wrt outranks (ro_attention_now out) \<and> shows_kill_rules 1 cs (ro_attention_now out)
     \<and> ordered_candidates sample_attention_env (sample_input None) = Inr cs"
  using sample_input_ranked [of None] attention_now_ordered [of sample_attention_env "sample_input None"]
  by (elim exE conjE) (intro exI conjI, assumption, auto simp: sample_input_def)



text \<open>
  An override is on record. The output carries one audit entry with the actor, the time, the action
  and the targets of the override, the two lists as they are without the override, and the two lists
  that are returned.
\<close>

theorem override_audited:
  assumes "rank_attention E input = Inr out" "ri_override input = Some ov"
    "rank_attention E (input\<lparr>ri_override := None\<rparr>) = Inr base"
  shows "\<exists>a. ro_audit out = [a] \<and> ro_audit base = []
    \<and> oa_actor a = fo_actor ov \<and> oa_at a = fo_at ov \<and> oa_override_action a = fo_action ov
    \<and> oa_target_ids a = fo_target_ids ov
    \<and> oa_previous_ranking a = \<lparr>rs_now = map rk_id (ro_attention_now base), rs_today = map rk_id (ro_today base)\<rparr>
    \<and> oa_resulting_ranking a = \<lparr>rs_now = map rk_id (ro_attention_now out), rs_today = map rk_id (ro_today out)\<rparr>"
proof -
  obtain cs where cs: "ordered_candidates E input = Inr cs" using ordered_candidates_total by blast
  then have cs': "ordered_candidates E (input\<lparr>ri_override := None\<rparr>) = Inr cs" by (simp add: ordered_candidates_def)
  show ?thesis
    by (rule rank_attentionD [OF assms(1)], rule rank_attentionD [OF assms(3)])
      (auto simp: cs cs' assms(2) apply_override_def snapshot_of_def Let_def)
qed

theorem override_audited_witness:
  "\<exists>out a. rank_attention sample_attention_env (sample_input (Some (sample_override OA_Pin))) = Inr out
     \<and> ro_audit out = [a] \<and> oa_actor a = sample_actor"
proof -
  have base: "(sample_input (Some ov))\<lparr>ri_override := None\<rparr> = sample_input None" for ov by (simp add: sample_input_def)
  obtain out where out: "rank_attention sample_attention_env (sample_input (Some (sample_override OA_Pin))) = Inr out"
    using rank_attention_total by blast
  obtain base where "rank_attention sample_attention_env (sample_input None) = Inr base"
    using rank_attention_total by blast
  with override_audited [OF out, of "sample_override OA_Pin" base, unfolded base] out show ?thesis
    by (auto simp: sample_input_def sample_override_def)
qed

text \<open>
  A dismissed item is in neither list.
\<close>

theorem dismissed_items_gone:
  assumes "rank_attention E input = Inr out" "ri_override input = Some ov" "fo_action ov = OA_Dismiss"
  shows "set (fo_target_ids ov) \<inter> set (map rk_id (ro_attention_now out) @ map rk_id (ro_today out)) = {}"
proof (rule rank_attentionD [OF assms(1)])
  fix cs nw today audit
  let ?c = "ri_config input"
  let ?gone = "resolve_targets (fo_target_ids ov) (index_by_id cs)"
  assume ov: "apply_override (take (nat (sc_atencao_agora_limit ?c)) cs)
      (diverse_top_n cd_domain cs (sc_today_limit ?c)) cs (ri_override input) ?c = (nw, today, audit)"
    and lists: "ro_attention_now out = rank_items nw HZ_Now" "ro_today out = rank_items today HZ_Today"
  have now: "set nw \<subseteq> set (without_ids ?gone cs)" and td: "set today \<subseteq> set (without_ids ?gone cs)"
    using ov diverse_top_n_subset [of cd_domain "without_ids ?gone cs" "sc_today_limit ?c"]
    by (auto simp: assms(2,3) apply_override_def apply_dismiss_def Let_def without_ids_def dest!: in_set_takeD)
  have "i \<notin> cd_id ` set (without_ids ?gone cs)" if "i \<in> set (fo_target_ids ov)" for i
  proof
    assume "i \<in> cd_id ` set (without_ids ?gone cs)"
    then obtain x where x: "x \<in> set cs" "cd_id x = i" "i \<notin> cd_id ` set ?gone" by (auto simp: without_ids_def)
    then have "index_by_id cs i \<noteq> None" by (force simp: index_by_id_def map_of_eq_None_iff)
    then obtain y where y: "index_by_id cs i = Some y" by auto
    then have "cd_id y = i" by (auto simp: index_by_id_def dest: map_of_SomeD)
    moreover from y that have "y \<in> set ?gone"
      by (force simp: resolve_targets_def List.map_filter_def)
    ultimately show False using x(3) by auto
  qed
  with now td show ?thesis by (auto simp: lists)
qed

theorem dismissed_items_gone_witness:
  "\<exists>out. rank_attention sample_attention_env (sample_input (Some (sample_override OA_Dismiss))) = Inr out
     \<and> {''cc:x:a''} \<inter> set (map rk_id (ro_attention_now out) @ map rk_id (ro_today out)) = {}"
proof -
  obtain out where out: "rank_attention sample_attention_env (sample_input (Some (sample_override OA_Dismiss))) = Inr out"
    using rank_attention_total by blast
  from dismissed_items_gone [OF out, of "sample_override OA_Dismiss"] out show ?thesis
    by (auto simp: sample_input_def sample_override_def)
qed

section \<open>Requests\<close>










section \<open>Scores and reasons\<close>

text \<open>
  The score stays in its range and can be checked from what is shown. For a valid configuration
  with no negative urgency weight and a signal in the ranges the reader enforces, the raw score is at
  most 100 times the category weight, the score is between zero and 1000 times the raw score, so no
  freshness and no confidence can raise it, and recomputing it from the breakdown gives the same number.
\<close>

theorem score_bounded:
  assumes "valid_config c" "0 \<le> sc_urgency_weight_bp c" "0 \<le> sj_impact s" "sj_impact s \<le> 100"
    "0 \<le> sj_urgency s" "sj_urgency s \<le> 100"
    "0 \<le> ap_confidence (sj_provenance s)" "ap_confidence (sj_provenance s) \<le> 1"
  shows "0 \<le> sb_score_milli (build_breakdown s c k)
    \<and> sb_score_milli (build_breakdown s c k) \<le> 1000 * sb_raw (build_breakdown s c k)
    \<and> sb_raw (build_breakdown s c k) \<le> 100 * sc_category_weights c (sj_category s)
    \<and> score_milli_from_breakdown (build_breakdown s c k) = sb_score_milli (build_breakdown s c k)"
  using build_breakdown_score [OF assms] build_breakdown_reconstructs by blast

theorem score_bounded_witness:
  "0 \<le> sb_score_milli (build_breakdown
     \<lparr>sj_category = CT_Receita, sj_impact = 80, sj_urgency = 20, sj_provenance = sample_at_provenance,
      sj_merge_count = 1, sj_source_freshness_status = AF_FRESH\<rparr> default_scoring_config False)"
  using score_bounded [of default_scoring_config
      "\<lparr>sj_category = CT_Receita, sj_impact = 80, sj_urgency = 20, sj_provenance = sample_at_provenance,
        sj_merge_count = 1, sj_source_freshness_status = AF_FRESH\<rparr>" False, OF valid_default_config]
  by (simp add: sample_at_provenance_def default_scoring_config_def)

text \<open>
  C38. \<open>splitReason\<close> inverts the reason text. From the text of an item that fits the maximal length it
  gives back the plain notes, joined by blanks, and the technical part: the score sentence and the
  evidence sentence.
\<close>

theorem split_reason_inverts:
  assumes "length (join '' '' (build_plain_notes i)) + length (technical_part i hz) < 2000"
  shows "split_reason (build_reason i hz) = (join '' '' (build_plain_notes i), technical_part i hz)"
proof -
  let ?ps = "build_plain_notes i" and ?t = "technical_part i hz"
  let ?pre = "if ?ps = [] then [] else join '' '' ?ps @ '' ''"
  have reason: "build_reason i hz = ?pre @ ?t" using assms by (rule reason_text)
  have t: "hd ?t = CHR ''S''" "?t \<noteq> []" "last ?t = CHR ''.''" using technical_part_ends by blast+
  have plain: "plain_note (join '' '' ?ps)" if "?ps \<noteq> []" using that build_plain_notes_plain by (rule join_plain)
  then have "\<not> has_sc ?pre" by (auto simp: plain_note_def has_sc_append)
  then have "score_sentence_index (?pre @ ?t) = Some (length ?pre)"
    by (rule score_sentence_index_skip) (simp_all add: technical_part_here t(2))
  then have "split_reason (?pre @ ?t) = (js_trim ?pre, js_trim ?t)" by (simp add: split_reason_def)
  moreover have "js_trim ?pre = join '' '' ?ps"
    using plain by (auto simp: plain_note_def js_space_def intro!: js_trim_blank) (simp add: js_trim_def)
  moreover have "js_trim ?t = ?t" by (rule js_trim_id) (simp_all add: t js_space_def)
  ultimately show ?thesis by (simp add: reason)
qed

definition sample_candidate :: scored_candidate where
  "sample_candidate =
     \<lparr>cd_id = ''cc:x:b'', cd_title = ''t'', cd_summary = ''s'', cd_category = CT_Blocker, cd_domain = DM_Commercial,
      cd_scope = ''company'', cd_impact = 8, cd_urgency = 2, cd_severity = SV_Critical, cd_status = SS_Open,
      cd_item_kind = IK_Work, cd_correlation_key = ''k'', cd_evidence_refs = [],
      cd_provenance = sample_at_provenance, cd_recommended_action = None, cd_related_ids = [],
      cd_source_ids = [''cc:x:b''], cd_money = None, cd_merge_count = 1, cd_forced_by_kill_rule = True,
      cd_score_milli = 5, cd_breakdown =
        \<lparr>sb_category = CT_Blocker, sb_category_weight = 95, sb_category_tier = 2, sb_impact = 8, sb_urgency = 2,
         sb_impact_weight = 7 / 10, sb_urgency_weight = 3 / 10, sb_impact_weight_bp = 7000,
         sb_urgency_weight_bp = 3000, sb_axis = 62, sb_raw = 5, sb_freshness_status = AF_FRESH,
         sb_freshness_multiplier = 1, sb_freshness_bp = 10000, sb_confidence = 1, sb_confidence_bp = 10000,
         sb_score_milli = 5, sb_score = 5 / 1000, sb_kill_rule_applied = True, sb_merge_count = 1,
         sb_freshness_demoted = False, sb_source_freshness_status = AF_FRESH\<rparr>\<rparr>"

lemma sample_candidate_length:
  "length (join '' '' (build_plain_notes sample_candidate)) + length (technical_part sample_candidate HZ_Now) < 2000"
  by (simp add: sample_candidate_def Let_def build_plain_notes_def technical_part_def build_score_formula_def
      build_evidence_sentence_def format_score_def show_int_def pad_start_def show_nat.simps)

theorem split_reason_inverts_witness:
  "split_reason (build_reason sample_candidate HZ_Now) =
     (join '' '' (build_plain_notes sample_candidate), technical_part sample_candidate HZ_Now)"
  by (rule split_reason_inverts) (rule sample_candidate_length)

section \<open>What the comments do not say\<close>

text \<open>
  Two signals whose ids end alike get data-refresh items with one and the same id: the id takes the
  text after the last colon only, and the kind in the middle is lost.
\<close>

lemma stale_items_share_id:
  assumes "synthesize_dados_stale m now = Some x" "synthesize_dados_stale n now = Some y"
    "sg_id m = ''cc:client:acme''" "sg_id n = ''cc:invoice:acme''"
  shows "sg_id x = sg_id y \<and> sg_id m \<noteq> sg_id n"
  using assms
  by (auto simp: synthesize_dados_stale_def Let_def slug_from_id_def slug_safe_def is_alnum_def is_digit_def
      is_lower_def is_upper_def split: if_splits)

text \<open>
  A negative score, which a valid configuration with a negative urgency weight gives, is printed with
  the floor as its whole part next to the digits of its absolute value: -1.500 reads -2.500.
\<close>

lemma negative_score_misprinted: "format_score (-1500) = ''-2.500''"
  by code_simp

lemma negative_score_reachable:
  "\<exists>c s. valid_config c \<and> 0 \<le> sj_impact s \<and> sj_urgency s = 100 \<and> sb_score_milli (build_breakdown s c False) < 0"
proof -
  let ?c = "default_scoring_config\<lparr>sc_impact_weight_bp := 12000, sc_urgency_weight_bp := -2000\<rparr>"
  let ?s = "\<lparr>sj_category = CT_Receita, sj_impact = 0, sj_urgency = 100, sj_provenance = sample_at_provenance,
      sj_merge_count = 1, sj_source_freshness_status = AF_FRESH\<rparr>"
  have "valid_config ?c"
    by (simp add: valid_config_def assert_valid_config_def default_scoring_config_def weight_denom_def signal_categories_def)
  moreover have "sb_score_milli (build_breakdown ?s ?c False) < 0" by code_simp
  ultimately show ?thesis by (intro exI [of _ ?c] exI [of _ ?s]) simp
qed

text \<open>
  Pinning pushes kill-rule items out: with a limit of one, the pinned item is the whole list, although
  a kill-rule item that nobody dismissed is a candidate.
\<close>

definition kill_flags :: "scored_candidate list \<Rightarrow> (string \<times> bool) list" where
  "kill_flags cs = map (\<lambda>c. (cd_id c, cd_forced_by_kill_rule c)) cs"

definition sample_now :: "founder_override option \<Rightarrow> (string \<times> bool) list" where
  "sample_now ov =
     (case ordered_candidates sample_attention_env (sample_input ov) of Inl _ \<Rightarrow> []
      | Inr cs \<Rightarrow> kill_flags (fst (apply_override (take 1 cs) [] cs ov (ri_config (sample_input ov)))))"

lemma sample_now_eval:
  "sample_now None = [(''cc:x:b'', True)]" "sample_now (Some (sample_override OA_Pin)) = [(''cc:x:a'', False)]"
  by code_simp+

lemma shown_flags:
  assumes "rank_attention sample_attention_env (sample_input ov) = Inr out"
  shows "map (\<lambda>i. (rk_id i, rk_forced_by_kill_rule i)) (ro_attention_now out) = sample_now ov"
proof (rule rank_attentionD [OF assms])
  fix cs nw today audit
  assume cs: "ordered_candidates sample_attention_env (sample_input ov) = Inr cs"
    and ov: "apply_override (take (nat (sc_atencao_agora_limit (ri_config (sample_input ov)))) cs)
      (diverse_top_n cd_domain cs (sc_today_limit (ri_config (sample_input ov)))) cs (ri_override (sample_input ov))
      (ri_config (sample_input ov)) = (nw, today, audit)"
    and now: "ro_attention_now out = rank_items nw HZ_Now"
  have "nw = fst (apply_override (take 1 cs) [] cs ov (ri_config (sample_input ov)))"
    using arg_cong [OF ov, of fst] by (simp add: apply_override_def Let_def sample_input_def split: option.splits)
  moreover have "map (\<lambda>i. (rk_id i, rk_forced_by_kill_rule i)) (rank_items nw HZ_Now) = kill_flags nw"
    unfolding kill_flags_def by (rule map_rank_items) (simp add: to_ranked_item_def)
  ultimately show ?thesis by (simp add: now sample_now_def cs)
qed

lemma pin_displaces_kill_rule:
  "\<exists>plain pinned. rank_attention sample_attention_env (sample_input None) = Inr plain
     \<and> rank_attention sample_attention_env (sample_input (Some (sample_override OA_Pin))) = Inr pinned
     \<and> map (\<lambda>i. (rk_id i, rk_forced_by_kill_rule i)) (ro_attention_now plain) = [(''cc:x:b'', True)]
     \<and> map (\<lambda>i. (rk_id i, rk_forced_by_kill_rule i)) (ro_attention_now pinned) = [(''cc:x:a'', False)]"
proof -
  obtain plain pinned where "rank_attention sample_attention_env (sample_input None) = Inr plain"
    "rank_attention sample_attention_env (sample_input (Some (sample_override OA_Pin))) = Inr pinned"
    using rank_attention_total by metis
  with shown_flags sample_now_eval show ?thesis by (intro exI conjI) auto
qed

end
