(* ===== verification/Work_Order.thy ===== *)
theory Work_Order
  imports Json Iso_Date
begin

text \<open>
  The data of the delivery domain: \<open>WorkOrder\<close>, \<open>WorkOrderEvent\<close> and their parts
  (\<open>control-center/contracts/src/types.ts\<close>), the error codes of \<open>domains/delivery/src/errors.ts\<close> and
  the readers of event payloads of \<open>domains/delivery/src/aggregate.ts\<close>. The constant field
  \<open>schema_version\<close> is not carried. Field names have a prefix per record; constructors of the string
  enums have a prefix per enum (\<open>ST_\<close> stage, \<open>CLK_\<close> clock, \<open>IN_\<close> input, \<open>QA_\<close>, \<open>CA_\<close> client acceptance, \<open>NC_\<close>
  nonconformity, \<open>CR_\<close> change request, \<open>OC_\<close> outcome).
\<close>

section \<open>Actors and provenance\<close>

datatype actor_kind = Human | Agent | System

record actor_ref =
  ac_kind :: actor_kind
  ac_id :: string
  ac_display_name :: "string option"

datatype freshness_status = FRESH | STALE | UNKNOWN | ERROR

record source_ref =
  sr_system :: string
  sr_kind :: string
  sr_locator :: string
  sr_label :: "string option"

record provenance_rec =
  pv_source :: source_ref
  pv_observed_at :: string
  pv_freshness :: freshness_status
  pv_confidence :: rat
  pv_window_seconds :: "rat option"

section \<open>Work orders\<close>

datatype work_order_stage =
    ST_AWAITING_INPUTS | ST_READY | ST_IN_PROGRESS | ST_BLOCKED | ST_QA | ST_READY_TO_DELIVER
  | ST_DELIVERED | ST_ACCEPTED | ST_REWORK_REQUIRED | ST_CLOSED | ST_CANCELLED

datatype work_order_clock_state =
    CLK_NOT_STARTED | CLK_RUNNING | CLK_PAUSED_CLIENT | CLK_PAUSED_INTERNAL
  | CLK_PAUSED_FORCE_MAJEURE | CLK_STOPPED

datatype input_status = IN_REQUIRED | IN_RECEIVED | IN_WAIVED

record work_order_input =
  in_id :: string
  in_status :: input_status
  in_evidence_ref :: "string option"
  in_verified_at :: "string option"
  in_verified_by :: "actor_ref option"

record work_order_blocker =
  bl_id :: string
  bl_reason_code :: string
  bl_owner :: "string option"
  bl_evidence_ref :: string
  bl_opened_at :: string
  bl_resolved_at :: "string option"

record work_order_artifact_ref =
  ar_id :: string
  ar_sha256 :: string
  ar_evidence_ref :: string

datatype nonconformity_status = NC_OPEN | NC_RESOLVED

record work_order_nonconformity =
  nc_id :: string
  nc_status :: nonconformity_status
  nc_reason_code :: string
  nc_evidence_ref :: string

datatype change_request_status = CR_PROPOSED | CR_ACCEPTED | CR_REJECTED | CR_APPLIED

record work_order_change_request =
  cr_id :: string
  cr_status :: change_request_status
  cr_proposed_snapshot_hash :: string
  cr_evidence_ref :: string

datatype qa_state = QA_NOT_STARTED | QA_IN_REVIEW | QA_PASS | QA_FAIL

datatype acceptance_state = CA_PENDING | CA_ACCEPTED | CA_REWORK_REQUIRED | CA_REJECTED | CA_CANCELLED

datatype outcome_state = OC_UNKNOWN | OC_ACHIEVED | OC_PARTIAL | OC_NOT_ACHIEVED

text \<open>The fields fixed at creation (the accepted commercial identity) come first.\<close>

record work_order_identity =
  wo_id :: string
  wo_client_id :: string
  wo_account_id :: string
  wo_opportunity_id :: string
  wo_qco_id :: string
  wo_proposal_id :: string
  wo_proposal_version :: string
  wo_order_id :: string
  wo_provider_refs :: "string list"
  wo_accepted_snapshot_hash :: string
  wo_offer_id :: string
  wo_offer_version :: string
  wo_deliverable_id :: string
  wo_deliverable_version :: string
  wo_scope_version :: string
  wo_price_version :: string
  wo_terms_version :: string
  wo_created_at :: string
  wo_business_calendar_version :: string
  wo_estimated_effort_minutes :: "rat option"
  wo_estimated_capacity_units :: rat
  wo_capacity_commitment_id :: string
  wo_synthetic :: bool

record work_order = work_order_identity +
  wo_inputs_required :: "work_order_input list"
  wo_inputs_received :: "string list"
  wo_started_at :: "string option"
  wo_due_at :: "string option"
  wo_clock_state :: work_order_clock_state
  wo_clock_reason_version :: "string option"
  wo_blockers :: "work_order_blocker list"
  wo_stage :: work_order_stage
  wo_responsible_owner :: "string option"
  wo_actual_effort_minutes :: int
  wo_QA_state :: qa_state
  wo_QA_checklist_version :: "string option"
  wo_delivery_artifact_refs :: "work_order_artifact_ref list"
  wo_delivered_at :: "string option"
  wo_acceptance :: acceptance_state
  wo_nonconformities :: "work_order_nonconformity list"
  wo_change_requests :: "work_order_change_request list"
  wo_outcome :: outcome_state
  wo_expansion_candidate :: "bool option"
  wo_version :: int
  wo_last_event_id :: string
  wo_provenance :: provenance_rec

section \<open>Events\<close>

datatype work_order_event_type =
    WORK_ORDER_CREATED | INPUT_RECEIVED | INPUT_WAIVED | OWNER_ASSIGNED | PRODUCTION_STARTED
  | WORK_BLOCKED | WORK_RESUMED | EFFORT_RECORDED | QA_SUBMITTED | QA_PASSED | QA_FAILED
  | DELIVERY_RECORDED | CLIENT_ACCEPTED | CLIENT_REWORK_REQUESTED | REWORK_STARTED
  | NONCONFORMITY_OPENED | NONCONFORMITY_RESOLVED | CHANGE_REQUEST_OPENED
  | CHANGE_REQUEST_ACCEPTED | CHANGE_REQUEST_REJECTED | CLOCK_PAUSED_CLIENT
  | CLOCK_PAUSED_INTERNAL | CLOCK_PAUSED_FORCE_MAJEURE | CLOCK_RESUMED
  | WORK_ORDER_CANCELLED | WORK_ORDER_CLOSED

text \<open>
  A payload value is JSON; the creation event carries a whole work order, kept as such
  (\<open>Snapshot\<close>): the code casts it to \<open>WorkOrder\<close> after its schema check.
\<close>

datatype data_value = Json json | Snapshot work_order

type_synonym payload = "(string \<times> data_value) list"

record transition_rec =
  tr_from :: work_order_stage
  tr_to :: work_order_stage

record work_order_event =
  we_event_id :: string
  we_event_version :: int
  we_work_order_id :: string
  we_expected_version :: int
  we_event_type :: work_order_event_type
  we_actor :: actor_ref
  we_reason_code :: string
  we_literal_reason_ref :: string
  we_occurred_at :: string
  we_idempotency_key :: string
  we_correlation_id :: string
  we_causation_id :: "string option"
  we_source_system :: string
  we_evidence_refs :: "string list"
  we_transition :: "transition_rec option"
  we_data :: payload

text \<open>The codes of the domain; \<open>RANGE_ERROR\<close> is the \<open>RangeError\<close> that \<open>Date\<close> and \<open>Intl\<close> throw.\<close>

datatype work_order_error =
    INVALID_COMMAND | INVALID_EVENT | ILLEGAL_TRANSITION | VERSION_CONFLICT
  | IDEMPOTENCY_CONFLICT | MISSING_AUTHORITY | MISSING_EVIDENCE
  | RANGE_ERROR

text \<open>
  What the domain uses from outside the repository's code: the JSON-schema verdict of \<open>validate\<close>
  (Ajv) for the two resource types, and the hexadecimal SHA-256 prefix \<open>fingerprint\<close>.
\<close>

record wo_env =
  order_ok :: "work_order \<Rightarrow> bool"
  event_ok :: "work_order_event \<Rightarrow> bool"
  fingerprint :: "string \<Rightarrow> string"

end
