(* ===== verification/Business_Calendar.thy ===== *)
theory Business_Calendar
  imports Work_Order
begin

text \<open>
  Business-day arithmetic of \<open>domains/delivery/src/clock.ts\<close>. The time-zone database behind
  \<open>Intl.DateTimeFormat\<close> is outside the repository: \<open>off\<close> maps an instant to the offset of the
  calendar's zone from UTC, in milliseconds. A civil date and time has second precision, as the
  formatter has. A \<open>Date\<close> reaches a hundred million days to both sides of 1970; beyond, \<open>Date.UTC\<close> is \<open>NaN\<close>,
  the fields of such a date are \<open>NaN\<close> and the formatter throws a \<open>RangeError\<close>. \<open>addBusinessDays\<close> loops until
  enough business days were seen; \<open>None\<close> means that it does not return.
\<close>

record business_calendar =
  bc_version :: string
  bc_time_zone :: string
  bc_holidays :: "string list"

record civil_date_time =
  cv_year :: int
  cv_month :: int
  cv_day :: int
  cv_hour :: int
  cv_minute :: int
  cv_second :: int

text \<open>The UTC fields of an instant, and the instant of fields whose day may run past the month's end.\<close>

definition civil_of_ms :: "int \<Rightarrow> civil_date_time" where
  "civil_of_ms t =
     (case civil_of_days (t div day_ms) of (y, m, d) \<Rightarrow>
        let r = t mod day_ms in
        \<lparr>cv_year = y, cv_month = m, cv_day = d, cv_hour = r div 3600000,
         cv_minute = r div 60000 mod 60, cv_second = r div 1000 mod 60\<rparr>)"

definition ms_of_civil :: "civil_date_time \<Rightarrow> int" where
  "ms_of_civil v =
     days_of_civil (cv_year v) (cv_month v) (cv_day v) * day_ms
     + cv_hour v * 3600000 + cv_minute v * 60000 + cv_second v * 1000"

text \<open>The range of a \<open>Date\<close>; \<open>None\<close> is \<open>NaN\<close>.\<close>

definition time_clip :: "int \<Rightarrow> int option" where
  "time_clip t = (if \<bar>t\<bar> \<le> 8640000000000000 then Some t else None)"

text \<open>\<open>Date.UTC\<close> reads a year from 0 to 99 as one of the twentieth century.\<close>

definition date_utc :: "civil_date_time \<Rightarrow> int option" where
  "date_utc v =
     time_clip (ms_of_civil
       (if 0 \<le> cv_year v \<and> cv_year v \<le> 99 then v\<lparr>cv_year := 1900 + cv_year v\<rparr> else v))"

text \<open>The formatter writes the year of its era: the year before 1 is 1 again.\<close>

definition civil_parts :: "(int \<Rightarrow> int) \<Rightarrow> int \<Rightarrow> work_order_error + civil_date_time" where
  "civil_parts off instant =
     (case time_clip instant of
        None \<Rightarrow> Inl RANGE_ERROR
      | Some t \<Rightarrow>
          let v = civil_of_ms (t + off t)
          in Inr (if cv_year v \<le> 0 then v\<lparr>cv_year := 1 - cv_year v\<rparr> else v))"

text \<open>\<open>String(n).padStart(w, "0")\<close> for \<open>n \<ge> 0\<close>\<close>

fun show_digits :: "nat \<Rightarrow> string" where
  "show_digits n = (if n < 10 then [digit_char (int n)] else show_digits (n div 10) @ [digit_char (int (n mod 10))])"

declare show_digits.simps [simp del]

definition pad_start :: "nat \<Rightarrow> int \<Rightarrow> string" where
  "pad_start w n =
     (let s = (if n < 0 then ''-'' @ show_digits (nat (- n)) else show_digits (nat n))
      in replicate (w - length s) (CHR ''0'') @ s)"

text \<open>The fields of an invalid date are all \<open>NaN\<close>: \<open>None\<close>.\<close>

definition civil_key :: "civil_date_time option \<Rightarrow> string" where
  "civil_key w =
     (case w of
        None \<Rightarrow> ''0NaN-NaN-NaN''
      | Some v \<Rightarrow> pad_start 4 (cv_year v) @ ''-'' @ pad_start 2 (cv_month v) @ ''-'' @ pad_start 2 (cv_day v))"

definition add_civil_days :: "civil_date_time option \<Rightarrow> int \<Rightarrow> civil_date_time option" where
  "add_civil_days w days =
     (case w of
        None \<Rightarrow> None
      | Some v \<Rightarrow> map_option civil_of_ms (date_utc (v\<lparr>cv_day := cv_day v + days\<rparr>)))"

text \<open>
  The four correction attempts: whether the wanted civil time was hit, and the last candidate. A correction that is
  \<open>NaN\<close> makes the candidate \<open>NaN\<close>, and the next use of the formatter throws.
\<close>

fun civil_search :: "(int \<Rightarrow> int) \<Rightarrow> int \<Rightarrow> nat \<Rightarrow> int \<Rightarrow> work_order_error + bool \<times> int" where
  "civil_search off target 0 candidate = Inr (False, candidate)"
| "civil_search off target (Suc n) candidate =
     bindE (civil_parts off candidate) (\<lambda>observed.
       case date_utc observed of
         None \<Rightarrow> Inl RANGE_ERROR
       | Some t \<Rightarrow> if target - t = 0 then Inr (True, candidate)
                   else civil_search off target n (candidate + (target - t)))"

definition civil_to_instant :: "(int \<Rightarrow> int) \<Rightarrow> civil_date_time option \<Rightarrow> work_order_error + int" where
  "civil_to_instant off w =
     (case w of
        None \<Rightarrow> Inl RANGE_ERROR
      | Some v \<Rightarrow>
          case date_utc v of
            None \<Rightarrow> Inl RANGE_ERROR
          | Some target \<Rightarrow>
              bindE (civil_search off target 4 target) (\<lambda>(hit, candidate).
                if hit then Inr candidate
                else bindE (civil_parts off candidate) (\<lambda>p. require (p = v) INVALID_COMMAND (Inr candidate))))"

definition weekend :: "int \<Rightarrow> bool" where
  "weekend n \<longleftrightarrow> week_day n = 0 \<or> week_day n = 6"

definition is_business_day ::
  "(int \<Rightarrow> int) \<Rightarrow> business_calendar \<Rightarrow> civil_date_time option \<Rightarrow> work_order_error + bool" where
  "is_business_day off cal w =
     (if civil_key w \<in> set (bc_holidays cal) then Inr False
      else bindE (civil_to_instant off (map_option (\<lambda>v. v\<lparr>cv_hour := 12, cv_minute := 0, cv_second := 0\<rparr>) w)) (\<lambda>noon.
             Inr (\<not> weekend ((noon + off noon) div day_ms))))"

partial_function (option) business_loop ::
  "(int \<Rightarrow> int) \<Rightarrow> business_calendar \<Rightarrow> civil_date_time option \<Rightarrow> int
    \<Rightarrow> (work_order_error + civil_date_time option) option" where
  "business_loop off cal cursor remaining =
     (if 0 < remaining then
        (let next = add_civil_days cursor 1 in
         case is_business_day off cal next of
           Inl e \<Rightarrow> Some (Inl e)
         | Inr b \<Rightarrow> business_loop off cal next (if b then remaining - 1 else remaining))
      else Some (Inr cursor))"

text \<open>\<open>toISOString\<close>, which writes a year of more than four digits with a sign and six digits\<close>

definition iso_string :: "int \<Rightarrow> string" where
  "iso_string t =
     (if iso_range t then to_iso t
      else let v = civil_of_ms t
           in (if cv_year v < 0 then ''-'' else ''+'') @ pad_start 6 \<bar>cv_year v\<bar> @ ''-'' @ pad_start 2 (cv_month v) @ ''-''
              @ pad_start 2 (cv_day v) @ ''T'' @ pad_start 2 (cv_hour v) @ '':'' @ pad_start 2 (cv_minute v) @ '':''
              @ pad_start 2 (cv_second v) @ ''.'' @ pad_start 3 (t mod 1000) @ ''Z'')"

definition add_business_days :: "(int \<Rightarrow> int) \<Rightarrow> string \<Rightarrow> rat \<Rightarrow> business_calendar \<Rightarrow> (work_order_error + string) option" where
  "add_business_days off started_at business_days cal =
     (if \<not> (is_integer business_days \<and> 0 < business_days) then Some (Inl INVALID_COMMAND)
      else if \<not> non_blank (bc_version cal) then Some (Inl MISSING_AUTHORITY)
      else if \<not> non_blank (bc_time_zone cal) then Some (Inl MISSING_AUTHORITY)
      else case date_ms started_at of
        None \<Rightarrow> Some (Inl INVALID_COMMAND)
      | Some start \<Rightarrow>
          if \<not> ends_with started_at ''Z'' then Some (Inl INVALID_COMMAND)
          else case civil_parts off start of
            Inl e \<Rightarrow> Some (Inl e)
          | Inr first \<Rightarrow>
              map_option (\<lambda>r. bindE r (\<lambda>cursor. bindE (civil_to_instant off cursor) (\<lambda>t. Inr (iso_string t))))
                (business_loop off cal (Some first) \<lfloor>business_days\<rfloor>))"

end
