(* ===== verification/Work_Order_Aggregate.thy ===== *)
theory Work_Order_Aggregate
  imports Business_Calendar
begin

text \<open>
  The Work Order aggregate of \<open>domains/delivery/src/aggregate.ts\<close>: reading event payloads, the
  transition an event type claims, one definition per event of the \<open>switch\<close> of
  \<open>applyWorkOrderEvent\<close>, the frame around it, and \<open>replayWorkOrder\<close>. A thrown \<open>WorkOrderError\<close>
  is \<open>Inl\<close> of its code.
\<close>

type_synonym 'a wo_result = "work_order_error + 'a"

section \<open>Reading payloads\<close>

definition sha256_pattern :: "string \<Rightarrow> bool" where
  "sha256_pattern s \<longleftrightarrow>
     starts_with s ''sha256:'' \<and> length s = 71
     \<and> list_all (\<lambda>c. is_digit c \<or> c \<in> set ''abcdef'') (drop 7 s)"

text \<open>\<open>data[key]\<close>; \<open>None\<close> is \<open>undefined\<close>, and no reader looks inside an embedded work order.\<close>

definition get :: "payload \<Rightarrow> string \<Rightarrow> json option" where
  "get data key =
     (case map_of data key of None \<Rightarrow> None | Some (Json j) \<Rightarrow> Some j | Some (Snapshot w) \<Rightarrow> Some (JObj []))"

definition text_value :: "json option \<Rightarrow> string wo_result" where
  "text_value v = (case v of Some (JStr s) \<Rightarrow> require (non_blank s) INVALID_EVENT (Inr s) | _ \<Rightarrow> Inl INVALID_EVENT)"

definition text_field :: "payload \<Rightarrow> string \<Rightarrow> string wo_result" where
  "text_field data key = text_value (get data key)"

definition positive_integer :: "payload \<Rightarrow> string \<Rightarrow> int wo_result" where
  "positive_integer data key =
     (case get data key of
        Some (JNum r) \<Rightarrow> require (is_integer r \<and> 0 < r) INVALID_EVENT (Inr \<lfloor>r\<rfloor>)
      | _ \<Rightarrow> Inl INVALID_EVENT)"

definition nullable_text :: "payload \<Rightarrow> string \<Rightarrow> string option wo_result" where
  "nullable_text data key =
     (case get data key of
        Some JNull \<Rightarrow> Inr None
      | Some (JStr s) \<Rightarrow> require (non_blank s) INVALID_EVENT (Inr (Some s))
      | _ \<Rightarrow> Inl INVALID_EVENT)"

definition parse_artifact :: "json \<Rightarrow> work_order_artifact_ref wo_result" where
  "parse_artifact value =
     (case value of
        JObj row \<Rightarrow>
          bindE (text_value (map_of row ''sha256'')) (\<lambda>sha.
          require (sha256_pattern sha) INVALID_EVENT (
          bindE (text_value (map_of row ''artifact_id'')) (\<lambda>aid.
          bindE (text_value (map_of row ''evidence_ref'')) (\<lambda>ref.
          Inr \<lparr>ar_id = aid, ar_sha256 = sha, ar_evidence_ref = ref\<rparr>))))
      | _ \<Rightarrow> Inl INVALID_EVENT)"

definition parse_nonconformity :: "json option \<Rightarrow> work_order_nonconformity wo_result" where
  "parse_nonconformity value =
     (case value of
        Some (JObj row) \<Rightarrow>
          bindE (text_value (map_of row ''nonconformity_id'')) (\<lambda>nid.
          bindE (text_value (map_of row ''reason_code'')) (\<lambda>reason.
          bindE (text_value (map_of row ''evidence_ref'')) (\<lambda>ref.
          Inr \<lparr>nc_id = nid, nc_status = NC_OPEN, nc_reason_code = reason, nc_evidence_ref = ref\<rparr>)))
      | _ \<Rightarrow> Inl INVALID_EVENT)"

section \<open>Guards shared by the events\<close>

definition terminal_stage :: "work_order_stage \<Rightarrow> bool" where
  "terminal_stage s \<longleftrightarrow> s = ST_CLOSED \<or> s = ST_CANCELLED"

definition input_complete :: "work_order_input \<Rightarrow> bool" where
  "input_complete i \<longleftrightarrow> in_status i = IN_RECEIVED \<or> in_status i = IN_WAIVED"

definition all_inputs_complete :: "work_order \<Rightarrow> string option \<Rightarrow> bool" where
  "all_inputs_complete order completing \<longleftrightarrow>
     list_all (\<lambda>i. Some (in_id i) = completing \<or> input_complete i) (wo_inputs_required order)"

text \<open>\<open>expectedTransition\<close>; reading \<open>input_id\<close> may throw, and only where the code reads it.\<close>

definition input_transition :: "work_order \<Rightarrow> payload \<Rightarrow> work_order_stage option wo_result" where
  "input_transition order data =
     (if wo_stage order = ST_AWAITING_INPUTS
      then bindE (text_field data ''input_id'') (\<lambda>i.
             Inr (if all_inputs_complete order (Some i) then Some ST_READY else None))
      else Inr None)"

definition target_stage :: "work_order \<Rightarrow> work_order_event_type \<Rightarrow> payload \<Rightarrow> work_order_stage option wo_result" where
  "target_stage order type data =
     (case type of
        INPUT_RECEIVED \<Rightarrow> input_transition order data
      | INPUT_WAIVED \<Rightarrow> input_transition order data
      | PRODUCTION_STARTED \<Rightarrow> Inr (Some ST_IN_PROGRESS)
      | WORK_BLOCKED \<Rightarrow> Inr (Some ST_BLOCKED)
      | WORK_RESUMED \<Rightarrow> Inr (Some ST_IN_PROGRESS)
      | QA_SUBMITTED \<Rightarrow> Inr (Some ST_QA)
      | QA_PASSED \<Rightarrow> Inr (Some ST_READY_TO_DELIVER)
      | QA_FAILED \<Rightarrow> Inr (Some ST_REWORK_REQUIRED)
      | DELIVERY_RECORDED \<Rightarrow> Inr (Some ST_DELIVERED)
      | CLIENT_ACCEPTED \<Rightarrow> Inr (Some ST_ACCEPTED)
      | CLIENT_REWORK_REQUESTED \<Rightarrow> Inr (Some ST_REWORK_REQUIRED)
      | REWORK_STARTED \<Rightarrow> Inr (Some ST_IN_PROGRESS)
      | WORK_ORDER_CANCELLED \<Rightarrow> Inr (Some ST_CANCELLED)
      | WORK_ORDER_CLOSED \<Rightarrow> Inr (Some ST_CLOSED)
      | _ \<Rightarrow> Inr None)"

definition expected_transition :: "work_order \<Rightarrow> work_order_event_type \<Rightarrow> payload \<Rightarrow> transition_rec option wo_result" where
  "expected_transition order type data =
     bindE (target_stage order type data) (\<lambda>to.
       Inr (map_option (\<lambda>s. \<lparr>tr_from = wo_stage order, tr_to = s\<rparr>) to))"

definition require_stage :: "work_order \<Rightarrow> work_order_stage list \<Rightarrow> 'a wo_result \<Rightarrow> 'a wo_result" where
  "require_stage order allowed k = require (wo_stage order \<in> set allowed) ILLEGAL_TRANSITION k"

definition require_human :: "work_order_event \<Rightarrow> 'a wo_result \<Rightarrow> 'a wo_result" where
  "require_human event k = require (ac_kind (we_actor event) = Human) MISSING_AUTHORITY k"

definition require_clock_authority :: "work_order \<Rightarrow> work_order_event \<Rightarrow> payload \<Rightarrow> 'a wo_result \<Rightarrow> 'a wo_result" where
  "require_clock_authority order event data k =
     require_human event (
     (if Some (ac_id (we_actor event)) = wo_responsible_owner order then k
      else require (get data ''authority_role'' = Some (JStr ''SUPERVISOR'')) MISSING_AUTHORITY (
           bindE (text_field data ''authority_ref'') (\<lambda>_. k))))"

definition unresolved :: "work_order_blocker \<Rightarrow> bool" where
  "unresolved b \<longleftrightarrow> bl_resolved_at b = None"

definition assert_utc :: "string \<Rightarrow> 'a wo_result \<Rightarrow> 'a wo_result" where
  "assert_utc value k = require (ends_with value ''Z'' \<and> date_ms value \<noteq> None) INVALID_COMMAND k"

text \<open>\<open>new Date(a).getTime() >= new Date(b).getTime()\<close>: false when either is \<open>NaN\<close>.\<close>

definition not_before :: "string \<Rightarrow> string \<Rightarrow> bool" where
  "not_before a b \<longleftrightarrow> (case (date_ms a, date_ms b) of (Some x, Some y) \<Rightarrow> y \<le> x | _ \<Rightarrow> False)"

section \<open>The events\<close>

definition resolve_input :: "work_order_event \<Rightarrow> string \<Rightarrow> work_order_input \<Rightarrow> work_order_input" where
  "resolve_input ev ref i =
     i\<lparr>in_status := (if we_event_type ev = INPUT_RECEIVED then IN_RECEIVED else IN_WAIVED),
       in_evidence_ref := Some ref, in_verified_at := Some (we_occurred_at ev),
       in_verified_by := Some (we_actor ev)\<rparr>"

definition add_missing :: "string \<Rightarrow> string list \<Rightarrow> string list" where
  "add_missing x xs = (if x \<in> set xs then xs else xs @ [x])"

definition on_input :: "work_order \<Rightarrow> work_order_event \<Rightarrow> payload \<Rightarrow> transition_rec option \<Rightarrow> work_order wo_result" where
  "on_input n ev data tr =
     require_stage n [ST_AWAITING_INPUTS] (
     require (we_event_type ev = INPUT_WAIVED \<longrightarrow> ac_kind (we_actor ev) = Human) MISSING_AUTHORITY (
     bindE (text_field data ''input_id'') (\<lambda>input_id.
     require_some (List.find (\<lambda>i. in_id i = input_id) (wo_inputs_required n)) INVALID_EVENT (\<lambda>input.
     require (in_status input = IN_REQUIRED) INVALID_EVENT (
     bindE (text_field data ''evidence_ref'') (\<lambda>ref.
     Inr (n\<lparr>wo_inputs_required := update_first (\<lambda>i. in_id i = input_id) (resolve_input ev ref) (wo_inputs_required n),
            wo_inputs_received := add_missing input_id (wo_inputs_received n),
            wo_stage := (case tr of None \<Rightarrow> wo_stage n | Some t \<Rightarrow> tr_to t)\<rparr>)))))))"

definition on_owner_assigned :: "work_order \<Rightarrow> work_order_event \<Rightarrow> payload \<Rightarrow> work_order wo_result" where
  "on_owner_assigned n ev data =
     require_human ev (
     bindE (text_field data ''owner'') (\<lambda>owner. Inr (n\<lparr>wo_responsible_owner := Some owner\<rparr>)))"

definition on_production_started :: "work_order \<Rightarrow> work_order_event \<Rightarrow> payload \<Rightarrow> work_order wo_result" where
  "on_production_started n ev data =
     require_stage n [ST_READY] (
     require_human ev (
     require (wo_responsible_owner n \<noteq> None) MISSING_AUTHORITY (
     require (all_inputs_complete n None) MISSING_AUTHORITY (
     bindE (text_field data ''capacity_commitment_id'') (\<lambda>cap.
     require (cap = wo_capacity_commitment_id n) MISSING_AUTHORITY (
     require (get data ''capacity_state'' = Some (JStr ''COMMITTED'')) MISSING_AUTHORITY (
     bindE (text_field data ''capacity_evidence_ref'') (\<lambda>_.
     bindE (text_field data ''due_at'') (\<lambda>due.
     assert_utc due (
     bindE (text_field data ''business_calendar_version'') (\<lambda>cal.
     require (cal = wo_business_calendar_version n) MISSING_AUTHORITY (
     Inr (n\<lparr>wo_stage := ST_IN_PROGRESS, wo_started_at := Some (we_occurred_at ev),
            wo_due_at := Some due, wo_clock_state := CLK_RUNNING,
            wo_clock_reason_version := None\<rparr>)))))))))))))"

definition on_work_blocked :: "work_order \<Rightarrow> work_order_event \<Rightarrow> payload \<Rightarrow> work_order wo_result" where
  "on_work_blocked n ev data =
     require_stage n [ST_IN_PROGRESS] (
     bindE (text_field data ''blocker_id'') (\<lambda>bid.
     bindE (text_field data ''blocker_reason_code'') (\<lambda>reason.
     bindE (nullable_text data ''owner'') (\<lambda>owner.
     bindE (text_field data ''evidence_ref'') (\<lambda>ref.
     require (bid \<notin> bl_id ` set (wo_blockers n)) INVALID_EVENT (
     Inr (n\<lparr>wo_blockers := wo_blockers n @
              [\<lparr>bl_id = bid, bl_reason_code = reason, bl_owner = owner, bl_evidence_ref = ref,
                bl_opened_at = we_occurred_at ev, bl_resolved_at = None\<rparr>],
            wo_stage := ST_BLOCKED\<rparr>)))))))"

definition on_work_resumed :: "work_order \<Rightarrow> work_order_event \<Rightarrow> payload \<Rightarrow> work_order wo_result" where
  "on_work_resumed n ev data =
     require_stage n [ST_BLOCKED] (
     bindE (text_field data ''blocker_id'') (\<lambda>bid.
     require_some (List.find (\<lambda>b. bl_id b = bid) (wo_blockers n)) INVALID_EVENT (\<lambda>b.
          require (bl_resolved_at b = None) INVALID_EVENT (
          let bs = update_first (\<lambda>b. bl_id b = bid)
                     (\<lambda>b. b\<lparr>bl_resolved_at := Some (we_occurred_at ev)\<rparr>) (wo_blockers n)
          in require (\<not> list_ex unresolved bs) MISSING_AUTHORITY (
             Inr (n\<lparr>wo_blockers := bs, wo_stage := ST_IN_PROGRESS\<rparr>))))))"

definition on_effort_recorded :: "work_order \<Rightarrow> payload \<Rightarrow> work_order wo_result" where
  "on_effort_recorded n data =
     require_stage n [ST_IN_PROGRESS, ST_BLOCKED, ST_QA, ST_REWORK_REQUIRED] (
     bindE (positive_integer data ''effort_minutes'') (\<lambda>m.
     Inr (n\<lparr>wo_actual_effort_minutes := wo_actual_effort_minutes n + m\<rparr>)))"

definition read_rows :: "json option \<Rightarrow> json list wo_result" where
  "read_rows v = (case v of Some (JArr rows) \<Rightarrow> require (rows \<noteq> []) MISSING_EVIDENCE (Inr rows)
                  | _ \<Rightarrow> Inl MISSING_EVIDENCE)"

definition on_qa_submitted :: "work_order \<Rightarrow> payload \<Rightarrow> work_order wo_result" where
  "on_qa_submitted n data =
     require_stage n [ST_IN_PROGRESS] (
     require (\<not> list_ex unresolved (wo_blockers n)) MISSING_AUTHORITY (
     require (0 < wo_actual_effort_minutes n) MISSING_EVIDENCE (
     bindE (read_rows (get data ''artifact_refs'')) (\<lambda>rows.
     bindE (mapE parse_artifact rows) (\<lambda>refs.
     require (distinct (map ar_id refs)) INVALID_EVENT (
     bindE (text_field data ''QA_checklist_version'') (\<lambda>v.
     Inr (n\<lparr>wo_delivery_artifact_refs := refs, wo_QA_checklist_version := Some v,
            wo_QA_state := QA_IN_REVIEW, wo_stage := ST_QA\<rparr>))))))))"

definition on_qa_passed :: "work_order \<Rightarrow> work_order_event \<Rightarrow> work_order wo_result" where
  "on_qa_passed n ev =
     require_stage n [ST_QA] (
     require_human ev (
     require (wo_QA_checklist_version n \<noteq> None \<and> wo_delivery_artifact_refs n \<noteq> []) MISSING_EVIDENCE (
     Inr (n\<lparr>wo_QA_state := QA_PASS, wo_stage := ST_READY_TO_DELIVER\<rparr>))))"

definition add_nonconformity :: "work_order \<Rightarrow> payload \<Rightarrow> work_order wo_result" where
  "add_nonconformity n data =
     bindE (parse_nonconformity (get data ''nonconformity'')) (\<lambda>nc.
     require (nc_id nc \<notin> nc_id ` set (wo_nonconformities n)) INVALID_EVENT (
     Inr (n\<lparr>wo_nonconformities := wo_nonconformities n @ [nc]\<rparr>)))"

definition on_qa_failed :: "work_order \<Rightarrow> payload \<Rightarrow> work_order wo_result" where
  "on_qa_failed n data =
     require_stage n [ST_QA] (
     bindE (add_nonconformity n data) (\<lambda>n'.
     Inr (n'\<lparr>wo_QA_state := QA_FAIL, wo_stage := ST_REWORK_REQUIRED\<rparr>)))"

definition on_delivery_recorded :: "work_order \<Rightarrow> work_order_event \<Rightarrow> payload \<Rightarrow> work_order wo_result" where
  "on_delivery_recorded n ev data =
     require_stage n [ST_READY_TO_DELIVER] (
     require_human ev (
     require (wo_QA_state n = QA_PASS \<and> wo_delivery_artifact_refs n \<noteq> []) MISSING_AUTHORITY (
     bindE (text_field data ''recipient_verification_ref'') (\<lambda>_.
     bindE (text_field data ''clock_reason_version'') (\<lambda>v.
     Inr (n\<lparr>wo_delivered_at := Some (we_occurred_at ev), wo_stage := ST_DELIVERED,
            wo_clock_state := CLK_STOPPED, wo_clock_reason_version := Some v\<rparr>))))))"

definition on_client_accepted :: "work_order \<Rightarrow> work_order_event \<Rightarrow> work_order wo_result" where
  "on_client_accepted n ev =
     require_stage n [ST_DELIVERED] (
     require_human ev (
     Inr (n\<lparr>wo_acceptance := CA_ACCEPTED, wo_stage := ST_ACCEPTED\<rparr>)))"

definition on_client_rework_requested :: "work_order \<Rightarrow> work_order_event \<Rightarrow> payload \<Rightarrow> work_order wo_result" where
  "on_client_rework_requested n ev data =
     require_stage n [ST_DELIVERED] (
     require_human ev (
     bindE (add_nonconformity n data) (\<lambda>n'.
     Inr (n'\<lparr>wo_acceptance := CA_REWORK_REQUIRED, wo_stage := ST_REWORK_REQUIRED\<rparr>))))"

definition on_rework_started :: "work_order \<Rightarrow> payload \<Rightarrow> work_order wo_result" where
  "on_rework_started n data =
     require_stage n [ST_REWORK_REQUIRED] (
     require (list_ex (\<lambda>c. nc_status c = NC_OPEN) (wo_nonconformities n)) MISSING_AUTHORITY (
     bindE (text_field data ''clock_reason_version'') (\<lambda>v.
     Inr (n\<lparr>wo_stage := ST_IN_PROGRESS, wo_QA_state := QA_NOT_STARTED, wo_acceptance := CA_PENDING,
            wo_clock_state := CLK_RUNNING, wo_clock_reason_version := Some v\<rparr>))))"

definition on_nonconformity_resolved :: "work_order \<Rightarrow> payload \<Rightarrow> work_order wo_result" where
  "on_nonconformity_resolved n data =
     bindE (text_field data ''nonconformity_id'') (\<lambda>nid.
     require_some (List.find (\<lambda>c. nc_id c = nid) (wo_nonconformities n)) INVALID_EVENT (\<lambda>c.
          require (nc_status c = NC_OPEN) INVALID_EVENT (
          Inr (n\<lparr>wo_nonconformities := update_first (\<lambda>c. nc_id c = nid)
                   (\<lambda>c. c\<lparr>nc_status := NC_RESOLVED\<rparr>) (wo_nonconformities n)\<rparr>))))"

definition on_change_request_opened :: "work_order \<Rightarrow> payload \<Rightarrow> work_order wo_result" where
  "on_change_request_opened n data =
     bindE (text_field data ''proposed_snapshot_hash'') (\<lambda>h.
     require (sha256_pattern h \<and> h \<noteq> wo_accepted_snapshot_hash n) INVALID_EVENT (
     bindE (text_field data ''change_request_id'') (\<lambda>cid.
     bindE (text_field data ''evidence_ref'') (\<lambda>ref.
     require (cid \<notin> cr_id ` set (wo_change_requests n)) INVALID_EVENT (
     Inr (n\<lparr>wo_change_requests := wo_change_requests n @
              [\<lparr>cr_id = cid, cr_status = CR_PROPOSED, cr_proposed_snapshot_hash = h,
                cr_evidence_ref = ref\<rparr>]\<rparr>))))))"

definition decide_change_request :: "work_order_event \<Rightarrow> work_order_change_request \<Rightarrow> work_order_change_request" where
  "decide_change_request ev c =
     c\<lparr>cr_status := (if we_event_type ev = CHANGE_REQUEST_ACCEPTED then CR_ACCEPTED else CR_REJECTED)\<rparr>"

definition on_change_request_decided :: "work_order \<Rightarrow> work_order_event \<Rightarrow> payload \<Rightarrow> work_order wo_result" where
  "on_change_request_decided n ev data =
     require_human ev (
     bindE (text_field data ''change_request_id'') (\<lambda>cid.
     require_some (List.find (\<lambda>c. cr_id c = cid) (wo_change_requests n)) INVALID_EVENT (\<lambda>c.
          require (cr_status c = CR_PROPOSED) INVALID_EVENT (
          Inr (n\<lparr>wo_change_requests := update_first (\<lambda>c. cr_id c = cid)
                   (decide_change_request ev) (wo_change_requests n)\<rparr>)))))"

definition paused_state :: "work_order_event_type \<Rightarrow> work_order_clock_state" where
  "paused_state type =
     (if type = CLOCK_PAUSED_CLIENT then CLK_PAUSED_CLIENT
      else if type = CLOCK_PAUSED_INTERNAL then CLK_PAUSED_INTERNAL
      else CLK_PAUSED_FORCE_MAJEURE)"

definition clock_paused :: "work_order_clock_state \<Rightarrow> bool" where
  "clock_paused c \<longleftrightarrow> c \<in> {CLK_PAUSED_CLIENT, CLK_PAUSED_INTERNAL, CLK_PAUSED_FORCE_MAJEURE}"

definition on_clock_paused :: "work_order \<Rightarrow> work_order_event \<Rightarrow> payload \<Rightarrow> work_order wo_result" where
  "on_clock_paused n ev data =
     require (wo_clock_state n = CLK_RUNNING) ILLEGAL_TRANSITION (
     require_clock_authority n ev data (
     bindE (text_field data ''clock_reason_version'') (\<lambda>v.
     Inr (n\<lparr>wo_clock_state := paused_state (we_event_type ev), wo_clock_reason_version := Some v\<rparr>))))"

definition on_clock_resumed :: "work_order \<Rightarrow> work_order_event \<Rightarrow> payload \<Rightarrow> work_order wo_result" where
  "on_clock_resumed n ev data =
     require (clock_paused (wo_clock_state n)) ILLEGAL_TRANSITION (
     require_clock_authority n ev data (
     bindE (text_field data ''clock_reason_version'') (\<lambda>v.
     Inr (n\<lparr>wo_clock_state := CLK_RUNNING, wo_clock_reason_version := Some v\<rparr>))))"

definition on_cancelled :: "work_order \<Rightarrow> work_order_event \<Rightarrow> payload \<Rightarrow> work_order wo_result" where
  "on_cancelled n ev data =
     require_human ev (
     bindE (text_field data ''clock_reason_version'') (\<lambda>v.
     Inr (n\<lparr>wo_stage := ST_CANCELLED, wo_acceptance := CA_CANCELLED, wo_clock_state := CLK_STOPPED,
            wo_clock_reason_version := Some v\<rparr>)))"

definition parse_outcome :: "string \<Rightarrow> outcome_state option" where
  "parse_outcome s =
     (if s = ''UNKNOWN'' then Some OC_UNKNOWN else if s = ''ACHIEVED'' then Some OC_ACHIEVED
      else if s = ''PARTIAL'' then Some OC_PARTIAL else if s = ''NOT_ACHIEVED'' then Some OC_NOT_ACHIEVED
      else None)"

definition read_expansion :: "json option \<Rightarrow> bool option wo_result" where
  "read_expansion v =
     (case v of Some JNull \<Rightarrow> Inr None | Some (JBool b) \<Rightarrow> Inr (Some b) | _ \<Rightarrow> Inl INVALID_EVENT)"

definition on_closed :: "work_order \<Rightarrow> work_order_event \<Rightarrow> payload \<Rightarrow> work_order wo_result" where
  "on_closed n ev data =
     require_stage n [ST_ACCEPTED] (
     require_human ev (
     bindE (text_field data ''outcome'') (\<lambda>outcome.
     require_some (parse_outcome outcome) INVALID_EVENT (\<lambda>oc.
     bindE (read_expansion (get data ''expansion_candidate'')) (\<lambda>expansion.
     Inr (n\<lparr>wo_outcome := oc, wo_expansion_candidate := expansion,
            wo_stage := ST_CLOSED, wo_clock_state := CLK_STOPPED\<rparr>))))))"

text \<open>The \<open>switch\<close> of \<open>applyWorkOrderEvent\<close>.\<close>

definition dispatch :: "work_order \<Rightarrow> work_order_event \<Rightarrow> payload \<Rightarrow> transition_rec option \<Rightarrow> work_order wo_result" where
  "dispatch n ev data tr =
     (case we_event_type ev of
        WORK_ORDER_CREATED \<Rightarrow> Inr n
      | INPUT_RECEIVED \<Rightarrow> on_input n ev data tr
      | INPUT_WAIVED \<Rightarrow> on_input n ev data tr
      | OWNER_ASSIGNED \<Rightarrow> on_owner_assigned n ev data
      | PRODUCTION_STARTED \<Rightarrow> on_production_started n ev data
      | WORK_BLOCKED \<Rightarrow> on_work_blocked n ev data
      | WORK_RESUMED \<Rightarrow> on_work_resumed n ev data
      | EFFORT_RECORDED \<Rightarrow> on_effort_recorded n data
      | QA_SUBMITTED \<Rightarrow> on_qa_submitted n data
      | QA_PASSED \<Rightarrow> on_qa_passed n ev
      | QA_FAILED \<Rightarrow> on_qa_failed n data
      | DELIVERY_RECORDED \<Rightarrow> on_delivery_recorded n ev data
      | CLIENT_ACCEPTED \<Rightarrow> on_client_accepted n ev
      | CLIENT_REWORK_REQUESTED \<Rightarrow> on_client_rework_requested n ev data
      | REWORK_STARTED \<Rightarrow> on_rework_started n data
      | NONCONFORMITY_OPENED \<Rightarrow> add_nonconformity n data
      | NONCONFORMITY_RESOLVED \<Rightarrow> on_nonconformity_resolved n data
      | CHANGE_REQUEST_OPENED \<Rightarrow> on_change_request_opened n data
      | CHANGE_REQUEST_ACCEPTED \<Rightarrow> on_change_request_decided n ev data
      | CHANGE_REQUEST_REJECTED \<Rightarrow> on_change_request_decided n ev data
      | CLOCK_PAUSED_CLIENT \<Rightarrow> on_clock_paused n ev data
      | CLOCK_PAUSED_INTERNAL \<Rightarrow> on_clock_paused n ev data
      | CLOCK_PAUSED_FORCE_MAJEURE \<Rightarrow> on_clock_paused n ev data
      | CLOCK_RESUMED \<Rightarrow> on_clock_resumed n ev data
      | WORK_ORDER_CANCELLED \<Rightarrow> on_cancelled n ev data
      | WORK_ORDER_CLOSED \<Rightarrow> on_closed n ev data)"

text \<open>The provenance stamp of an event; \<open>createWorkOrder\<close> uses the correlation id as its locator.\<close>

definition event_provenance :: "string \<Rightarrow> string \<Rightarrow> string \<Rightarrow> provenance_rec" where
  "event_provenance source_system locator occurred_at =
     \<lparr>pv_source = \<lparr>sr_system = source_system, sr_kind = ''work-order-event'', sr_locator = locator, sr_label = None\<rparr>,
      pv_observed_at = occurred_at, pv_freshness = FRESH, pv_confidence = 1, pv_window_seconds = None\<rparr>"

definition unresolved_input :: "work_order_input \<Rightarrow> bool" where
  "unresolved_input i \<longleftrightarrow> in_status i = IN_REQUIRED \<and> in_evidence_ref i = None
     \<and> in_verified_at i = None \<and> in_verified_by i = None"

definition assert_initial_snapshot :: "work_order_event \<Rightarrow> work_order \<Rightarrow> 'a wo_result \<Rightarrow> 'a wo_result" where
  "assert_initial_snapshot ev s k =
     require (get (we_data ev) ''financial_gate'' = Some (JStr ''RECONCILED'')) MISSING_AUTHORITY (
     require (get (we_data ev) ''readiness_state'' = Some (JStr ''READY'')) MISSING_AUTHORITY (
     require (wo_created_at s = we_occurred_at ev) INVALID_EVENT (
     require (wo_stage s = ST_AWAITING_INPUTS) INVALID_EVENT (
     require (wo_clock_state s = CLK_NOT_STARTED \<and> wo_clock_reason_version s = None) INVALID_EVENT (
     require (wo_started_at s = None \<and> wo_due_at s = None \<and> wo_delivered_at s = None) INVALID_EVENT (
     require (wo_inputs_required s \<noteq> []) MISSING_AUTHORITY (
     require (list_all unresolved_input (wo_inputs_required s)) INVALID_EVENT (
     require (wo_inputs_received s = []) INVALID_EVENT (
     require (wo_blockers s = []) INVALID_EVENT (
     require (wo_actual_effort_minutes s = 0) INVALID_EVENT (
     require (wo_QA_state s = QA_NOT_STARTED \<and> wo_QA_checklist_version s = None) INVALID_EVENT (
     require (wo_delivery_artifact_refs s = []) INVALID_EVENT (
     require (wo_acceptance s = CA_PENDING) INVALID_EVENT (
     require (wo_nonconformities s = [] \<and> wo_change_requests s = []) INVALID_EVENT (
     require (wo_outcome s = OC_UNKNOWN \<and> wo_expansion_candidate s = None) INVALID_EVENT (
     require (wo_provenance s = event_provenance (we_source_system ev) (we_correlation_id ev) (we_occurred_at ev))
       INVALID_EVENT k))))))))))))))))"

section \<open>Applying an event\<close>

definition apply_creation :: "wo_env \<Rightarrow> work_order_event \<Rightarrow> work_order wo_result" where
  "apply_creation E ev =
     require (we_event_type ev = WORK_ORDER_CREATED \<and> we_expected_version ev = 0 \<and> we_event_version ev = 1) INVALID_EVENT (
     (case map_of (we_data ev) ''work_order_snapshot'' of
        Some (Snapshot s) \<Rightarrow>
          require (order_ok E s) INVALID_COMMAND (
          require (wo_id s = we_work_order_id ev) INVALID_EVENT (
          require (wo_version s = 1 \<and> wo_last_event_id s = we_event_id ev) INVALID_EVENT (
          assert_initial_snapshot ev s (Inr s))))
      | Some (Json (JObj _)) \<Rightarrow> Inl INVALID_COMMAND
      | _ \<Rightarrow> Inl INVALID_EVENT))"

text \<open>The uniqueness checks, the version stamp and the closing schema check.\<close>

definition seal :: "wo_env \<Rightarrow> work_order_event \<Rightarrow> work_order \<Rightarrow> work_order wo_result" where
  "seal E ev n =
     require (distinct (map in_id (wo_inputs_required n))) INVALID_EVENT (
     require (distinct (map bl_id (wo_blockers n))) INVALID_EVENT (
     require (distinct (map nc_id (wo_nonconformities n))) INVALID_EVENT (
     require (distinct (map cr_id (wo_change_requests n))) INVALID_EVENT (
     let sealed = n\<lparr>wo_version := we_event_version ev, wo_last_event_id := we_event_id ev,
                    wo_provenance := event_provenance (we_source_system ev) (we_event_id ev) (we_occurred_at ev)\<rparr>
     in require (order_ok E sealed) INVALID_COMMAND (Inr sealed)))))"

definition apply_next :: "wo_env \<Rightarrow> work_order \<Rightarrow> work_order_event \<Rightarrow> work_order wo_result" where
  "apply_next E cur ev =
     require (\<not> terminal_stage (wo_stage cur)) ILLEGAL_TRANSITION (
     require (we_event_type ev \<noteq> WORK_ORDER_CREATED) INVALID_EVENT (
     require (we_work_order_id ev = wo_id cur) INVALID_EVENT (
     require (we_expected_version ev = wo_version cur) VERSION_CONFLICT (
     require (we_event_version ev = wo_version cur + 1) VERSION_CONFLICT (
     require (not_before (we_occurred_at ev) (pv_observed_at (wo_provenance cur))) INVALID_EVENT (
     bindE (expected_transition cur (we_event_type ev) (we_data ev)) (\<lambda>tr.
     require (we_transition ev = tr) INVALID_EVENT (
     bindE (dispatch cur ev (we_data ev) tr) (\<lambda>n. seal E ev n)))))))))"

definition apply_work_order_event :: "wo_env \<Rightarrow> work_order option \<Rightarrow> work_order_event \<Rightarrow> work_order wo_result" where
  "apply_work_order_event E current ev =
     require (event_ok E ev) INVALID_EVENT (
     (case current of None \<Rightarrow> apply_creation E ev | Some cur \<Rightarrow> apply_next E cur ev))"

text \<open>\<open>replayWorkOrder\<close>: the loop over the stream, \<open>seen\<close> being the map by idempotency key.\<close>

fun replay_from :: "wo_env \<Rightarrow> (string \<times> work_order_event) list \<Rightarrow> work_order option \<Rightarrow> work_order_event list \<Rightarrow> work_order option wo_result" where
  "replay_from E seen current [] = Inr current"
| "replay_from E seen current (ev # evs) =
     (case map_of seen (we_idempotency_key ev) of
        Some prior \<Rightarrow> require (prior = ev) IDEMPOTENCY_CONFLICT (replay_from E seen current evs)
      | None \<Rightarrow>
          bindE (apply_work_order_event E current ev) (\<lambda>n.
            replay_from E ((we_idempotency_key ev, ev) # seen) (Some n) evs))"

definition replay_work_order :: "wo_env \<Rightarrow> work_order_event list \<Rightarrow> work_order wo_result" where
  "replay_work_order E evs =
     require (evs \<noteq> []) INVALID_EVENT (
     bindE (replay_from E [] None evs) (\<lambda>cur.
       case cur of None \<Rightarrow> Inl INVALID_EVENT | Some w \<Rightarrow> Inr w))"

section \<open>Commands\<close>

datatype financial_gate = FG_RECONCILED | FG_UNKNOWN | FG_HELD

datatype readiness_state = RS_READY | RS_BLOCKED | RS_UNKNOWN

record event_context =
  cx_actor :: actor_ref
  cx_reason_code :: string
  cx_literal_reason_ref :: string
  cx_occurred_at :: string
  cx_idempotency_key :: string
  cx_correlation_id :: string
  cx_causation_id :: "string option"
  cx_source_system :: string
  cx_evidence_refs :: "string list"

record create_command =
  cc_work_order_id :: "string option"
  cc_client_id :: string
  cc_account_id :: string
  cc_opportunity_id :: string
  cc_qco_id :: string
  cc_proposal_id :: string
  cc_proposal_version :: string
  cc_order_id :: string
  cc_provider_refs :: "string list"
  cc_accepted_snapshot_hash :: string
  cc_offer_id :: string
  cc_offer_version :: string
  cc_deliverable_id :: string
  cc_deliverable_version :: string
  cc_scope_version :: string
  cc_price_version :: string
  cc_terms_version :: string
  cc_input_ids :: "string list"
  cc_business_calendar_version :: string
  cc_estimated_effort_minutes :: "rat option"
  cc_estimated_capacity_units :: rat
  cc_capacity_commitment_id :: string
  cc_responsible_owner :: "string option"
  cc_financial_gate :: financial_gate
  cc_readiness_state :: readiness_state
  cc_synthetic :: bool

definition event_id :: "wo_env \<Rightarrow> string \<Rightarrow> string" where
  "event_id E key = ''cc:work-order-event:'' @ fingerprint E key"

definition derive_work_order_id :: "wo_env \<Rightarrow> create_command \<Rightarrow> string" where
  "derive_work_order_id E c =
     ''cc:work-order:'' @ fingerprint E (join ''|''
       [cc_proposal_id c, cc_accepted_snapshot_hash c, cc_deliverable_id c, cc_deliverable_version c])"

text \<open>\<open>^[A-Z][A-Z0-9_]{1,127}$\<close>\<close>

definition reason_code_pattern :: "string \<Rightarrow> bool" where
  "reason_code_pattern s \<longleftrightarrow>
     (case s of [] \<Rightarrow> False
      | c # cs \<Rightarrow> is_upper c \<and> 1 \<le> length cs \<and> length cs \<le> 127
                  \<and> list_all (\<lambda>c. is_upper c \<or> is_digit c \<or> c = CHR ''_'') cs)"

definition assert_context :: "event_context \<Rightarrow> 'a wo_result \<Rightarrow> 'a wo_result" where
  "assert_context cx k =
     assert_utc (cx_occurred_at cx) (
     require (reason_code_pattern (cx_reason_code cx)) INVALID_COMMAND (
     require (non_blank (cx_literal_reason_ref cx)) MISSING_EVIDENCE (
     require (8 \<le> length (cx_idempotency_key cx)) INVALID_COMMAND (
     require (non_blank (cx_correlation_id cx)) INVALID_COMMAND (
     require (cx_evidence_refs cx \<noteq> []) MISSING_EVIDENCE (
     require (distinct (cx_evidence_refs cx)) INVALID_COMMAND k))))))"

definition initial_work_order :: "wo_env \<Rightarrow> create_command \<Rightarrow> event_context \<Rightarrow> work_order" where
  "initial_work_order E c cx =
     \<lparr>wo_id = or_else (cc_work_order_id c) (derive_work_order_id E c),
      wo_client_id = cc_client_id c, wo_account_id = cc_account_id c,
      wo_opportunity_id = cc_opportunity_id c, wo_qco_id = cc_qco_id c,
      wo_proposal_id = cc_proposal_id c, wo_proposal_version = cc_proposal_version c,
      wo_order_id = cc_order_id c, wo_provider_refs = cc_provider_refs c,
      wo_accepted_snapshot_hash = cc_accepted_snapshot_hash c,
      wo_offer_id = cc_offer_id c, wo_offer_version = cc_offer_version c,
      wo_deliverable_id = cc_deliverable_id c, wo_deliverable_version = cc_deliverable_version c,
      wo_scope_version = cc_scope_version c, wo_price_version = cc_price_version c,
      wo_terms_version = cc_terms_version c, wo_created_at = cx_occurred_at cx,
      wo_business_calendar_version = cc_business_calendar_version c,
      wo_estimated_effort_minutes = cc_estimated_effort_minutes c,
      wo_estimated_capacity_units = cc_estimated_capacity_units c,
      wo_capacity_commitment_id = cc_capacity_commitment_id c, wo_synthetic = cc_synthetic c,
      wo_inputs_required = map (\<lambda>i. \<lparr>in_id = i, in_status = IN_REQUIRED, in_evidence_ref = None,
                                   in_verified_at = None, in_verified_by = None\<rparr>) (cc_input_ids c),
      wo_inputs_received = [], wo_started_at = None, wo_due_at = None,
      wo_clock_state = CLK_NOT_STARTED, wo_clock_reason_version = None, wo_blockers = [],
      wo_stage = ST_AWAITING_INPUTS, wo_responsible_owner = cc_responsible_owner c,
      wo_actual_effort_minutes = 0, wo_QA_state = QA_NOT_STARTED, wo_QA_checklist_version = None,
      wo_delivery_artifact_refs = [], wo_delivered_at = None, wo_acceptance = CA_PENDING,
      wo_nonconformities = [], wo_change_requests = [], wo_outcome = OC_UNKNOWN,
      wo_expansion_candidate = None, wo_version = 1,
      wo_last_event_id = event_id E (cx_idempotency_key cx),
      wo_provenance = event_provenance (cx_source_system cx) (cx_correlation_id cx) (cx_occurred_at cx)\<rparr>"

definition creation_event :: "wo_env \<Rightarrow> create_command \<Rightarrow> event_context \<Rightarrow> work_order \<Rightarrow> work_order_event" where
  "creation_event E c cx w =
     \<lparr>we_event_id = event_id E (cx_idempotency_key cx), we_event_version = 1, we_work_order_id = wo_id w,
      we_expected_version = 0, we_event_type = WORK_ORDER_CREATED, we_actor = cx_actor cx,
      we_reason_code = cx_reason_code cx, we_literal_reason_ref = cx_literal_reason_ref cx,
      we_occurred_at = cx_occurred_at cx, we_idempotency_key = cx_idempotency_key cx,
      we_correlation_id = cx_correlation_id cx, we_causation_id = cx_causation_id cx,
      we_source_system = cx_source_system cx, we_evidence_refs = cx_evidence_refs cx,
      we_transition = None,
      we_data = [(''financial_gate'', Json (JStr (case cc_financial_gate c of
                    FG_RECONCILED \<Rightarrow> ''RECONCILED'' | FG_UNKNOWN \<Rightarrow> ''UNKNOWN'' | FG_HELD \<Rightarrow> ''HELD''))),
                 (''readiness_state'', Json (JStr (case cc_readiness_state c of
                    RS_READY \<Rightarrow> ''READY'' | RS_BLOCKED \<Rightarrow> ''BLOCKED'' | RS_UNKNOWN \<Rightarrow> ''UNKNOWN''))),
                 (''work_order_snapshot'', Snapshot w)]\<rparr>"

definition create_work_order :: "wo_env \<Rightarrow> create_command \<Rightarrow> event_context \<Rightarrow> (work_order_event \<times> work_order) wo_result" where
  "create_work_order E c cx =
     assert_context cx (
     require (cc_financial_gate c = FG_RECONCILED) MISSING_AUTHORITY (
     require (cc_readiness_state c = RS_READY) MISSING_AUTHORITY (
     require (sha256_pattern (cc_accepted_snapshot_hash c)) MISSING_AUTHORITY (
     require (cc_input_ids c \<noteq> []) MISSING_AUTHORITY (
     require (distinct (cc_input_ids c)) INVALID_COMMAND (
     require (non_blank (cc_business_calendar_version c)) MISSING_AUTHORITY (
     require (case cc_estimated_effort_minutes c of None \<Rightarrow> True | Some m \<Rightarrow> is_integer m \<and> 0 \<le> m) INVALID_COMMAND (
     require (is_integer (cc_estimated_capacity_units c) \<and> 0 < cc_estimated_capacity_units c) MISSING_AUTHORITY (
     require (non_blank (cc_capacity_commitment_id c)) MISSING_AUTHORITY (
     let w = initial_work_order E c cx; ev = creation_event E c cx w
     in require (order_ok E w) INVALID_COMMAND (
        require (event_ok E ev) INVALID_EVENT (Inr (ev, w))))))))))))) "

text \<open>\<open>normalizeDecisionData\<close>; \<open>None\<close> when the calendar loop does not return.\<close>

definition normalize_decision_data ::
  "(int \<Rightarrow> int) \<Rightarrow> work_order \<Rightarrow> work_order_event_type \<Rightarrow> payload \<Rightarrow> event_context \<Rightarrow> business_calendar option
    \<Rightarrow> payload wo_result option" where
  "normalize_decision_data off order type raw cx calendar =
     (if type \<noteq> PRODUCTION_STARTED then Some (Inr raw)
      else case calendar of
        None \<Rightarrow> Some (Inl MISSING_AUTHORITY)
      | Some cal \<Rightarrow>
          if bc_version cal \<noteq> wo_business_calendar_version order then Some (Inl MISSING_AUTHORITY)
          else (case positive_integer raw ''business_days'' of
                  Inl e \<Rightarrow> Some (Inl e)
                | Inr days \<Rightarrow>
                    map_option (\<lambda>r. bindE r (\<lambda>due.
                        Inr (obj_set ''business_calendar_version'' (Json (JStr (bc_version cal)))
                              (obj_set ''due_at'' (Json (JStr due)) raw))))
                      (add_business_days off (cx_occurred_at cx) (of_int days) cal)))"

definition decision_event :: "wo_env \<Rightarrow> work_order \<Rightarrow> work_order_event_type \<Rightarrow> payload \<Rightarrow> event_context \<Rightarrow> transition_rec option \<Rightarrow> work_order_event" where
  "decision_event E order type data cx tr =
     \<lparr>we_event_id = event_id E (cx_idempotency_key cx), we_event_version = wo_version order + 1,
      we_work_order_id = wo_id order, we_expected_version = wo_version order, we_event_type = type,
      we_actor = cx_actor cx, we_reason_code = cx_reason_code cx,
      we_literal_reason_ref = cx_literal_reason_ref cx, we_occurred_at = cx_occurred_at cx,
      we_idempotency_key = cx_idempotency_key cx, we_correlation_id = cx_correlation_id cx,
      we_causation_id = cx_causation_id cx, we_source_system = cx_source_system cx,
      we_evidence_refs = cx_evidence_refs cx, we_transition = tr, we_data = data\<rparr>"

definition decide_work_order ::
  "wo_env \<Rightarrow> (int \<Rightarrow> int) \<Rightarrow> work_order \<Rightarrow> work_order_event_type \<Rightarrow> payload \<Rightarrow> event_context
    \<Rightarrow> business_calendar option \<Rightarrow> (work_order_event \<times> work_order) wo_result option" where
  "decide_work_order E off order type raw cx calendar =
     (case assert_context cx (require (\<not> terminal_stage (wo_stage order)) ILLEGAL_TRANSITION (Inr ())) of
        Inl e \<Rightarrow> Some (Inl e)
      | Inr _ \<Rightarrow>
          map_option (\<lambda>r.
            bindE r (\<lambda>data.
            bindE (expected_transition order type data) (\<lambda>tr.
            let ev = decision_event E order type data cx tr
            in bindE (apply_work_order_event E (Some order) ev) (\<lambda>w. Inr (ev, w)))))
          (normalize_decision_data off order type raw cx calendar))"

end
