(* ===== verification/Work_Order_Lifecycle.thy ===== *)
theory Work_Order_Lifecycle
  imports Work_Order_Aggregate
begin

text \<open>
  What a Work Order may do: the abstract lifecycle (stages and the events that move between them),
  which \<open>apply_work_order_event\<close> refines, the fields no event can change, the gates that need a human
  actor, and the invariant of every order built by a stream of events.
\<close>

lemma require_clock_authority_Inr [guards]:
  "require_clock_authority n ev data k = Inr w \<longleftrightarrow>
     ac_kind (we_actor ev) = Human
     \<and> (Some (ac_id (we_actor ev)) = wo_responsible_owner n
        \<or> get data ''authority_role'' = Some (JStr ''SUPERVISOR'')
          \<and> is_ok (text_field data ''authority_ref''))
     \<and> k = Inr w"
  by (cases "text_field data ''authority_ref''")
    (auto simp: require_clock_authority_def require_human_def is_ok_iff)

lemmas stage_guards = require_stage_def require_human_def require_clock_authority_Inr assert_utc_def

lemmas event_defs =
  on_input_def on_owner_assigned_def on_production_started_def on_work_blocked_def
  on_work_resumed_def on_effort_recorded_def on_qa_submitted_def on_qa_passed_def on_qa_failed_def
  add_nonconformity_def on_delivery_recorded_def on_client_accepted_def
  on_client_rework_requested_def on_rework_started_def on_nonconformity_resolved_def
  on_change_request_opened_def on_change_request_decided_def on_clock_paused_def
  on_clock_resumed_def on_cancelled_def on_closed_def stage_guards

lemma resolve_input_simps [simp]:
  "in_id (resolve_input ev ref i) = in_id i" "input_complete (resolve_input ev ref i)"
  by (simp_all add: resolve_input_def input_complete_def)

lemma decide_change_request_id [simp]: "cr_id (decide_change_request ev c) = cr_id c"
  by (simp add: decide_change_request_def)

section \<open>The abstract lifecycle\<close>

lemma terminal_stage_simps [simp]:
  "\<not> terminal_stage ST_AWAITING_INPUTS" "\<not> terminal_stage ST_READY" 
  "\<not> terminal_stage ST_IN_PROGRESS" "\<not> terminal_stage ST_BLOCKED" 
  "\<not> terminal_stage ST_QA" "\<not> terminal_stage ST_READY_TO_DELIVER" 
  "\<not> terminal_stage ST_DELIVERED" "\<not> terminal_stage ST_ACCEPTED" 
  "\<not> terminal_stage ST_REWORK_REQUIRED" "terminal_stage ST_CLOSED" 
  "terminal_stage ST_CANCELLED"
  by (simp_all add: terminal_stage_def)

inductive lifecycle :: "work_order_stage \<Rightarrow> work_order_event_type \<Rightarrow> work_order_stage \<Rightarrow> bool" where
  inputs: "t \<in> {INPUT_RECEIVED, INPUT_WAIVED} \<Longrightarrow> s \<in> {ST_AWAITING_INPUTS, ST_READY} \<Longrightarrow> lifecycle ST_AWAITING_INPUTS t s"
| start: "lifecycle ST_READY PRODUCTION_STARTED ST_IN_PROGRESS"
| block: "lifecycle ST_IN_PROGRESS WORK_BLOCKED ST_BLOCKED"
| resume: "lifecycle ST_BLOCKED WORK_RESUMED ST_IN_PROGRESS"
| submit: "lifecycle ST_IN_PROGRESS QA_SUBMITTED ST_QA"
| pass: "lifecycle ST_QA QA_PASSED ST_READY_TO_DELIVER"
| fail: "lifecycle ST_QA QA_FAILED ST_REWORK_REQUIRED"
| deliver: "lifecycle ST_READY_TO_DELIVER DELIVERY_RECORDED ST_DELIVERED"
| accept: "lifecycle ST_DELIVERED CLIENT_ACCEPTED ST_ACCEPTED"
| reject: "lifecycle ST_DELIVERED CLIENT_REWORK_REQUESTED ST_REWORK_REQUIRED"
| rework: "lifecycle ST_REWORK_REQUIRED REWORK_STARTED ST_IN_PROGRESS"
| close: "lifecycle ST_ACCEPTED WORK_ORDER_CLOSED ST_CLOSED"
| cancel: "\<not> terminal_stage s \<Longrightarrow> lifecycle s WORK_ORDER_CANCELLED ST_CANCELLED"
| effort: "s \<in> {ST_IN_PROGRESS, ST_BLOCKED, ST_QA, ST_REWORK_REQUIRED} \<Longrightarrow> lifecycle s EFFORT_RECORDED s"
| annotate: "\<not> terminal_stage s \<Longrightarrow>
     t \<in> {OWNER_ASSIGNED, NONCONFORMITY_OPENED, NONCONFORMITY_RESOLVED, CHANGE_REQUEST_OPENED,
          CHANGE_REQUEST_ACCEPTED, CHANGE_REQUEST_REJECTED, CLOCK_PAUSED_CLIENT, CLOCK_PAUSED_INTERNAL,
          CLOCK_PAUSED_FORCE_MAJEURE, CLOCK_RESUMED} \<Longrightarrow> lifecycle s t s"

inductive_cases lifecycle_closeE: "lifecycle s t ST_CLOSED"
inductive_cases lifecycle_from_closedE: "lifecycle ST_CLOSED t s"
inductive_cases lifecycle_from_cancelledE: "lifecycle ST_CANCELLED t s"

lemma dispatch_cases [consumes 1, case_names created input owner start block resume effort submit pass
    fail deliver accept reject rework nc_open nc_resolve cr_open cr_decide pause clock_resume cancel close]:
  assumes "dispatch n ev data tr = Inr n'"
  obtains "we_event_type ev = WORK_ORDER_CREATED" "n' = n"
  | "we_event_type ev \<in> {INPUT_RECEIVED, INPUT_WAIVED}" "on_input n ev data tr = Inr n'"
  | "we_event_type ev = OWNER_ASSIGNED" "on_owner_assigned n ev data = Inr n'"
  | "we_event_type ev = PRODUCTION_STARTED" "on_production_started n ev data = Inr n'"
  | "we_event_type ev = WORK_BLOCKED" "on_work_blocked n ev data = Inr n'"
  | "we_event_type ev = WORK_RESUMED" "on_work_resumed n ev data = Inr n'"
  | "we_event_type ev = EFFORT_RECORDED" "on_effort_recorded n data = Inr n'"
  | "we_event_type ev = QA_SUBMITTED" "on_qa_submitted n data = Inr n'"
  | "we_event_type ev = QA_PASSED" "on_qa_passed n ev = Inr n'"
  | "we_event_type ev = QA_FAILED" "on_qa_failed n data = Inr n'"
  | "we_event_type ev = DELIVERY_RECORDED" "on_delivery_recorded n ev data = Inr n'"
  | "we_event_type ev = CLIENT_ACCEPTED" "on_client_accepted n ev = Inr n'"
  | "we_event_type ev = CLIENT_REWORK_REQUESTED" "on_client_rework_requested n ev data = Inr n'"
  | "we_event_type ev = REWORK_STARTED" "on_rework_started n data = Inr n'"
  | "we_event_type ev = NONCONFORMITY_OPENED" "add_nonconformity n data = Inr n'"
  | "we_event_type ev = NONCONFORMITY_RESOLVED" "on_nonconformity_resolved n data = Inr n'"
  | "we_event_type ev = CHANGE_REQUEST_OPENED" "on_change_request_opened n data = Inr n'"
  | "we_event_type ev \<in> {CHANGE_REQUEST_ACCEPTED, CHANGE_REQUEST_REJECTED}"
      "on_change_request_decided n ev data = Inr n'"
  | "we_event_type ev \<in> {CLOCK_PAUSED_CLIENT, CLOCK_PAUSED_INTERNAL, CLOCK_PAUSED_FORCE_MAJEURE}"
      "on_clock_paused n ev data = Inr n'"
  | "we_event_type ev = CLOCK_RESUMED" "on_clock_resumed n ev data = Inr n'"
  | "we_event_type ev = WORK_ORDER_CANCELLED" "on_cancelled n ev data = Inr n'"
  | "we_event_type ev = WORK_ORDER_CLOSED" "on_closed n ev data = Inr n'"
  using assms unfolding dispatch_def
  by (cases "we_event_type ev") (simp_all only: work_order_event_type.case sum.inject insert_iff simp_thms)

lemma dispatch_identity:
  "dispatch n ev data tr = Inr n' \<Longrightarrow> work_order_identity.truncate n' = work_order_identity.truncate n"
  by (erule dispatch_cases; auto simp: event_defs work_order_identity.defs Let_def)

lemma dispatch_input_ids:
  "dispatch n ev data tr = Inr n' \<Longrightarrow>
     map in_id (wo_inputs_required n') = map in_id (wo_inputs_required n)"
  by (erule dispatch_cases; auto simp: event_defs Let_def map_update_first)

text \<open>Only the input events read the claimed transition; the rest set their stage themselves.\<close>

lemma on_input_effect:
  assumes "on_input n ev data tr = Inr n'" "we_event_type ev \<in> {INPUT_RECEIVED, INPUT_WAIVED}"
    "expected_transition n (we_event_type ev) data = Inr tr"
  obtains x i ref where "List.find (\<lambda>i. in_id i = x) (wo_inputs_required n) = Some i"
    "in_status i = IN_REQUIRED" "wo_stage n = ST_AWAITING_INPUTS"
    "tr = (if all_inputs_complete n (Some x) then Some \<lparr>tr_from = ST_AWAITING_INPUTS, tr_to = ST_READY\<rparr> else None)"
    "n' = n\<lparr>wo_inputs_required := update_first (\<lambda>i. in_id i = x) (resolve_input ev ref) (wo_inputs_required n),
            wo_inputs_received := add_missing x (wo_inputs_received n),
            wo_stage := (if all_inputs_complete n (Some x) then ST_READY else ST_AWAITING_INPUTS)\<rparr>"
proof -
  have "target_stage n (we_event_type ev) data = input_transition n data"
    using assms(2) by (auto simp: target_stage_def)
  moreover from assms(1) obtain x i ref where n: "wo_stage n = ST_AWAITING_INPUTS"
    "text_field data ''input_id'' = Inr x"
    "List.find (\<lambda>i. in_id i = x) (wo_inputs_required n) = Some i" "in_status i = IN_REQUIRED"
    "n' = n\<lparr>wo_inputs_required := update_first (\<lambda>i. in_id i = x) (resolve_input ev ref) (wo_inputs_required n),
            wo_inputs_received := add_missing x (wo_inputs_received n),
            wo_stage := (case tr of None \<Rightarrow> wo_stage n | Some t \<Rightarrow> tr_to t)\<rparr>"
    by (auto simp: on_input_def stage_guards)
  ultimately have tr: "tr = (if all_inputs_complete n (Some x)
      then Some \<lparr>tr_from = ST_AWAITING_INPUTS, tr_to = ST_READY\<rparr> else None)"
    using assms(3) by (auto simp: expected_transition_def input_transition_def)
  show thesis
    by (rule that [of x i ref, OF n(3,4,1) tr]) (simp add: n(1,5) tr)
qed

lemma target_stage_simps [simp]:
  "target_stage n PRODUCTION_STARTED data = Inr (Some ST_IN_PROGRESS)"
  "target_stage n WORK_BLOCKED data = Inr (Some ST_BLOCKED)"
  "target_stage n WORK_RESUMED data = Inr (Some ST_IN_PROGRESS)"
  "target_stage n QA_SUBMITTED data = Inr (Some ST_QA)"
  "target_stage n QA_PASSED data = Inr (Some ST_READY_TO_DELIVER)"
  "target_stage n QA_FAILED data = Inr (Some ST_REWORK_REQUIRED)"
  "target_stage n DELIVERY_RECORDED data = Inr (Some ST_DELIVERED)"
  "target_stage n CLIENT_ACCEPTED data = Inr (Some ST_ACCEPTED)"
  "target_stage n CLIENT_REWORK_REQUESTED data = Inr (Some ST_REWORK_REQUIRED)"
  "target_stage n REWORK_STARTED data = Inr (Some ST_IN_PROGRESS)"
  "target_stage n WORK_ORDER_CANCELLED data = Inr (Some ST_CANCELLED)"
  "target_stage n WORK_ORDER_CLOSED data = Inr (Some ST_CLOSED)"
  "target_stage n WORK_ORDER_CREATED data = Inr None"
  "target_stage n OWNER_ASSIGNED data = Inr None"
  "target_stage n EFFORT_RECORDED data = Inr None"
  "target_stage n NONCONFORMITY_OPENED data = Inr None"
  "target_stage n NONCONFORMITY_RESOLVED data = Inr None"
  "target_stage n CHANGE_REQUEST_OPENED data = Inr None"
  "target_stage n CHANGE_REQUEST_ACCEPTED data = Inr None"
  "target_stage n CHANGE_REQUEST_REJECTED data = Inr None"
  "target_stage n CLOCK_PAUSED_CLIENT data = Inr None"
  "target_stage n CLOCK_PAUSED_INTERNAL data = Inr None"
  "target_stage n CLOCK_PAUSED_FORCE_MAJEURE data = Inr None"
  "target_stage n CLOCK_RESUMED data = Inr None"
  by (simp_all add: target_stage_def)

lemma dispatch_stage:
  assumes "dispatch n ev data tr = Inr n'" "expected_transition n (we_event_type ev) data = Inr tr"
  shows "wo_stage n' = (case tr of None \<Rightarrow> wo_stage n | Some t \<Rightarrow> tr_to t)"
  using assms(1)
proof (cases rule: dispatch_cases)
  case input
  from input(2,1) assms(2) show ?thesis by (rule on_input_effect) auto
qed ((use assms(2) in \<open>auto simp: event_defs Let_def expected_transition_def\<close>)[1])+

lemma dispatch_lifecycle:
  assumes "dispatch n ev data tr = Inr n'" "expected_transition n (we_event_type ev) data = Inr tr"
    "\<not> terminal_stage (wo_stage n)" "we_event_type ev \<noteq> WORK_ORDER_CREATED"
  shows "lifecycle (wo_stage n) (we_event_type ev) (wo_stage n')"
  using assms(1)
proof (cases rule: dispatch_cases)
  case input
  from input(2,1) assms(2) show ?thesis
    using input(1) by (elim on_input_effect) (auto simp: lifecycle.simps)
qed ((use assms(3,4) in \<open>auto simp: event_defs Let_def lifecycle.intros\<close>)[1])+

section \<open>The invariant\<close>

definition started_stage :: "work_order_stage \<Rightarrow> bool" where
  "started_stage s \<longleftrightarrow> s \<in> {ST_IN_PROGRESS, ST_BLOCKED, ST_QA, ST_READY_TO_DELIVER, ST_DELIVERED,
     ST_ACCEPTED, ST_REWORK_REQUIRED, ST_CLOSED}"

definition past_qa :: "work_order_stage \<Rightarrow> bool" where
  "past_qa s \<longleftrightarrow> s \<in> {ST_READY_TO_DELIVER, ST_DELIVERED, ST_ACCEPTED, ST_CLOSED}"

definition handed_over :: "work_order_stage \<Rightarrow> bool" where
  "handed_over s \<longleftrightarrow> s \<in> {ST_DELIVERED, ST_ACCEPTED, ST_CLOSED}"

definition inv_ids :: "work_order \<Rightarrow> bool" where
  "inv_ids w \<longleftrightarrow> distinct (map in_id (wo_inputs_required w)) \<and> distinct (map bl_id (wo_blockers w))
     \<and> distinct (map nc_id (wo_nonconformities w)) \<and> distinct (map cr_id (wo_change_requests w))"

definition inv_inputs :: "work_order \<Rightarrow> bool" where
  "inv_inputs w \<longleftrightarrow>
     (wo_stage w = ST_AWAITING_INPUTS \<longrightarrow> \<not> all_inputs_complete w None)
     \<and> (wo_stage w = ST_READY \<or> started_stage (wo_stage w) \<longrightarrow> all_inputs_complete w None)"

definition inv_production :: "work_order \<Rightarrow> bool" where
  "inv_production w \<longleftrightarrow>
     (if started_stage (wo_stage w)
      then wo_responsible_owner w \<noteq> None \<and> wo_started_at w \<noteq> None \<and> wo_due_at w \<noteq> None
           \<and> wo_clock_state w \<noteq> CLK_NOT_STARTED
      else wo_stage w = ST_CANCELLED \<or> wo_clock_state w = CLK_NOT_STARTED)"

definition inv_blockers :: "work_order \<Rightarrow> bool" where
  "inv_blockers w \<longleftrightarrow>
     wo_stage w = ST_CANCELLED
     \<or> length (filter unresolved (wo_blockers w)) = (if wo_stage w = ST_BLOCKED then 1 else 0)"

definition inv_quality :: "work_order \<Rightarrow> bool" where
  "inv_quality w \<longleftrightarrow>
     0 \<le> wo_actual_effort_minutes w
     \<and> (wo_stage w = ST_QA \<or> past_qa (wo_stage w) \<longrightarrow>
          wo_delivery_artifact_refs w \<noteq> [] \<and> wo_QA_checklist_version w \<noteq> None \<and> 0 < wo_actual_effort_minutes w)
     \<and> (past_qa (wo_stage w) \<longrightarrow> wo_QA_state w = QA_PASS)"

definition inv_delivery :: "work_order \<Rightarrow> bool" where
  "inv_delivery w \<longleftrightarrow>
     (handed_over (wo_stage w) \<longrightarrow> wo_delivered_at w \<noteq> None \<and> wo_clock_state w = CLK_STOPPED)
     \<and> (wo_stage w \<in> {ST_ACCEPTED, ST_CLOSED} \<longrightarrow> wo_acceptance w = CA_ACCEPTED)
     \<and> (wo_stage w = ST_CANCELLED \<longrightarrow> wo_acceptance w = CA_CANCELLED \<and> wo_clock_state w = CLK_STOPPED)"

definition wo_inv :: "work_order \<Rightarrow> bool" where
  "wo_inv w \<longleftrightarrow> (2 \<le> wo_version w \<longrightarrow> inv_ids w) \<and> inv_inputs w \<and> inv_production w \<and> inv_blockers w \<and> inv_quality w
     \<and> inv_delivery w \<and> 1 \<le> wo_version w"

lemma started_stage_simps [simp]:
  "\<not> started_stage ST_AWAITING_INPUTS" "\<not> started_stage ST_READY" 
  "started_stage ST_IN_PROGRESS" "started_stage ST_BLOCKED" "started_stage ST_QA" 
  "started_stage ST_READY_TO_DELIVER" "started_stage ST_DELIVERED" "started_stage ST_ACCEPTED" 
  "started_stage ST_REWORK_REQUIRED" "started_stage ST_CLOSED" 
  "\<not> started_stage ST_CANCELLED"
  by (simp_all add: started_stage_def)

lemma past_qa_simps [simp]:
  "\<not> past_qa ST_AWAITING_INPUTS" "\<not> past_qa ST_READY" "\<not> past_qa ST_IN_PROGRESS" 
  "\<not> past_qa ST_BLOCKED" "\<not> past_qa ST_QA" "past_qa ST_READY_TO_DELIVER" 
  "past_qa ST_DELIVERED" "past_qa ST_ACCEPTED" "\<not> past_qa ST_REWORK_REQUIRED" 
  "past_qa ST_CLOSED" "\<not> past_qa ST_CANCELLED"
  by (simp_all add: past_qa_def)

lemma handed_over_simps [simp]:
  "\<not> handed_over ST_AWAITING_INPUTS" "\<not> handed_over ST_READY" 
  "\<not> handed_over ST_IN_PROGRESS" "\<not> handed_over ST_BLOCKED" 
  "\<not> handed_over ST_QA" "\<not> handed_over ST_READY_TO_DELIVER" 
  "handed_over ST_DELIVERED" "handed_over ST_ACCEPTED" "\<not> handed_over ST_REWORK_REQUIRED" 
  "handed_over ST_CLOSED" "\<not> handed_over ST_CANCELLED"
  by (simp_all add: handed_over_def)

lemma update_first_complete:
  assumes "distinct (map in_id is)" "List.find (\<lambda>i. in_id i = x) is = Some i"
    "\<And>i. in_id (f i) = in_id i" "\<And>i. input_complete (f i)"
  shows "list_all input_complete (update_first (\<lambda>i. in_id i = x) f is)
    \<longleftrightarrow> list_all (\<lambda>i. in_id i = x \<or> input_complete i) is"
  using assms(1,2)
proof (induction "is")
  case (Cons j js)
  show ?case
  proof (cases "in_id j = x")
    case True
    with Cons.prems(1) have "\<forall>i \<in> set js. in_id i \<noteq> x" by (auto simp: image_iff)
    with True show ?thesis by (auto simp: assms(4) list_all_iff)
  next
    case False
    with Cons show ?thesis by simp
  qed
qed simp

lemma all_inputs_complete_None:
  "all_inputs_complete w None \<longleftrightarrow> list_all input_complete (wo_inputs_required w)"
  by (simp add: all_inputs_complete_def)

lemma dispatch_inv_inputs:
  assumes "dispatch n ev data tr = Inr n'" "expected_transition n (we_event_type ev) data = Inr tr"
    "\<not> terminal_stage (wo_stage n)" "distinct (map in_id (wo_inputs_required n))" "inv_inputs n"
  shows "inv_inputs n'"
  using assms(1)
proof (cases rule: dispatch_cases)
  case input
  from input(2,1) assms(2) show ?thesis
  proof (rule on_input_effect)
    fix x i ref
    assume f: "List.find (\<lambda>i. in_id i = x) (wo_inputs_required n) = Some i"
      and n': "n' = n\<lparr>wo_inputs_required := update_first (\<lambda>i. in_id i = x) (resolve_input ev ref) (wo_inputs_required n),
            wo_inputs_received := add_missing x (wo_inputs_received n),
            wo_stage := (if all_inputs_complete n (Some x) then ST_READY else ST_AWAITING_INPUTS)\<rparr>"
    have "all_inputs_complete n' None \<longleftrightarrow> all_inputs_complete n (Some x)"
      using update_first_complete [OF _ f] assms(4)
      by (simp add: n' all_inputs_complete_def)
    moreover have "wo_stage n' = (if all_inputs_complete n (Some x) then ST_READY else ST_AWAITING_INPUTS)"
      by (simp add: n')
    ultimately show ?thesis by (simp add: inv_inputs_def)
  qed
qed ((use assms(3,5) in \<open>auto simp: event_defs Let_def inv_inputs_def all_inputs_complete_None\<close>)[1])+

lemma dispatch_inv_production:
  assumes "dispatch n ev data tr = Inr n'" "expected_transition n (we_event_type ev) data = Inr tr"
    "\<not> terminal_stage (wo_stage n)" "inv_production n"
  shows "inv_production n'"
  using assms(1)
proof (cases rule: dispatch_cases)
  case input
  from input(2,1) assms(2) show ?thesis
    using assms(4) by (elim on_input_effect) (auto simp: inv_production_def)
qed ((use assms(3,4) in \<open>auto simp: event_defs Let_def inv_production_def paused_state_def clock_paused_def\<close>)[1])+

lemma no_unresolved: "\<not> list_ex unresolved bs \<longleftrightarrow> filter unresolved bs = []"
  by (simp add: list_ex_iff filter_empty_conv)

lemma dispatch_inv_blockers:
  assumes "dispatch n ev data tr = Inr n'" "expected_transition n (we_event_type ev) data = Inr tr"
    "\<not> terminal_stage (wo_stage n)" "inv_blockers n"
  shows "inv_blockers n'"
  using assms(1)
proof (cases rule: dispatch_cases)
  case input
  from input(2,1) assms(2) show ?thesis
    using assms(4) by (elim on_input_effect) (auto simp: inv_blockers_def)
qed ((use assms(3,4) in \<open>auto simp: event_defs Let_def inv_blockers_def no_unresolved unresolved_def\<close>)[1])+

lemma clock_paused_simps [simp]:
  "\<not> clock_paused CLK_NOT_STARTED" "\<not> clock_paused CLK_RUNNING" "\<not> clock_paused CLK_STOPPED"
  "clock_paused (paused_state t)"
  by (simp_all add: clock_paused_def paused_state_def)

lemma positive_integer_pos: "positive_integer data k = Inr m \<Longrightarrow> 0 < m"
  by (auto simp: positive_integer_def is_integer_def split: option.splits json.splits)

lemma on_effort_recorded_pos:
  assumes "on_effort_recorded n data = Inr n'"
  obtains m where "0 < m" "n' = n\<lparr>wo_actual_effort_minutes := wo_actual_effort_minutes n + m\<rparr>"
  using assms by (auto simp: on_effort_recorded_def stage_guards dest: positive_integer_pos)

lemma dispatch_inv_quality:
  assumes "dispatch n ev data tr = Inr n'" "expected_transition n (we_event_type ev) data = Inr tr"
    "\<not> terminal_stage (wo_stage n)" "inv_quality n"
  shows "inv_quality n'"
  using assms(1)
proof (cases rule: dispatch_cases)
  case input
  from input(2,1) assms(2) show ?thesis
    using assms(4) by (elim on_input_effect) (auto simp: inv_quality_def)
next
  case effort
  from effort(2) obtain m
    where "0 < m" "n' = n\<lparr>wo_actual_effort_minutes := wo_actual_effort_minutes n + m\<rparr>"
    by (rule on_effort_recorded_pos)
  with assms(4) show ?thesis by (simp add: inv_quality_def)
next
  case submit
  then obtain rows refs where "rows \<noteq> []" "mapE parse_artifact rows = Inr refs"
    "wo_delivery_artifact_refs n' = refs" "wo_QA_checklist_version n' \<noteq> None" "wo_stage n' = ST_QA"
    "0 < wo_actual_effort_minutes n'"
    by (auto simp: event_defs read_rows_def split: option.splits json.splits)
  moreover from this have "refs \<noteq> []" using mapE_Inr_length by fastforce
  ultimately show ?thesis by (simp add: inv_quality_def)
qed ((use assms(3,4) in \<open>clarsimp simp: event_defs Let_def inv_quality_def\<close>)[1])+

lemma dispatch_inv_delivery:
  assumes "dispatch n ev data tr = Inr n'" "expected_transition n (we_event_type ev) data = Inr tr"
    "\<not> terminal_stage (wo_stage n)" "inv_delivery n"
  shows "inv_delivery n'"
  using assms(1)
proof (cases rule: dispatch_cases)
  case input
  from input(2,1) assms(2) show ?thesis
    using assms(4) by (elim on_input_effect) (auto simp: inv_delivery_def)
next
  case effort
  from effort(2) show ?thesis
    using assms(4) by (elim on_effort_recorded_pos) (simp add: inv_delivery_def)
next
  case clock_resume
  then obtain v where "n' = n\<lparr>wo_clock_state := CLK_RUNNING, wo_clock_reason_version := Some v\<rparr>"
    "clock_paused (wo_clock_state n)"
    by (clarsimp simp: on_clock_resumed_def stage_guards)
  with assms(3,4) show ?thesis by (cases "wo_stage n") (simp_all add: inv_delivery_def)
qed ((use assms(3,4) in \<open>clarsimp simp: event_defs Let_def inv_delivery_def paused_state_def\<close>)[1])+

end
