(* ===== verification/Event_Sourcing.thy ===== *)
theory Event_Sourcing
  imports Prelude
begin

text \<open>
  The contract of a component whose state is built by a stream of versioned events: the first
  event creates version 1, each later event names the version it expects and advances it by one,
  and an invariant is kept. The facts about whole streams are proved once here; the components that
  provide a step function interpret the locale.
\<close>

text \<open>Applying a stream from a state; the first rejected event is the result.\<close>

fun fold_events :: "('s option \<Rightarrow> 'e \<Rightarrow> 'err + 's) \<Rightarrow> 's option \<Rightarrow> 'e list \<Rightarrow> 'err + 's option" where
  "fold_events step current [] = Inr current"
| "fold_events step current (ev # evs) =
     bindE (step current ev) (\<lambda>s. fold_events step (Some s) evs)"

lemma fold_events_append:
  "fold_events step current (es @ fs) =
     bindE (fold_events step current es) (\<lambda>c. fold_events step c fs)"
  by (induction es arbitrary: current) (simp_all add: bindE_assoc)

text \<open>The first event of each key: what is left of a stream in which repeated events are skipped.\<close>

fun first_by :: "('e \<Rightarrow> 'k) \<Rightarrow> 'k set \<Rightarrow> 'e list \<Rightarrow> 'e list" where
  "first_by key seen [] = []"
| "first_by key seen (e # es) =
     (if key e \<in> seen then first_by key seen es else e # first_by key (insert (key e) seen) es)"

lemma set_first_by: "set (first_by key seen es) \<subseteq> set es"
  by (induction es arbitrary: seen) auto

lemma keys_first_by: "key ` set (first_by key seen es) = key ` set es - seen"
  by (induction es arbitrary: seen) auto

lemma distinct_first_by: "distinct (map key (first_by key seen es))"
  by (induction es arbitrary: seen) (auto simp: keys_first_by)

lemma first_by_distinct:
  "distinct (map key es) \<Longrightarrow> key ` set es \<inter> seen = {} \<Longrightarrow> first_by key seen es = es"
  by (induction es arbitrary: seen) auto

locale event_sourced =
  fixes step :: "'s option \<Rightarrow> 'e \<Rightarrow> 'err + 's"
    and version :: "'s \<Rightarrow> int"
    and expected :: "'e \<Rightarrow> int"
    and inv :: "'s \<Rightarrow> bool"
  assumes created: "step None e = Inr s \<Longrightarrow> expected e = 0 \<and> version s = 1 \<and> inv s"
    and advanced: "step (Some s) e = Inr s' \<Longrightarrow> inv s \<Longrightarrow>
                   expected e = version s \<and> version s' = version s + 1 \<and> inv s'"
begin

definition version_of :: "'s option \<Rightarrow> int" where
  "version_of c = (case c of None \<Rightarrow> 0 | Some s \<Rightarrow> version s)"

definition inv_of :: "'s option \<Rightarrow> bool" where
  "inv_of c = (case c of None \<Rightarrow> True | Some s \<Rightarrow> inv s)"

lemma step_laws:
  assumes "step c e = Inr s" "inv_of c"
  shows "expected e = version_of c" "version s = version_of c + 1" "inv s"
  using assms created [of e s] advanced [of _ e s]
  by (cases c; auto simp: version_of_def inv_of_def)+

lemma fold_from:
  assumes "fold_events step c es = Inr c'" "inv_of c"
  shows "inv_of c' \<and> version_of c' = version_of c + int (length es)
         \<and> map expected es = map (\<lambda>i. version_of c + int i) [0..<length es]"
  using assms
proof (induction es arbitrary: c)
  case (Cons e es)
  then obtain s where s: "step c e = Inr s" "fold_events step (Some s) es = Inr c'" by auto
  note laws = step_laws [OF s(1) Cons.prems(2)]
  have "version_of (Some s) = version_of c + 1" "inv_of (Some s)"
    using laws by (simp_all add: version_of_def inv_of_def)
  with Cons.IH [OF s(2)] laws(1) show ?case
    by (simp add: map_upt_Suc algebra_simps del: upt_Suc)
qed simp

lemma fold_inv: "fold_events step None es = Inr (Some s) \<Longrightarrow> inv s"
  using fold_from [of None es "Some s"] by (simp add: inv_of_def)

lemma fold_version: "fold_events step None es = Inr (Some s) \<Longrightarrow> version s = int (length es)"
  using fold_from [of None es "Some s"] by (simp add: inv_of_def version_of_def)

lemma fold_expected: "fold_events step None es = Inr c \<Longrightarrow> map expected es = map int [0..<length es]"
  using fold_from [of None es c] by (simp add: inv_of_def version_of_def)

text \<open>Optimistic concurrency: of two events decided on the same state, only one can be appended.\<close>

lemma no_lost_update:
  assumes "step (Some s) e = Inr s'" "inv s" "expected f = expected e"
  shows "\<not> is_ok (step (Some s') f)"
proof
  assume "is_ok (step (Some s') f)"
  then obtain t where "step (Some s') f = Inr t" by (auto simp: is_ok_iff)
  with advanced [OF assms(1,2)] advanced [of s' f t] assms(3) show False by auto
qed

end

end
