(* ===== verification/Work_Order_Stream.thy ===== *)
theory Work_Order_Stream
  imports Work_Order_Lifecycle Event_Sourcing
begin

text \<open>
  One applied event (\<open>applyWorkOrderEvent\<close>) and whole streams (\<open>replayWorkOrder\<close>): every order a
  stream builds satisfies the invariant of \<open>Work_Order_Lifecycle\<close>, versions count events, the
  identity accepted at creation never changes, repeated events are skipped.
\<close>

section \<open>One applied event\<close>

lemma sealE:
  assumes "seal E ev n = Inr w"
  obtains "inv_ids n"
    "w = n\<lparr>wo_version := we_event_version ev, wo_last_event_id := we_event_id ev,
          wo_provenance := event_provenance (we_source_system ev) (we_event_id ev) (we_occurred_at ev)\<rparr>"
    "order_ok E w"
  using assms by (clarsimp simp: seal_def inv_ids_def Let_def)

lemma apply_SomeE:
  assumes "apply_work_order_event E (Some cur) ev = Inr w"
  obtains tr n where "\<not> terminal_stage (wo_stage cur)" "we_event_type ev \<noteq> WORK_ORDER_CREATED"
    "we_work_order_id ev = wo_id cur" "we_expected_version ev = wo_version cur"
    "we_event_version ev = wo_version cur + 1"
    "not_before (we_occurred_at ev) (pv_observed_at (wo_provenance cur))"
    "expected_transition cur (we_event_type ev) (we_data ev) = Inr tr" "we_transition ev = tr"
    "dispatch cur ev (we_data ev) tr = Inr n" "seal E ev n = Inr w" "event_ok E ev"
  using assms by (clarsimp simp: apply_work_order_event_def apply_next_def)

lemma apply_NoneE:
  assumes "apply_work_order_event E None ev = Inr w"
  obtains "we_event_type ev = WORK_ORDER_CREATED" "we_expected_version ev = 0"
    "we_event_version ev = 1" "map_of (we_data ev) ''work_order_snapshot'' = Some (Snapshot w)"
    "order_ok E w" "wo_id w = we_work_order_id ev" "wo_version w = 1"
    "wo_last_event_id w = we_event_id ev" "assert_initial_snapshot ev w (Inr w) = Inr w"
  using assms
  by (clarsimp simp: apply_work_order_event_def apply_creation_def assert_initial_snapshot_def
      split: option.splits data_value.splits json.splits)

lemma inv_seal [simp]:
  "inv_ids (n\<lparr>wo_version := v, wo_last_event_id := l, wo_provenance := p\<rparr>) = inv_ids n"
  "inv_inputs (n\<lparr>wo_version := v, wo_last_event_id := l, wo_provenance := p\<rparr>) = inv_inputs n"
  "inv_production (n\<lparr>wo_version := v, wo_last_event_id := l, wo_provenance := p\<rparr>) = inv_production n"
  "inv_blockers (n\<lparr>wo_version := v, wo_last_event_id := l, wo_provenance := p\<rparr>) = inv_blockers n"
  "inv_quality (n\<lparr>wo_version := v, wo_last_event_id := l, wo_provenance := p\<rparr>) = inv_quality n"
  "inv_delivery (n\<lparr>wo_version := v, wo_last_event_id := l, wo_provenance := p\<rparr>) = inv_delivery n"
  by (simp_all add: inv_ids_def inv_inputs_def inv_production_def inv_blockers_def inv_quality_def
      inv_delivery_def all_inputs_complete_def)

lemma apply_next_inv:
  assumes "apply_work_order_event E (Some cur) ev = Inr w" "wo_inv cur"
  shows "wo_inv w"
  using assms(1)
proof (rule apply_SomeE)
  fix tr n
  assume st: "\<not> terminal_stage (wo_stage cur)" and tr: "expected_transition cur (we_event_type ev) (we_data ev) = Inr tr"
    and n: "dispatch cur ev (we_data ev) tr = Inr n" and w: "seal E ev n = Inr w"
    and v: "we_event_version ev = wo_version cur + 1"
  from w show ?thesis
  proof (rule sealE)
    assume ids: "inv_ids n" and w: "w = n\<lparr>wo_version := we_event_version ev, wo_last_event_id := we_event_id ev,
          wo_provenance := event_provenance (we_source_system ev) (we_event_id ev) (we_occurred_at ev)\<rparr>"
    from ids have d: "distinct (map in_id (wo_inputs_required cur))"
      by (simp add: inv_ids_def flip: dispatch_input_ids [OF n])
    note i = assms(2) [unfolded wo_inv_def]
    have "inv_inputs n" using i by (intro dispatch_inv_inputs [OF n tr st d]) simp
    moreover have "inv_production n" using i by (intro dispatch_inv_production [OF n tr st]) simp
    moreover have "inv_blockers n" using i by (intro dispatch_inv_blockers [OF n tr st]) simp
    moreover have "inv_quality n" using i by (intro dispatch_inv_quality [OF n tr st]) simp
    moreover have "inv_delivery n" using i by (intro dispatch_inv_delivery [OF n tr st]) simp
    ultimately show ?thesis using ids i by (simp add: wo_inv_def w v)
  qed
qed

lemma creation_inv:
  assumes "apply_work_order_event E None ev = Inr w"
  shows "wo_inv w"
  using assms
proof (rule apply_NoneE)
  assume "assert_initial_snapshot ev w (Inr w) = Inr w" "wo_version w = 1"
  moreover from this have "\<exists>i \<in> set (wo_inputs_required w). \<not> input_complete i"
    by (cases "wo_inputs_required w")
      (auto simp: assert_initial_snapshot_def unresolved_input_def input_complete_def)
  ultimately show ?thesis
    by (auto simp: wo_inv_def assert_initial_snapshot_def inv_inputs_def inv_production_def
        inv_blockers_def inv_quality_def inv_delivery_def all_inputs_complete_None list_all_iff)
qed

lemma apply_version:
  assumes "apply_work_order_event E (Some cur) ev = Inr w"
  shows "we_expected_version ev = wo_version cur" "wo_version w = wo_version cur + 1"
  using assms by (auto elim!: apply_SomeE sealE)

lemma creation_version:
  assumes "apply_work_order_event E None ev = Inr w"
  shows "we_expected_version ev = 0" "wo_version w = 1"
  using assms by (auto elim!: apply_NoneE)

lemma apply_observed:
  assumes "apply_work_order_event E c ev = Inr w"
  shows "pv_observed_at (wo_provenance w) = we_occurred_at ev"
  using assms
  by (cases c)
    (auto elim!: apply_NoneE apply_SomeE sealE simp: assert_initial_snapshot_def event_provenance_def)

lemma apply_identity:
  assumes "apply_work_order_event E (Some cur) ev = Inr w"
  shows "work_order_identity.truncate w = work_order_identity.truncate cur
         \<and> map in_id (wo_inputs_required w) = map in_id (wo_inputs_required cur)"
  using assms
proof (rule apply_SomeE)
  fix tr n
  assume n: "dispatch cur ev (we_data ev) tr = Inr n" and w: "seal E ev n = Inr w"
  from w show ?thesis
    by (rule sealE)
      (use dispatch_identity [OF n] in \<open>simp add: dispatch_input_ids [OF n] work_order_identity.defs\<close>)
qed

lemma fold_identity:
  assumes "fold_events (apply_work_order_event E) (Some cur) evs = Inr (Some w)"
  shows "work_order_identity.truncate w = work_order_identity.truncate cur
         \<and> map in_id (wo_inputs_required w) = map in_id (wo_inputs_required cur)"
  using assms
proof (induction evs arbitrary: cur)
  case (Cons e es)
  then show ?case by (auto dest: apply_identity)
qed simp

interpretation wo: event_sourced "apply_work_order_event E" wo_version we_expected_version wo_inv
  for E
proof (unfold_locales)
  fix e s assume "apply_work_order_event E None e = Inr s"
  with creation_inv creation_version
  show "we_expected_version e = 0 \<and> wo_version s = 1 \<and> wo_inv s" by blast
next
  fix s e s' assume "apply_work_order_event E (Some s) e = Inr s'" "wo_inv s"
  with apply_next_inv apply_version
  show "we_expected_version e = wo_version s \<and> wo_version s' = wo_version s + 1 \<and> wo_inv s'" by blast
qed

section \<open>Replay\<close>

text \<open>Two events with one idempotency key are the same event.\<close>

definition consistent_keys :: "work_order_event list \<Rightarrow> bool" where
  "consistent_keys evs \<longleftrightarrow>
     (\<forall>e \<in> set evs. \<forall>f \<in> set evs. we_idempotency_key e = we_idempotency_key f \<longrightarrow> e = f)"

definition agrees_with :: "(string \<times> work_order_event) list \<Rightarrow> work_order_event list \<Rightarrow> bool" where
  "agrees_with seen evs \<longleftrightarrow>
     (\<forall>e \<in> set evs. \<forall>p. map_of seen (we_idempotency_key e) = Some p \<longrightarrow> p = e)"

lemma consistent_keys_Cons:
  "consistent_keys (e # es) \<longleftrightarrow>
     (\<forall>f \<in> set es. we_idempotency_key e = we_idempotency_key f \<longrightarrow> e = f) \<and> consistent_keys es"
  unfolding consistent_keys_def by (metis insert_iff list.simps(15))

lemma replay_from_iff:
  "replay_from E seen c evs = Inr c' \<longleftrightarrow>
     agrees_with seen evs \<and> consistent_keys evs
     \<and> fold_events (apply_work_order_event E) c (first_by we_idempotency_key (fst ` set seen) evs) = Inr c'"
proof (induction evs arbitrary: seen c)
  case Nil
  show ?case by (simp add: agrees_with_def consistent_keys_def)
next
  case (Cons e es)
  show ?case
  proof (cases "map_of seen (we_idempotency_key e)")
    case None
    then have "we_idempotency_key e \<notin> fst ` set seen" by (simp add: map_of_eq_None_iff)
    moreover have "agrees_with seen (e # es) \<and> consistent_keys (e # es) \<longleftrightarrow>
        agrees_with ((we_idempotency_key e, e) # seen) es \<and> consistent_keys es \<and> agrees_with seen es"
      using None by (auto simp: agrees_with_def consistent_keys_Cons)
    moreover have "agrees_with ((we_idempotency_key e, e) # seen) es \<Longrightarrow> agrees_with seen es"
      using None by (auto simp: agrees_with_def split: if_splits)
    ultimately show ?thesis using None by (auto simp: Cons.IH)
  next
    case (Some p)
    then have m: "we_idempotency_key e \<in> fst ` set seen" by (force dest: map_of_SomeD)
    have a: "agrees_with seen (e # es) \<longleftrightarrow> p = e \<and> agrees_with seen es"
      using Some by (simp add: agrees_with_def)
    have "\<forall>f \<in> set es. we_idempotency_key e = we_idempotency_key f \<longrightarrow> e = f"
      if "p = e" "agrees_with seen es"
      using that Some unfolding agrees_with_def by metis
    then have "p = e \<Longrightarrow> agrees_with seen es \<Longrightarrow> consistent_keys (e # es) \<longleftrightarrow> consistent_keys es"
      by (simp add: consistent_keys_Cons)
    with a show ?thesis using Some m Cons.IH [of seen c] by auto
  qed
qed

lemma agrees_with_Nil [simp]: "agrees_with [] evs"
  by (simp add: agrees_with_def)

lemma fold_events_None_iff:
  "fold_events step c es = Inr None \<longleftrightarrow> es = [] \<and> c = None"
proof (cases es rule: rev_cases)
  case (snoc fs e)
  then show ?thesis by (auto simp: fold_events_append)
qed simp

lemma first_by_Nil_iff: "first_by key {} es = [] \<longleftrightarrow> es = []"
  by (cases es) simp_all

text \<open>Replay is the fold of the events without repetitions, and fails on a key reused for another event.\<close>

lemma replay_iff:
  "replay_work_order E evs = Inr w \<longleftrightarrow>
     consistent_keys evs
     \<and> fold_events (apply_work_order_event E) None (first_by we_idempotency_key {} evs) = Inr (Some w)"
  by (cases "evs = []")
    (auto simp: replay_work_order_def replay_from_iff fold_events_None_iff first_by_Nil_iff
      split: option.splits)

lemma replay_inv: "replay_work_order E evs = Inr w \<Longrightarrow> wo_inv w"
  by (auto simp: replay_iff intro: wo.fold_inv)

lemma consistent_keys_snoc:
  "consistent_keys (evs @ [ev]) \<longleftrightarrow>
     consistent_keys evs \<and> (\<forall>e \<in> set evs. we_idempotency_key e = we_idempotency_key ev \<longrightarrow> e = ev)"
  by (auto simp: consistent_keys_def)

lemma first_by_append:
  "first_by key seen (es @ fs) = first_by key seen es @ first_by key (seen \<union> key ` set es) fs"
  by (induction es arbitrary: seen) (auto simp: insert_absorb)

text \<open>An invariant of the built order together with the events that built it.\<close>

lemma fold_history_induct [consumes 1, case_names none snoc]:
  assumes "fold_events step None es = Inr c"
    and "P None []"
    and "\<And>c es e s. fold_events step None es = Inr c \<Longrightarrow> step c e = Inr s \<Longrightarrow> P c es \<Longrightarrow> P (Some s) (es @ [e])"
  shows "P c es"
  using assms(1)
proof (induction es arbitrary: c rule: rev_induct)
  case (snoc e es)
  then obtain d s where d: "fold_events step None es = Inr d" "step d e = Inr s" "c = Some s"
    by (auto simp: fold_events_append)
  from assms(3) [OF d(1,2) snoc.IH [OF d(1)]] d(3) show ?case by simp
qed (simp add: assms(2))

end
