(* ===== verification/Work_Order_Samples.thy ===== *)
theory Work_Order_Samples
  imports Work_Order_Aggregate
begin

text \<open>
  A complete history of one small Work Order, from creation to closing with a rework cycle, used by
  the witnesses: every event is evaluated by the definitions of \<open>Work_Order_Aggregate\<close>.
\<close>

definition sample_env :: wo_env where
  "sample_env = \<lparr>order_ok = (\<lambda>_. True), event_ok = (\<lambda>_. True), fingerprint = (\<lambda>s. take 32 s)\<rparr>"

definition sample_human :: actor_ref where
  "sample_human = \<lparr>ac_kind = Human, ac_id = ''ana'', ac_display_name = None\<rparr>"

definition sample_hash :: string where
  "sample_hash = ''sha256:0123456789abcdef0123456789abcdef0123456789abcdef0123456789abcdef''"

definition sample_command :: create_command where
  "sample_command =
     \<lparr>cc_work_order_id = Some ''cc:work-order:1'', cc_client_id = ''client'', cc_account_id = ''account'',
      cc_opportunity_id = ''opp'', cc_qco_id = ''qco'', cc_proposal_id = ''prop'', cc_proposal_version = ''v1'',
      cc_order_id = ''order'', cc_provider_refs = [''ref''], cc_accepted_snapshot_hash = sample_hash,
      cc_offer_id = ''offer'', cc_offer_version = ''v1'', cc_deliverable_id = ''deliv'',
      cc_deliverable_version = ''v1'', cc_scope_version = ''v1'', cc_price_version = ''v1'',
      cc_terms_version = ''v1'', cc_input_ids = [''brief''], cc_business_calendar_version = ''br-1'',
      cc_estimated_effort_minutes = Some 60, cc_estimated_capacity_units = 1,
      cc_capacity_commitment_id = ''cap'', cc_responsible_owner = Some ''ana'',
      cc_financial_gate = FG_RECONCILED, cc_readiness_state = RS_READY, cc_synthetic = True\<rparr>"

definition sample_context :: "string \<Rightarrow> string \<Rightarrow> event_context" where
  "sample_context key time =
     \<lparr>cx_actor = sample_human, cx_reason_code = ''OK_REASON'', cx_literal_reason_ref = ''doc'',
      cx_occurred_at = time, cx_idempotency_key = key, cx_correlation_id = ''corr'',
      cx_causation_id = None, cx_source_system = ''delivery'', cx_evidence_refs = [''ev'']\<rparr>"

text \<open>The event a decision would record at the given version of the sample order.\<close>

definition sample_event ::
  "int \<Rightarrow> string \<Rightarrow> string \<Rightarrow> work_order_event_type \<Rightarrow> (work_order_stage \<times> work_order_stage) option \<Rightarrow> payload \<Rightarrow> work_order_event" where
  "sample_event version key time type move data =
     \<lparr>we_event_id = ''cc:work-order-event:'' @ key, we_event_version = version + 1,
      we_work_order_id = ''cc:work-order:1'', we_expected_version = version, we_event_type = type,
      we_actor = sample_human, we_reason_code = ''OK_REASON'', we_literal_reason_ref = ''doc'',
      we_occurred_at = time, we_idempotency_key = key, we_correlation_id = ''corr'',
      we_causation_id = None, we_source_system = ''delivery'', we_evidence_refs = [''ev''],
      we_transition = map_option (\<lambda>(a, b). \<lparr>tr_from = a, tr_to = b\<rparr>) move, we_data = data\<rparr>"

definition js :: "string \<Rightarrow> data_value" where
  "js s = Json (JStr s)"

definition sample_order :: work_order where
  "sample_order = initial_work_order sample_env sample_command (sample_context ''key-0000'' ''2026-03-02T12:00:00.000Z'')"

definition ev_created :: work_order_event where
  "ev_created = creation_event sample_env sample_command (sample_context ''key-0000'' ''2026-03-02T12:00:00.000Z'') sample_order"

definition ev_input :: work_order_event where
  "ev_input = sample_event 1 ''key-0001'' ''2026-03-02T12:01:00.000Z'' INPUT_RECEIVED (Some (ST_AWAITING_INPUTS, ST_READY))
     [(''evidence_ref'', js ''mail''), (''input_id'', js ''brief'')]"

definition ev_started :: work_order_event where
  "ev_started = sample_event 2 ''key-0002'' ''2026-03-02T12:02:00.000Z'' PRODUCTION_STARTED (Some (ST_READY, ST_IN_PROGRESS))
     [(''business_calendar_version'', js ''br-1''), (''capacity_commitment_id'', js ''cap''),
      (''capacity_evidence_ref'', js ''plan''), (''capacity_state'', js ''COMMITTED''),
      (''due_at'', js ''2026-03-04T12:00:00.000Z'')]"

definition ev_effort :: work_order_event where
  "ev_effort = sample_event 3 ''key-0003'' ''2026-03-02T13:00:00.000Z'' EFFORT_RECORDED None
     [(''effort_minutes'', Json (JNum 45))]"

definition ev_submitted :: work_order_event where
  "ev_submitted = sample_event 4 ''key-0004'' ''2026-03-02T13:01:00.000Z'' QA_SUBMITTED (Some (ST_IN_PROGRESS, ST_QA))
     [(''QA_checklist_version'', js ''qa-1''),
      (''artifact_refs'', Json (JArr [JObj [(''artifact_id'', JStr ''art''), (''evidence_ref'', JStr ''drive''),
                                            (''sha256'', JStr sample_hash)]]))]"

definition ev_passed :: work_order_event where
  "ev_passed = sample_event 5 ''key-0005'' ''2026-03-02T13:02:00.000Z'' QA_PASSED (Some (ST_QA, ST_READY_TO_DELIVER)) []"

definition ev_delivered :: work_order_event where
  "ev_delivered = sample_event 6 ''key-0006'' ''2026-03-02T14:00:00.000Z'' DELIVERY_RECORDED (Some (ST_READY_TO_DELIVER, ST_DELIVERED))
     [(''clock_reason_version'', js ''c-1''), (''recipient_verification_ref'', js ''mail'')]"

definition ev_accepted :: work_order_event where
  "ev_accepted = sample_event 7 ''key-0007'' ''2026-03-02T15:00:00.000Z'' CLIENT_ACCEPTED (Some (ST_DELIVERED, ST_ACCEPTED)) []"

definition ev_closed :: work_order_event where
  "ev_closed = sample_event 8 ''key-0008'' ''2026-03-02T16:00:00.000Z'' WORK_ORDER_CLOSED (Some (ST_ACCEPTED, ST_CLOSED))
     [(''expansion_candidate'', Json JNull), (''outcome'', js ''ACHIEVED'')]"

definition sample_stream :: "work_order_event list" where
  "sample_stream = [ev_created, ev_input, ev_started, ev_effort, ev_submitted, ev_passed, ev_delivered, ev_accepted, ev_closed]"

fun run :: "work_order option \<Rightarrow> work_order_event list \<Rightarrow> work_order option" where
  "run c [] = c"
| "run c (e # es) = (case apply_work_order_event sample_env c e of Inl _ \<Rightarrow> None | Inr w \<Rightarrow> run (Some w) es)"

end
