(* ===== verification/Work_Order_Properties.thy ===== *)
theory Work_Order_Properties
  imports Work_Order_Stream Work_Order_Samples
begin

text \<open>
  The properties of the Work Order aggregate: refinement of the abstract lifecycle, what a stored
  history implies about the order it builds, immutability, idempotence, and the link between
  decisions and events. Each has a witness on the sample history.
\<close>

section \<open>Helper facts\<close>

lemma apply_lifecycle:
  assumes "apply_work_order_event E (Some cur) ev = Inr w"
  shows "lifecycle (wo_stage cur) (we_event_type ev) (wo_stage w)"
  using assms
proof (rule apply_SomeE)
  fix tr n
  assume st: "\<not> terminal_stage (wo_stage cur)" "we_event_type ev \<noteq> WORK_ORDER_CREATED"
    and tr: "expected_transition cur (we_event_type ev) (we_data ev) = Inr tr"
    and n: "dispatch cur ev (we_data ev) tr = Inr n" and w: "seal E ev n = Inr w"
  from w have "wo_stage w = wo_stage n" by (auto elim: sealE)
  with dispatch_lifecycle [OF n tr st] show ?thesis by simp
qed

text \<open>The event types the code accepts from a human actor only.\<close>

definition human_event :: "work_order_event_type \<Rightarrow> bool" where
  "human_event t \<longleftrightarrow>
     t \<in> {INPUT_WAIVED, OWNER_ASSIGNED, PRODUCTION_STARTED, QA_PASSED, DELIVERY_RECORDED, CLIENT_ACCEPTED,
          CLIENT_REWORK_REQUESTED, CHANGE_REQUEST_ACCEPTED, CHANGE_REQUEST_REJECTED, CLOCK_PAUSED_CLIENT,
          CLOCK_PAUSED_INTERNAL, CLOCK_PAUSED_FORCE_MAJEURE, CLOCK_RESUMED, WORK_ORDER_CANCELLED,
          WORK_ORDER_CLOSED}"

lemma dispatch_human:
  "dispatch n ev data tr = Inr n' \<Longrightarrow> human_event (we_event_type ev) \<Longrightarrow> ac_kind (we_actor ev) = Human"
  by (erule dispatch_cases; clarsimp simp: event_defs human_event_def)

lemma apply_human:
  "apply_work_order_event E (Some cur) ev = Inr w \<Longrightarrow> human_event (we_event_type ev)
    \<Longrightarrow> ac_kind (we_actor ev) = Human"
  by (auto elim!: apply_SomeE dest: dispatch_human)

text \<open>Some human recorded an event of this type.\<close>

definition signed :: "work_order_event list \<Rightarrow> work_order_event_type \<Rightarrow> bool" where
  "signed evs t \<longleftrightarrow> (\<exists>e \<in> set evs. we_event_type e = t \<and> ac_kind (we_actor e) = Human)"

lemma signed_snoc [simp]:
  "signed (evs @ [ev]) t \<longleftrightarrow> signed evs t \<or> we_event_type ev = t \<and> ac_kind (we_actor ev) = Human"
  by (auto simp: signed_def)

definition gates_signed :: "work_order_event list \<Rightarrow> work_order \<Rightarrow> bool" where
  "gates_signed evs w \<longleftrightarrow>
     (started_stage (wo_stage w) \<longrightarrow> signed evs PRODUCTION_STARTED)
     \<and> (past_qa (wo_stage w) \<longrightarrow> signed evs QA_PASSED)
     \<and> (handed_over (wo_stage w) \<longrightarrow> signed evs DELIVERY_RECORDED)
     \<and> (wo_stage w \<in> {ST_ACCEPTED, ST_CLOSED} \<longrightarrow> signed evs CLIENT_ACCEPTED)
     \<and> (wo_stage w = ST_CLOSED \<longrightarrow> signed evs WORK_ORDER_CLOSED)
     \<and> (wo_stage w = ST_CANCELLED \<longrightarrow> signed evs WORK_ORDER_CANCELLED)"

lemma gates_signed_step:
  assumes "apply_work_order_event E (Some cur) ev = Inr w" "gates_signed evs cur"
  shows "gates_signed (evs @ [ev]) w"
proof -
  have "human_event (we_event_type ev) \<Longrightarrow> ac_kind (we_actor ev) = Human"
    using apply_human [OF assms(1)] by simp
  with apply_lifecycle [OF assms(1)] assms(2) show ?thesis
    by (cases rule: lifecycle.cases) (auto simp: gates_signed_def human_event_def)
qed

lemma fold_gates_signed:
  assumes "fold_events (apply_work_order_event E) None evs = Inr c"
  shows "\<forall>w. c = Some w \<longrightarrow> gates_signed evs w"
  using assms
proof (induction rule: fold_history_induct)
  case (snoc c es e s)
  show ?case
  proof (cases c)
    case None
    with snoc(2) have "wo_stage s = ST_AWAITING_INPUTS"
      by (auto elim!: apply_NoneE simp: assert_initial_snapshot_def)
    then show ?thesis by (simp add: gates_signed_def)
  next
    case (Some cur)
    with snoc gates_signed_step show ?thesis by blast
  qed
qed simp

lemma gates_signed_mono:
  "gates_signed evs w \<Longrightarrow> set evs \<subseteq> set fs \<Longrightarrow> gates_signed fs w"
  unfolding gates_signed_def signed_def by blast

lemma replay_extend:
  assumes "replay_work_order E evs = Inr w" "replay_work_order E (evs @ evs2) = Inr w'"
  obtains rest where "set rest \<subseteq> set evs2"
    "fold_events (apply_work_order_event E) (Some w) rest = Inr (Some w')"
  using assms
  by (auto simp: replay_iff first_by_append fold_events_append
      intro: that [OF set_first_by [of we_idempotency_key "we_idempotency_key ` set evs" evs2]])

lemma fold_from_terminal:
  assumes "fold_events (apply_work_order_event E) (Some w) evs = Inr c" "terminal_stage (wo_stage w)"
  shows "evs = [] \<and> c = Some w"
  using assms by (cases evs) (auto elim!: apply_SomeE)

lemma replay_from_snoc:
  assumes "replay_from E seen c evs = Inr c'"
  shows "replay_from E seen c (evs @ [ev]) =
    (case or_option (map_of seen (we_idempotency_key ev))
            (List.find (\<lambda>e. we_idempotency_key e = we_idempotency_key ev) evs) of
       Some prior \<Rightarrow> require (prior = ev) IDEMPOTENCY_CONFLICT (Inr c')
     | None \<Rightarrow> bindE (apply_work_order_event E c' ev) (\<lambda>n. Inr (Some n)))"
  using assms
proof (induction evs arbitrary: seen c)
  case Nil
  then show ?case by (simp split: option.split)
next
  case (Cons e es)
  show ?case
  proof (cases "map_of seen (we_idempotency_key e)")
    case None
    with Cons.prems obtain n where n: "apply_work_order_event E c e = Inr n"
      "replay_from E ((we_idempotency_key e, e) # seen) (Some n) es = Inr c'" by auto
    show ?thesis using None n(1) Cons.IH [OF n(2)] by (simp split: if_splits)
  next
    case (Some p)
    with Cons.prems have p: "p = e" "replay_from E seen c es = Inr c'" by auto
    show ?thesis
      using Some p(1) Cons.IH [OF p(2)]
      by (cases "we_idempotency_key e = we_idempotency_key ev") simp_all
  qed
qed

lemma find_key_None_iff:
  "List.find (\<lambda>e. key e = k) es = None \<longleftrightarrow> k \<notin> key ` set es"
  by (auto simp: find_None_iff)

lemma in_time_order:
  assumes "fold_events (apply_work_order_event E) None evs = Inr c"
  shows "(\<forall>w. c = Some w \<longrightarrow> evs \<noteq> [] \<and> pv_observed_at (wo_provenance w) = we_occurred_at (last evs))
    \<and> successively (\<lambda>e f. not_before (we_occurred_at f) (we_occurred_at e)) evs"
  using assms
proof (induction rule: fold_history_induct)
  case (snoc c es e s)
  note s = apply_observed [OF snoc(2)]
  show ?case
  proof (cases c)
    case None
    with snoc(1) have "es = []" by (simp add: fold_events_None_iff)
    with s show ?thesis by simp
  next
    case (Some cur)
    with snoc(2) have "not_before (we_occurred_at e) (pv_observed_at (wo_provenance cur))"
      by (auto elim!: apply_SomeE)
    with s snoc(3) Some show ?thesis by (simp add: successively_append_iff)
  qed
qed simp

section \<open>The sample history\<close>

definition sample_state :: "nat \<Rightarrow> work_order" where
  "sample_state k = or_else (run None (take k sample_stream)) sample_order"

lemma sample_step_ok: "is_ok (apply_work_order_event sample_env (Some (sample_state 6)) ev_delivered)"
  by code_simp

lemma sample_replay: "replay_work_order sample_env (take 7 sample_stream) = Inr (sample_state 7)"
  by code_simp

lemma sample_replay_closed: "replay_work_order sample_env sample_stream = Inr (sample_state 9)"
  by code_simp

section \<open>Properties\<close>

text \<open>
  C6. Every accepted event moves the order along an edge of the abstract
  lifecycle, records exactly that edge in its own transition (none when the stage stays), and the
  order it came from was not terminal.
\<close>

theorem apply_refines_lifecycle:
  assumes "apply_work_order_event E (Some cur) ev = Inr w"
  shows "\<not> terminal_stage (wo_stage cur)
    \<and> lifecycle (wo_stage cur) (we_event_type ev) (wo_stage w)
    \<and> (case we_transition ev of
         None \<Rightarrow> wo_stage w = wo_stage cur
       | Some t \<Rightarrow> t = \<lparr>tr_from = wo_stage cur, tr_to = wo_stage w\<rparr>)"
  using assms
proof (rule apply_SomeE)
  fix tr n
  assume tr: "expected_transition cur (we_event_type ev) (we_data ev) = Inr tr" "we_transition ev = tr"
    and n: "dispatch cur ev (we_data ev) tr = Inr n" and w: "seal E ev n = Inr w"
    and st: "\<not> terminal_stage (wo_stage cur)"
  from w have "wo_stage w = wo_stage n" by (auto elim: sealE)
  with dispatch_stage [OF n tr(1)] tr st apply_lifecycle [OF assms] show ?thesis
    by (auto simp: expected_transition_def split: option.splits)
qed

lemma apply_refines_lifecycle_witness:
  "\<exists>w. apply_work_order_event sample_env (Some (sample_state 6)) ev_delivered = Inr w
    \<and> lifecycle (wo_stage (sample_state 6)) DELIVERY_RECORDED (wo_stage w)"
proof -
  obtain w where w: "apply_work_order_event sample_env (Some (sample_state 6)) ev_delivered = Inr w"
    using sample_step_ok by (auto simp: is_ok_iff)
  have "we_event_type ev_delivered = DELIVERY_RECORDED" by (simp add: ev_delivered_def sample_event_def)
  with apply_refines_lifecycle [OF w] w show ?thesis by auto
qed

text \<open>
  C2. An order built by any replayed stream is well formed: production runs only with
  every input resolved, an owner, a start and a due date; exactly one blocker is open when the stage
  is \<open>BLOCKED\<close> and none in any other stage but \<open>CANCELLED\<close>; an order past quality control has passed it
  with artifacts, a checklist and recorded effort; a handed-over order has its delivery instant and
  a stopped clock.
\<close>

theorem replay_satisfies_contract:
  assumes "replay_work_order E evs = Inr w"
  shows "(started_stage (wo_stage w) \<longrightarrow>
            all_inputs_complete w None \<and> wo_responsible_owner w \<noteq> None \<and> wo_started_at w \<noteq> None
            \<and> wo_due_at w \<noteq> None)
    \<and> (wo_stage w \<noteq> ST_CANCELLED \<longrightarrow>
         length (filter unresolved (wo_blockers w)) = (if wo_stage w = ST_BLOCKED then 1 else 0))
    \<and> (past_qa (wo_stage w) \<longrightarrow>
         wo_QA_state w = QA_PASS \<and> wo_delivery_artifact_refs w \<noteq> []
         \<and> wo_QA_checklist_version w \<noteq> None \<and> 0 < wo_actual_effort_minutes w)
    \<and> (handed_over (wo_stage w) \<longrightarrow> wo_delivered_at w \<noteq> None \<and> wo_clock_state w = CLK_STOPPED)"
proof -
  have i: "inv_inputs w" "inv_production w" "inv_blockers w" "inv_quality w" "inv_delivery w"
    using replay_inv [OF assms] by (simp_all add: wo_inv_def)
  show ?thesis
  proof (intro conjI)
    show "started_stage (wo_stage w) \<longrightarrow>
            all_inputs_complete w None \<and> wo_responsible_owner w \<noteq> None \<and> wo_started_at w \<noteq> None
            \<and> wo_due_at w \<noteq> None"
      using i(1,2) by (simp add: inv_inputs_def inv_production_def)
    show "wo_stage w \<noteq> ST_CANCELLED \<longrightarrow>
         length (filter unresolved (wo_blockers w)) = (if wo_stage w = ST_BLOCKED then 1 else 0)"
      using i(3) unfolding inv_blockers_def by blast
  qed (use i(4,5) in \<open>simp_all add: inv_quality_def inv_delivery_def\<close>)
qed

lemma replay_satisfies_contract_witness:
  "wo_stage (sample_state 7) = ST_DELIVERED \<and> wo_QA_state (sample_state 7) = QA_PASS
    \<and> wo_delivered_at (sample_state 7) \<noteq> None"
proof -
  have "wo_stage (sample_state 7) = ST_DELIVERED" by code_simp
  with replay_satisfies_contract [OF sample_replay] show ?thesis by simp
qed

text \<open>
  C1. No stage is reached without its human decision in the history: production, quality
  approval, delivery, acceptance, closing and cancelling each have an event of that type whose actor
  is a human.
\<close>

theorem replay_gates_signed:
  assumes "replay_work_order E evs = Inr w"
  shows "gates_signed evs w"
proof -
  from assms have "gates_signed (first_by we_idempotency_key {} evs) w"
    by (auto simp: replay_iff dest: fold_gates_signed)
  then show ?thesis by (rule gates_signed_mono) (rule set_first_by)
qed

lemma replay_gates_signed_witness: "signed (take 7 sample_stream) QA_PASSED"
proof -
  have "wo_stage (sample_state 7) = ST_DELIVERED" by code_simp
  with replay_gates_signed [OF sample_replay] show ?thesis by (simp add: gates_signed_def)
qed

text \<open>
  C23. Once a stream has closed or cancelled its order, no longer stream that replays
  changes it: whatever follows can only repeat earlier events.
\<close>

theorem replay_terminal_final:
  assumes "replay_work_order E evs = Inr w" "terminal_stage (wo_stage w)"
    "replay_work_order E (evs @ later) = Inr w'"
  shows "w' = w"
proof -
  obtain rest where "fold_events (apply_work_order_event E) (Some w) rest = Inr (Some w')"
    using assms(1,3) by (rule replay_extend)
  with fold_from_terminal assms(2) show ?thesis by blast
qed

lemma replay_terminal_final_witness:
  "\<exists>w'. replay_work_order sample_env (sample_stream @ [ev_delivered]) = Inr w' \<and> w' = sample_state 9"
proof -
  have "is_ok (replay_work_order sample_env (sample_stream @ [ev_delivered]))" by code_simp
  then obtain w' where w': "replay_work_order sample_env (sample_stream @ [ev_delivered]) = Inr w'"
    by (auto simp: is_ok_iff)
  have "terminal_stage (wo_stage (sample_state 9))" by code_simp
  from replay_terminal_final [OF sample_replay_closed this w'] w' show ?thesis by simp
qed

text \<open>
  The accepted commercial identity (the 23 fields fixed at creation) and the list of
  required inputs never change as a stream grows.
\<close>

theorem replay_keeps_identity:
  assumes "replay_work_order E evs = Inr w" "replay_work_order E (evs @ later) = Inr w'"
  shows "work_order_identity.truncate w' = work_order_identity.truncate w
    \<and> map in_id (wo_inputs_required w') = map in_id (wo_inputs_required w)"
proof -
  obtain rest where "fold_events (apply_work_order_event E) (Some w) rest = Inr (Some w')"
    using assms by (rule replay_extend)
  then show ?thesis by (rule fold_identity)
qed

lemma replay_keeps_identity_witness:
  "work_order_identity.truncate (sample_state 9) = work_order_identity.truncate (sample_state 7)"
proof -
  have "replay_work_order sample_env (take 7 sample_stream @ drop 7 sample_stream) = Inr (sample_state 9)"
    using sample_replay_closed by simp
  with replay_keeps_identity [OF sample_replay] show ?thesis by blast
qed

text \<open>
  Replaying one more event is applying it to the order replayed so far when its idempotency
  key is new, changes nothing when the stream already has the event, and is an idempotency conflict
  when the key belongs to a different event. So a stream can be stored and extended event by event.
\<close>

theorem replay_is_incremental:
  assumes "replay_work_order E evs = Inr w"
  shows "replay_work_order E (evs @ [ev]) =
    (if we_idempotency_key ev \<notin> we_idempotency_key ` set evs then apply_work_order_event E (Some w) ev
     else if ev \<in> set evs then Inr w else Inl IDEMPOTENCY_CONFLICT)"
proof -
  let ?find = "List.find (\<lambda>e. we_idempotency_key e = we_idempotency_key ev) evs"
  have c: "consistent_keys evs" using assms by (simp add: replay_iff)
  have "replay_from E [] None evs = Inr (Some w)"
    using assms by (auto simp: replay_work_order_def split: option.splits)
  note snoc = replay_from_snoc [OF this, of ev]
  show ?thesis
  proof (cases ?find)
    case None
    then have "we_idempotency_key ev \<notin> we_idempotency_key ` set evs" by (simp add: find_key_None_iff)
    with None snoc show ?thesis
      by (cases "apply_work_order_event E (Some w) ev") (simp_all add: replay_work_order_def)
  next
    case (Some p)
    then have p: "p \<in> set evs" "we_idempotency_key p = we_idempotency_key ev"
      by (auto dest: find_Some_in)
    with c have "p = ev \<longleftrightarrow> ev \<in> set evs" unfolding consistent_keys_def by metis
    with Some snoc p show ?thesis
      by (cases "p = ev") (auto simp: replay_work_order_def image_iff intro: bexI [of _ p])
  qed
qed

lemma replay_is_incremental_witness:
  "replay_work_order sample_env (take 7 sample_stream @ [ev_passed]) = Inr (sample_state 7)"
proof -
  have m: "ev_passed \<in> set (take 7 sample_stream)" by (simp add: sample_stream_def)
  then have "we_idempotency_key ev_passed \<in> we_idempotency_key ` set (take 7 sample_stream)" by blast
  with m show ?thesis by (simp add: replay_is_incremental [OF sample_replay])
qed

text \<open>
  The version of a replayed order is the number of different idempotency keys in its stream,
  the events that count expect the versions 0, 1, 2, ... in order, and each happened no earlier than
  the one before.
\<close>

theorem replay_versions:
  assumes "replay_work_order E evs = Inr w"
  defines "effective \<equiv> first_by we_idempotency_key {} evs"
  shows "wo_version w = int (card (we_idempotency_key ` set evs))
    \<and> map we_expected_version effective = map int [0..<length effective]
    \<and> successively (\<lambda>e f. not_before (we_occurred_at f) (we_occurred_at e)) effective"
proof -
  have f: "fold_events (apply_work_order_event E) None effective = Inr (Some w)"
    using assms by (simp add: replay_iff)
  have "card (we_idempotency_key ` set evs) = length effective"
    using distinct_card [OF distinct_first_by [of we_idempotency_key "{}" evs]]
    by (simp add: effective_def keys_first_by)
  then show ?thesis
    using wo.fold_version [OF f] wo.fold_expected [OF f] in_time_order [OF f] by simp
qed

lemma replay_versions_witness:
  "wo_version (sample_state 7) = int (card (we_idempotency_key ` set (take 7 sample_stream)))"
  using replay_versions [OF sample_replay] by blast

text \<open>
  Of two decisions made on the same version of an order, at most one can be applied:
  after the first, the second fails.
\<close>

theorem stale_decision_rejected:
  assumes "replay_work_order E evs = Inr w" "apply_work_order_event E (Some w) first = Inr w'"
    "we_expected_version second = we_expected_version first"
  shows "\<not> is_ok (apply_work_order_event E (Some w') second)"
  using assms(2) replay_inv [OF assms(1)] assms(3) by (rule wo.no_lost_update)

lemma stale_decision_rejected_witness:
  "\<exists>w'. apply_work_order_event sample_env (Some (sample_state 7)) ev_accepted = Inr w'
    \<and> \<not> is_ok (apply_work_order_event sample_env (Some w') (ev_accepted\<lparr>we_idempotency_key := ''key-9999''\<rparr>))"
proof -
  have "is_ok (apply_work_order_event sample_env (Some (sample_state 7)) ev_accepted)" by code_simp
  then obtain w' where w': "apply_work_order_event sample_env (Some (sample_state 7)) ev_accepted = Inr w'"
    by (auto simp: is_ok_iff)
  from stale_decision_rejected [OF sample_replay this, of "ev_accepted\<lparr>we_idempotency_key := ''key-9999''\<rparr>"]
  have "\<not> is_ok (apply_work_order_event sample_env (Some w') (ev_accepted\<lparr>we_idempotency_key := ''key-9999''\<rparr>))"
    by simp
  with w' show ?thesis by blast
qed

text \<open>
  What \<open>createWorkOrder\<close> returns is accepted by \<open>applyWorkOrderEvent\<close> as the first event of a
  stream and builds exactly the returned order; its identifiers are distinct from the start, every
  input is still required, and no money, effort, delivery or quality fact is assumed.
\<close>

theorem create_applies:
  assumes "create_work_order E c cx = Inr (ev, w)"
  shows "apply_work_order_event E None ev = Inr w \<and> inv_ids w \<and> wo_stage w = ST_AWAITING_INPUTS
    \<and> map in_id (wo_inputs_required w) = cc_input_ids c \<and> cc_financial_gate c = FG_RECONCILED
    \<and> cc_readiness_state c = RS_READY"
proof -
  have w: "w = initial_work_order E c cx" "ev = creation_event E c cx w" "order_ok E w" "event_ok E ev"
    and g: "cc_financial_gate c = FG_RECONCILED" "cc_readiness_state c = RS_READY"
    "cc_input_ids c \<noteq> []" "distinct (cc_input_ids c)"
    using assms by (auto simp: create_work_order_def assert_context_def assert_utc_def Let_def)
  have i: "map in_id (wo_inputs_required w) = cc_input_ids c"
    by (simp add: w(1) initial_work_order_def o_def)
  have "apply_creation E ev = Inr w"
    using w(3) g unfolding w(2)
    by (simp add: apply_creation_def creation_event_def assert_initial_snapshot_def get_def w(1)
        initial_work_order_def list_all_iff unresolved_input_def)
  then have "apply_work_order_event E None ev = Inr w"
    using w(4) by (simp add: apply_work_order_event_def)
  moreover have "inv_ids w"
    using g(4) by (simp add: inv_ids_def i) (simp add: w(1) initial_work_order_def)
  moreover have "wo_stage w = ST_AWAITING_INPUTS" by (simp add: w(1) initial_work_order_def)
  ultimately show ?thesis using i g by simp
qed

lemma create_applies_witness:
  "apply_work_order_event sample_env None ev_created = Inr sample_order"
proof -
  have "create_work_order sample_env sample_command
      (sample_context ''key-0000'' ''2026-03-02T12:00:00.000Z'') = Inr (ev_created, sample_order)"
    by code_simp
  from create_applies [OF this] show ?thesis by blast
qed

end
