(* ===== verification/Work_Order_Projection.thy ===== *)
theory Work_Order_Projection
  imports Work_Order_Properties
begin

text \<open>
  The operational view of an order, \<open>domains/delivery/src/project.ts\<close>: the classification against the
  due date and the freshness of the view. Instants are compared in milliseconds; \<open>date_ms\<close> is \<open>None\<close>
  where the code's \<open>getTime()\<close> is \<open>NaN\<close>.
\<close>

datatype sla_status = SLA_NOT_STARTED | SLA_ON_TRACK | SLA_DUE | SLA_OVERDUE | SLA_PAUSED | SLA_STOPPED

datatype delay_classification = DELAY_NONE | DELAY_CLIENT | DELAY_INTERNAL | DELAY_FORCE_MAJEURE | DELAY_UNKNOWN

datatype view_freshness = View_Fresh | View_Stale

record work_order_projection =
  wp_work_order_id :: string
  wp_stage :: work_order_stage
  wp_clock_state :: work_order_clock_state
  wp_responsible_owner :: "string option"
  wp_due_at :: "string option"
  wp_sla_status :: sla_status
  wp_delay_classification :: delay_classification
  wp_open_blocker_count :: nat
  wp_QA_state :: qa_state
  wp_acceptance_state :: acceptance_state
  wp_actual_effort_minutes :: int
  wp_capacity_consumed :: bool
  wp_estimated_capacity_units :: rat
  wp_capacity_commitment_id :: string
  wp_synthetic :: bool
  wp_version :: int
  wp_source_system :: string
  wp_source_locator :: string
  wp_source_event_id :: string
  wp_observed_at :: string
  wp_freshness_status :: view_freshness

definition capacity_stage :: "work_order_stage \<Rightarrow> bool" where
  "capacity_stage s \<longleftrightarrow> s \<in> {ST_IN_PROGRESS, ST_BLOCKED, ST_QA, ST_READY_TO_DELIVER, ST_REWORK_REQUIRED}"

text \<open>The part of \<open>classifySla\<close> after the paused clocks: both instants read, then compared.\<close>

definition classify_instants :: "work_order_clock_state \<Rightarrow> int option \<Rightarrow> int option \<Rightarrow> sla_status \<times> delay_classification" where
  "classify_instants clk due observed =
     (case (due, observed) of
        (Some d, Some t) \<Rightarrow>
          if d < t then (SLA_OVERDUE, DELAY_INTERNAL)
          else if clk = CLK_STOPPED then (SLA_STOPPED, DELAY_NONE)
          else if d - t \<le> 24 * 60 * 60 * 1000 then (SLA_DUE, DELAY_NONE)
          else (SLA_ON_TRACK, DELAY_NONE)
      | _ \<Rightarrow> (if clk = CLK_STOPPED then SLA_STOPPED else SLA_OVERDUE, DELAY_UNKNOWN))"

definition classify_sla :: "work_order \<Rightarrow> string \<Rightarrow> sla_status \<times> delay_classification" where
  "classify_sla order observed_at =
     (case wo_due_at order of
        None \<Rightarrow> (SLA_NOT_STARTED, DELAY_NONE)
      | Some due \<Rightarrow>
          if wo_clock_state order = CLK_NOT_STARTED then (SLA_NOT_STARTED, DELAY_NONE)
          else if wo_clock_state order = CLK_PAUSED_CLIENT then (SLA_PAUSED, DELAY_CLIENT)
          else if wo_clock_state order = CLK_PAUSED_INTERNAL then (SLA_PAUSED, DELAY_INTERNAL)
          else if wo_clock_state order = CLK_PAUSED_FORCE_MAJEURE then (SLA_PAUSED, DELAY_FORCE_MAJEURE)
          else classify_instants (wo_clock_state order) (date_ms due)
                 (date_ms (or_else (wo_delivered_at order) observed_at)))"

definition stale_view :: "string \<Rightarrow> string \<Rightarrow> rat \<Rightarrow> bool" where
  "stale_view observed_at source_at stale_after \<longleftrightarrow>
     stale_after < 0
     \<or> (case (date_ms observed_at, date_ms source_at) of
          (Some t, Some s) \<Rightarrow> t < s \<or> of_int (t - s) > stale_after * 1000
        | _ \<Rightarrow> True)"

definition project_work_order :: "work_order \<Rightarrow> string option \<Rightarrow> rat option \<Rightarrow> work_order_projection" where
  "project_work_order order observed stale_after =
     (let observed_at = or_else observed (pv_observed_at (wo_provenance order));
          sla = classify_sla order observed_at
      in \<lparr>wp_work_order_id = wo_id order, wp_stage = wo_stage order, wp_clock_state = wo_clock_state order,
          wp_responsible_owner = wo_responsible_owner order, wp_due_at = wo_due_at order,
          wp_sla_status = fst sla, wp_delay_classification = snd sla,
          wp_open_blocker_count = length (filter unresolved (wo_blockers order)),
          wp_QA_state = wo_QA_state order, wp_acceptance_state = wo_acceptance order,
          wp_actual_effort_minutes = wo_actual_effort_minutes order,
          wp_capacity_consumed = capacity_stage (wo_stage order),
          wp_estimated_capacity_units = wo_estimated_capacity_units order,
          wp_capacity_commitment_id = wo_capacity_commitment_id order,
          wp_synthetic = wo_synthetic order, wp_version = wo_version order,
          wp_source_system = ''governance-delivery-os'', wp_source_locator = wo_id order,
          wp_source_event_id = wo_last_event_id order,
          wp_observed_at = pv_observed_at (wo_provenance order),
          wp_freshness_status =
            (if stale_view observed_at (pv_observed_at (wo_provenance order)) (or_else stale_after 900)
             then View_Stale else View_Fresh)\<rparr>)"

lemma classify_sla_due [simp]:
  assumes "wo_due_at w = Some due" "wo_clock_state w \<in> {CLK_RUNNING, CLK_STOPPED}"
  shows "classify_sla w t = classify_instants (wo_clock_state w) (date_ms due) (date_ms (or_else (wo_delivered_at w) t))"
  using assms by (auto simp: classify_sla_def)

section \<open>Properties\<close>

text \<open>
  The view of a replayed order agrees with its lifecycle: capacity is consumed only in
  started stages, there is exactly one open blocker when it is blocked and none otherwise, an order whose
  production has not started has no delivery term, and a handed-over order is either stopped in time or overdue, whatever the time
  of the view.
\<close>

theorem projection_of_replay:
  assumes "replay_work_order E evs = Inr w" "view = project_work_order w observed stale_after"
  shows "(wp_capacity_consumed view \<longrightarrow> started_stage (wp_stage view))
    \<and> (wp_stage view \<noteq> ST_CANCELLED \<longrightarrow> wp_open_blocker_count view = (if wp_stage view = ST_BLOCKED then 1 else 0))
    \<and> (\<not> started_stage (wp_stage view) \<longrightarrow> wp_stage view \<noteq> ST_CANCELLED \<longrightarrow> wp_sla_status view = SLA_NOT_STARTED)
    \<and> (handed_over (wp_stage view) \<longrightarrow> wp_sla_status view \<in> {SLA_STOPPED, SLA_OVERDUE})"
proof -
  have i: "inv_production w" "inv_blockers w" "inv_delivery w"
    using replay_inv [OF assms(1)] by (simp_all add: wo_inv_def)
  have v: "wp_stage view = wo_stage w" "wp_capacity_consumed view = capacity_stage (wo_stage w)"
    "wp_open_blocker_count view = length (filter unresolved (wo_blockers w))"
    "wp_sla_status view = fst (classify_sla w (or_else observed (pv_observed_at (wo_provenance w))))"
    by (simp_all add: assms(2) project_work_order_def Let_def)
  have "handed_over (wo_stage w) \<Longrightarrow> started_stage (wo_stage w)"
    by (cases "wo_stage w") simp_all
  then show ?thesis
    unfolding v using i
  proof (intro conjI impI)
    assume h: "handed_over (wo_stage w)" "handed_over (wo_stage w) \<Longrightarrow> started_stage (wo_stage w)"
    then obtain due where "wo_due_at w = Some due" "wo_clock_state w = CLK_STOPPED"
      using i by (auto simp: inv_production_def inv_delivery_def)
    then show "fst (classify_sla w (or_else observed (pv_observed_at (wo_provenance w)))) \<in> {SLA_STOPPED, SLA_OVERDUE}"
      by (simp add: classify_instants_def split: option.split)
  next
    assume "\<not> started_stage (wo_stage w)" "wo_stage w \<noteq> ST_CANCELLED"
    then have "wo_clock_state w = CLK_NOT_STARTED" using i by (simp add: inv_production_def)
    then show "fst (classify_sla w (or_else observed (pv_observed_at (wo_provenance w)))) = SLA_NOT_STARTED"
      by (simp add: classify_sla_def split: option.split)
  next
    assume "wo_stage w \<noteq> ST_CANCELLED"
    then show "length (filter unresolved (wo_blockers w)) = (if wo_stage w = ST_BLOCKED then 1 else 0)"
      using i(2) unfolding inv_blockers_def by blast
  qed (cases "wo_stage w"; simp add: capacity_stage_def)
qed

lemma projection_of_replay_witness:
  "wp_sla_status (project_work_order (sample_state 7) (Some ''2030-01-01T00:00:00.000Z'') None) \<in> {SLA_STOPPED, SLA_OVERDUE}"
proof -
  let ?v = "project_work_order (sample_state 7) (Some ''2030-01-01T00:00:00.000Z'') None"
  have "handed_over (wp_stage ?v)" by code_simp
  with projection_of_replay [OF sample_replay refl, of "Some ''2030-01-01T00:00:00.000Z''" None] show ?thesis by blast
qed

definition sla_rank :: "sla_status \<Rightarrow> nat" where
  "sla_rank s = (case s of SLA_ON_TRACK \<Rightarrow> 0 | SLA_DUE \<Rightarrow> 1 | SLA_OVERDUE \<Rightarrow> 2 | _ \<Rightarrow> 3)"

text \<open>
  For a running clock and an undelivered order the classification is the position of the
  observation against the due instant: overdue after it, due in the last 24 hours, on track before;
  no observation can make an order look better as time passes.
\<close>

theorem running_clock_sla:
  assumes "wo_clock_state w = CLK_RUNNING" "wo_due_at w = Some due" "wo_delivered_at w = None"
    "date_ms due = Some d" "date_ms at1 = Some t1" "date_ms at2 = Some t2" "t1 \<le> t2"
  shows "fst (classify_sla w at1) = (if d < t1 then SLA_OVERDUE else if d - 86400000 \<le> t1 then SLA_DUE else SLA_ON_TRACK)
    \<and> sla_rank (fst (classify_sla w at1)) \<le> sla_rank (fst (classify_sla w at2))"
  using assms by (simp add: classify_instants_def sla_rank_def)

lemma running_clock_sla_witness:
  "fst (classify_sla (sample_state 3) ''2026-03-03T13:00:00.000Z'') = SLA_DUE"
proof -
  have "wo_clock_state (sample_state 3) = CLK_RUNNING" "wo_due_at (sample_state 3) = Some ''2026-03-04T12:00:00.000Z''"
    "wo_delivered_at (sample_state 3) = None" by code_simp+
  moreover have "date_ms ''2026-03-04T12:00:00.000Z'' = Some 1772625600000"
    "date_ms ''2026-03-03T13:00:00.000Z'' = Some 1772542800000" by code_simp+
  ultimately show ?thesis using running_clock_sla [of "sample_state 3"] by simp
qed

text \<open>
  A delivery instant outlives a rework: in an order sent back by the client, every view
  compares the first delivery, not the present, with the due date, so an order whose first delivery was in time
  is never reported overdue while its rework runs, however late the observation.
\<close>

theorem rework_hides_overdue:
  assumes "wo_clock_state w = CLK_RUNNING" "wo_due_at w = Some due" "wo_delivered_at w = Some delivered"
    "date_ms due = Some d" "date_ms delivered = Some t" "t \<le> d"
  shows "wp_sla_status (project_work_order w observed stale_after) \<in> {SLA_DUE, SLA_ON_TRACK}"
  using assms by (simp add: project_work_order_def Let_def classify_instants_def)

text \<open>The sample order sent back by the client and in rework.\<close>

definition sample_rework :: "work_order_event list" where
  "sample_rework = take 7 sample_stream @
     [sample_event 7 ''key-0017'' ''2026-03-02T15:00:00.000Z'' CLIENT_REWORK_REQUESTED (Some (ST_DELIVERED, ST_REWORK_REQUIRED))
        [(''nonconformity'', Json (JObj [(''evidence_ref'', JStr ''mail''), (''nonconformity_id'', JStr ''nc''), (''reason_code'', JStr ''BAD'')]))],
      sample_event 8 ''key-0018'' ''2026-03-02T15:30:00.000Z'' REWORK_STARTED (Some (ST_REWORK_REQUIRED, ST_IN_PROGRESS))
        [(''clock_reason_version'', js ''c-2'')]]"

definition reworked_order :: work_order where
  "reworked_order = or_else (run None sample_rework) sample_order"

lemma rework_hides_overdue_witness:
  "replay_work_order sample_env sample_rework = Inr reworked_order \<and> wo_stage reworked_order = ST_IN_PROGRESS
    \<and> wp_sla_status (project_work_order reworked_order (Some ''2030-01-01T00:00:00.000Z'') None) \<in> {SLA_DUE, SLA_ON_TRACK}"
proof -
  have r: "replay_work_order sample_env sample_rework = Inr reworked_order" "wo_stage reworked_order = ST_IN_PROGRESS"
    by code_simp+
  have "wo_clock_state reworked_order = CLK_RUNNING" "wo_due_at reworked_order = Some ''2026-03-04T12:00:00.000Z''"
    "wo_delivered_at reworked_order = Some ''2026-03-02T14:00:00.000Z''" by code_simp+
  moreover have "date_ms ''2026-03-04T12:00:00.000Z'' = Some 1772625600000"
    "date_ms ''2026-03-02T14:00:00.000Z'' = Some 1772460000000" by code_simp+
  ultimately show ?thesis using r rework_hides_overdue [of reworked_order] by simp
qed

end
