(* ===== verification/Work_Order_Store.thy ===== *)
theory Work_Order_Store
  imports Work_Order_Stream "HOL-Library.Product_Lexorder"
begin

text \<open>
  The PostgreSQL store of the delivery domain, \<open>domains/delivery/src/store.ts\<close>: the tables
  \<open>work_orders\<close> (one row per order, with the columns the queries read), \<open>work_order_events\<close> and
  \<open>work_order_event_holds\<close>. Every operation runs in one transaction under advisory locks, so it is one
  step on the tables: an error rolls back and leaves them as they were. The primary and unique keys
  of the tables are modelled (a violation is \<open>Constraint\<close>); their \<open>CHECK\<close> clauses, which repeat the
  JSON schemas, are not. \<open>hash\<close> is the SHA-256 prefix, \<open>now\<close> the database clock.
\<close>

section \<open>Tables\<close>

datatype hold_reason =
    Missing_Order | Version_Conflict | Idempotency_Conflict | Active_Identity_Conflict
  | Temporal_Conflict | Projection_Conflict

record order_row =
  or_id :: string
  or_proposal_id :: string
  or_snapshot_hash :: string
  or_deliverable_id :: string
  or_deliverable_version :: string
  or_version :: int
  or_stage :: work_order_stage
  or_last_event_id :: string
  or_synthetic :: bool
  or_projection :: work_order
  or_created_at :: string
  or_updated_at :: string

record hold_row =
  ho_id :: string
  ho_work_order_id :: string
  ho_reason :: hold_reason
  ho_current_version :: "int option"
  ho_idempotency_key :: string
  ho_event :: work_order_event
  ho_projection :: work_order
  ho_held_at :: int

record wo_store =
  st_orders :: "order_row list"
  st_events :: "work_order_event list"
  st_holds :: "hold_row list"

datatype append_result =
    Appended work_order
  | Duplicate work_order
  | Held string hold_reason "int option"

datatype store_error = Domain work_order_error | Constraint

record store_env =
  se_env :: wo_env
  se_hash :: "string \<Rightarrow> string"

definition lift :: "work_order_error + 'a \<Rightarrow> store_error + 'a" where
  "lift r = (case r of Inl e \<Rightarrow> Inl (Domain e) | Inr x \<Rightarrow> Inr x)"

lemma lift_Inr [simp]: "lift r = Inr x \<longleftrightarrow> r = Inr x"
  by (cases r) (simp_all add: lift_def)

lemma lift_simps [simp]: "lift (Inl e) = Inl (Domain e)" "lift (Inr x) = Inr x"
  by (simp_all add: lift_def)

section \<open>Queries and statements\<close>

definition find_row :: "wo_store \<Rightarrow> string \<Rightarrow> order_row option" where
  "find_row st k = List.find (\<lambda>r. or_id r = k) (st_orders st)"

definition find_key :: "wo_store \<Rightarrow> string \<Rightarrow> work_order_event option" where
  "find_key st k = List.find (\<lambda>e. we_idempotency_key e = k) (st_events st)"

definition same_identity :: "work_order \<Rightarrow> order_row \<Rightarrow> bool" where
  "same_identity w r \<longleftrightarrow>
     or_proposal_id r = wo_proposal_id w \<and> or_snapshot_hash r = wo_accepted_snapshot_hash w
     \<and> or_deliverable_id r = wo_deliverable_id w \<and> or_deliverable_version r = wo_deliverable_version w"

definition identity_collision :: "wo_store \<Rightarrow> work_order \<Rightarrow> order_row option" where
  "identity_collision st w =
     List.find (\<lambda>r. same_identity w r \<and> \<not> terminal_stage (or_stage r)) (st_orders st)"

definition order_row_of :: "work_order_event \<Rightarrow> work_order \<Rightarrow> order_row" where
  "order_row_of ev w =
     \<lparr>or_id = wo_id w, or_proposal_id = wo_proposal_id w, or_snapshot_hash = wo_accepted_snapshot_hash w,
      or_deliverable_id = wo_deliverable_id w, or_deliverable_version = wo_deliverable_version w,
      or_version = wo_version w, or_stage = wo_stage w, or_last_event_id = wo_last_event_id w,
      or_synthetic = wo_synthetic w, or_projection = w, or_created_at = wo_created_at w,
      or_updated_at = we_occurred_at ev\<rparr>"

definition updated_row :: "string \<Rightarrow> work_order \<Rightarrow> order_row \<Rightarrow> order_row" where
  "updated_row time w r =
     r\<lparr>or_version := wo_version w, or_stage := wo_stage w, or_last_event_id := wo_last_event_id w,
       or_projection := w, or_updated_at := time\<rparr>"

definition advance_row :: "string \<Rightarrow> string \<Rightarrow> work_order \<Rightarrow> order_row \<Rightarrow> order_row" where
  "advance_row k time w r = (if or_id r = k then updated_row time w r else r)"

definition insert_order :: "order_row \<Rightarrow> wo_store \<Rightarrow> store_error + wo_store" where
  "insert_order r st =
     require (find_row st (or_id r) = None) Constraint (Inr (st\<lparr>st_orders := st_orders st @ [r]\<rparr>))"

definition update_order :: "string \<Rightarrow> string \<Rightarrow> work_order \<Rightarrow> wo_store \<Rightarrow> wo_store" where
  "update_order k time w st =
     st\<lparr>st_orders := map (advance_row k time w) (st_orders st)\<rparr>"

definition insert_event :: "work_order_event \<Rightarrow> wo_store \<Rightarrow> store_error + wo_store" where
  "insert_event ev st =
     require (list_all (\<lambda>e. we_event_id e \<noteq> we_event_id ev
                          \<and> we_idempotency_key e \<noteq> we_idempotency_key ev
                          \<and> (we_work_order_id e, we_event_version e) \<noteq> (we_work_order_id ev, we_event_version ev))
                (st_events st)) Constraint
       (Inr (st\<lparr>st_events := st_events st @ [ev]\<rparr>))"

text \<open>\<open>String(n)\<close> of a nullable version, as the hold identifier uses it.\<close>

definition show_int :: "int \<Rightarrow> string" where
  "show_int n = (if n < 0 then ''-'' @ show_digits (nat (- n)) else show_digits (nat n))"

definition show_version :: "int option \<Rightarrow> string" where
  "show_version v = (case v of None \<Rightarrow> ''null'' | Some n \<Rightarrow> show_int n)"

definition show_reason :: "hold_reason \<Rightarrow> string" where
  "show_reason r = (case r of
       Missing_Order \<Rightarrow> ''MISSING_ORDER'' | Version_Conflict \<Rightarrow> ''VERSION_CONFLICT''
     | Idempotency_Conflict \<Rightarrow> ''IDEMPOTENCY_CONFLICT''
     | Active_Identity_Conflict \<Rightarrow> ''ACTIVE_IDENTITY_CONFLICT''
     | Temporal_Conflict \<Rightarrow> ''TEMPORAL_CONFLICT'' | Projection_Conflict \<Rightarrow> ''PROJECTION_CONFLICT'')"

definition hold :: "store_env \<Rightarrow> int \<Rightarrow> hold_reason \<Rightarrow> int option \<Rightarrow> work_order_event \<Rightarrow> work_order
    \<Rightarrow> wo_store \<Rightarrow> append_result \<times> wo_store" where
  "hold S now reason version ev w st =
     (let k = ''cc:work-order-hold:'' @ se_hash S (we_event_id ev @ ''|'' @ show_reason reason @ ''|'' @ show_version version);
          row = \<lparr>ho_id = k, ho_work_order_id = we_work_order_id ev, ho_reason = reason,
                 ho_current_version = version, ho_idempotency_key = we_idempotency_key ev,
                 ho_event = ev, ho_projection = w, ho_held_at = now\<rparr>
      in (Held k reason version,
          if list_ex (\<lambda>h. ho_id h = k) (st_holds st) then st
          else st\<lparr>st_holds := st_holds st @ [row]\<rparr>))"

section \<open>Operations\<close>

definition assert_contracts :: "wo_env \<Rightarrow> work_order_event \<Rightarrow> work_order \<Rightarrow> 'a wo_result \<Rightarrow> 'a wo_result" where
  "assert_contracts E ev w k =
     require (event_ok E ev \<and> order_ok E w) INVALID_EVENT (
     require (we_work_order_id ev = wo_id w) INVALID_EVENT (
     require (we_event_version ev = wo_version w) INVALID_EVENT (
     require (we_event_id ev = wo_last_event_id w) INVALID_EVENT (
     require (we_event_version ev = we_expected_version ev + 1) INVALID_EVENT k))))"

definition map_order :: "wo_env \<Rightarrow> work_order \<Rightarrow> work_order wo_result" where
  "map_order E w = require (order_ok E w) INVALID_EVENT (Inr w)"

definition map_event :: "wo_env \<Rightarrow> work_order_event \<Rightarrow> work_order_event wo_result" where
  "map_event E ev = require (event_ok E ev) INVALID_EVENT (Inr ev)"

definition immutable_identity_matches :: "work_order \<Rightarrow> work_order \<Rightarrow> bool" where
  "immutable_identity_matches c n \<longleftrightarrow>
     wo_proposal_id c = wo_proposal_id n \<and> wo_proposal_version c = wo_proposal_version n
     \<and> wo_accepted_snapshot_hash c = wo_accepted_snapshot_hash n
     \<and> wo_opportunity_id c = wo_opportunity_id n \<and> wo_qco_id c = wo_qco_id n
     \<and> wo_order_id c = wo_order_id n \<and> wo_offer_id c = wo_offer_id n
     \<and> wo_offer_version c = wo_offer_version n \<and> wo_deliverable_id c = wo_deliverable_id n
     \<and> wo_deliverable_version c = wo_deliverable_version n \<and> wo_client_id c = wo_client_id n
     \<and> wo_account_id c = wo_account_id n \<and> wo_provider_refs c = wo_provider_refs n
     \<and> wo_scope_version c = wo_scope_version n \<and> wo_price_version c = wo_price_version n
     \<and> wo_terms_version c = wo_terms_version n
     \<and> wo_business_calendar_version c = wo_business_calendar_version n
     \<and> wo_estimated_effort_minutes c = wo_estimated_effort_minutes n
     \<and> wo_estimated_capacity_units c = wo_estimated_capacity_units n
     \<and> wo_capacity_commitment_id c = wo_capacity_commitment_id n
     \<and> wo_created_at c = wo_created_at n \<and> wo_synthetic c = wo_synthetic n
     \<and> map in_id (wo_inputs_required c) = map in_id (wo_inputs_required n)"

text \<open>\<open>new Date(a).getTime() < new Date(b).getTime()\<close>: false when either is \<open>NaN\<close>.\<close>

definition earlier :: "string \<Rightarrow> string \<Rightarrow> bool" where
  "earlier a b \<longleftrightarrow> (case (date_ms a, date_ms b) of (Some x, Some y) \<Rightarrow> x < y | _ \<Rightarrow> False)"

text \<open>The three arms of \<open>appendWorkOrderEvent\<close>: a known key, a new order, an order to advance.\<close>

definition append_known :: "store_env \<Rightarrow> int \<Rightarrow> work_order_event \<Rightarrow> work_order \<Rightarrow> wo_store \<Rightarrow> work_order_event
    \<Rightarrow> store_error + append_result \<times> wo_store" where
  "append_known S now ev w st stored =
     bindE (lift (map_event (se_env S) stored)) (\<lambda>prior.
       if prior \<noteq> ev
       then Inr (hold S now Idempotency_Conflict (map_option or_version (find_row st (we_work_order_id ev))) ev w st)
       else require_some (find_row st (we_work_order_id ev)) (Domain INVALID_EVENT) (\<lambda>r.
              bindE (lift (map_order (se_env S) (or_projection r))) (\<lambda>p. Inr (Duplicate p, st))))"

definition append_first :: "store_env \<Rightarrow> int \<Rightarrow> work_order_event \<Rightarrow> work_order \<Rightarrow> wo_store
    \<Rightarrow> store_error + append_result \<times> wo_store" where
  "append_first S now ev w st =
     (if we_expected_version ev \<noteq> 0 \<or> we_event_type ev \<noteq> WORK_ORDER_CREATED
      then Inr (hold S now Missing_Order None ev w st)
      else bindE (lift (apply_work_order_event (se_env S) None ev)) (\<lambda>derived.
        if derived \<noteq> w then Inr (hold S now Projection_Conflict None ev w st)
        else (case identity_collision st w of
                Some r \<Rightarrow> Inr (hold S now Active_Identity_Conflict (Some (or_version r)) ev w st)
              | None \<Rightarrow>
                  bindE (insert_order (order_row_of ev w) st) (\<lambda>st'.
                  bindE (insert_event ev st') (\<lambda>st''. Inr (Appended w, st''))))))"

definition append_next :: "store_env \<Rightarrow> int \<Rightarrow> work_order_event \<Rightarrow> work_order \<Rightarrow> wo_store \<Rightarrow> order_row
    \<Rightarrow> store_error + append_result \<times> wo_store" where
  "append_next S now ev w st r =
     (if or_version r \<noteq> we_expected_version ev
      then Inr (hold S now Version_Conflict (Some (or_version r)) ev w st)
      else bindE (lift (map_order (se_env S) (or_projection r))) (\<lambda>cur.
        if earlier (we_occurred_at ev) (pv_observed_at (wo_provenance cur))
        then Inr (hold S now Temporal_Conflict (Some (or_version r)) ev w st)
        else if \<not> immutable_identity_matches cur w
        then Inr (hold S now Projection_Conflict (Some (or_version r)) ev w st)
        else bindE (lift (apply_work_order_event (se_env S) (Some cur) ev)) (\<lambda>derived.
          if derived \<noteq> w then Inr (hold S now Projection_Conflict (Some (or_version r)) ev w st)
          else bindE (insert_event ev (update_order (we_work_order_id ev) (we_occurred_at ev) w st)) (\<lambda>st'.
                 Inr (Appended w, st')))))"

definition append_work_order_event :: "store_env \<Rightarrow> int \<Rightarrow> work_order_event \<Rightarrow> work_order \<Rightarrow> wo_store
    \<Rightarrow> store_error + append_result \<times> wo_store" where
  "append_work_order_event S now ev w st =
     bindE (lift (assert_contracts (se_env S) ev w (Inr ()))) (\<lambda>_.
       case find_key st (we_idempotency_key ev) of
         Some stored \<Rightarrow> append_known S now ev w st stored
       | None \<Rightarrow>
           (case find_row st (we_work_order_id ev) of
              None \<Rightarrow> append_first S now ev w st
            | Some r \<Rightarrow> append_next S now ev w st r))"

definition get_work_order :: "store_env \<Rightarrow> string \<Rightarrow> wo_store \<Rightarrow> work_order option wo_result" where
  "get_work_order S k st =
     (case find_row st k of
        None \<Rightarrow> Inr None
      | Some r \<Rightarrow> bindE (map_order (se_env S) (or_projection r)) (\<lambda>w. Inr (Some w)))"

definition stream :: "wo_store \<Rightarrow> string \<Rightarrow> work_order_event list" where
  "stream st k = sort_key we_event_version (filter (\<lambda>e. we_work_order_id e = k) (st_events st))"

definition list_work_order_events :: "store_env \<Rightarrow> string \<Rightarrow> wo_store \<Rightarrow> work_order_event list wo_result" where
  "list_work_order_events S k st = mapE (map_event (se_env S)) (stream st k)"

definition list_work_order_holds :: "store_env \<Rightarrow> string \<Rightarrow> wo_store \<Rightarrow> hold_row list wo_result" where
  "list_work_order_holds S k st =
     mapE (\<lambda>h. bindE (map_event (se_env S) (ho_event h)) (\<lambda>_.
               bindE (map_order (se_env S) (ho_projection h)) (\<lambda>_. Inr h)))
       (sort_key (\<lambda>h. (ho_held_at h, ho_id h)) (filter (\<lambda>h. ho_work_order_id h = k) (st_holds st)))"

definition rebuild_work_order_projection :: "store_env \<Rightarrow> string \<Rightarrow> wo_store \<Rightarrow> store_error + work_order \<times> wo_store" where
  "rebuild_work_order_projection S k st =
     require (stream st k \<noteq> []) (Domain INVALID_EVENT) (
     bindE (lift (bindE (mapE (map_event (se_env S)) (stream st k)) (replay_work_order (se_env S)))) (\<lambda>w.
     require (find_row st k \<noteq> None) (Domain INVALID_EVENT) (
     Inr (w, update_order k (pv_observed_at (wo_provenance w)) w st))))"

section \<open>The invariant of the tables\<close>

definition row_ok :: "order_row \<Rightarrow> bool" where
  "row_ok r \<longleftrightarrow>
     or_id r = wo_id (or_projection r) \<and> same_identity (or_projection r) r
     \<and> or_version r = wo_version (or_projection r) \<and> or_stage r = wo_stage (or_projection r)
     \<and> or_last_event_id r = wo_last_event_id (or_projection r)
     \<and> or_updated_at r = pv_observed_at (wo_provenance (or_projection r))"

text \<open>The row is what its events build.\<close>

definition row_replays :: "store_env \<Rightarrow> work_order_event list \<Rightarrow> order_row \<Rightarrow> bool" where
  "row_replays S evs r \<longleftrightarrow>
     fold_events (apply_work_order_event (se_env S)) None (filter (\<lambda>e. we_work_order_id e = or_id r) evs)
       = Inr (Some (or_projection r))"

definition conflicting :: "order_row \<Rightarrow> order_row \<Rightarrow> bool" where
  "conflicting r q \<longleftrightarrow> \<not> terminal_stage (or_stage r) \<and> \<not> terminal_stage (or_stage q)
     \<and> or_proposal_id r = or_proposal_id q \<and> or_snapshot_hash r = or_snapshot_hash q
     \<and> or_deliverable_id r = or_deliverable_id q \<and> or_deliverable_version r = or_deliverable_version q"

definition store_inv :: "store_env \<Rightarrow> wo_store \<Rightarrow> bool" where
  "store_inv S st \<longleftrightarrow>
     distinct (map or_id (st_orders st)) \<and> distinct (map we_idempotency_key (st_events st))
     \<and> (\<forall>r \<in> set (st_orders st). row_ok r \<and> row_replays S (st_events st) r \<and> order_ok (se_env S) (or_projection r))
     \<and> (\<forall>e \<in> set (st_events st). event_ok (se_env S) e \<and> we_work_order_id e \<in> or_id ` set (st_orders st))
     \<and> (\<forall>r \<in> set (st_orders st). \<forall>q \<in> set (st_orders st). conflicting r q \<longrightarrow> or_id r = or_id q)"

text \<open>Events of other orders do not matter to a row, nor does the row of another order to an update.\<close>

lemma hold_store [simp]:
  "st_orders (snd (hold S now reason v ev w st)) = st_orders st"
  "st_events (snd (hold S now reason v ev w st)) = st_events st"
  "fst (hold S now reason v ev w st) \<noteq> Appended x" "fst (hold S now reason v ev w st) \<noteq> Duplicate x"
  by (simp_all add: hold_def Let_def)

lemma hold_eq:
  assumes "hold S now reason v ev w st = (res, st')"
  shows "st_orders st' = st_orders st \<and> st_events st' = st_events st \<and> (\<exists>k. res = Held k reason v)"
  using assms by (auto simp: hold_def Let_def)

text \<open>What a successful append did.\<close>

lemma append_cases [consumes 1, case_names first later duplicate held]:
  assumes "append_work_order_event S now ev w st = Inr (res, st')"
  obtains "res = Appended w" "apply_work_order_event (se_env S) None ev = Inr w"
      "find_row st (wo_id w) = None" "identity_collision st w = None"
      "insert_event ev (st\<lparr>st_orders := st_orders st @ [order_row_of ev w]\<rparr>) = Inr st'"
      "find_key st (we_idempotency_key ev) = None" "event_ok (se_env S) ev" "order_ok (se_env S) w"
      "we_work_order_id ev = wo_id w"
  | r where "res = Appended w" "find_row st (we_work_order_id ev) = Some r"
      "or_version r = we_expected_version ev"
      "apply_work_order_event (se_env S) (Some (or_projection r)) ev = Inr w"
      "insert_event ev (update_order (we_work_order_id ev) (we_occurred_at ev) w st) = Inr st'"
      "find_key st (we_idempotency_key ev) = None" "event_ok (se_env S) ev" "order_ok (se_env S) w"
      "we_work_order_id ev = wo_id w"
  | r where "res = Duplicate (or_projection r)" "find_key st (we_idempotency_key ev) = Some ev"
      "find_row st (we_work_order_id ev) = Some r" "st' = st"
  | k reason v where "res = Held k reason v" "st_orders st' = st_orders st" "st_events st' = st_events st"
proof -
  have a: "event_ok (se_env S) ev" "order_ok (se_env S) w" "we_work_order_id ev = wo_id w"
    using assms by (auto simp: append_work_order_event_def assert_contracts_def)
  show thesis
  proof (cases "find_key st (we_idempotency_key ev)")
    case (Some stored)
    with assms have k: "append_known S now ev w st stored = Inr (res, st')"
      by (auto simp: append_work_order_event_def)
    show thesis
    proof (cases "stored = ev")
      case True
      with k Some show thesis
        by (auto simp: append_known_def map_event_def map_order_def intro: that(3))
    next
      case False
      with k show thesis
        by (auto simp: append_known_def map_event_def dest!: hold_eq intro: that(4))
    qed
  next
    case None
    note nokey = None
    show thesis
    proof (cases "find_row st (we_work_order_id ev)")
      case None
      with assms nokey have k: "append_first S now ev w st = Inr (res, st')"
        by (auto simp: append_work_order_event_def)
      show thesis
      proof (cases res)
        case (Appended w')
        with k have "apply_work_order_event (se_env S) None ev = Inr w" "w' = w"
          "identity_collision st w = None"
          "insert_event ev (st\<lparr>st_orders := st_orders st @ [order_row_of ev w]\<rparr>) = Inr st'"
          by (auto simp: append_first_def insert_order_def dest!: hold_eq split: if_splits option.splits)
        with Appended None nokey a that(1) show thesis by simp
      qed (use k in \<open>auto simp: append_first_def dest!: hold_eq split: if_splits option.splits intro: that(4)\<close>)
    next
      case (Some r)
      with assms nokey have k: "append_next S now ev w st r = Inr (res, st')"
        by (auto simp: append_work_order_event_def)
      show thesis
      proof (cases res)
        case (Appended w')
        with k have "or_version r = we_expected_version ev" "w' = w"
          "apply_work_order_event (se_env S) (Some (or_projection r)) ev = Inr w"
          "insert_event ev (update_order (we_work_order_id ev) (we_occurred_at ev) w st) = Inr st'"
          by (auto simp: append_next_def map_order_def dest!: hold_eq split: if_splits)
        with Appended Some nokey a that(2) show thesis by simp
      qed (use k in \<open>auto simp: append_next_def map_order_def dest!: hold_eq split: if_splits intro: that(4)\<close>)
    qed
  qed
qed

section \<open>The invariant is kept\<close>

lemma find_row_Some: "find_row st k = Some r \<Longrightarrow> r \<in> set (st_orders st) \<and> or_id r = k"
  by (auto simp: find_row_def dest: find_Some_in)

lemma find_row_None: "find_row st k = None \<longleftrightarrow> k \<notin> or_id ` set (st_orders st)"
  by (auto simp: find_row_def find_None_iff)

lemma find_row_unique:
  "distinct (map or_id (st_orders st)) \<Longrightarrow> r \<in> set (st_orders st) \<Longrightarrow> find_row st (or_id r) = Some r"
  unfolding find_row_def by (rule find_distinct_key) auto

lemma find_key_None: "find_key st k = None \<longleftrightarrow> k \<notin> we_idempotency_key ` set (st_events st)"
  by (auto simp: find_key_def find_None_iff)

lemma insert_event_Inr:
  "insert_event ev st = Inr st' \<Longrightarrow> st' = st\<lparr>st_events := st_events st @ [ev]\<rparr>"
  by (simp add: insert_event_def)

lemma row_replays_other:
  "or_id r \<noteq> we_work_order_id ev \<Longrightarrow> row_replays S (evs @ [ev]) r = row_replays S evs r"
  by (simp add: row_replays_def)

lemma updated_row_simps [simp]:
  "or_id (updated_row time w r) = or_id r" "or_projection (updated_row time w r) = w"
  "or_stage (updated_row time w r) = wo_stage w" "or_version (updated_row time w r) = wo_version w"
  "or_last_event_id (updated_row time w r) = wo_last_event_id w"
  "or_updated_at (updated_row time w r) = time" "same_identity v (updated_row time w r) = same_identity v r"
  by (simp_all add: updated_row_def same_identity_def)

lemma advance_row_id [simp]: "or_id (advance_row k time w r) = or_id r"
  by (simp add: advance_row_def)

lemma order_row_of_simps [simp]:
  "or_id (order_row_of ev w) = wo_id w" "or_projection (order_row_of ev w) = w"
  "or_stage (order_row_of ev w) = wo_stage w" "same_identity v (order_row_of ev w) =
     (wo_proposal_id w = wo_proposal_id v \<and> wo_accepted_snapshot_hash w = wo_accepted_snapshot_hash v
      \<and> wo_deliverable_id w = wo_deliverable_id v \<and> wo_deliverable_version w = wo_deliverable_version v)"
  by (simp_all add: order_row_of_def same_identity_def)

lemma store_invD:
  assumes "store_inv S st"
  shows "distinct (map or_id (st_orders st))" "distinct (map we_idempotency_key (st_events st))"
    "\<forall>r \<in> set (st_orders st). row_ok r \<and> row_replays S (st_events st) r \<and> order_ok (se_env S) (or_projection r)"
    "\<forall>e \<in> set (st_events st). event_ok (se_env S) e \<and> we_work_order_id e \<in> or_id ` set (st_orders st)"
    "\<forall>r \<in> set (st_orders st). \<forall>q \<in> set (st_orders st). conflicting r q \<longrightarrow> or_id r = or_id q"
  using assms unfolding store_inv_def by blast+

lemma append_first_inv:
  assumes inv: "store_inv S st"
    and ap: "apply_work_order_event (se_env S) None ev = Inr w"
    and new: "find_row st (wo_id w) = None" "identity_collision st w = None"
      "find_key st (we_idempotency_key ev) = None"
    and ok: "event_ok (se_env S) ev" "order_ok (se_env S) w" "we_work_order_id ev = wo_id w"
  shows "store_inv S (st\<lparr>st_orders := st_orders st @ [order_row_of ev w], st_events := st_events st @ [ev]\<rparr>)"
proof -
  have none: "filter (\<lambda>e. we_work_order_id e = wo_id w) (st_events st) = []"
    using store_invD(4) [OF inv] new(1) unfolding find_row_None filter_empty_conv by metis
  have old: "row_replays S (st_events st @ [ev]) r = row_replays S (st_events st) r"
    if "r \<in> set (st_orders st)" for r
    using that new(1) ok(3) unfolding find_row_None by (intro row_replays_other) (metis imageI)
  have row: "row_ok (order_row_of ev w)" "row_replays S (st_events st @ [ev]) (order_row_of ev w)"
    using ap none ok(3) apply_observed [OF ap]
    by (simp_all add: row_ok_def row_replays_def) (simp add: order_row_of_def)
  have free: "\<not> conflicting (order_row_of ev w) q \<and> \<not> conflicting q (order_row_of ev w)"
    if "q \<in> set (st_orders st)" for q
    using that new(2) by (auto simp: identity_collision_def find_None_iff conflicting_def same_identity_def order_row_of_def)
  note D = store_invD [OF inv]
  show ?thesis
    unfolding store_inv_def
  proof (intro conjI)
    show "distinct (map or_id (st_orders (st\<lparr>st_orders := st_orders st @ [order_row_of ev w],
        st_events := st_events st @ [ev]\<rparr>)))"
      using D(1) new(1) by (simp add: find_row_None)
  next
    show "distinct (map we_idempotency_key (st_events (st\<lparr>st_orders := st_orders st @ [order_row_of ev w],
        st_events := st_events st @ [ev]\<rparr>)))"
      using D(2) new(3) by (simp add: find_key_None)
  next
    show "\<forall>r \<in> set (st_orders (st\<lparr>st_orders := st_orders st @ [order_row_of ev w], st_events := st_events st @ [ev]\<rparr>)).
       row_ok r \<and> row_replays S (st_events (st\<lparr>st_orders := st_orders st @ [order_row_of ev w],
        st_events := st_events st @ [ev]\<rparr>)) r \<and> order_ok (se_env S) (or_projection r)"
      using D(3) row old ok(2) by simp
  qed (use D(4,5) free ok in \<open>simp_all\<close>)
qed

lemma append_next_inv:
  assumes inv: "store_inv S st" and r: "find_row st (we_work_order_id ev) = Some r"
    and ap: "apply_work_order_event (se_env S) (Some (or_projection r)) ev = Inr w"
    and key: "find_key st (we_idempotency_key ev) = None"
    and ok: "event_ok (se_env S) ev" "order_ok (se_env S) w" "we_work_order_id ev = wo_id w"
  shows "store_inv S ((update_order (we_work_order_id ev) (we_occurred_at ev) w st)
           \<lparr>st_events := st_events st @ [ev]\<rparr>)"
proof -
  let ?up = "advance_row (we_work_order_id ev) (we_occurred_at ev) w"
  have rin: "r \<in> set (st_orders st)" "or_id r = we_work_order_id ev" using find_row_Some [OF r] by auto
  have d: "distinct (map or_id (st_orders st))" using inv by (simp add: store_inv_def)
  have only: "q = r" if "q \<in> set (st_orders st)" "or_id q = we_work_order_id ev" for q
    using find_row_unique [OF d that(1)] that(2) r by simp
  have rinv: "row_ok r" "row_replays S (st_events st) r" using inv rin(1) by (auto simp: store_inv_def)
  have live: "\<not> terminal_stage (or_stage r)"
    using rinv(1) ap by (auto simp: row_ok_def elim: apply_SomeE)
  have id: "same_identity w r"
    using rinv(1) apply_identity [OF ap] by (auto simp: row_ok_def same_identity_def work_order_identity.defs)
  have up: "row_ok (?up q) \<and> row_replays S (st_events st @ [ev]) (?up q) \<and> order_ok (se_env S) (or_projection (?up q))"
    if q: "q \<in> set (st_orders st)" for q
  proof (cases "or_id q = we_work_order_id ev")
    case True
    with q only have "q = r" by blast
    with True id apply_observed [OF ap] rinv(2) ap ok show ?thesis
      by (simp add: row_ok_def row_replays_def fold_events_append advance_row_def)
  next
    case False
    with q inv show ?thesis by (simp add: row_replays_other store_inv_def advance_row_def)
  qed
  have conf: "conflicting (?up p) (?up q) \<longrightarrow> or_id (?up p) = or_id (?up q)"
    if "p \<in> set (st_orders st)" "q \<in> set (st_orders st)" for p q
  proof
    assume c: "conflicting (?up p) (?up q)"
    have "conflicting p q"
      using c live only [OF that(1)] only [OF that(2)]
      by (auto simp: conflicting_def updated_row_def advance_row_def split: if_splits)
    with inv that show "or_id (?up p) = or_id (?up q)" by (auto simp: store_inv_def)
  qed
  have ids: "map or_id (map ?up (st_orders st)) = map or_id (st_orders st)" by simp
  then have idset: "or_id ` ?up ` set (st_orders st) = or_id ` set (st_orders st)"
    by (metis list.set_map)
  have m: "we_work_order_id ev \<in> or_id ` set (st_orders st)" using rin by (metis imageI)
  note D = store_invD [OF inv]
  show ?thesis
    unfolding store_inv_def
  proof (intro conjI)
    show "distinct (map or_id (st_orders ((update_order (we_work_order_id ev) (we_occurred_at ev) w st)
           \<lparr>st_events := st_events st @ [ev]\<rparr>)))"
      using D(1) ids by (simp add: update_order_def del: map_map)
  next
    show "\<forall>e \<in> set (st_events ((update_order (we_work_order_id ev) (we_occurred_at ev) w st)
           \<lparr>st_events := st_events st @ [ev]\<rparr>)). event_ok (se_env S) e \<and>
        we_work_order_id e \<in> or_id ` set (st_orders ((update_order (we_work_order_id ev) (we_occurred_at ev) w st)
           \<lparr>st_events := st_events st @ [ev]\<rparr>))"
      using D(4) ok(1) m idset by (simp add: update_order_def)
  qed (use D(2) key up conf in \<open>simp_all add: update_order_def find_key_None\<close>)
qed

lemma append_inv:
  assumes "append_work_order_event S now ev w st = Inr (res, st')" "store_inv S st"
  shows "store_inv S st'"
  using assms(1)
proof (cases rule: append_cases)
  case first
  from append_first_inv [OF assms(2) first(2,3,4,6,7,8,9)] insert_event_Inr [OF first(5)]
  show ?thesis by simp
next
  case (later r)
  from append_next_inv [OF assms(2) later(2,4,6,7,8,9)] insert_event_Inr [OF later(5)]
  show ?thesis by (simp add: update_order_def)
next
  case duplicate
  with assms(2) show ?thesis by simp
next
  case held
  with assms(2) show ?thesis by (simp add: store_inv_def)
qed

end
