(* ===== verification/Work_Order_Store_Properties.thy ===== *)
theory Work_Order_Store_Properties
  imports Work_Order_Store Work_Order_Samples
begin

text \<open>
  The properties of the delivery store over every table content reachable by appends and rebuilds:
  each row is the replay of its events, an accepted identity has one active order, appends are
  idempotent and ordered, rebuilding changes nothing.
\<close>

definition empty_store :: wo_store where
  "empty_store = \<lparr>st_orders = [], st_events = [], st_holds = []\<rparr>"

inductive reachable_store :: "store_env \<Rightarrow> wo_store \<Rightarrow> bool" for S where
  empty: "reachable_store S empty_store"
| append: "reachable_store S st \<Longrightarrow> append_work_order_event S now ev w st = Inr (res, st') \<Longrightarrow> reachable_store S st'"
| rebuild: "reachable_store S st \<Longrightarrow> rebuild_work_order_projection S k st = Inr (w, st') \<Longrightarrow> reachable_store S st'"

section \<open>Streams of stored events\<close>

lemma fold_event_versions:
  assumes "fold_events (apply_work_order_event E) None evs = Inr c"
  shows "map we_event_version evs = map (\<lambda>i. int i + 1) [0..<length evs]"
proof -
  have "\<forall>e \<in> set evs. we_event_version e = we_expected_version e + 1"
    using assms
  proof (induction rule: fold_history_induct)
    case (snoc c es e s)
    then show ?case by (cases c) (auto elim!: apply_NoneE apply_SomeE)
  qed simp
  then have "map we_event_version evs = map (\<lambda>v. v + 1) (map we_expected_version evs)" by simp
  then show ?thesis by (simp only: wo.fold_expected [OF assms] list.map_comp o_def)
qed

lemma sorted_versions: "sorted (map (\<lambda>i. int i + 1) [0..<n])"
  by (simp add: sorted_iff_nth_mono)

lemma stream_replays:
  assumes inv: "store_inv S st" and r: "r \<in> set (st_orders st)"
  shows "stream st (or_id r) = filter (\<lambda>e. we_work_order_id e = or_id r) (st_events st)"
    "list_work_order_events S (or_id r) st = Inr (stream st (or_id r))"
    "replay_work_order (se_env S) (stream st (or_id r)) = Inr (or_projection r)"
proof -
  let ?es = "filter (\<lambda>e. we_work_order_id e = or_id r) (st_events st)"
  have f: "fold_events (apply_work_order_event (se_env S)) None ?es = Inr (Some (or_projection r))"
    using inv r by (simp add: store_inv_def row_replays_def)
  have "sorted (map we_event_version ?es)"
    unfolding fold_event_versions [OF f] by (rule sorted_versions)
  then show s: "stream st (or_id r) = ?es"
    by (simp add: stream_def sort_key_id_if_sorted)
  have "\<forall>e \<in> set ?es. event_ok (se_env S) e" using store_invD(4) [OF inv] by auto
  then show "list_work_order_events S (or_id r) st = Inr (stream st (or_id r))"
    by (simp add: list_work_order_events_def s mapE_Inr_iff map_event_def list_all2_same)
  have d: "distinct (map we_idempotency_key ?es)"
    using store_invD(2) [OF inv] by (simp add: distinct_map_filter)
  then have "consistent_keys ?es"
    unfolding consistent_keys_def distinct_map inj_on_def by metis
  with f first_by_distinct [OF d] show "replay_work_order (se_env S) (stream st (or_id r)) = Inr (or_projection r)"
    by (simp add: replay_iff s)
qed

lemma rebuild_noop:
  assumes inv: "store_inv S st" and r: "r \<in> set (st_orders st)"
  shows "rebuild_work_order_projection S (or_id r) st = Inr (or_projection r, st)"
proof -
  note s = stream_replays [OF assms]
  have find: "find_row st (or_id r) = Some r" using store_invD(1) [OF inv] r by (rule find_row_unique)
  have "advance_row (or_id r) (pv_observed_at (wo_provenance (or_projection r))) (or_projection r) q = q"
    if "q \<in> set (st_orders st)" for q
  proof (cases "or_id q = or_id r")
    case True
    with find_row_unique [OF store_invD(1) [OF inv] that] find have "q = r" by (metis option.inject)
    moreover have "row_ok r" using inv r by (simp add: store_inv_def)
    ultimately show ?thesis
      by (intro order_row.equality) (simp_all add: advance_row_def updated_row_def row_ok_def)
  qed (simp add: advance_row_def)
  then have "update_order (or_id r) (pv_observed_at (wo_provenance (or_projection r))) (or_projection r) st = st"
    by (simp add: update_order_def map_idI)
  moreover have "stream st (or_id r) \<noteq> []"
    using s(3) by (auto simp: replay_work_order_def)
  moreover have "mapE (map_event (se_env S)) (stream st (or_id r)) = Inr (stream st (or_id r))"
    using s(2) by (simp add: list_work_order_events_def)
  ultimately show ?thesis
    using s(3) find by (simp add: rebuild_work_order_projection_def)
qed

lemma rebuild_inv:
  assumes "rebuild_work_order_projection S k st = Inr (w, st')" "store_inv S st"
  shows "st' = st"
proof -
  from assms(1) obtain r where "find_row st k = Some r"
    by (auto simp: rebuild_work_order_projection_def)
  then have "r \<in> set (st_orders st)" "or_id r = k" by (auto dest: find_row_Some)
  with rebuild_noop [OF assms(2)] assms(1) show ?thesis by auto
qed

lemma reachable_inv: "reachable_store S st \<Longrightarrow> store_inv S st"
proof (induction rule: reachable_store.induct)
  case empty
  show ?case by (simp add: empty_store_def store_inv_def)
next
  case append
  then show ?case by (blast intro: append_inv)
next
  case rebuild
  then show ?case by (auto dest: rebuild_inv)
qed

section \<open>What an append does\<close>

lemma append_again:
  assumes "reachable_store S st" "append_work_order_event S now ev w st = Inr (Appended w', st')"
  shows "append_work_order_event S later ev w st' = Inr (Duplicate w, st') \<and> w' = w"
proof -
  have inv: "store_inv S st'"
    using assms by (blast intro: reachable_inv reachable_store.append)
  have a: "w' = w \<and> ev \<in> set (st_events st') \<and> we_work_order_id ev = wo_id w
    \<and> (\<exists>r. find_row st' (wo_id w) = Some r \<and> or_projection r = w)"
    using assms(2)
  proof (cases rule: append_cases)
    case first
    have "find_row (st\<lparr>st_orders := st_orders st @ [order_row_of ev w], st_events := es\<rparr>) (wo_id w)
        = Some (order_row_of ev w)" for es
      using first(3) unfolding find_row_def by (simp add: find_snoc)
    with insert_event_Inr [OF first(5)] first(1,9) show ?thesis
      by (auto simp: order_row_of_def)
  next
    case (later r)
    have "find_row (update_order (wo_id w) (we_occurred_at ev) w st) (wo_id w)
        = map_option (advance_row (wo_id w) (we_occurred_at ev) w) (find_row st (wo_id w))"
      by (simp add: find_row_def update_order_def find_map_key)
    with insert_event_Inr [OF later(5)] later(1,2,9) find_row_Some [OF later(2)]
    show ?thesis
      by (auto simp: find_row_def advance_row_def)
  qed simp_all
  have "find_key st' (we_idempotency_key ev) = Some ev"
    unfolding find_key_def using store_invD(2) [OF inv] a by (intro find_distinct_key) simp_all
  moreover have "is_ok (lift (assert_contracts (se_env S) ev w (Inr ())))"
    using assms(2) by (auto simp: append_work_order_event_def is_ok_iff)
  moreover have "event_ok (se_env S) ev" "order_ok (se_env S) w"
    using assms(2) by (auto simp: append_work_order_event_def assert_contracts_def)
  ultimately show ?thesis
    using a by (auto simp: append_work_order_event_def append_known_def map_event_def map_order_def is_ok_iff)
qed

lemma append_effect:
  assumes "append_work_order_event S now ev w st = Inr (res, st')"
  shows "(case res of
      Appended v \<Rightarrow> v = w \<and> st_events st' = st_events st @ [ev] \<and> st_holds st' = st_holds st
    | Duplicate v \<Rightarrow> st' = st \<and> ev \<in> set (st_events st)
    | Held k reason v \<Rightarrow> st_orders st' = st_orders st \<and> st_events st' = st_events st)"
  using assms
proof (cases rule: append_cases)
  case first
  with insert_event_Inr [OF first(5)] show ?thesis by simp
next
  case (later r)
  with insert_event_Inr [OF later(5)] show ?thesis by (simp add: update_order_def)
next
  case duplicate
  then show ?thesis by (auto simp: find_key_def dest: find_Some_in)
qed simp

section \<open>A reachable store with one delivered order\<close>

definition sample_store_env :: store_env where
  "sample_store_env = \<lparr>se_env = sample_env, se_hash = (\<lambda>s. take 32 s)\<rparr>"

text \<open>Appending each event with the order it builds.\<close>

fun append_all :: "work_order_event list \<Rightarrow> work_order option \<Rightarrow> wo_store \<Rightarrow> wo_store" where
  "append_all [] c st = st"
| "append_all (e # es) c st =
     (case apply_work_order_event sample_env c e of
        Inl _ \<Rightarrow> st
      | Inr w \<Rightarrow>
          (case append_work_order_event sample_store_env 0 e w st of
             Inl _ \<Rightarrow> st
           | Inr (res, st') \<Rightarrow> append_all es (Some w) st'))"

lemma append_all_reachable:
  "reachable_store sample_store_env st \<Longrightarrow> reachable_store sample_store_env (append_all es c st)"
proof (induction es arbitrary: c st)
  case (Cons e es)
  have "reachable_store sample_store_env st'"
    if "append_work_order_event sample_store_env 0 e w st = Inr (res, st')" for w res st'
    using Cons.prems that by (rule reachable_store.append)
  with Cons show ?case by (auto split: sum.split)
qed simp

definition sample_store :: "nat \<Rightarrow> wo_store" where
  "sample_store n = append_all (take n sample_stream) None empty_store"

lemma sample_store_reachable: "reachable_store sample_store_env (sample_store n)"
  unfolding sample_store_def by (rule append_all_reachable) (rule reachable_store.empty)

section \<open>Properties\<close>

text \<open>
  C4. In every reachable store, reading the events of an order succeeds and replaying them gives
  exactly the stored projection: the projection is disposable.
\<close>

theorem stored_order_is_replay:
  assumes "reachable_store S st" "find_row st k = Some r"
  shows "\<exists>evs. list_work_order_events S k st = Inr evs
    \<and> replay_work_order (se_env S) evs = Inr (or_projection r)
    \<and> get_work_order S k st = Inr (Some (or_projection r))
    \<and> rebuild_work_order_projection S k st = Inr (or_projection r, st)"
proof -
  note inv = reachable_inv [OF assms(1)]
  have r: "r \<in> set (st_orders st)" "or_id r = k" using find_row_Some [OF assms(2)] by auto
  have "order_ok (se_env S) (or_projection r)" using store_invD(3) [OF inv] r(1) by blast
  then have "get_work_order S k st = Inr (Some (or_projection r))"
    using assms(2) by (simp add: get_work_order_def map_order_def)
  with stream_replays(2,3) [OF inv r(1)] rebuild_noop [OF inv r(1)] r(2) show ?thesis by auto
qed

lemma sample_store_row: "\<exists>r. find_row (sample_store 3) ''cc:work-order:1'' = Some r \<and> or_version r = 3"
proof -
  have "map_option or_version (find_row (sample_store 3) ''cc:work-order:1'') = Some 3" by code_simp
  then show ?thesis by auto
qed

lemma stored_order_is_replay_witness:
  "\<exists>evs w. list_work_order_events sample_store_env ''cc:work-order:1'' (sample_store 3) = Inr evs
    \<and> replay_work_order sample_env evs = Inr w \<and> wo_version w = 3"
proof -
  obtain r where r: "find_row (sample_store 3) ''cc:work-order:1'' = Some r" "or_version r = 3"
    using sample_store_row by blast
  have "row_ok r"
    using store_invD(3) [OF reachable_inv [OF sample_store_reachable]] r(1) by (blast dest: find_row_Some)
  with r(2) have "wo_version (or_projection r) = 3" by (simp add: row_ok_def)
  moreover have "se_env sample_store_env = sample_env" by (simp add: sample_store_env_def)
  ultimately show ?thesis
    using stored_order_is_replay [OF sample_store_reachable r(1)] by auto
qed

text \<open>
  C20. In every reachable store an accepted proposal, snapshot and deliverable has at most one order
  that is not closed or cancelled, and every row's columns agree with its projection.
\<close>

theorem one_active_order:
  assumes "reachable_store S st" "r \<in> set (st_orders st)" "q \<in> set (st_orders st)"
    "same_identity (or_projection r) q" "\<not> terminal_stage (wo_stage (or_projection r))"
    "\<not> terminal_stage (wo_stage (or_projection q))"
  shows "q = r"
proof -
  note D = store_invD [OF reachable_inv [OF assms(1)]]
  have "row_ok r" "row_ok q" using D(3) assms(2,3) by blast+
  with assms(4-6) have "conflicting r q"
    by (simp add: row_ok_def same_identity_def conflicting_def)
  with D(5) assms(2,3) have "or_id r = or_id q" by blast
  with D(1) assms(2,3) show ?thesis by (auto simp: distinct_map dest: inj_onD)
qed

lemma one_active_order_witness:
  "\<exists>q r. find_row (sample_store 3) (wo_id sample_order) = Some q \<and> st_orders (sample_store 3) = [r] \<and> q = r"
proof -
  have *: "length (st_orders (sample_store 3)) = 1"
    "case find_row (sample_store 3) (wo_id sample_order) of None \<Rightarrow> False
     | Some q \<Rightarrow> \<not> terminal_stage (wo_stage (or_projection q)) \<and> same_identity (or_projection q) q"
    by code_simp+
  then obtain r where r: "st_orders (sample_store 3) = [r]" by (auto simp: length_Suc_conv)
  from * obtain q where q: "find_row (sample_store 3) (wo_id sample_order) = Some q"
    "\<not> terminal_stage (wo_stage (or_projection q))" "same_identity (or_projection q) q"
    by (auto split: option.splits)
  then have "q = r" using r by (simp add: find_row_def split: if_splits)
  have "q \<in> set (st_orders (sample_store 3))" "r \<in> set (st_orders (sample_store 3))"
    using r \<open>q = r\<close> by simp_all
  with q \<open>q = r\<close> have "q = r"
    by (intro one_active_order [OF sample_store_reachable]) simp_all
  with q r show ?thesis by blast
qed

text \<open>
  Sending an appended event again, at any later time, is answered as a duplicate with the
  current order and changes no table.
\<close>

theorem append_is_idempotent:
  assumes "reachable_store S st" "append_work_order_event S now ev w st = Inr (Appended w', st')"
  shows "append_work_order_event S later ev w st' = Inr (Duplicate w, st') \<and> w' = w"
  using assms by (rule append_again)

lemma sample_append_started:
  "\<exists>w st'. append_work_order_event sample_store_env 7 ev_started w (sample_store 2) = Inr (Appended w, st')
    \<and> we_expected_version ev_started = 2"
proof -
  let ?w = "or_else (run None (take 3 sample_stream)) sample_order"
  have "(case append_work_order_event sample_store_env 7 ev_started ?w (sample_store 2) of
           Inr (Appended v, _) \<Rightarrow> True | _ \<Rightarrow> False)"
    by code_simp
  then obtain v st' where "append_work_order_event sample_store_env 7 ev_started ?w (sample_store 2) = Inr (Appended v, st')"
    by (auto split: sum.splits append_result.splits)
  moreover from this have "v = ?w" by (cases rule: append_cases) simp_all
  moreover have "we_expected_version ev_started = 2" by (simp add: ev_started_def sample_event_def)
  ultimately show ?thesis by blast
qed

lemma append_is_idempotent_witness:
  "\<exists>w st'. append_work_order_event sample_store_env 7 ev_started w (sample_store 2) = Inr (Appended w, st')
    \<and> append_work_order_event sample_store_env 9 ev_started w st' = Inr (Duplicate w, st')"
proof -
  obtain w st' where a: "append_work_order_event sample_store_env 7 ev_started w (sample_store 2) = Inr (Appended w, st')"
    using sample_append_started by blast
  from append_is_idempotent [OF sample_store_reachable a, of 9] a show ?thesis by blast
qed

text \<open>
  An append that is not answered \<open>APPENDED\<close> changes no order and no event (a hold is at most
  recorded beside them), and one that is answered so adds exactly its event, whose order then is
  the answer.
\<close>

theorem append_outcomes:
  assumes "append_work_order_event S now ev w st = Inr (res, st')"
  shows "(case res of
      Appended v \<Rightarrow> v = w \<and> st_events st' = st_events st @ [ev] \<and> st_holds st' = st_holds st
    | Duplicate v \<Rightarrow> st' = st \<and> ev \<in> set (st_events st)
    | Held k reason v \<Rightarrow> st_orders st' = st_orders st \<and> st_events st' = st_events st)"
  using assms by (rule append_effect)

lemma append_outcomes_witness:
  "\<exists>w st'. append_work_order_event sample_store_env 7 ev_started w (sample_store 2) = Inr (Appended w, st')
    \<and> st_events st' = st_events (sample_store 2) @ [ev_started]"
proof -
  obtain w st' where a: "append_work_order_event sample_store_env 7 ev_started w (sample_store 2) = Inr (Appended w, st')"
    using sample_append_started by blast
  from append_outcomes [OF a] a show ?thesis by auto
qed

text \<open>
  C7. Of two writers that decided on the same version of an order, the second is held with
  \<open>VERSION_CONFLICT\<close> and the version it lost to, whatever event it carries, and no order changes.
\<close>

theorem second_writer_held:
  assumes "reachable_store S st" "append_work_order_event S now ev w st = Inr (Appended w', st')"
    "we_work_order_id ev2 = we_work_order_id ev" "we_expected_version ev2 = we_expected_version ev"
    "we_idempotency_key ev2 \<notin> we_idempotency_key ` set (st_events st')"
    "is_ok (assert_contracts (se_env S) ev2 w2 (Inr ()))"
  shows "\<exists>k st''. append_work_order_event S later ev2 w2 st'
      = Inr (Held k Version_Conflict (Some (we_expected_version ev + 1)), st'')
    \<and> st_orders st'' = st_orders st' \<and> st_events st'' = st_events st'"
proof -
  have inv: "store_inv S st'" using assms(1,2) by (blast intro: reachable_inv reachable_store.append)
  have dup: "append_work_order_event S now ev w st' = Inr (Duplicate w, st')" "w' = w"
    using append_again [OF assms(1,2), of now] by auto
  then obtain r where r: "find_row st' (we_work_order_id ev) = Some r" "or_projection r = w"
    by (cases rule: append_cases) auto
  have "row_ok r" using store_invD(3) [OF inv] r(1) by (blast dest: find_row_Some)
  moreover have "wo_version w = we_expected_version ev + 1"
    using assms(2) by (auto simp: append_work_order_event_def assert_contracts_def)
  ultimately have v: "or_version r = we_expected_version ev + 1" using r(2) by (simp add: row_ok_def)
  have "find_key st' (we_idempotency_key ev2) = None" using assms(5) by (simp add: find_key_None)
  moreover have "assert_contracts (se_env S) ev2 w2 (Inr ()) = Inr ()" using assms(6) by (auto simp: is_ok_iff)
  ultimately have "append_work_order_event S later ev2 w2 st'
      = Inr (hold S later Version_Conflict (Some (we_expected_version ev + 1)) ev2 w2 st')"
    using r(1) v assms(3,4) by (simp add: append_work_order_event_def append_next_def)
  then show ?thesis by (cases "hold S later Version_Conflict (Some (we_expected_version ev + 1)) ev2 w2 st'")
      (use hold_eq in \<open>fastforce\<close>)
qed

lemma second_writer_held_witness:
  "\<exists>st k st'. append_work_order_event sample_store_env 9 (ev_started\<lparr>we_idempotency_key := ''key-9999''\<rparr>)
       (or_else (run None (take 3 sample_stream)) sample_order) st = Inr (Held k Version_Conflict (Some 3), st')"
proof -
  let ?w = "or_else (run None (take 3 sample_stream)) sample_order"
  let ?ev = "ev_started\<lparr>we_idempotency_key := ''key-9999''\<rparr>"
  obtain w st' where a: "append_work_order_event sample_store_env 7 ev_started w (sample_store 2) = Inr (Appended w, st')"
    using sample_append_started by blast
  then have "st_events st' = st_events (sample_store 2) @ [ev_started]"
    by (auto dest: append_effect)
  moreover have "''key-9999'' \<notin> set (map we_idempotency_key (st_events (sample_store 2) @ [ev_started]))"
    by code_simp
  ultimately have "we_idempotency_key ?ev \<notin> we_idempotency_key ` set (st_events st')" by simp
  moreover have "is_ok (assert_contracts (se_env sample_store_env) ?ev ?w (Inr ()))" by code_simp
  moreover have "we_work_order_id ?ev = we_work_order_id ev_started"
    "we_expected_version ?ev = we_expected_version ev_started" "we_expected_version ev_started = 2"
    by (simp_all add: ev_started_def sample_event_def)
  ultimately show ?thesis
    using second_writer_held [OF sample_store_reachable a, of ?ev ?w 9] by auto
qed

end
