(* ===== verification/Business_Calendar_Laws.thy ===== *)
theory Business_Calendar_Laws
  imports Business_Calendar
begin

text \<open>
  The loop of \<open>addBusinessDays\<close> ends: in a zone with a constant offset, whatever the holidays, it stops
  at the requested business day, or with a \<open>RangeError\<close> at the end of the range of \<open>Date\<close>. Holidays are
  finitely many date keys, keys of far years are longer than all of them, and a weekend is over after two days.
\<close>

section \<open>Civil time\<close>

definition whole_seconds :: "int \<Rightarrow> int" where
  "whole_seconds t = t - t mod 1000"

lemma whole_seconds_div_seconds: "0 \<le> k \<Longrightarrow> whole_seconds t div (1000 * k) = t div (1000 * k)"
proof -
  assume "0 \<le> k"
  moreover have "whole_seconds t div 1000 = t div 1000"
    by (simp add: whole_seconds_def minus_mod_eq_mult_div)
  ultimately show ?thesis by (simp add: zdiv_zmult2_eq)
qed

lemma whole_seconds_div [simp]: "whole_seconds t div day_ms = t div day_ms"
  using whole_seconds_div_seconds [of 86400 t] by (simp add: day_ms_def)

lemma day_mod_seconds: "t mod day_ms mod 1000 = t mod 1000"
  by (simp add: day_ms_def mod_mod_cancel)

lemma whole_seconds_mod: "whole_seconds t mod day_ms = whole_seconds (t mod day_ms)"
proof -
  have "whole_seconds t mod day_ms = whole_seconds t - whole_seconds t div day_ms * day_ms"
    by (rule minus_div_mult_eq_mod [symmetric])
  also have "\<dots> = t - t div day_ms * day_ms - t mod 1000"
    unfolding whole_seconds_div by (simp add: whole_seconds_def)
  also have "t - t div day_ms * day_ms = t mod day_ms" by (rule minus_div_mult_eq_mod)
  finally show ?thesis unfolding whole_seconds_def [of "t mod day_ms"] day_mod_seconds .
qed

lemma whole_seconds_clock:
  "whole_seconds t div 3600000 = t div 3600000" "whole_seconds t div 60000 = t div 60000"
  "whole_seconds t div 1000 = t div 1000"
  using whole_seconds_div_seconds [of 3600 t] whole_seconds_div_seconds [of 60 t] whole_seconds_div_seconds [of 1 t]
  by simp_all

text \<open>A civil time has no fraction of a second.\<close>

lemma civil_of_whole_seconds: "civil_of_ms (whole_seconds t) = civil_of_ms t"
  by (simp add: civil_of_ms_def whole_seconds_mod Let_def whole_seconds_clock)

lemma ms_of_civil_of_ms: "ms_of_civil (civil_of_ms t) = whole_seconds t"
proof -
  obtain y m d where ymd: "civil_of_days (t div day_ms) = (y, m, d)" by (cases "civil_of_days (t div day_ms)") auto
  then have days: "days_of_civil y m d = t div day_ms" using valid_civil_civil_of_days [of "t div day_ms"] by simp
  define r where "r = t mod day_ms"
  have "ms_of_civil (civil_of_ms t) = t div day_ms * day_ms + r div 3600000 * 3600000
      + r div 60000 mod 60 * 60000 + r div 1000 mod 60 * 1000"
    by (simp add: ms_of_civil_def civil_of_ms_def ymd Let_def days r_def)
  moreover have "t div day_ms * day_ms + r = t" unfolding r_def by (rule div_mult_mod_eq)
  moreover have "r mod 1000 = t mod 1000" unfolding r_def by (rule day_mod_seconds)
  ultimately show ?thesis using hms_split [of r] unfolding whole_seconds_def by linarith
qed

lemma whole_seconds_dvd: "1000 dvd whole_seconds t"
  by (simp add: whole_seconds_def minus_mod_eq_mult_div)

lemma ms_of_civil_seconds: "1000 dvd ms_of_civil v"
proof -
  have "ms_of_civil v = 1000 * (days_of_civil (cv_year v) (cv_month v) (cv_day v) * 86400
      + cv_hour v * 3600 + cv_minute v * 60 + cv_second v)"
    by (simp add: ms_of_civil_def day_ms_def algebra_simps)
  then show ?thesis by simp
qed

lemma whole_seconds_id: "1000 dvd t \<Longrightarrow> whole_seconds t = t"
  by (simp add: whole_seconds_def)

section \<open>The range of dates\<close>

lemma day_ms_pos [simp]: "0 < day_ms" "day_ms \<noteq> 0"
  by (simp_all add: day_ms_def)

lemma civil_year_of_ms: "cv_year (civil_of_ms t) = year_of_days (t div day_ms)"
  by (simp add: civil_of_ms_def civil_of_days_def Let_def)

lemma civil_year_mono:
  assumes "day_from_year y \<le> t div day_ms"
  shows "y \<le> cv_year (civil_of_ms t)"
proof (rule ccontr)
  assume "\<not> y \<le> cv_year (civil_of_ms t)"
  then have le: "year_of_days (t div day_ms) + 1 \<le> y" by (simp add: civil_year_of_ms)
  then have "day_from_year (year_of_days (t div day_ms) + 1) + 365 * (y - (year_of_days (t div day_ms) + 1)) \<le> day_from_year y"
    by (rule day_from_year_mono)
  moreover have "t div day_ms < day_from_year (year_of_days (t div day_ms) + 1)"
    using year_of_days_bounds [of "t div day_ms"] by simp
  ultimately show False using assms le by simp
qed

text \<open>From the year 100 on \<open>Date.UTC\<close> and the formatter read a year as it is.\<close>

definition late :: "int \<Rightarrow> bool" where
  "late t \<longleftrightarrow> day_from_year 100 \<le> t div day_ms"

lemma late_year: "late t \<Longrightarrow> 100 \<le> cv_year (civil_of_ms t)"
  unfolding late_def by (rule civil_year_mono)

lemma date_utc_late: "100 \<le> cv_year v \<Longrightarrow> date_utc v = time_clip (ms_of_civil v)"
  by (simp add: date_utc_def)

lemma date_utc_of_ms: "late t \<Longrightarrow> date_utc (civil_of_ms t) = time_clip (whole_seconds t)"
  by (simp add: date_utc_late [OF late_year] ms_of_civil_of_ms)

lemma civil_parts_late:
  "late (t + off) \<Longrightarrow> civil_parts (\<lambda>_. off) t = (if time_clip t = None then Inl RANGE_ERROR else Inr (civil_of_ms (t + off)))"
  using late_year [of "t + off"] by (auto simp: civil_parts_def time_clip_def Let_def)

text \<open>An instant that stays in the range when the offset is added or taken away\<close>

definition roomy :: "int \<Rightarrow> int \<Rightarrow> bool" where
  "roomy off t \<longleftrightarrow> time_clip t \<noteq> None \<and> time_clip (t + off) \<noteq> None \<and> time_clip (t - off) \<noteq> None"

lemma time_clip_Some: "time_clip t \<noteq> None \<Longrightarrow> time_clip t = Some t"
  by (simp add: time_clip_def split: if_splits)

text \<open>With a constant offset of whole seconds every civil time exists, and the search finds it.\<close>

lemma civil_to_instant_constant:
  assumes "1000 dvd off" "100 \<le> cv_year v" "late (ms_of_civil v)" "late (ms_of_civil v + off)"
  shows "civil_to_instant (\<lambda>_. off) (Some v) = Inr (ms_of_civil v - off)
    \<or> civil_to_instant (\<lambda>_. off) (Some v) = Inl RANGE_ERROR \<and> \<not> roomy off (ms_of_civil v)"
proof -
  let ?m = "ms_of_civil v"
  have ws: "whole_seconds (?m + off) = ?m + off" "whole_seconds ?m = ?m"
    using ms_of_civil_seconds [of v] assms(1) by (simp_all add: whole_seconds_id)
  have first: "civil_parts (\<lambda>_. off) ?m = Inr (civil_of_ms (?m + off))" if "time_clip ?m = Some ?m"
    using civil_parts_late [OF assms(4)] that by simp
  have utc: "date_utc (civil_of_ms (?m + off)) = time_clip (?m + off)" "date_utc (civil_of_ms ?m) = time_clip ?m"
    using date_utc_of_ms [OF assms(4)] date_utc_of_ms [OF assms(3)] ws by simp_all
  have second: "civil_parts (\<lambda>_. off) (?m - off) = (if time_clip (?m - off) = None then Inl RANGE_ERROR else Inr (civil_of_ms ?m))"
    using civil_parts_late [of "?m - off" off] assms(3) by simp
  show ?thesis
  proof (cases "time_clip ?m = None")
    case True
    then show ?thesis by (simp add: civil_to_instant_def date_utc_late [OF assms(2)] roomy_def)
  next
    case m: False
    note m' = time_clip_Some [OF m]
    show ?thesis
    proof (cases "time_clip (?m + off) = None")
      case True
      with m' first utc show ?thesis
        by (simp add: civil_to_instant_def date_utc_late [OF assms(2)] roomy_def eval_nat_numeral)
    next
      case p: False
      note p' = time_clip_Some [OF p]
      show ?thesis
      proof (cases "off = 0")
        case True
        with m' first utc show ?thesis
          by (simp add: civil_to_instant_def date_utc_late [OF assms(2)] eval_nat_numeral)
      next
        case False
        with m' p' first utc second show ?thesis
          by (cases "time_clip (?m - off) = None")
             (simp_all add: civil_to_instant_def date_utc_late [OF assms(2)] roomy_def eval_nat_numeral)
      qed
    qed
  qed
qed

section \<open>Business days\<close>

definition business_date :: "business_calendar \<Rightarrow> int \<Rightarrow> bool" where
  "business_date cal n \<longleftrightarrow> civil_key (Some (civil_of_ms (n * day_ms))) \<notin> set (bc_holidays cal) \<and> \<not> weekend n"

lemma civil_key_of_day: "civil_key (Some (civil_of_ms t)) = civil_key (Some (civil_of_ms (t div day_ms * day_ms)))"
  by (simp add: civil_key_def civil_of_ms_def Let_def split: prod.split)

text \<open>The calendar is asked for days from the year 101 on and for offsets of less than a day.\<close>

definition zone_ok :: "int \<Rightarrow> bool" where
  "zone_ok off \<longleftrightarrow> 1000 dvd off \<and> \<bar>off\<bar> < day_ms"

definition first_day :: int where
  "first_day = day_from_year 101"

definition last_day :: int where
  "last_day = 99999998"

lemma first_day_eq: "first_day = day_from_year 100 + 365"
  by (simp add: first_day_def day_from_year_def)

lemma late_day:
  assumes "first_day \<le> d" "d * day_ms - day_ms \<le> t"
  shows "late t"
proof -
  have "(d - 1) * day_ms \<le> t" using assms(2) by (simp add: algebra_simps)
  from zdiv_mono1 [OF this day_ms_pos(1)] have "d - 1 \<le> t div day_ms" by simp
  then show ?thesis using assms(1) by (simp add: late_def first_day_eq)
qed

lemma roomy_day:
  assumes "zone_ok off" "first_day \<le> d" "d \<le> last_day" "0 \<le> r" "r < day_ms"
  shows "roomy off (d * day_ms + r)"
proof -
  have "- 1000000 \<le> first_day" by (simp add: first_day_def day_from_year_def)
  with assms have "- 1000000 * 86400000 \<le> d * 86400000" "d * 86400000 \<le> 99999998 * 86400000"
    by (simp_all add: last_day_def)
  with assms show ?thesis by (auto simp: roomy_def time_clip_def zone_ok_def day_ms_def)
qed

lemma is_business_day_constant:
  assumes "zone_ok off" "first_day \<le> t div day_ms"
  shows "is_business_day (\<lambda>_. off) cal (Some (civil_of_ms t)) = Inr (business_date cal (t div day_ms))
    \<or> is_business_day (\<lambda>_. off) cal (Some (civil_of_ms t)) = Inl RANGE_ERROR \<and> last_day < t div day_ms"
proof -
  let ?d = "t div day_ms"
  obtain y m d where ymd: "civil_of_days ?d = (y, m, d)" by (cases "civil_of_days ?d") auto
  then have days: "days_of_civil y m d = ?d" using valid_civil_civil_of_days [of ?d] by simp
  let ?v = "(civil_of_ms t)\<lparr>cv_hour := 12, cv_minute := 0, cv_second := 0\<rparr>"
  have noon: "ms_of_civil ?v = ?d * day_ms + 43200000"
    by (simp add: ms_of_civil_def civil_of_ms_def ymd Let_def days)
  have d: "(?d * day_ms + 43200000) div day_ms = ?d"
    by (simp add: div_mult_self3 [of day_ms] day_ms_def)
  have late: "late t" "late (ms_of_civil ?v)" "late (ms_of_civil ?v + off)"
  proof -
    have "?d * day_ms + t mod day_ms = t" "0 \<le> t mod day_ms" by (simp_all add: div_mult_mod_eq)
    then have "?d * day_ms - day_ms \<le> t" using day_ms_pos(1) by linarith
    then show "late t" by (rule late_day [OF assms(2)])
    show "late (ms_of_civil ?v)" unfolding noon by (rule late_day [OF assms(2)]) (simp add: day_ms_def)
    have "- day_ms < off" using assms(1) by (auto simp: zone_ok_def)
    then show "late (ms_of_civil ?v + off)" unfolding noon by (intro late_day [OF assms(2)]) simp
  qed
  have year: "100 \<le> cv_year ?v" using late_year [OF late(1)] by simp
  have room: "roomy off (ms_of_civil ?v)" if "?d \<le> last_day"
    unfolding noon using roomy_day [OF assms that, of 43200000] by (simp add: day_ms_def)
  from assms(1) have off: "1000 dvd off" by (simp add: zone_ok_def)
  from civil_to_instant_constant [OF off year late(2,3)] room show ?thesis
    by (auto simp: is_business_day_def business_date_def civil_key_of_day [of t] noon d not_le)
qed

section \<open>A business day always comes\<close>

lemma length_show_digits: "10 ^ k \<le> n \<Longrightarrow> k < length (show_digits n)"
proof (induction k arbitrary: n)
  case 0
  show ?case by (subst show_digits.simps) simp
next
  case (Suc k)
  have "(10 :: nat) \<le> 10 ^ Suc k" by simp
  then have "10 \<le> n" using Suc.prems by (rule order.trans)
  moreover from Suc.prems have "10 ^ k \<le> n div 10" by (simp add: less_eq_div_iff_mult_less_eq)
  then have "k < length (show_digits (n div 10))" by (rule Suc.IH)
  ultimately show ?case by (subst show_digits.simps) simp
qed

lemma length_civil_key: "0 \<le> cv_year v \<Longrightarrow> length (show_digits (nat (cv_year v))) \<le> length (civil_key (Some v))"
  by (simp add: civil_key_def pad_start_def Let_def)

lemma weekend_ends: "\<not> weekend n \<or> \<not> weekend (n + 2)"
proof -
  have "((n + 4) mod 7 + 2) mod 7 = (n + 4 + 2) mod 7" by (rule mod_add_left_eq)
  then have "week_day (n + 2) = (week_day n + 2) mod 7" by (simp add: week_day_def algebra_simps)
  then show ?thesis by (auto simp: weekend_def)
qed

lemma business_date_exists: "\<exists>n > m. business_date cal n"
proof -
  define k where "k = Max (insert 0 (length ` set (bc_holidays cal)))"
  have short: "length h \<le> k" if "h \<in> set (bc_holidays cal)" for h
    using that by (simp add: k_def Max_ge)
  define b where "b = max (m + 1) (day_from_year (10 ^ k))"
  have free: "civil_key (Some (civil_of_ms (n * day_ms))) \<notin> set (bc_holidays cal)" if "b \<le> n" for n
  proof
    assume hol: "civil_key (Some (civil_of_ms (n * day_ms))) \<in> set (bc_holidays cal)"
    let ?y = "cv_year (civil_of_ms (n * day_ms))"
    have y: "10 ^ k \<le> ?y" using that by (intro civil_year_mono) (simp add: b_def)
    then have "10 ^ k \<le> nat ?y" by (simp add: le_nat_iff)
    then have "k < length (show_digits (nat ?y))" by (rule length_show_digits)
    also have "\<dots> \<le> length (civil_key (Some (civil_of_ms (n * day_ms))))"
      using y by (intro length_civil_key) (meson order.trans zero_le_numeral zero_le_power)
    finally show False using short [OF hol] by simp
  qed
  have "\<exists>n \<ge> b. \<not> weekend n"
  proof -
    have "b \<le> b" "b \<le> b + 2" by simp_all
    with weekend_ends [of b] show ?thesis by blast
  qed
  then obtain n where "b \<le> n" "\<not> weekend n" by blast
  with free have "business_date cal n" by (simp add: business_date_def)
  moreover have "m < n" using \<open>b \<le> n\<close> by (simp add: b_def)
  ultimately show ?thesis by blast
qed

text \<open>The first one after a day.\<close>

lemma first_business_date:
  obtains j where "business_date cal (m + 1 + int j)" "\<And>i. i < j \<Longrightarrow> \<not> business_date cal (m + 1 + int i)"
proof -
  obtain n where n: "m < n" "business_date cal n" using business_date_exists by blast
  then have "business_date cal (m + 1 + int (nat (n - m - 1)))" by simp
  then have "\<exists>j. business_date cal (m + 1 + int j) \<and> (\<forall>i < j. \<not> business_date cal (m + 1 + int i))"
    using exists_least_iff [of "\<lambda>j. business_date cal (m + 1 + int j)"] by blast
  then show thesis using that by blast
qed

section \<open>The loop\<close>

text \<open>The cursor on day \<open>d\<close> at the time of day \<open>r\<close>.\<close>

definition cursor_on :: "int \<Rightarrow> int \<Rightarrow> civil_date_time" where
  "cursor_on r d = civil_of_ms (d * day_ms + r)"

definition time_of_day :: "int \<Rightarrow> bool" where
  "time_of_day r \<longleftrightarrow> 0 \<le> r \<and> r < day_ms \<and> 1000 dvd r"

lemma cursor_of_ms:
  obtains r where "time_of_day r" "civil_of_ms t = cursor_on r (t div day_ms)"
    "whole_seconds t = t div day_ms * day_ms + r"
proof -
  let ?r = "whole_seconds (t mod day_ms)"
  have eq: "whole_seconds t = t div day_ms * day_ms + ?r"
    using div_mult_mod_eq [of "whole_seconds t" day_ms] by (simp add: whole_seconds_mod)
  have "0 \<le> ?r" "?r < day_ms" by (simp_all flip: whole_seconds_mod)
  then have "time_of_day ?r" by (simp add: time_of_day_def whole_seconds_dvd)
  moreover have "civil_of_ms t = cursor_on ?r (t div day_ms)"
    by (simp add: cursor_on_def eq [symmetric] civil_of_whole_seconds)
  ultimately show thesis using eq by (rule that)
qed

lemma cursor_day: "time_of_day r \<Longrightarrow> (d * day_ms + r) div day_ms = d"
  by (simp add: time_of_day_def div_pos_pos_trivial)

lemma cursor_seconds: "time_of_day r \<Longrightarrow> whole_seconds (d * day_ms + r) = d * day_ms + r"
  by (rule whole_seconds_id) (simp add: time_of_day_def day_ms_def)

text \<open>A date out of the range is no holiday, unless the calendar lists the key of such a date.\<close>

definition range_key :: string where
  "range_key = ''0NaN-NaN-NaN''"

lemma loop_out_of_range:
  "range_key \<notin> set (bc_holidays cal) \<Longrightarrow> 0 < n \<Longrightarrow> add_civil_days w 1 = None \<Longrightarrow>
    business_loop off cal w n = Some (Inl RANGE_ERROR)"
  by (subst business_loop.simps) (simp add: range_key_def is_business_day_def civil_key_def civil_to_instant_def)

lemma add_civil_day:
  assumes "time_of_day r" "first_day \<le> d"
  shows "add_civil_days (Some (cursor_on r d)) 1 = Some (cursor_on r (d + 1))
    \<or> add_civil_days (Some (cursor_on r d)) 1 = None \<and> last_day < d + 1"
proof -
  let ?v = "cursor_on r d"
  have ms: "ms_of_civil (?v\<lparr>cv_day := cv_day ?v + 1\<rparr>) = (d + 1) * day_ms + r"
  proof -
    have "ms_of_civil (?v\<lparr>cv_day := cv_day ?v + 1\<rparr>) = ms_of_civil ?v + day_ms"
      by (simp add: ms_of_civil_def days_of_civil_def algebra_simps)
    also have "ms_of_civil ?v = d * day_ms + r" by (simp add: cursor_on_def ms_of_civil_of_ms cursor_seconds [OF assms(1)])
    finally show ?thesis by (simp add: algebra_simps)
  qed
  have "late (d * day_ms + r)"
    using assms by (intro late_day [OF assms(2)]) (simp add: time_of_day_def)
  then have "100 \<le> cv_year (?v\<lparr>cv_day := cv_day ?v + 1\<rparr>)" using late_year by (simp add: cursor_on_def)
  then have utc: "date_utc (?v\<lparr>cv_day := cv_day ?v + 1\<rparr>) = time_clip ((d + 1) * day_ms + r)"
    by (simp add: date_utc_late ms)
  have "time_clip ((d + 1) * day_ms + r) \<noteq> None" if "d + 1 \<le> last_day"
    using roomy_day [of 0 "d + 1" r] that assms by (simp add: roomy_def zone_ok_def time_of_day_def)
  moreover have "add_civil_days (Some ?v) 1 = map_option civil_of_ms (time_clip ((d + 1) * day_ms + r))"
    by (simp add: add_civil_days_def utc)
  moreover have "time_clip ((d + 1) * day_ms + r) = Some ((d + 1) * day_ms + r)
      \<or> time_clip ((d + 1) * day_ms + r) = None \<and> last_day < d + 1"
    using calculation(1) time_clip_Some [of "(d + 1) * day_ms + r"] by (meson not_le)
  ultimately show ?thesis by (auto simp: cursor_on_def)
qed

lemma loop_step:
  assumes "zone_ok off" "time_of_day r" "0 < n" "first_day \<le> d" "range_key \<notin> set (bc_holidays cal)"
  shows "business_loop (\<lambda>_. off) cal (Some (cursor_on r d)) n =
      business_loop (\<lambda>_. off) cal (Some (cursor_on r (d + 1))) (if business_date cal (d + 1) then n - 1 else n)
    \<or> business_loop (\<lambda>_. off) cal (Some (cursor_on r d)) n = Some (Inl RANGE_ERROR) \<and> last_day < d + 1"
  using add_civil_day [OF assms(2,4)]
proof
  assume "add_civil_days (Some (cursor_on r d)) 1 = None \<and> last_day < d + 1"
  with loop_out_of_range [OF assms(5,3)] show ?thesis by blast
next
  assume next_day: "add_civil_days (Some (cursor_on r d)) 1 = Some (cursor_on r (d + 1))"
  have day: "((d + 1) * day_ms + r) div day_ms = d + 1" by (rule cursor_day [OF assms(2)])
  have "first_day \<le> ((d + 1) * day_ms + r) div day_ms" unfolding day using assms(4) by simp
  from is_business_day_constant [OF assms(1) this, of cal]
  consider "is_business_day (\<lambda>_. off) cal (Some (cursor_on r (d + 1))) = Inr (business_date cal (d + 1))"
    | "is_business_day (\<lambda>_. off) cal (Some (cursor_on r (d + 1))) = Inl RANGE_ERROR" "last_day < d + 1"
    unfolding cursor_on_def day by blast
  then show ?thesis
  proof cases
    case 1
    then have "business_loop (\<lambda>_. off) cal (Some (cursor_on r d)) n =
        business_loop (\<lambda>_. off) cal (Some (cursor_on r (d + 1))) (if business_date cal (d + 1) then n - 1 else n)"
      using assms(3) next_day by (subst business_loop.simps) simp
    then show ?thesis ..
  next
    case 2
    then have "business_loop (\<lambda>_. off) cal (Some (cursor_on r d)) n = Some (Inl RANGE_ERROR)"
      using assms(3) next_day by (subst business_loop.simps) simp
    with 2(2) show ?thesis by blast
  qed
qed

lemma loop_skip:
  assumes "zone_ok off" "time_of_day r" "0 < n" "first_day \<le> d" "range_key \<notin> set (bc_holidays cal)"
    "\<And>i. i < j \<Longrightarrow> \<not> business_date cal (d + 1 + int i)"
  shows "business_loop (\<lambda>_. off) cal (Some (cursor_on r d)) n = business_loop (\<lambda>_. off) cal (Some (cursor_on r (d + int j))) n
    \<or> business_loop (\<lambda>_. off) cal (Some (cursor_on r d)) n = Some (Inl RANGE_ERROR) \<and> last_day < d + int j"
  using assms(6)
proof (induction j)
  case (Suc j)
  have no: "\<not> business_date cal (d + int j + 1)" using Suc.prems [of j] by (simp add: algebra_simps)
  have "first_day \<le> d + int j" using assms(4) by simp
  from loop_step [OF assms(1-3) this assms(5)] no
  have step: "business_loop (\<lambda>_. off) cal (Some (cursor_on r (d + int j))) n
      = business_loop (\<lambda>_. off) cal (Some (cursor_on r (d + int (Suc j)))) n
    \<or> business_loop (\<lambda>_. off) cal (Some (cursor_on r (d + int j))) n = Some (Inl RANGE_ERROR) \<and> last_day < d + int (Suc j)"
    by (simp add: algebra_simps)
  have "\<And>i. i < j \<Longrightarrow> \<not> business_date cal (d + 1 + int i)" by (simp add: Suc.prems)
  from Suc.IH [OF this] step show ?case by auto
qed simp

text \<open>The business days after \<open>d\<close> up to \<open>e\<close>.\<close>

definition business_days_between :: "business_calendar \<Rightarrow> int \<Rightarrow> int \<Rightarrow> int set" where
  "business_days_between cal d e = {k. d < k \<and> k \<le> e \<and> business_date cal k}"

lemma finite_business_days [simp]: "finite (business_days_between cal d e)"
  by (rule finite_subset [of _ "{d<..e}"]) (auto simp: business_days_between_def)

lemma loop_returns:
  assumes "zone_ok off" "time_of_day r" "range_key \<notin> set (bc_holidays cal)" "first_day \<le> d"
  shows "\<exists>e. (business_loop (\<lambda>_. off) cal (Some (cursor_on r d)) (int n) = Some (Inr (Some (cursor_on r e)))
        \<or> business_loop (\<lambda>_. off) cal (Some (cursor_on r d)) (int n) = Some (Inl RANGE_ERROR) \<and> last_day < e)
     \<and> card (business_days_between cal d e) = n \<and> (if n = 0 then e = d else d < e \<and> business_date cal e)"
  using assms(4)
proof (induction n arbitrary: d)
  case 0
  have "business_days_between cal d d = {}" by (auto simp: business_days_between_def)
  then show ?case by (intro exI [of _ d]) (simp add: business_loop.simps)
next
  case (Suc n)
  let ?loop = "\<lambda>d k. business_loop (\<lambda>_. off) cal (Some (cursor_on r d)) k"
  obtain j where j: "business_date cal (d + 1 + int j)" "\<And>i. i < j \<Longrightarrow> \<not> business_date cal (d + 1 + int i)"
    by (rule first_business_date [of cal d]) blast
  let ?b = "d + 1 + int j"
  have pos: "0 < int (Suc n)" "first_day \<le> d + int j" "first_day \<le> ?b" using Suc.prems by simp_all
  from Suc.IH [OF pos(3)] obtain e where e: "?loop ?b (int n) = Some (Inr (Some (cursor_on r e)))
      \<or> ?loop ?b (int n) = Some (Inl RANGE_ERROR) \<and> last_day < e"
    "card (business_days_between cal ?b e) = n" "if n = 0 then e = ?b else ?b < e \<and> business_date cal e" by blast
  have le: "?b \<le> e" using e(3) by (simp split: if_splits)
  from loop_skip [OF assms(1,2) pos(1) Suc.prems assms(3) j(2)]
  have skip: "?loop d (int (Suc n)) = ?loop (d + int j) (int (Suc n))
    \<or> ?loop d (int (Suc n)) = Some (Inl RANGE_ERROR) \<and> last_day < d + int j" by blast
  have b: "d + int j + 1 = ?b" by simp
  from loop_step [OF assms(1,2) pos(1,2) assms(3)] j(1)
  have "?loop (d + int j) (int (Suc n)) = ?loop ?b (int n)
    \<or> ?loop (d + int j) (int (Suc n)) = Some (Inl RANGE_ERROR) \<and> last_day < ?b"
    unfolding b by simp
  with skip e(1) le have loop: "?loop d (int (Suc n)) = Some (Inr (Some (cursor_on r e)))
      \<or> ?loop d (int (Suc n)) = Some (Inl RANGE_ERROR) \<and> last_day < e" by force
  have "business_days_between cal d e = insert ?b (business_days_between cal ?b e)"
  proof -
    have "\<not> business_date cal k" if "d < k" "k < ?b" for k
      using j(2) [of "nat (k - d - 1)"] that by simp
    then show ?thesis using j(1) le by (force simp: business_days_between_def)
  qed
  moreover have "?b \<notin> business_days_between cal ?b e" by (simp add: business_days_between_def)
  ultimately have "card (business_days_between cal d e) = Suc n" using e(2) by simp
  moreover have "d < e \<and> business_date cal e" using e(3) j(1) le by (simp split: if_splits)
  ultimately show ?case using loop by (intro exI [of _ e]) simp
qed

lemma cursor_to_instant:
  assumes "zone_ok off" "time_of_day r" "first_day \<le> d"
  shows "civil_to_instant (\<lambda>_. off) (Some (cursor_on r d)) = Inr (d * day_ms + r - off)
    \<or> civil_to_instant (\<lambda>_. off) (Some (cursor_on r d)) = Inl RANGE_ERROR \<and> last_day < d"
proof -
  have ms: "ms_of_civil (cursor_on r d) = d * day_ms + r"
    by (simp add: cursor_on_def ms_of_civil_of_ms cursor_seconds [OF assms(2)])
  have late: "late (d * day_ms + r)" "late (d * day_ms + r + off)"
  proof -
    have "- day_ms < off" "0 \<le> r" using assms(1,2) by (auto simp: zone_ok_def time_of_day_def)
    with day_ms_pos(1) have "d * day_ms - day_ms \<le> d * day_ms + r" "d * day_ms - day_ms \<le> d * day_ms + r + off" by linarith+
    with late_day [OF assms(3)] show "late (d * day_ms + r)" "late (d * day_ms + r + off)" by blast+
  qed
  have year: "100 \<le> cv_year (cursor_on r d)" using late_year [OF late(1)] by (simp add: cursor_on_def)
  have room: "d \<le> last_day \<Longrightarrow> roomy off (d * day_ms + r)"
    using roomy_day [OF assms(1,3)] assms(2) by (simp add: time_of_day_def)
  from assms(1) have off: "1000 dvd off" by (simp add: zone_ok_def)
  from civil_to_instant_constant [OF off year] late
  have "civil_to_instant (\<lambda>_. off) (Some (cursor_on r d)) = Inr (d * day_ms + r - off)
    \<or> civil_to_instant (\<lambda>_. off) (Some (cursor_on r d)) = Inl RANGE_ERROR \<and> \<not> roomy off (d * day_ms + r)"
    unfolding ms by blast
  with room show ?thesis by (meson not_le)
qed

text \<open>
  C22. \<open>addBusinessDays\<close> returns. In a zone with a constant offset of whole seconds and less than a day, for a valid
  start from the year 101 on and a positive number of business days, and whatever the holidays are (unless one is
  the key of a date out of range), the loop ends. The result is the start's time of day, without its
  milliseconds, some days later, on a business day, with exactly the requested number of business days passed;
  only when that day is one of the last two that \<open>Date\<close> can represent, or lies beyond, it may be a
  \<open>RangeError\<close> instead.
\<close>

theorem add_business_days_returns:
  assumes "1000 dvd off" "\<bar>off\<bar> < day_ms" "0 < n" "non_blank (bc_version cal)" "non_blank (bc_time_zone cal)"
    "date_ms started_at = Some start" "time_clip start \<noteq> None" "ends_with started_at ''Z''"
    "day_from_year 101 \<le> (start + off) div day_ms" "''0NaN-NaN-NaN'' \<notin> set (bc_holidays cal)"
  shows "\<exists>k. 0 < k \<and> business_date cal ((start + off) div day_ms + k)
    \<and> card (business_days_between cal ((start + off) div day_ms) ((start + off) div day_ms + k)) = n
    \<and> (add_business_days (\<lambda>_. off) started_at (of_nat n) cal =
          Some (Inr (iso_string (start - start mod 1000 + k * day_ms)))
       \<or> add_business_days (\<lambda>_. off) started_at (of_nat n) cal = Some (Inl RANGE_ERROR)
         \<and> 99999998 < (start + off) div day_ms + k)"
proof -
  let ?d = "(start + off) div day_ms"
  have zone: "zone_ok off" using assms(1,2) by (simp add: zone_ok_def)
  have first: "first_day \<le> ?d" using assms(9) by (simp add: first_day_def)
  obtain r where r: "time_of_day r" "civil_of_ms (start + off) = cursor_on r ?d"
    "whole_seconds (start + off) = ?d * day_ms + r" by (rule cursor_of_ms)
  have key: "range_key \<notin> set (bc_holidays cal)" using assms(10) by (simp add: range_key_def)
  obtain e where e: "business_loop (\<lambda>_. off) cal (Some (cursor_on r ?d)) (int n) = Some (Inr (Some (cursor_on r e)))
      \<or> business_loop (\<lambda>_. off) cal (Some (cursor_on r ?d)) (int n) = Some (Inl RANGE_ERROR) \<and> last_day < e"
    "card (business_days_between cal ?d e) = n" "?d < e" "business_date cal e"
    using loop_returns [OF zone r(1) key first, of n] assms(3) by auto
  have "late (start + off)" using first by (simp add: late_def first_day_eq)
  then have parts: "civil_parts (\<lambda>_. off) start = Inr (cursor_on r ?d)"
    using assms(7) by (simp add: civil_parts_late r(2))
  have "whole_seconds (start + off) = start - start mod 1000 + off"
    using assms(1) by (auto simp: whole_seconds_def elim!: dvdE)
  then have instant: "e * day_ms + r - off = start - start mod 1000 + (e - ?d) * day_ms"
    using r(3) by (simp add: algebra_simps)
  have "first_day \<le> e" using first e(3) by simp
  from cursor_to_instant [OF zone r(1) this]
  have to_instant: "civil_to_instant (\<lambda>_. off) (Some (cursor_on r e)) = Inr (start - start mod 1000 + (e - ?d) * day_ms)
      \<or> civil_to_instant (\<lambda>_. off) (Some (cursor_on r e)) = Inl RANGE_ERROR \<and> last_day < e"
    unfolding instant .
  have "is_integer (of_nat n)" using is_integer_of_int [of "int n"] by simp
  then have run: "add_business_days (\<lambda>_. off) started_at (of_nat n) cal =
      map_option (\<lambda>x. bindE x (\<lambda>cursor. bindE (civil_to_instant (\<lambda>_. off) cursor) (\<lambda>t. Inr (iso_string t))))
        (business_loop (\<lambda>_. off) cal (Some (cursor_on r ?d)) (int n))"
    using assms(3-6,8) parts by (simp add: add_business_days_def)
  have "add_business_days (\<lambda>_. off) started_at (of_nat n) cal =
      Some (Inr (iso_string (start - start mod 1000 + (e - ?d) * day_ms)))
    \<or> add_business_days (\<lambda>_. off) started_at (of_nat n) cal = Some (Inl RANGE_ERROR) \<and> last_day < e"
    unfolding run using e(1) to_instant by auto
  with e(2-4) show ?thesis by (intro exI [of _ "e - ?d"]) (simp add: last_day_def)
qed

definition sample_calendar :: business_calendar where
  "sample_calendar =
     \<lparr>bc_version = ''v1'', bc_time_zone = ''America/Sao_Paulo'', bc_holidays = [''2026-01-01'', ''2026-01-02'']\<rparr>"

theorem add_business_days_returns_witness:
  "\<exists>r. add_business_days (\<lambda>_. -10800000) ''2025-12-31T12:00:00.500Z'' (of_nat 2) sample_calendar = Some r"
proof -
  have start: "date_ms ''2025-12-31T12:00:00.500Z'' = Some 1767182400500" by code_simp
  have cal: "non_blank (bc_version sample_calendar)" "non_blank (bc_time_zone sample_calendar)"
    "ends_with ''2025-12-31T12:00:00.500Z'' ''Z''" "''0NaN-NaN-NaN'' \<notin> set (bc_holidays sample_calendar)"
    by (simp_all add: sample_calendar_def non_blank_def js_space_def ends_with_def)
  from add_business_days_returns [OF _ _ _ cal(1,2) start _ cal(3) _ cal(4), of "-10800000" 2]
  show ?thesis by (auto simp: day_ms_def time_clip_def day_from_year_def)
qed

end
