(* ===== verification/Agent_Activity.thy ===== *)
theory Agent_Activity
  imports Iso_Date Json
begin

text \<open>
  The execution ledger of agents, \<open>domains/agent-activity/src\<close>: data (\<open>contract.ts\<close>), time
  (\<open>clock.ts\<close>), the revisions (\<open>apply.ts\<close>), the projections (\<open>queries.ts\<close>) and the MCP outcome map
  (\<open>mcp-map.ts\<close>). The zod schemas that turn raw input into \<open>ParsedStart\<close>, \<open>ParsedReport\<close>
  and \<open>ParsedHeartbeat\<close> are a package: the operations start from parsed values. A thrown
  \<open>LedgerError\<close> is \<open>Inl\<close> of its code. \<open>undefined\<close> and \<open>null\<close> differ here: a field that may be either is an
  option of an option, \<open>None\<close> being \<open>undefined\<close>.
\<close>

section \<open>Data\<close>

text \<open>The codes of \<open>LedgerError\<close>, and the \<open>RangeError\<close> that \<open>toISOString\<close> throws on an invalid date.\<close>

datatype ledger_error = Invalid_Input | Missing_Provenance | Sensitive_Field | Not_Found | Range_Error

datatype execution_status = RUNNING | DONE | PARTIAL | BLOCKED | FAILED | UNKNOWN_STATUS

datatype freshness = Fresh | Stale | Unknown_Freshness | Error_Freshness

datatype ledger_actor_kind = AgentActor | FounderActor | SystemActor

datatype revision_action = Started | Reported | Heartbeat | Reconciled | Revised

datatype mcp_outcome = Completed | Partial_Outcome | Failed_Outcome | Blocked_Outcome

record aa_source =
  as_system :: string
  as_kind :: string
  as_locator :: string
  as_label :: "string option"

record aa_actor =
  aa_kind :: ledger_actor_kind
  aa_id :: string
  aa_display_name :: "string option"

record aa_provenance =
  ap_source :: aa_source
  ap_observed_at :: string
  ap_freshness_status :: freshness
  ap_confidence :: "rat option"

record vcs_refs =
  vr_branch :: "string option"
  vr_commit :: "string option"
  vr_pr :: "string option"
  vr_issues :: "string list"

record vcs_refs_patch =
  vp_branch :: "string option option"
  vp_commit :: "string option option"
  vp_pr :: "string option option"
  vp_issues :: "string list option"

record context_consulted =
  ct_version :: "string option"
  ct_directive_ids :: "string list"

record context_patch =
  cp_version :: "string option option"
  cp_directive_ids :: "string list option"

record founder_approval =
  fa_by :: string
  fa_at :: string

record agent_ref =
  ag_id :: string
  ag_provider :: string

record execution_session =
  es_id :: string
  es_correlation_id :: string
  es_revision :: nat
  es_agent :: agent_ref
  es_repo :: string
  es_goal :: string
  es_campaign :: "string option"
  es_started_at :: string
  es_finished_at :: "string option"
  es_last_heartbeat_at :: "string option"
  es_status :: execution_status
  es_needs_reconciliation :: bool
  es_refs :: vcs_refs
  es_summary :: string
  es_evidence :: "string list"
  es_blockers :: "string list"
  es_residual_work :: "string list"
  es_context :: context_consulted
  es_actor :: aa_actor
  es_approval :: "founder_approval option"
  es_source :: aa_source
  es_observed_at :: string
  es_freshness_status :: freshness
  es_confidence :: "rat option"

record execution_revision =
  rv_revision :: nat
  rv_recorded_at :: string
  rv_actor :: aa_actor
  rv_action :: revision_action
  rv_snapshot :: execution_session
  rv_note :: "string option"

record ledger_record =
  lr_correlation_id :: string
  lr_head :: execution_session
  lr_revisions :: "execution_revision list"

record parsed_start =
  ps_correlation_id :: string
  ps_agent :: agent_ref
  ps_repo :: string
  ps_goal :: string
  ps_campaign :: "string option"
  ps_started_at :: "string option"
  ps_refs :: vcs_refs
  ps_summary :: string
  ps_evidence :: "string list"
  ps_blockers :: "string list"
  ps_residual_work :: "string list"
  ps_context :: context_consulted
  ps_actor :: aa_actor
  ps_approval :: "founder_approval option"
  ps_provenance :: aa_provenance

record parsed_report =
  pr_correlation_id :: string
  pr_status :: execution_status
  pr_agent :: "agent_ref option"
  pr_repo :: "string option"
  pr_goal :: "string option"
  pr_campaign :: "string option option"
  pr_started_at :: "string option"
  pr_finished_at :: "string option option"
  pr_refs :: "vcs_refs_patch option"
  pr_summary :: string
  pr_evidence :: "string list option"
  pr_blockers :: "string list option"
  pr_residual_work :: "string list option"
  pr_context :: "context_patch option"
  pr_actor :: aa_actor
  pr_approval :: "founder_approval option"
  pr_provenance :: aa_provenance

record parsed_heartbeat =
  ph_correlation_id :: string
  ph_actor :: aa_actor
  ph_provenance :: aa_provenance

section \<open>Time\<close>

text \<open>\<open>parseUtc\<close>: the pattern, then the instant; the pattern admits dates that do not exist.\<close>

definition parse_utc :: "string \<Rightarrow> ledger_error + int" where
  "parse_utc ts =
     require (is_utc_datetime ts) Invalid_Input (
     require_some (date_ms ts) Invalid_Input (\<lambda>ms. Inr ms))"

definition is_utc_date :: "string \<Rightarrow> bool" where
  "is_utc_date s \<longleftrightarrow> length s = 10 \<and> s ! 4 = CHR ''-'' \<and> s ! 7 = CHR ''-''
     \<and> list_all is_digit (take 4 s) \<and> list_all is_digit (take 2 (drop 5 s)) \<and> list_all is_digit (drop 8 s)"

definition utc_day_window :: "string \<Rightarrow> ledger_error + string \<times> string" where
  "utc_day_window date =
     require (is_utc_date date) Invalid_Input (
     let from_iso = date @ ''T00:00:00.000Z'' in
     case parse_utc from_iso of
       Inl e \<Rightarrow> Inl e
     | Inr start \<Rightarrow> Inr (from_iso, to_iso (start + 24 * 60 * 60 * 1000)))"

section \<open>Revisions\<close>

definition session_id_from_correlation :: "string \<Rightarrow> string" where
  "session_id_from_correlation k = ''cc:agent-activity:'' @ map (\<lambda>c. if c = CHR '':'' then CHR ''-'' else c) k"

definition empty_refs :: vcs_refs where
  "empty_refs = \<lparr>vr_branch = None, vr_commit = None, vr_pr = None, vr_issues = []\<rparr>"

definition empty_context :: context_consulted where
  "empty_context = \<lparr>ct_version = None, ct_directive_ids = []\<rparr>"

definition append_revision ::
  "ledger_record option \<Rightarrow> execution_session \<Rightarrow> revision_action \<Rightarrow> aa_actor \<Rightarrow> string \<Rightarrow> string option \<Rightarrow> ledger_record" where
  "append_revision existing snapshot action actor recorded_at note =
     (let revision = (case existing of None \<Rightarrow> 0 | Some r \<Rightarrow> es_revision (lr_head r)) + 1;
          with_rev = snapshot\<lparr>es_revision := revision\<rparr>;
          entry = \<lparr>rv_revision = revision, rv_recorded_at = recorded_at, rv_actor = actor,
                   rv_action = action, rv_snapshot = with_rev, rv_note = note\<rparr>
      in \<lparr>lr_correlation_id = es_correlation_id with_rev, lr_head = with_rev,
          lr_revisions = (case existing of None \<Rightarrow> [] | Some r \<Rightarrow> lr_revisions r) @ [entry]\<rparr>)"

text \<open>The approval to keep and whether a claimed one was dropped.\<close>

definition resolve_founder_approval ::
  "aa_actor \<Rightarrow> founder_approval option \<Rightarrow> founder_approval option \<Rightarrow> ledger_error + founder_approval option \<times> bool" where
  "resolve_founder_approval actor claimed previous =
     (if aa_kind actor = FounderActor then
        (case claimed of
           Some a \<Rightarrow> require (fa_by a = aa_id actor) Invalid_Input (Inr (Some a, False))
         | None \<Rightarrow> Inr (previous, False))
      else Inr (previous, claimed \<noteq> None))"

definition stripped_note :: "bool \<Rightarrow> string option" where
  "stripped_note stripped =
     (if stripped then Some ''agent-attributed founder_approval dropped; record stays agent-reported'' else None)"

definition resolve_finished_at ::
  "execution_status \<Rightarrow> string option option \<Rightarrow> string \<Rightarrow> execution_session option \<Rightarrow> string option" where
  "resolve_finished_at status requested recorded_at base =
     (if status = RUNNING then None
      else if status = UNKNOWN_STATUS then
        (case requested of None \<Rightarrow> (case base of None \<Rightarrow> None | Some b \<Rightarrow> es_finished_at b) | Some r \<Rightarrow> r)
      else (case requested of
          Some None \<Rightarrow> Some recorded_at
        | None \<Rightarrow> Some (or_else (case base of None \<Rightarrow> None | Some b \<Rightarrow> es_finished_at b) recorded_at)
        | Some (Some t) \<Rightarrow> Some t))"

definition merge_refs :: "vcs_refs option \<Rightarrow> vcs_refs_patch option \<Rightarrow> vcs_refs" where
  "merge_refs base patch =
     (let start = or_else base empty_refs in
      case patch of
        None \<Rightarrow> start
      | Some p \<Rightarrow>
          \<lparr>vr_branch = or_else (vp_branch p) (vr_branch start), vr_commit = or_else (vp_commit p) (vr_commit start),
           vr_pr = or_else (vp_pr p) (vr_pr start), vr_issues = or_else (vp_issues p) (vr_issues start)\<rparr>)"

definition merge_context :: "context_consulted option \<Rightarrow> context_patch option \<Rightarrow> context_consulted" where
  "merge_context base patch =
     (let start = or_else base empty_context in
      case patch of
        None \<Rightarrow> start
      | Some p \<Rightarrow>
          \<lparr>ct_version = or_else (cp_version p) (ct_version start),
           ct_directive_ids = or_else (cp_directive_ids p) (ct_directive_ids start)\<rparr>)"

text \<open>The approval of the session a call continues.\<close>

definition prior_approval :: "execution_session option \<Rightarrow> founder_approval option" where
  "prior_approval base = (case base of None \<Rightarrow> None | Some h \<Rightarrow> es_approval h)"

definition session_id :: "execution_session option \<Rightarrow> string \<Rightarrow> string" where
  "session_id base k = (case base of None \<Rightarrow> session_id_from_correlation k | Some h \<Rightarrow> es_id h)"

definition start_snapshot :: "execution_session option \<Rightarrow> parsed_start \<Rightarrow> string \<Rightarrow> founder_approval option \<Rightarrow> execution_session" where
  "start_snapshot base input recorded_at approval =
     (let started_at = or_else (ps_started_at input) recorded_at; p = ps_provenance input in
      \<lparr>es_id = session_id base (ps_correlation_id input),
       es_correlation_id = ps_correlation_id input, es_revision = 0, es_agent = ps_agent input,
       es_repo = ps_repo input, es_goal = ps_goal input, es_campaign = ps_campaign input,
       es_started_at = (case base of None \<Rightarrow> started_at | Some h \<Rightarrow> es_started_at h),
       es_finished_at = None, es_last_heartbeat_at = Some started_at, es_status = RUNNING,
       es_needs_reconciliation = False, es_refs = ps_refs input, es_summary = ps_summary input,
       es_evidence = ps_evidence input, es_blockers = ps_blockers input,
       es_residual_work = ps_residual_work input, es_context = ps_context input,
       es_actor = ps_actor input, es_approval = approval, es_source = ap_source p,
       es_observed_at = ap_observed_at p, es_freshness_status = ap_freshness_status p,
       es_confidence = ap_confidence p\<rparr>)"

definition apply_start :: "ledger_record option \<Rightarrow> parsed_start \<Rightarrow> int \<Rightarrow> ledger_error + ledger_record \<times> bool" where
  "apply_start existing input now =
     (let head = map_option lr_head existing in
      bindE (resolve_founder_approval (ps_actor input) (ps_approval input) (prior_approval head)) (\<lambda>(approval, stripped).
      Inr (append_revision existing (start_snapshot head input (to_iso now) approval)
             (if existing = None then Started else Revised) (ps_actor input) (to_iso now) (stripped_note stripped),
           stripped)))"

text \<open>A string that \<open>!s\<close> does not reject.\<close>

definition truthy :: "string option \<Rightarrow> string option" where
  "truthy s = (if s = Some [] then None else s)"

definition report_snapshot ::
  "execution_session option \<Rightarrow> parsed_report \<Rightarrow> string \<Rightarrow> founder_approval option \<Rightarrow> agent_ref \<Rightarrow> string \<Rightarrow> string \<Rightarrow> execution_session" where
  "report_snapshot base input recorded_at approval agent repo goal =
     (let p = pr_provenance input in
      \<lparr>es_id = session_id base (pr_correlation_id input),
       es_correlation_id = pr_correlation_id input, es_revision = 0, es_agent = agent,
       es_repo = repo, es_goal = goal,
       es_campaign = (case pr_campaign input of Some c \<Rightarrow> c
                      | None \<Rightarrow> (case base of None \<Rightarrow> None | Some h \<Rightarrow> es_campaign h)),
       es_started_at = or_else (or_option (pr_started_at input) (map_option es_started_at base)) (ap_observed_at p),
       es_finished_at = resolve_finished_at (pr_status input) (pr_finished_at input) recorded_at base,
       es_last_heartbeat_at = Some (ap_observed_at p), es_status = pr_status input,
       es_needs_reconciliation = (pr_status input = UNKNOWN_STATUS),
       es_refs = merge_refs (map_option es_refs base) (pr_refs input), es_summary = pr_summary input,
       es_evidence = or_else (or_option (pr_evidence input) (map_option es_evidence base)) [],
       es_blockers = or_else (or_option (pr_blockers input) (map_option es_blockers base)) [],
       es_residual_work = or_else (or_option (pr_residual_work input) (map_option es_residual_work base)) [],
       es_context = merge_context (map_option es_context base) (pr_context input),
       es_actor = pr_actor input, es_approval = approval, es_source = ap_source p,
       es_observed_at = ap_observed_at p, es_freshness_status = ap_freshness_status p,
       es_confidence = or_option (ap_confidence p) (case base of None \<Rightarrow> None | Some h \<Rightarrow> es_confidence h)\<rparr>)"

definition apply_report :: "ledger_record option \<Rightarrow> parsed_report \<Rightarrow> int \<Rightarrow> ledger_error + ledger_record \<times> bool" where
  "apply_report existing input now =
     (let base = map_option lr_head existing in
      bindE (resolve_founder_approval (pr_actor input) (pr_approval input) (prior_approval base)) (\<lambda>(approval, stripped).
      require_some (or_option (pr_agent input) (map_option es_agent base)) Invalid_Input (\<lambda>agent.
      require_some (truthy (or_option (pr_repo input) (map_option es_repo base))) Invalid_Input (\<lambda>repo.
      require_some (truthy (or_option (pr_goal input) (map_option es_goal base))) Invalid_Input (\<lambda>goal.
      Inr (append_revision existing (report_snapshot base input (to_iso now) approval agent repo goal)
             Reported (pr_actor input) (to_iso now) (stripped_note stripped), stripped))))))"

definition heartbeat_snapshot :: "execution_session \<Rightarrow> parsed_heartbeat \<Rightarrow> execution_session" where
  "heartbeat_snapshot head input =
     (let p = ph_provenance input in
      head\<lparr>es_revision := 0, es_last_heartbeat_at := Some (ap_observed_at p),
           es_source := ap_source p, es_observed_at := ap_observed_at p,
           es_freshness_status := ap_freshness_status p, es_actor := ph_actor input,
           es_needs_reconciliation := False,
           es_confidence := or_option (ap_confidence p) (es_confidence head)\<rparr>)"

definition apply_heartbeat :: "ledger_record \<Rightarrow> parsed_heartbeat \<Rightarrow> int \<Rightarrow> ledger_error + ledger_record" where
  "apply_heartbeat existing input now =
     require (es_status (lr_head existing) = RUNNING) Invalid_Input (
     Inr (append_revision (Some existing) (heartbeat_snapshot (lr_head existing) input) Heartbeat
            (ph_actor input) (to_iso now) None))"

definition system_actor :: aa_actor where
  "system_actor = \<lparr>aa_kind = SystemActor, aa_id = ''system:agent-activity-reconciler'', aa_display_name = None\<rparr>"

text \<open>The revision an idle session gets. (The arrow of the note is spelled in ASCII.)\<close>

definition reconciled_snapshot :: "execution_session \<Rightarrow> int \<Rightarrow> execution_session" where
  "reconciled_snapshot head now =
     head\<lparr>es_revision := 0, es_status := UNKNOWN_STATUS, es_needs_reconciliation := True,
          es_finished_at := None, es_observed_at := to_iso now, es_freshness_status := Stale,
          es_source := \<lparr>as_system = ''governance'', as_kind = ''reconciliation'',
                        as_locator = es_correlation_id head, as_label = None\<rparr>,
          es_actor := system_actor,
          es_blockers := unique_strings (es_blockers head @
             [''stale_running: idle threshold exceeded; needs reconciliation''])\<rparr>"

definition apply_reconcile :: "int \<Rightarrow> int \<Rightarrow> ledger_record \<Rightarrow> ledger_error + ledger_record option" where
  "apply_reconcile now idle_ms existing =
     (let head = lr_head existing in
      if es_status head \<noteq> RUNNING then Inr None
      else bindE (parse_utc (or_else (es_last_heartbeat_at head) (es_started_at head))) (\<lambda>last.
        if now - last < idle_ms then Inr None
        else Inr (Some (append_revision (Some existing) (reconciled_snapshot head now) Reconciled
               system_actor (to_iso now)
               (Some ''RUNNING idle past threshold -> UNKNOWN (never DONE)'')))))"

section \<open>Projections\<close>

text \<open>A timeline item is the session without its identifier, heartbeat and schema.\<close>

record timeline_item =
  ti_correlation_id :: string
  ti_agent :: agent_ref
  ti_repo :: string
  ti_goal :: string
  ti_campaign :: "string option"
  ti_started_at :: string
  ti_finished_at :: "string option"
  ti_status :: execution_status
  ti_needs_reconciliation :: bool
  ti_refs :: vcs_refs
  ti_summary :: string
  ti_evidence :: "string list"
  ti_blockers :: "string list"
  ti_residual_work :: "string list"
  ti_context :: context_consulted
  ti_actor :: aa_actor
  ti_approval :: "founder_approval option"
  ti_revision :: nat
  ti_source :: aa_source
  ti_observed_at :: string
  ti_freshness_status :: freshness
  ti_confidence :: "rat option"

definition to_timeline_item :: "execution_session \<Rightarrow> timeline_item" where
  "to_timeline_item s =
     \<lparr>ti_correlation_id = es_correlation_id s, ti_agent = es_agent s, ti_repo = es_repo s,
      ti_goal = es_goal s, ti_campaign = es_campaign s, ti_started_at = es_started_at s,
      ti_finished_at = es_finished_at s, ti_status = es_status s,
      ti_needs_reconciliation = es_needs_reconciliation s, ti_refs = es_refs s,
      ti_summary = es_summary s, ti_evidence = es_evidence s, ti_blockers = es_blockers s,
      ti_residual_work = es_residual_work s, ti_context = es_context s, ti_actor = es_actor s,
      ti_approval = es_approval s, ti_revision = es_revision s, ti_source = es_source s,
      ti_observed_at = es_observed_at s, ti_freshness_status = es_freshness_status s,
      ti_confidence = es_confidence s\<rparr>"

definition overlaps_window :: "string \<Rightarrow> string \<Rightarrow> execution_session \<Rightarrow> ledger_error + bool" where
  "overlaps_window from_ts to_ts s =
     bindE (parse_utc from_ts) (\<lambda>from_ms.
     bindE (parse_utc to_ts) (\<lambda>to_ms.
     bindE (parse_utc (es_started_at s)) (\<lambda>start.
     bindE (parse_utc (or_else (or_option (es_finished_at s) (es_last_heartbeat_at s)) (es_observed_at s))) (\<lambda>end_ms.
     Inr (start < to_ms \<and> from_ms \<le> end_ms)))))"

definition activity_instant :: "execution_session \<Rightarrow> ledger_error + int" where
  "activity_instant s = parse_utc (es_observed_at s)"

section \<open>MCP outcomes\<close>

fun mcp_outcome_to_status :: "mcp_outcome \<Rightarrow> execution_status" where
  "mcp_outcome_to_status Completed = DONE"
| "mcp_outcome_to_status Partial_Outcome = PARTIAL"
| "mcp_outcome_to_status Failed_Outcome = FAILED"
| "mcp_outcome_to_status Blocked_Outcome = BLOCKED"

fun status_to_mcp_outcome :: "execution_status \<Rightarrow> mcp_outcome option" where
  "status_to_mcp_outcome DONE = Some Completed"
| "status_to_mcp_outcome PARTIAL = Some Partial_Outcome"
| "status_to_mcp_outcome FAILED = Some Failed_Outcome"
| "status_to_mcp_outcome BLOCKED = Some Blocked_Outcome"
| "status_to_mcp_outcome RUNNING = None"
| "status_to_mcp_outcome UNKNOWN_STATUS = None"

end
