(* ===== verification/Agent_Ledger.thy ===== *)
theory Agent_Ledger
  imports Agent_Activity "HOL-Library.Product_Lexorder"
begin

text \<open>
  The ledger service, \<open>domains/agent-activity/src/ledger.ts\<close>, over the repository of \<open>store.ts\<close>: a
  \<open>Map\<close> by correlation id in insertion order. \<open>localeCompare\<close> is the comparison of collation keys;
  \<open>collate\<close> gives the key of a string. A failing operation keeps what it had already written, so an
  operation returns its result and the records beside it. The clock is read once per operation.
\<close>

section \<open>The repository\<close>

type_synonym ledger_store = "ledger_record list"

definition store_get :: "ledger_store \<Rightarrow> string \<Rightarrow> ledger_record option" where
  "store_get st k = List.find (\<lambda>r. lr_correlation_id r = k) st"

definition store_put :: "ledger_record \<Rightarrow> ledger_store \<Rightarrow> ledger_store" where
  "store_put r st =
     (if store_get st (lr_correlation_id r) = None then st @ [r]
      else map (\<lambda>q. if lr_correlation_id q = lr_correlation_id r then r else q) st)"

definition store_list :: "(string \<Rightarrow> string) \<Rightarrow> ledger_store \<Rightarrow> ledger_record list" where
  "store_list collate st = sort_key (\<lambda>r. collate (lr_correlation_id r)) st"

section \<open>Sweeps\<close>

text \<open>
  Writing back the updates of a walk over a listing, as the reconciler does; it stops at the first
  error and keeps what it wrote.
\<close>

fun sweep :: "('r \<Rightarrow> 's \<Rightarrow> 's) \<Rightarrow> ('r \<Rightarrow> 'e + 'r option) \<Rightarrow> 'r list \<Rightarrow> 's \<Rightarrow> ('e + unit) \<times> 's" where
  "sweep put f [] s = (Inr (), s)"
| "sweep put f (r # rs) s =
     (case f r of
        Inl e \<Rightarrow> (Inl e, s)
      | Inr None \<Rightarrow> sweep put f rs s
      | Inr (Some r') \<Rightarrow> sweep put f rs (put r' s))"

definition swept :: "('r \<Rightarrow> 'e + 'r option) \<Rightarrow> 'r \<Rightarrow> 'r" where
  "swept f r = (case f r of Inr (Some r') \<Rightarrow> r' | _ \<Rightarrow> r)"

section \<open>What a client of the repository relies on\<close>

text \<open>
  The contract of \<open>AgentActivityRepository\<close>: a put record is read back under its own key and no
  other, and a listing has every record once. \<open>ok\<close> is what the repository keeps of its own state.
\<close>

locale repository =
  fixes ok :: "'s \<Rightarrow> bool"
    and key :: "'r \<Rightarrow> 'k"
    and fetch :: "'s \<Rightarrow> 'k \<Rightarrow> 'r option"
    and put :: "'r \<Rightarrow> 's \<Rightarrow> 's"
    and listing :: "'s \<Rightarrow> 'r list"
  assumes put_ok: "ok s \<Longrightarrow> ok (put r s)"
    and fetch_put: "ok s \<Longrightarrow> fetch (put r s) k = (if k = key r then Some r else fetch s k)"
    and fetch_key: "ok s \<Longrightarrow> fetch s k = Some r \<Longrightarrow> key r = k"
    and listing_set: "ok s \<Longrightarrow> r \<in> set (listing s) \<longleftrightarrow> fetch s (key r) = Some r"
    and listing_distinct: "ok s \<Longrightarrow> distinct (map key (listing s))"
begin

lemma sweep_ok: "ok s \<Longrightarrow> ok (snd (sweep put f rs s))"
  by (induction rs arbitrary: s) (auto simp: put_ok split: sum.split option.split)

lemma sweep_fetch:
  assumes "ok s" "distinct (map key rs)" "\<And>r r'. f r = Inr (Some r') \<Longrightarrow> key r' = key r"
    "\<And>r. r \<in> set rs \<Longrightarrow> fetch s (key r) = Some r"
  shows "fetch (snd (sweep put f rs s)) k = fetch s k
    \<or> (\<exists>r r'. r \<in> set rs \<and> key r = k \<and> f r = Inr (Some r') \<and> fetch (snd (sweep put f rs s)) k = Some r')"
  using assms
proof (induction rs arbitrary: s)
  case (Cons r rs)
  show ?case
  proof (cases "f r")
    case (Inr u)
    show ?thesis
    proof (cases u)
      case None
      with Cons Inr show ?thesis by auto
    next
      case (Some r')
      with Inr have fr: "f r = Inr (Some r')" by simp
      then have kr: "key r' = key r" by (rule Cons.prems(3))
      have ok': "ok (put r' s)" using Cons.prems(1) by (rule put_ok)
      have ne: "key q \<noteq> key r" if "q \<in> set rs" for q
        using that Cons.prems(2) by (simp add: image_iff) metis
      have keep: "fetch (put r' s) (key q) = Some q" if "q \<in> set rs" for q
        using that ne kr Cons.prems(1,4) by (simp add: fetch_put)
      have d: "distinct (map key rs)" using Cons.prems(2) by simp
      from Cons.IH [OF ok' d Cons.prems(3) keep]
      show ?thesis
      proof
        assume eq: "fetch (snd (sweep put f rs (put r' s))) k = fetch (put r' s) k"
        show ?thesis
        proof (cases "k = key r'")
          case True
          with eq Cons.prems(1) fr kr Inr Some show ?thesis by (auto simp: fetch_put)
        next
          case False
          with eq Cons.prems(1) Inr Some show ?thesis by (simp add: fetch_put)
        qed
      next
        assume "\<exists>q r''. q \<in> set rs \<and> key q = k \<and> f q = Inr (Some r'') \<and>
          fetch (snd (sweep put f rs (put r' s))) k = Some r''"
        with Inr Some show ?thesis by auto
      qed
    qed
  qed simp
qed simp

lemma sweep_listing:
  assumes "ok s" "\<And>r r'. f r = Inr (Some r') \<Longrightarrow> key r' = key r"
  shows "fetch (snd (sweep put f (listing s) s)) k = fetch s k
    \<or> (\<exists>r r'. fetch s k = Some r \<and> f r = Inr (Some r') \<and> fetch (snd (sweep put f (listing s) s)) k = Some r')"
  using sweep_fetch [of s "listing s" f k] assms listing_distinct [OF assms(1)] listing_set [OF assms(1)]
  by blast

lemma sweep_complete:
  assumes "ok s" "distinct (map key rs)" "\<And>r r'. f r = Inr (Some r') \<Longrightarrow> key r' = key r"
    "\<And>r. r \<in> set rs \<Longrightarrow> fetch s (key r) = Some r" "fst (sweep put f rs s) = Inr ()" "r \<in> set rs"
  shows "is_ok (f r) \<and> fetch (snd (sweep put f rs s)) (key r) = Some (swept f r)"
  using assms
proof (induction rs arbitrary: s)
  case (Cons q rs)
  have ne: "key x \<noteq> key q" if "x \<in> set rs" for x
    using that Cons.prems(2) by (simp add: image_iff) metis
  have d: "distinct (map key rs)" using Cons.prems(2) by simp
  have other: "fetch (snd (sweep put f rs s')) (key q) = fetch s' (key q)"
    if "ok s'" "\<And>x. x \<in> set rs \<Longrightarrow> fetch s' (key x) = Some x" for s'
    using sweep_fetch [OF that(1) d Cons.prems(3) that(2), where k = "key q"] ne by blast
  show ?case
  proof (cases "f q")
    case (Inr u)
    let ?s = "case u of None \<Rightarrow> s | Some q' \<Rightarrow> put q' s"
    have step: "sweep put f (q # rs) s = sweep put f rs ?s" using Inr by (simp split: option.split)
    have ok': "ok ?s" using Cons.prems(1) by (simp add: put_ok split: option.split)
    have kq: "key q' = key q" if "u = Some q'" for q' using that Inr Cons.prems(3) by simp
    have keep: "fetch ?s (key x) = Some x" if "x \<in> set rs" for x
      using that ne [OF that] kq Cons.prems(1,4) by (cases u) (simp_all add: fetch_put)
    have "fetch ?s (key q) = Some (swept f q)"
      using Cons.prems(1,4) kq Inr by (cases u) (simp_all add: fetch_put swept_def)
    with other [OF ok' keep] have "fetch (snd (sweep put f rs ?s)) (key q) = Some (swept f q)" by simp
    moreover have "fst (sweep put f rs ?s) = Inr ()" using Cons.prems(5) step by simp
    note Cons.IH [OF ok' d Cons.prems(3) keep this]
    ultimately show ?thesis using step Inr Cons.prems(6) by auto
  qed (use Cons.prems(5) in simp)
qed simp

end

section \<open>The in-memory store keeps the contract\<close>

definition store_ok :: "ledger_store \<Rightarrow> bool" where
  "store_ok st \<longleftrightarrow> distinct (map lr_correlation_id st)"

lemma store_get_Some: "store_get st k = Some r \<Longrightarrow> r \<in> set st \<and> lr_correlation_id r = k"
  by (auto simp: store_get_def dest: find_Some_in)

lemma store_get_None: "store_get st k = None \<longleftrightarrow> k \<notin> lr_correlation_id ` set st"
  by (auto simp: store_get_def find_None_iff)

lemma store_get_in: "store_ok st \<Longrightarrow> r \<in> set st \<Longrightarrow> store_get st (lr_correlation_id r) = Some r"
  unfolding store_get_def store_ok_def by (rule find_distinct_key) auto

lemma store_put_ok: "store_ok st \<Longrightarrow> store_ok (store_put r st)"
proof -
  have "map lr_correlation_id (map (\<lambda>q. if lr_correlation_id q = lr_correlation_id r then r else q) st)
      = map lr_correlation_id st" by simp
  moreover assume "store_ok st"
  ultimately show ?thesis
    by (simp add: store_ok_def store_put_def store_get_None del: map_map)
qed

lemma store_get_put:
  "store_get (store_put r st) k = (if k = lr_correlation_id r then Some r else store_get st k)"
proof (cases "store_get st (lr_correlation_id r)")
  case None
  then show ?thesis by (auto simp: store_put_def store_get_def find_snoc split: option.split)
next
  case (Some q)
  then have "store_get (store_put r st) k
    = List.find (\<lambda>x. lr_correlation_id x = k)
        (map (\<lambda>q. if lr_correlation_id q = lr_correlation_id r then r else q) st)"
    by (simp add: store_put_def store_get_def)
  also have "\<dots> = map_option (\<lambda>q. if lr_correlation_id q = lr_correlation_id r then r else q) (store_get st k)"
    unfolding store_get_def by (rule find_map_key) simp
  also have "\<dots> = (if k = lr_correlation_id r then Some r else store_get st k)"
    using Some store_get_Some [of st k] by (cases "store_get st k") auto
  finally show ?thesis .
qed

lemma set_store_list [simp]: "set (store_list collate st) = set st"
  by (simp add: store_list_def)

lemma distinct_store_list: "store_ok st \<Longrightarrow> distinct (map lr_correlation_id (store_list collate st))"
  by (simp add: store_ok_def store_list_def distinct_map)

interpretation ledger_repo: repository store_ok lr_correlation_id store_get store_put "store_list collate"
  for collate
proof (unfold_locales)
  fix st r assume "store_ok st"
  then show "r \<in> set (store_list collate st) \<longleftrightarrow> store_get st (lr_correlation_id r) = Some r"
    using store_get_in [of st r] store_get_Some [of st "lr_correlation_id r" r] by auto
qed (auto simp: store_put_ok store_get_put distinct_store_list dest: store_get_Some)

section \<open>The operations\<close>

text \<open>A result, or an error, beside the records as they are afterwards.\<close>

type_synonym 'a ledger_op = "(ledger_error + 'a) \<times> ledger_store"

record ledger_config =
  lc_collate :: "string \<Rightarrow> string"
  lc_idle_ms :: int

definition persist_reconcile :: "ledger_config \<Rightarrow> int \<Rightarrow> ledger_store \<Rightarrow> unit ledger_op" where
  "persist_reconcile C now st =
     sweep store_put (apply_reconcile now (lc_idle_ms C)) (store_list (lc_collate C) st) st"

definition start_session :: "int \<Rightarrow> parsed_start \<Rightarrow> ledger_store \<Rightarrow> execution_session ledger_op" where
  "start_session now input st =
     (case apply_start (store_get st (ps_correlation_id input)) input now of
        Inl e \<Rightarrow> (Inl e, st)
      | Inr (r, stripped) \<Rightarrow> (Inr (lr_head r), store_put r st))"

definition report_result :: "int \<Rightarrow> parsed_report \<Rightarrow> ledger_store \<Rightarrow> execution_session ledger_op" where
  "report_result now input st =
     (case apply_report (store_get st (pr_correlation_id input)) input now of
        Inl e \<Rightarrow> (Inl e, st)
      | Inr (r, stripped) \<Rightarrow> (Inr (lr_head r), store_put r st))"

definition heartbeat :: "int \<Rightarrow> parsed_heartbeat \<Rightarrow> ledger_store \<Rightarrow> execution_session ledger_op" where
  "heartbeat now input st =
     (case store_get st (ph_correlation_id input) of
        None \<Rightarrow> (Inl Not_Found, st)
      | Some existing \<Rightarrow>
          (case apply_heartbeat existing input now of
             Inl e \<Rightarrow> (Inl e, st)
           | Inr r \<Rightarrow> (Inr (lr_head r), store_put r st)))"

text \<open>The operations that reconcile first, then read.\<close>

definition after_reconcile :: "ledger_config \<Rightarrow> int \<Rightarrow> ledger_store \<Rightarrow> (ledger_store \<Rightarrow> ledger_error + 'a) \<Rightarrow> 'a ledger_op" where
  "after_reconcile C now st k =
     (case persist_reconcile C now st of (r, st') \<Rightarrow> (bindE r (\<lambda>_. k st'), st'))"

definition reconcile_stale :: "ledger_config \<Rightarrow> int \<Rightarrow> ledger_store \<Rightarrow> execution_session list ledger_op" where
  "reconcile_stale C now st =
     after_reconcile C now st (\<lambda>st'.
       Inr (map lr_head (filter (\<lambda>r. es_needs_reconciliation (lr_head r) \<and> es_status (lr_head r) = UNKNOWN_STATUS)
              (store_list (lc_collate C) st'))))"

text \<open>\<open>filter\<close> with a predicate that may throw.\<close>

fun filterE :: "('a \<Rightarrow> 'e + bool) \<Rightarrow> 'a list \<Rightarrow> 'e + 'a list" where
  "filterE p [] = Inr []"
| "filterE p (x # xs) =
     bindE (p x) (\<lambda>b. bindE (filterE p xs) (\<lambda>ys. Inr (if b then x # ys else ys)))"

definition window_sessions :: "ledger_config \<Rightarrow> string \<Rightarrow> string \<Rightarrow> ledger_store \<Rightarrow> ledger_error + execution_session list" where
  "window_sessions C from_ts to_ts st =
     filterE (overlaps_window from_ts to_ts) (map lr_head (store_list (lc_collate C) st))"

text \<open>The parsed query: a UTC day, or a window whose start must lie before its end.\<close>

record timeline_query =
  tq_date :: "string option"
  tq_from :: "string option"
  tq_to :: "string option"

definition day_window :: "string \<Rightarrow> ledger_error + string \<times> string" where
  "day_window date =
     (let from_ts = date @ ''T00:00:00.000Z'' in
      case date_ms from_ts of
        None \<Rightarrow> Inl Range_Error
      | Some ms \<Rightarrow> Inr (from_ts, to_iso (ms + 24 * 60 * 60 * 1000)))"

definition parse_timeline_query :: "timeline_query \<Rightarrow> ledger_error + string \<times> string" where
  "parse_timeline_query q =
     (case tq_date q of
        Some d \<Rightarrow> day_window d
      | None \<Rightarrow>
          (case (tq_from q, tq_to q) of
             (Some f, Some t) \<Rightarrow>
               (case (date_ms f, date_ms t) of
                  (Some a, Some b) \<Rightarrow> require (a < b) Invalid_Input (Inr (f, t))
                | _ \<Rightarrow> Inr (f, t))
           | _ \<Rightarrow> Inl Invalid_Input))"

definition timeline :: "ledger_config \<Rightarrow> int \<Rightarrow> timeline_query \<Rightarrow> ledger_store \<Rightarrow> timeline_item list ledger_op" where
  "timeline C now q st =
     after_reconcile C now st (\<lambda>st'.
       bindE (parse_timeline_query q) (\<lambda>(f, t).
       bindE (window_sessions C f t st') (\<lambda>sessions.
       Inr (map to_timeline_item
             (sort_key (\<lambda>s. (lc_collate C (es_started_at s), lc_collate C (es_correlation_id s))) sessions)))))"

text \<open>\<open>compareActivity(current, best) > 0\<close>, on sessions whose instants were read.\<close>

definition later_activity :: "ledger_config \<Rightarrow> int \<times> execution_session \<Rightarrow> int \<times> execution_session \<Rightarrow> bool" where
  "later_activity C a b \<longleftrightarrow>
     fst b < fst a \<or> (fst a = fst b \<and> lc_collate C (es_correlation_id (snd b)) < lc_collate C (es_correlation_id (snd a)))"

fun latest :: "ledger_config \<Rightarrow> int \<times> execution_session \<Rightarrow> (int \<times> execution_session) list \<Rightarrow> int \<times> execution_session" where
  "latest C best [] = best"
| "latest C best (x # xs) = latest C (if later_activity C x best then x else best) xs"

definition with_instant :: "execution_session \<Rightarrow> ledger_error + int \<times> execution_session" where
  "with_instant s = bindE (activity_instant s) (\<lambda>t. Inr (t, s))"

record last_activity_query =
  la_as_of :: "string option"
  la_window :: "timeline_query"

definition last_activity :: "ledger_config \<Rightarrow> int \<Rightarrow> last_activity_query \<Rightarrow> ledger_store \<Rightarrow> timeline_item option ledger_op" where
  "last_activity C now q st =
     after_reconcile C now st (\<lambda>st'.
       bindE (case tq_date (la_window q) of
                Some d \<Rightarrow> bindE (day_window d) (\<lambda>(f, t). Inr (Some (f, t)))
              | None \<Rightarrow> Inr (case (tq_from (la_window q), tq_to (la_window q)) of
                               (Some f, Some t) \<Rightarrow> Some (f, t) | _ \<Rightarrow> None)) (\<lambda>window.
       bindE (case window of
                Some (f, t) \<Rightarrow> window_sessions C f t st'
              | None \<Rightarrow> Inr (map lr_head (store_list (lc_collate C) st'))) (\<lambda>sessions.
       bindE (mapE with_instant sessions) (\<lambda>timed.
       let as_of = (case la_as_of q of None \<Rightarrow> Some now | Some s \<Rightarrow> date_ms s);
           eligible = filter (\<lambda>x. case as_of of None \<Rightarrow> False | Some t \<Rightarrow> fst x \<le> t) timed
       in Inr (case eligible of [] \<Rightarrow> None | x # xs \<Rightarrow> Some (to_timeline_item (snd (latest C x xs))))))))"

definition get_session :: "ledger_config \<Rightarrow> int \<Rightarrow> string \<Rightarrow> ledger_store \<Rightarrow> ledger_record option ledger_op" where
  "get_session C now k st = after_reconcile C now st (\<lambda>st'. Inr (store_get st' k))"

definition list_revisions :: "ledger_config \<Rightarrow> int \<Rightarrow> string \<Rightarrow> ledger_store \<Rightarrow> execution_revision list ledger_op" where
  "list_revisions C now k st =
     after_reconcile C now st (\<lambda>st'.
       require_some (store_get st' k) Not_Found (\<lambda>r. Inr (lr_revisions r)))"

end
