(* ===== verification/Agent_Ledger_Properties.thy ===== *)
theory Agent_Ledger_Properties
  imports Agent_Ledger "HOL-Library.Sublist"
begin

text \<open>
  The properties of the execution ledger over every state its operations reach: revisions are
  numbered and only appended, approvals come from founders, a terminal status comes from a report,
  reconciling is idempotent, and the queries return what they promise.
\<close>

section \<open>Steps and reachable states\<close>

inductive ledger_step :: "ledger_config \<Rightarrow> ledger_store \<Rightarrow> ledger_store \<Rightarrow> bool" for C where
  start: "ledger_step C st (snd (start_session now i st))"
| report: "ledger_step C st (snd (report_result now j st))"
| beat: "ledger_step C st (snd (heartbeat now h st))"
| sweep: "ledger_step C st (snd (persist_reconcile C now st))"

inductive ledger_reachable :: "ledger_config \<Rightarrow> ledger_store \<Rightarrow> bool" for C where
  empty: "ledger_reachable C []"
| step: "ledger_reachable C st \<Longrightarrow> ledger_step C st st' \<Longrightarrow> ledger_reachable C st'"

section \<open>The invariant of a record\<close>

text \<open>A founder stamped this approval in one of these revisions.\<close>

definition stamped :: "execution_revision list \<Rightarrow> founder_approval \<Rightarrow> bool" where
  "stamped rs a \<longleftrightarrow> (\<exists>v \<in> set rs. aa_kind (rv_actor v) = FounderActor \<and> aa_id (rv_actor v) = fa_by a
                      \<and> es_approval (rv_snapshot v) = Some a)"

definition action_status_ok :: "execution_revision \<Rightarrow> bool" where
  "action_status_ok v \<longleftrightarrow>
     (rv_action v \<in> {Started, Revised, Heartbeat} \<longrightarrow> es_status (rv_snapshot v) = RUNNING)
     \<and> (rv_action v = Reconciled \<longrightarrow> es_status (rv_snapshot v) = UNKNOWN_STATUS
          \<and> es_needs_reconciliation (rv_snapshot v) \<and> aa_kind (rv_actor v) = SystemActor)"

definition record_ok :: "ledger_record \<Rightarrow> bool" where
  "record_ok r \<longleftrightarrow>
     lr_revisions r \<noteq> [] \<and> lr_head r = rv_snapshot (last (lr_revisions r))
     \<and> map rv_revision (lr_revisions r) = [1..<Suc (length (lr_revisions r))]
     \<and> es_revision (lr_head r) = length (lr_revisions r)
     \<and> (\<forall>v \<in> set (lr_revisions r). es_correlation_id (rv_snapshot v) = lr_correlation_id r
          \<and> es_id (rv_snapshot v) = session_id_from_correlation (lr_correlation_id r) \<and> action_status_ok v)
     \<and> (\<forall>a. es_approval (lr_head r) = Some a \<longrightarrow> stamped (lr_revisions r) a)"

lemma append_revision_simps [simp]:
  "lr_correlation_id (append_revision e s a act t n) = es_correlation_id s"
  "lr_head (append_revision e s a act t n) =
     s\<lparr>es_revision := Suc (case e of None \<Rightarrow> 0 | Some r \<Rightarrow> es_revision (lr_head r))\<rparr>"
  "lr_revisions (append_revision e s a act t n) =
     (case e of None \<Rightarrow> [] | Some r \<Rightarrow> lr_revisions r) @
       [\<lparr>rv_revision = Suc (case e of None \<Rightarrow> 0 | Some r \<Rightarrow> es_revision (lr_head r)), rv_recorded_at = t,
         rv_actor = act, rv_action = a,
         rv_snapshot = s\<lparr>es_revision := Suc (case e of None \<Rightarrow> 0 | Some r \<Rightarrow> es_revision (lr_head r))\<rparr>, rv_note = n\<rparr>]"
  by (simp_all add: append_revision_def Let_def)

lemma stamped_append [simp]: "stamped (rs @ [v]) a \<longleftrightarrow> stamped rs a \<or> stamped [v] a"
  by (auto simp: stamped_def)

text \<open>What an operation must guarantee of the snapshot it appends.\<close>

definition good_snapshot :: "ledger_record option \<Rightarrow> execution_session \<Rightarrow> revision_action \<Rightarrow> aa_actor \<Rightarrow> string \<Rightarrow> bool" where
  "good_snapshot e s a act k \<longleftrightarrow>
     es_correlation_id s = k \<and> es_id s = session_id_from_correlation k
     \<and> (a \<in> {Started, Revised, Heartbeat} \<longrightarrow> es_status s = RUNNING)
     \<and> (a = Reconciled \<longrightarrow> es_status s = UNKNOWN_STATUS \<and> es_needs_reconciliation s \<and> aa_kind act = SystemActor)
     \<and> (\<forall>f. es_approval s = Some f \<longrightarrow>
          (\<exists>r. e = Some r \<and> es_approval (lr_head r) = Some f)
          \<or> aa_kind act = FounderActor \<and> aa_id act = fa_by f)"

lemma append_revision_ok:
  assumes "\<And>r. e = Some r \<Longrightarrow> record_ok r \<and> lr_correlation_id r = k" "good_snapshot e s a act k"
  shows "record_ok (append_revision e s a act t n)"
proof (cases e)
  case None
  with assms(2) show ?thesis
    by (auto simp: record_ok_def good_snapshot_def action_status_ok_def stamped_def)
next
  case (Some r)
  with assms(1) have r: "record_ok r" "lr_correlation_id r = k" by auto
  have "stamped (lr_revisions r @ [v]) f"
    if "es_approval s = Some f" "rv_actor v = act" "es_approval (rv_snapshot v) = es_approval s" for v f
    using that assms(2) r(1) Some by (auto simp: good_snapshot_def record_ok_def stamped_def)
  with assms(2) r Some show ?thesis
    by (auto simp: record_ok_def good_snapshot_def action_status_ok_def)
qed

lemma resolve_approval:
  assumes "resolve_founder_approval act claimed previous = Inr (approval, stripped)" "approval = Some f"
  shows "previous = Some f \<or> aa_kind act = FounderActor \<and> aa_id act = fa_by f"
  using assms by (auto simp: resolve_founder_approval_def split: if_splits option.splits)

lemma head_facts:
  assumes "record_ok r"
  shows "es_correlation_id (lr_head r) = lr_correlation_id r"
    "es_id (lr_head r) = session_id_from_correlation (lr_correlation_id r)"
  using assms by (auto simp: record_ok_def)

text \<open>Every operation appends one good snapshot to the record it read.\<close>

definition extends :: "ledger_record option \<Rightarrow> string \<Rightarrow> ledger_record \<Rightarrow> bool" where
  "extends e k r' \<longleftrightarrow> (\<exists>s a act t n. r' = append_revision e s a act t n \<and> good_snapshot e s a act k)"

definition read_ok :: "ledger_record option \<Rightarrow> string \<Rightarrow> bool" where
  "read_ok e k \<longleftrightarrow> (\<forall>r. e = Some r \<longrightarrow> record_ok r \<and> lr_correlation_id r = k)"

lemma read_ok_session_id: "read_ok e k \<Longrightarrow> session_id (map_option lr_head e) k = session_id_from_correlation k"
  by (auto simp: read_ok_def session_id_def dest: head_facts split: option.splits)

lemma prior_approval_Some:
  "prior_approval (map_option lr_head e) = Some f \<longleftrightarrow> (\<exists>r. e = Some r \<and> es_approval (lr_head r) = Some f)"
  by (cases e) (auto simp: prior_approval_def)

lemma extendsI: "good_snapshot e s a act k \<Longrightarrow> extends e k (append_revision e s a act t n)"
  unfolding extends_def by blast

lemma apply_start_extends:
  assumes "apply_start e i now = Inr (r', stripped)" "read_ok e (ps_correlation_id i)"
  shows "extends e (ps_correlation_id i) r'"
proof -
  from assms(1) obtain approval where a:
    "resolve_founder_approval (ps_actor i) (ps_approval i) (prior_approval (map_option lr_head e)) = Inr (approval, stripped)"
    "r' = append_revision e (start_snapshot (map_option lr_head e) i (to_iso now) approval)
       (if e = None then Started else Revised) (ps_actor i) (to_iso now) (stripped_note stripped)"
    by (auto simp: apply_start_def Let_def)
  from resolve_approval [OF a(1)] read_ok_session_id [OF assms(2)] show ?thesis
    unfolding a(2) by (intro extendsI) (auto simp: good_snapshot_def start_snapshot_def Let_def prior_approval_Some)
qed

lemma apply_report_extends:
  assumes "apply_report e i now = Inr (r', stripped)" "read_ok e (pr_correlation_id i)"
  shows "extends e (pr_correlation_id i) r'"
proof -
  from assms(1) obtain approval agent repo goal where a:
    "resolve_founder_approval (pr_actor i) (pr_approval i) (prior_approval (map_option lr_head e)) = Inr (approval, stripped)"
    "r' = append_revision e (report_snapshot (map_option lr_head e) i (to_iso now) approval agent repo goal)
       Reported (pr_actor i) (to_iso now) (stripped_note stripped)"
    by (auto simp: apply_report_def Let_def)
  from resolve_approval [OF a(1)] read_ok_session_id [OF assms(2)] show ?thesis
    unfolding a(2) by (intro extendsI) (auto simp: good_snapshot_def report_snapshot_def Let_def prior_approval_Some)
qed

lemma apply_heartbeat_extends:
  assumes "apply_heartbeat r i now = Inr r'" "record_ok r"
  shows "extends (Some r) (lr_correlation_id r) r'"
  using assms head_facts [OF assms(2)]
  by (auto simp: apply_heartbeat_def heartbeat_snapshot_def Let_def good_snapshot_def intro!: extendsI)

lemma apply_reconcile_extends:
  assumes "apply_reconcile now idle r = Inr (Some r')" "record_ok r"
  shows "extends (Some r) (lr_correlation_id r) r'"
  using assms head_facts [OF assms(2)]
  by (auto simp: apply_reconcile_def reconciled_snapshot_def system_actor_def Let_def good_snapshot_def
      intro!: extendsI split: if_splits)

lemma extends_facts:
  assumes "extends e k r'" "read_ok e k"
  shows "record_ok r'" "lr_correlation_id r' = k" "\<And>r. e = Some r \<Longrightarrow> prefix (lr_revisions r) (lr_revisions r')"
  using assms append_revision_ok [of e k] by (auto simp: extends_def good_snapshot_def read_ok_def)

section \<open>The invariant of the store\<close>

definition ledger_inv :: "ledger_store \<Rightarrow> bool" where
  "ledger_inv st \<longleftrightarrow> store_ok st \<and> (\<forall>k r. store_get st k = Some r \<longrightarrow> record_ok r)"

text \<open>No record disappears and revisions are only appended.\<close>

definition grows :: "ledger_store \<Rightarrow> ledger_store \<Rightarrow> bool" where
  "grows st st' \<longleftrightarrow> (\<forall>k r. store_get st k = Some r \<longrightarrow>
     (\<exists>r'. store_get st' k = Some r' \<and> prefix (lr_revisions r) (lr_revisions r')))"

lemma grows_refl [simp]: "grows st st"
  by (simp add: grows_def)

lemma inv_read_ok: "ledger_inv st \<Longrightarrow> read_ok (store_get st k) k"
  by (auto simp: ledger_inv_def read_ok_def dest: store_get_Some)

lemma put_extends:
  assumes "ledger_inv st" "extends (store_get st k) k r'"
  shows "ledger_inv (store_put r' st) \<and> grows st (store_put r' st)"
proof -
  note f = extends_facts [OF assms(2) inv_read_ok [OF assms(1)]]
  then show ?thesis
    using assms(1) by (auto simp: ledger_inv_def grows_def store_put_ok store_get_put)
qed

lemma apply_reconcile_key: "apply_reconcile now idle r = Inr (Some r') \<Longrightarrow> lr_correlation_id r' = es_correlation_id (lr_head r)"
  by (auto simp: apply_reconcile_def reconciled_snapshot_def Let_def split: if_splits)

text \<open>The reconciler as a step that ignores records whose head belongs to another key; there are none.\<close>

lemma sweep_cong:
  "(\<And>r. r \<in> set rs \<Longrightarrow> f r = g r) \<Longrightarrow> sweep put f rs s = sweep put g rs s"
  by (induction rs arbitrary: s) (auto split: sum.split option.split)

lemma sweep_quiet: "(\<And>r. r \<in> set rs \<Longrightarrow> f r = Inr None) \<Longrightarrow> sweep put f rs s = (Inr (), s)"
  by (induction rs) auto

definition guarded :: "int \<Rightarrow> int \<Rightarrow> ledger_record \<Rightarrow> ledger_error + ledger_record option" where
  "guarded now idle r = (if record_ok r then apply_reconcile now idle r else Inr None)"

lemma guarded_key: "guarded now idle r = Inr (Some r') \<Longrightarrow> lr_correlation_id r' = lr_correlation_id r"
  by (auto simp: guarded_def head_facts dest: apply_reconcile_key split: if_splits)

lemma persist_reconcile_guarded:
  assumes "ledger_inv st"
  shows "persist_reconcile C now st = sweep store_put (guarded now (lc_idle_ms C)) (store_list (lc_collate C) st) st"
  unfolding persist_reconcile_def
proof (rule sweep_cong)
  fix r assume "r \<in> set (store_list (lc_collate C) st)"
  with assms have "record_ok r" using store_get_in [of st r] by (auto simp: ledger_inv_def)
  then show "apply_reconcile now (lc_idle_ms C) r = guarded now (lc_idle_ms C) r" by (simp add: guarded_def)
qed

lemma persist_reconcile_get:
  assumes "ledger_inv st"
  shows "store_get (snd (persist_reconcile C now st)) k = store_get st k
    \<or> (\<exists>r r'. store_get st k = Some r \<and> apply_reconcile now (lc_idle_ms C) r = Inr (Some r')
         \<and> store_get (snd (persist_reconcile C now st)) k = Some r')"
proof -
  have ok: "store_ok st" using assms by (simp add: ledger_inv_def)
  have "guarded now (lc_idle_ms C) r = Inr (Some r') \<Longrightarrow> apply_reconcile now (lc_idle_ms C) r = Inr (Some r')" for r r'
    by (simp add: guarded_def split: if_splits)
  moreover have "store_get (snd (sweep store_put (guarded now (lc_idle_ms C)) (store_list (lc_collate C) st) st)) k = store_get st k
    \<or> (\<exists>r r'. store_get st k = Some r \<and> guarded now (lc_idle_ms C) r = Inr (Some r')
         \<and> store_get (snd (sweep store_put (guarded now (lc_idle_ms C)) (store_list (lc_collate C) st) st)) k = Some r')"
    using ok guarded_key by (rule ledger_repo.sweep_listing)
  ultimately show ?thesis unfolding persist_reconcile_guarded [OF assms] by blast
qed

lemma persist_reconcile_inv:
  assumes "ledger_inv st"
  shows "ledger_inv (snd (persist_reconcile C now st)) \<and> grows st (snd (persist_reconcile C now st))"
proof -
  have ok: "store_ok (snd (persist_reconcile C now st))"
    unfolding persist_reconcile_def using assms by (intro ledger_repo.sweep_ok) (simp add: ledger_inv_def)
  have ext: "record_ok r' \<and> prefix (lr_revisions r) (lr_revisions r')"
    if "store_get st k = Some r" "apply_reconcile now (lc_idle_ms C) r = Inr (Some r')" for k r r'
  proof -
    have "record_ok r" using assms that(1) by (simp add: ledger_inv_def)
    note e = extends_facts [OF apply_reconcile_extends [OF that(2) this]]
    have "read_ok (Some r) (lr_correlation_id r)" using \<open>record_ok r\<close> by (simp add: read_ok_def)
    with e show ?thesis by blast
  qed
  have "record_ok r'" if g: "store_get (snd (persist_reconcile C now st)) k = Some r'" for k r'
    using persist_reconcile_get [OF assms, of C now k]
  proof
    assume "store_get (snd (persist_reconcile C now st)) k = store_get st k"
    with g assms show ?thesis by (simp add: ledger_inv_def)
  next
    assume "\<exists>r q. store_get st k = Some r \<and> apply_reconcile now (lc_idle_ms C) r = Inr (Some q)
         \<and> store_get (snd (persist_reconcile C now st)) k = Some q"
    with g ext show ?thesis by auto
  qed
  moreover have "\<exists>r'. store_get (snd (persist_reconcile C now st)) k = Some r' \<and> prefix (lr_revisions r) (lr_revisions r')"
    if "store_get st k = Some r" for k r
    using persist_reconcile_get [OF assms, of C now k] ext that by fastforce
  ultimately show ?thesis using ok by (simp add: ledger_inv_def grows_def)
qed

lemma ledger_step_inv:
  assumes "ledger_step C st st'" "ledger_inv st"
  shows "ledger_inv st' \<and> grows st st'"
  using assms(1)
proof cases
  case (start now i)
  have "ledger_inv (store_put r st) \<and> grows st (store_put r st)"
    if "apply_start (store_get st (ps_correlation_id i)) i now = Inr (r, b)" for r b
    using assms(2) apply_start_extends [OF that inv_read_ok [OF assms(2)]] by (rule put_extends)
  with start assms(2) show ?thesis by (auto simp: start_session_def split: sum.split)
next
  case (report now j)
  have "ledger_inv (store_put r st) \<and> grows st (store_put r st)"
    if "apply_report (store_get st (pr_correlation_id j)) j now = Inr (r, b)" for r b
    using assms(2) apply_report_extends [OF that inv_read_ok [OF assms(2)]] by (rule put_extends)
  with report assms(2) show ?thesis by (auto simp: report_result_def split: sum.split)
next
  case (beat now h)
  have "ledger_inv (store_put r' st) \<and> grows st (store_put r' st)"
    if "store_get st (ph_correlation_id h) = Some r" "apply_heartbeat r h now = Inr r'" for r r'
  proof -
    have "record_ok r" "lr_correlation_id r = ph_correlation_id h"
      using inv_read_ok [OF assms(2), of "ph_correlation_id h"] that(1) by (simp_all add: read_ok_def)
    with apply_heartbeat_extends [OF that(2)] that(1) show ?thesis by (intro put_extends [OF assms(2), of "ph_correlation_id h"]) simp_all
  qed
  with beat assms(2) show ?thesis
    by (auto simp: heartbeat_def split: option.split sum.split)
next
  case (sweep now)
  then show ?thesis using persist_reconcile_inv [OF assms(2)] by simp
qed

lemma ledger_reachable_inv: "ledger_reachable C st \<Longrightarrow> ledger_inv st"
proof (induction rule: ledger_reachable.induct)
  case empty
  show ?case by (simp add: ledger_inv_def store_ok_def store_get_def)
next
  case step
  then show ?case by (blast dest: ledger_step_inv)
qed

section \<open>A sample ledger\<close>

definition sample_config :: ledger_config where
  "sample_config = \<lparr>lc_collate = id, lc_idle_ms = 7200000\<rparr>"

definition founder :: aa_actor where
  "founder = \<lparr>aa_kind = FounderActor, aa_id = ''founder-1'', aa_display_name = None\<rparr>"

definition robot :: aa_actor where
  "robot = \<lparr>aa_kind = AgentActor, aa_id = ''agent-1'', aa_display_name = None\<rparr>"

definition seen_at :: "string \<Rightarrow> aa_provenance" where
  "seen_at t = \<lparr>ap_source = \<lparr>as_system = ''agent'', as_kind = ''report'', as_locator = ''run-1'', as_label = None\<rparr>,
     ap_observed_at = t, ap_freshness_status = Fresh, ap_confidence = None\<rparr>"

definition sample_start :: "string \<Rightarrow> parsed_start" where
  "sample_start t =
     \<lparr>ps_correlation_id = ''run-1'', ps_agent = \<lparr>ag_id = ''agent-1'', ag_provider = ''p''\<rparr>, ps_repo = ''repo'',
      ps_goal = ''goal'', ps_campaign = None, ps_started_at = Some t, ps_refs = empty_refs,
      ps_summary = [], ps_evidence = [], ps_blockers = [], ps_residual_work = [],
      ps_context = empty_context, ps_actor = founder,
      ps_approval = Some \<lparr>fa_by = ''founder-1'', fa_at = t\<rparr>, ps_provenance = seen_at t\<rparr>"

definition sample_report :: "string \<Rightarrow> parsed_report" where
  "sample_report t =
     \<lparr>pr_correlation_id = ''run-1'', pr_status = DONE, pr_agent = None, pr_repo = None, pr_goal = None,
      pr_campaign = None, pr_started_at = None, pr_finished_at = None, pr_refs = None,
      pr_summary = ''done'', pr_evidence = Some [''log''], pr_blockers = None, pr_residual_work = None,
      pr_context = None, pr_actor = robot, pr_approval = None, pr_provenance = seen_at t\<rparr>"

text \<open>2026-03-02T12:00:00.000Z\<close>

definition noon :: int where
  "noon = 1772452800000"

definition started_ledger :: ledger_store where
  "started_ledger = snd (start_session noon (sample_start ''2026-03-02T12:00:00Z'') [])"

definition reported_ledger :: ledger_store where
  "reported_ledger = snd (report_result (noon + 60000) (sample_report ''2026-03-02T12:01:00Z'') started_ledger)"

lemma started_reachable: "ledger_reachable C started_ledger"
  unfolding started_ledger_def by (rule ledger_reachable.step [OF ledger_reachable.empty]) (rule ledger_step.start)

lemma reported_reachable: "ledger_reachable C reported_ledger"
  unfolding reported_ledger_def
  by (rule ledger_reachable.step [OF started_reachable]) (rule ledger_step.report)

lemma reported_get: "\<exists>r. store_get reported_ledger ''run-1'' = Some r \<and> es_status (lr_head r) = DONE
    \<and> es_approval (lr_head r) = Some \<lparr>fa_by = ''founder-1'', fa_at = ''2026-03-02T12:00:00Z''\<rparr>"
proof -
  have "map_option (\<lambda>r. (es_status (lr_head r), es_approval (lr_head r))) (store_get reported_ledger ''run-1'')
    = Some (DONE, Some \<lparr>fa_by = ''founder-1'', fa_at = ''2026-03-02T12:00:00Z''\<rparr>)" by code_simp
  then show ?thesis unfolding map_option_eq_Some prod.inject by blast
qed

section \<open>Properties\<close>

text \<open>
  C21. The ledger is append-only: whatever an operation does, and whether or not it fails, no session
  disappears and the revisions of each session before it are a prefix of those after it.
\<close>

theorem ledger_append_only:
  assumes "ledger_reachable C st" "ledger_step C st st'" "store_get st k = Some r"
  shows "\<exists>r'. store_get st' k = Some r' \<and> prefix (lr_revisions r) (lr_revisions r')"
  using ledger_step_inv [OF assms(2) ledger_reachable_inv [OF assms(1)]] assms(3)
  by (simp add: grows_def)

lemma ledger_append_only_witness:
  "\<exists>r r'. store_get started_ledger ''run-1'' = Some r \<and> store_get reported_ledger ''run-1'' = Some r'
    \<and> prefix (lr_revisions r) (lr_revisions r')"
proof -
  have s: "ledger_step sample_config started_ledger reported_ledger"
    unfolding reported_ledger_def by (rule ledger_step.report)
  have "store_get started_ledger ''run-1'' \<noteq> None" by code_simp
  then obtain r where r: "store_get started_ledger ''run-1'' = Some r" by auto
  with ledger_append_only [OF started_reachable s r] show ?thesis by auto
qed

text \<open>
  In every reachable ledger each session is stored under its own correlation id, its revisions are
  numbered 1, 2, ..., n without a gap, and its head is the snapshot of the last one.
\<close>

theorem ledger_head_is_last_revision:
  assumes "ledger_reachable C st" "store_get st k = Some r"
  shows "lr_correlation_id r = k \<and> map rv_revision (lr_revisions r) = [1..<Suc (length (lr_revisions r))]
    \<and> lr_revisions r \<noteq> [] \<and> lr_head r = rv_snapshot (last (lr_revisions r))
    \<and> es_revision (lr_head r) = length (lr_revisions r)"
proof -
  have "record_ok r" using ledger_reachable_inv [OF assms(1)] assms(2) by (simp add: ledger_inv_def)
  with store_get_Some [OF assms(2)] show ?thesis unfolding record_ok_def by blast
qed

lemma ledger_head_is_last_revision_witness:
  "\<exists>r. store_get reported_ledger ''run-1'' = Some r \<and> lr_head r = rv_snapshot (last (lr_revisions r))"
  using reported_get ledger_head_is_last_revision [OF reported_reachable] by blast

text \<open>
  C5. An approval on any session of a reachable ledger was stamped by a founder actor, in one of
  the recorded revisions, under the founder's own identifier: no agent and no system call creates one.
\<close>

theorem approval_needs_founder:
  assumes "ledger_reachable C st" "store_get st k = Some r" "es_approval (lr_head r) = Some a"
  shows "\<exists>v \<in> set (lr_revisions r). aa_kind (rv_actor v) = FounderActor \<and> aa_id (rv_actor v) = fa_by a
    \<and> es_approval (rv_snapshot v) = Some a"
proof -
  have "record_ok r" using ledger_reachable_inv [OF assms(1)] assms(2) by (simp add: ledger_inv_def)
  with assms(3) show ?thesis by (simp add: record_ok_def stamped_def)
qed

lemma approval_needs_founder_witness:
  "\<exists>r v. store_get reported_ledger ''run-1'' = Some r \<and> v \<in> set (lr_revisions r)
    \<and> aa_kind (rv_actor v) = FounderActor \<and> aa_id (rv_actor v) = ''founder-1''"
proof -
  obtain r where r: "store_get reported_ledger ''run-1'' = Some r"
    "es_approval (lr_head r) = Some \<lparr>fa_by = ''founder-1'', fa_at = ''2026-03-02T12:00:00Z''\<rparr>"
    using reported_get by blast
  from approval_needs_founder [OF reported_reachable r] r(1) show ?thesis by auto
qed

text \<open>
  A session is \<open>DONE\<close>, \<open>PARTIAL\<close>, \<open>BLOCKED\<close> or \<open>FAILED\<close> only because its last revision is a
  report; starting and heartbeats leave it \<open>RUNNING\<close>, and the reconciler, which acts as the system,
  can only make it \<open>UNKNOWN\<close> and in need of reconciliation.
\<close>

theorem outcome_needs_report:
  assumes "ledger_reachable C st" "store_get st k = Some r"
  shows "(es_status (lr_head r) \<in> {DONE, PARTIAL, BLOCKED, FAILED} \<longrightarrow> rv_action (last (lr_revisions r)) = Reported)
    \<and> (\<forall>v \<in> set (lr_revisions r). rv_action v = Reconciled \<longrightarrow>
         es_status (rv_snapshot v) = UNKNOWN_STATUS \<and> es_needs_reconciliation (rv_snapshot v)
         \<and> aa_kind (rv_actor v) = SystemActor)"
proof -
  have r: "record_ok r" using ledger_reachable_inv [OF assms(1)] assms(2) by (simp add: ledger_inv_def)
  then have "action_status_ok (last (lr_revisions r))" by (simp add: record_ok_def)
  with r show ?thesis
    by (cases "rv_action (last (lr_revisions r))") (auto simp: record_ok_def action_status_ok_def)
qed

lemma outcome_needs_report_witness:
  "\<exists>r. store_get reported_ledger ''run-1'' = Some r \<and> rv_action (last (lr_revisions r)) = Reported"
  using reported_get outcome_needs_report [OF reported_reachable] by fastforce

text \<open>
  Reconciling twice at the same instant is reconciling once: after a sweep that returned, a
  second one finds nothing to do.
\<close>

theorem reconcile_idempotent:
  assumes "ledger_reachable C st" "fst (persist_reconcile C now st) = Inr ()"
  shows "persist_reconcile C now (snd (persist_reconcile C now st)) = (Inr (), snd (persist_reconcile C now st))"
proof -
  let ?st = "snd (persist_reconcile C now st)"
  let ?f = "guarded now (lc_idle_ms C)"
  note inv = ledger_reachable_inv [OF assms(1)]
  have ok: "store_ok st" using inv by (simp add: ledger_inv_def)
  have quiet: "apply_reconcile now (lc_idle_ms C) r' = Inr None" if "r' \<in> set (store_list (lc_collate C) ?st)" for r'
  proof -
    have "ledger_inv ?st" using persist_reconcile_inv [OF inv] by blast
    then have get': "store_get ?st (lr_correlation_id r') = Some r'"
      using that store_get_in [of ?st r'] by (simp add: ledger_inv_def)
    then obtain r where r: "store_get st (lr_correlation_id r') = Some r"
      using persist_reconcile_get [OF inv, of C now "lr_correlation_id r'"] by metis
    then have rin: "r \<in> set (store_list (lc_collate C) st)" "lr_correlation_id r = lr_correlation_id r'" "record_ok r"
      using store_get_Some [OF r] inv by (auto simp: ledger_inv_def)
    have all: "store_get st (lr_correlation_id q) = Some q" if "q \<in> set (store_list (lc_collate C) st)" for q
      using that store_get_in [OF ok] by simp
    have "fst (sweep store_put ?f (store_list (lc_collate C) st) st) = Inr ()"
      using assms(2) by (simp add: persist_reconcile_guarded [OF inv])
    from ledger_repo.sweep_complete [OF ok distinct_store_list [OF ok] guarded_key all this rin(1)]
    have "is_ok (?f r) \<and> store_get ?st (lr_correlation_id r) = Some (swept ?f r)"
      by (simp add: persist_reconcile_guarded [OF inv])
    with get' rin have "is_ok (apply_reconcile now (lc_idle_ms C) r)" "r' = swept (apply_reconcile now (lc_idle_ms C)) r"
      by (simp_all add: guarded_def swept_def)
    then show ?thesis
      by (auto simp: swept_def is_ok_iff apply_reconcile_def reconciled_snapshot_def Let_def split: if_splits)
  qed
  show ?thesis
    unfolding persist_reconcile_def [of C now ?st] using quiet by (rule sweep_quiet)
qed

lemma reconcile_idempotent_witness:
  "persist_reconcile sample_config (noon + 9000000) (snd (persist_reconcile sample_config (noon + 9000000) started_ledger))
    = (Inr (), snd (persist_reconcile sample_config (noon + 9000000) started_ledger))"
proof -
  have "is_ok (fst (persist_reconcile sample_config (noon + 9000000) started_ledger))" by code_simp
  then have "fst (persist_reconcile sample_config (noon + 9000000) started_ledger) = Inr ()" by (auto simp: is_ok_iff)
  from reconcile_idempotent [OF started_reachable this] show ?thesis .
qed

section \<open>Queries\<close>

lemma filterE_Inr: "filterE p xs = Inr ys \<Longrightarrow> ys = filter (\<lambda>x. p x = Inr True) xs"
  by (induction xs arbitrary: ys) (auto split: if_splits)

lemma after_reconcile_Inr:
  assumes "after_reconcile C now st k = (Inr x, st')"
  shows "persist_reconcile C now st = (Inr (), st')" "k st' = Inr x"
  using assms by (auto simp: after_reconcile_def split: prod.splits)

lemma later_activity_lift:
  "later_activity C x b \<Longrightarrow> \<not> later_activity C x m \<Longrightarrow> \<not> later_activity C b m"
  unfolding later_activity_def by (metis order.strict_trans)

lemma later_activity_keep:
  "\<not> later_activity C x b \<Longrightarrow> \<not> later_activity C b m \<Longrightarrow> \<not> later_activity C x m"
  unfolding later_activity_def by (metis linorder_not_less order.strict_trans1 order_antisym_conv order.order_iff_strict)

lemma latest_max:
  "latest C b xs \<in> set (b # xs) \<and> (\<forall>x \<in> set (b # xs). \<not> later_activity C x (latest C b xs))"
proof (induction xs arbitrary: b)
  case Nil
  show ?case by (simp add: later_activity_def)
next
  case (Cons x xs)
  show ?case
  proof (cases "later_activity C x b")
    case True
    have m: "latest C x xs \<in> set (x # xs)" "\<forall>y \<in> set (x # xs). \<not> later_activity C y (latest C x xs)"
      using Cons [of x] by blast+
    then have "\<not> later_activity C b (latest C x xs)"
      using later_activity_lift [OF True] by simp
    with m True show ?thesis by simp
  next
    case False
    have m: "latest C b xs \<in> set (b # xs)" "\<forall>y \<in> set (b # xs). \<not> later_activity C y (latest C b xs)"
      using Cons [of b] by blast+
    then have "\<not> later_activity C x (latest C b xs)"
      using later_activity_keep [OF False] by simp
    with m False show ?thesis by auto
  qed
qed

text \<open>
  The timeline of a window is exact and ordered: the items are the sessions of the ledger, after
  reconciling, that overlap the window, by start and then by correlation id.
\<close>

theorem timeline_exact:
  assumes "ledger_reachable C st" "timeline C now q st = (Inr items, st')"
  shows "\<exists>f t. parse_timeline_query q = Inr (f, t)
    \<and> sorted (map (\<lambda>i. (lc_collate C (ti_started_at i), lc_collate C (ti_correlation_id i))) items)
    \<and> (\<forall>i. i \<in> set items \<longleftrightarrow> (\<exists>k r. store_get st' k = Some r
         \<and> overlaps_window f t (lr_head r) = Inr True \<and> i = to_timeline_item (lr_head r)))"
proof -
  note a = after_reconcile_Inr [OF assms(2) [unfolded timeline_def]]
  then obtain f t ss where w: "parse_timeline_query q = Inr (f, t)" "window_sessions C f t st' = Inr ss"
    and items: "items = map to_timeline_item
      (sort_key (\<lambda>s. (lc_collate C (es_started_at s), lc_collate C (es_correlation_id s))) ss)"
    by auto
  have inv: "ledger_inv st'"
    using persist_reconcile_inv [OF ledger_reachable_inv [OF assms(1)], of C now] a(1) by simp
  have ss: "set ss = {s. overlaps_window f t s = Inr True \<and> s \<in> lr_head ` set st'}"
    using filterE_Inr [OF w(2) [unfolded window_sessions_def]] by auto
  have "s \<in> lr_head ` set st' \<longleftrightarrow> (\<exists>k r. store_get st' k = Some r \<and> s = lr_head r)" for s
    using inv store_get_in [of st'] by (force simp: ledger_inv_def dest: store_get_Some)
  with ss have "i \<in> set items \<longleftrightarrow> (\<exists>k r. store_get st' k = Some r
      \<and> overlaps_window f t (lr_head r) = Inr True \<and> i = to_timeline_item (lr_head r))" for i
    unfolding items by auto
  moreover have "sorted (map (\<lambda>i. (lc_collate C (ti_started_at i), lc_collate C (ti_correlation_id i))) items)"
    by (simp add: items o_def to_timeline_item_def)
  ultimately show ?thesis using w(1) by blast
qed

definition march_second :: timeline_query where
  "march_second = \<lparr>tq_date = Some ''2026-03-02'', tq_from = None, tq_to = None\<rparr>"

lemma timeline_exact_witness:
  "\<exists>items st'. timeline sample_config (noon + 120000) march_second reported_ledger = (Inr items, st') \<and> items \<noteq> []
    \<and> sorted (map (\<lambda>i. (ti_started_at i, ti_correlation_id i)) items)"
proof -
  have "(case timeline sample_config (noon + 120000) march_second reported_ledger of
      (Inr items, _) \<Rightarrow> items \<noteq> [] | _ \<Rightarrow> False)" by code_simp
  then obtain items st' where t: "timeline sample_config (noon + 120000) march_second reported_ledger = (Inr items, st')"
    "items \<noteq> []" by (auto split: prod.splits sum.splits)
  from timeline_exact [OF reported_reachable t(1)] t show ?thesis by (auto simp: sample_config_def)
qed

text \<open>
  The last activity, when there is one, is a session of the ledger observed no later than the
  queried instant, and no session observed by then is later.
\<close>

theorem last_activity_is_latest:
  assumes "last_activity C now q st = (Inr (Some item), st')" "la_window q = \<lparr>tq_date = None, tq_from = None, tq_to = None\<rparr>"
  shows "\<exists>as_of t. (case la_as_of q of None \<Rightarrow> Some now | Some s \<Rightarrow> date_ms s) = Some as_of
    \<and> t \<le> as_of \<and> parse_utc (ti_observed_at item) = Inr t \<and> item \<in> (to_timeline_item \<circ> lr_head) ` set st'
    \<and> (\<forall>r \<in> set st'. \<forall>u. activity_instant (lr_head r) = Inr u \<longrightarrow> u \<le> as_of \<longrightarrow> u \<le> t)"
proof -
  note a = after_reconcile_Inr [OF assms(1) [unfolded last_activity_def]]
  let ?as_of = "case la_as_of q of None \<Rightarrow> Some now | Some s \<Rightarrow> date_ms s"
  let ?ok = "\<lambda>x. case ?as_of of None \<Rightarrow> False | Some t \<Rightarrow> fst x \<le> t"
  from a(2) assms(2) obtain timed where timed:
    "mapE with_instant (map lr_head (store_list (lc_collate C) st')) = Inr timed"
    and item: "(case filter ?ok timed of [] \<Rightarrow> None | x # xs \<Rightarrow> Some (to_timeline_item (snd (latest C x xs)))) = Some item"
    by (auto simp: Let_def)
  from item obtain x xs where f: "filter ?ok timed = x # xs" "item = to_timeline_item (snd (latest C x xs))"
    by (cases "filter ?ok timed") auto
  then obtain as_of where as_of: "?as_of = Some as_of"
    by (metis (no_types, lifting) filter_False list.distinct(1) option.case_eq_if option.exhaust_sel)
  have each: "\<forall>y \<in> set timed. \<exists>r \<in> set st'. snd y = lr_head r \<and> activity_instant (lr_head r) = Inr (fst y)"
    "\<forall>r \<in> set st'. \<exists>y \<in> set timed. snd y = lr_head r \<and> activity_instant (lr_head r) = Inr (fst y)"
    using mapE_Inr_set [OF timed] by (simp_all add: with_instant_def) (metis snd_conv fst_conv)+
  let ?b = "latest C x xs"
  have b: "?b \<in> set timed" "?ok ?b" "\<forall>y \<in> set timed. ?ok y \<longrightarrow> \<not> later_activity C y ?b"
    using latest_max [of C x xs] unfolding f(1) [symmetric] by auto
  obtain r where r: "r \<in> set st'" "snd ?b = lr_head r" "activity_instant (lr_head r) = Inr (fst ?b)"
    using each(1) b(1) by blast
  have "\<forall>r \<in> set st'. \<forall>u. activity_instant (lr_head r) = Inr u \<longrightarrow> u \<le> as_of \<longrightarrow> u \<le> fst ?b"
  proof (intro ballI allI impI)
    fix q u assume q: "q \<in> set st'" "activity_instant (lr_head q) = Inr u" "u \<le> as_of"
    with each(2) obtain y where "y \<in> set timed" "fst y = u" by fastforce
    with b(3) q(3) as_of have "\<not> later_activity C y ?b" by auto
    with \<open>fst y = u\<close> show "u \<le> fst ?b" by (auto simp: later_activity_def)
  qed
  moreover have "parse_utc (ti_observed_at item) = Inr (fst ?b)"
    using r by (simp add: f(2) to_timeline_item_def activity_instant_def)
  moreover have "item \<in> (to_timeline_item \<circ> lr_head) ` set st'" using r by (auto simp: f(2))
  moreover have "fst ?b \<le> as_of" using b(2) as_of by simp
  ultimately show ?thesis using as_of by blast
qed

definition any_activity :: last_activity_query where
  "any_activity = \<lparr>la_as_of = None, la_window = \<lparr>tq_date = None, tq_from = None, tq_to = None\<rparr>\<rparr>"

lemma last_activity_is_latest_witness:
  "\<exists>item st' t. last_activity sample_config (noon + 120000) any_activity reported_ledger = (Inr (Some item), st')
    \<and> parse_utc (ti_observed_at item) = Inr t \<and> t \<le> noon + 120000"
proof -
  have "(case last_activity sample_config (noon + 120000) any_activity reported_ledger of
      (Inr (Some _), _) \<Rightarrow> True | _ \<Rightarrow> False)" by code_simp
  then obtain item st' where a: "last_activity sample_config (noon + 120000) any_activity reported_ledger = (Inr (Some item), st')"
    by (auto split: prod.splits sum.splits option.splits)
  have "la_window any_activity = \<lparr>tq_date = None, tq_from = None, tq_to = None\<rparr>" "la_as_of any_activity = None"
    by (simp_all add: any_activity_def)
  with last_activity_is_latest [OF a] a show ?thesis by fastforce
qed

text \<open>
  C24. A start whose \<open>started_at\<close> has the timestamp pattern but no such date (month 13) is
  stored, and then every reconciling operation fails, for every session, at every time, in every later state
  in which the new session is still as it was started: the sweep parses its heartbeat and throws.
\<close>

theorem impossible_start_blocks_ledger:
  assumes "ledger_reachable C st" "store_get st (ps_correlation_id i) = None"
    "ps_started_at i = Some t" "is_utc_datetime t" "date_ms t = None"
    "start_session now i st = (Inr s, st1)"
    "ledger_reachable C st'" "store_get st' (ps_correlation_id i) = store_get st1 (ps_correlation_id i)"
  shows "\<not> is_ok (fst (get_session C later k st')) \<and> \<not> is_ok (fst (list_revisions C later k st'))
    \<and> \<not> is_ok (fst (timeline C later q st')) \<and> \<not> is_ok (fst (last_activity C later l st'))
    \<and> \<not> is_ok (fst (reconcile_stale C later st'))"
proof -
  note inv = ledger_reachable_inv [OF assms(7)]
  obtain approval stripped where a:
    "resolve_founder_approval (ps_actor i) (ps_approval i) None = Inr (approval, stripped)"
    "st1 = store_put (append_revision None (start_snapshot None i (to_iso now) approval) Started
       (ps_actor i) (to_iso now) (stripped_note stripped)) st"
    using assms(2,6)
    by (auto simp: start_session_def apply_start_def prior_approval_def Let_def split: sum.splits)
  then obtain r where r: "store_get st' (ps_correlation_id i) = Some r" "es_status (lr_head r) = RUNNING"
    "es_last_heartbeat_at (lr_head r) = Some t"
    using assms(3) unfolding assms(8) by (simp add: store_get_put start_snapshot_def Let_def)
  have bad: "\<not> is_ok (apply_reconcile later (lc_idle_ms C) r)"
    using r(2,3) assms(4,5) by (simp add: apply_reconcile_def parse_utc_def Let_def)
  have ok: "store_ok st'" using inv by (simp add: ledger_inv_def)
  have rin: "r \<in> set (store_list (lc_collate C) st')" "record_ok r"
    using r(1) inv by (auto simp: ledger_inv_def dest: store_get_Some)
  have all: "store_get st' (lr_correlation_id x) = Some x" if "x \<in> set (store_list (lc_collate C) st')" for x
    using that store_get_in [OF ok] by simp
  let ?f = "guarded later (lc_idle_ms C)"
  have "fst (persist_reconcile C later st') \<noteq> Inr ()"
  proof
    assume "fst (persist_reconcile C later st') = Inr ()"
    then have "fst (sweep store_put ?f (store_list (lc_collate C) st') st') = Inr ()"
      by (simp add: persist_reconcile_guarded [OF inv])
    from ledger_repo.sweep_complete [OF ok distinct_store_list [OF ok] guarded_key all this rin(1)]
    have "is_ok (?f r)" by simp
    with bad rin(2) show False by (simp add: guarded_def)
  qed
  then obtain e s' where "persist_reconcile C later st' = (Inl e, s')"
    by (cases "persist_reconcile C later st'"; cases "fst (persist_reconcile C later st')") auto
  then show ?thesis
    by (simp add: get_session_def list_revisions_def timeline_def last_activity_def reconcile_stale_def
        after_reconcile_def)
qed

lemma impossible_start_blocks_ledger_witness:
  "\<exists>st'. (\<exists>s. start_session noon (sample_start ''2026-13-01T00:00:00Z'') [] = (Inr s, st'))
    \<and> \<not> is_ok (fst (get_session sample_config (noon + 1) ''other'' st'))"
proof -
  let ?i = "sample_start ''2026-13-01T00:00:00Z''"
  have "is_ok (fst (start_session noon ?i []))" by code_simp
  then obtain s st' where s: "start_session noon ?i [] = (Inr s, st')"
    by (cases "start_session noon ?i []") (auto simp: is_ok_iff)
  have "is_utc_datetime ''2026-13-01T00:00:00Z''" "date_ms ''2026-13-01T00:00:00Z'' = None" by code_simp+
  moreover have "ps_started_at ?i = Some ''2026-13-01T00:00:00Z''" by (simp add: sample_start_def)
  moreover have "store_get [] (ps_correlation_id ?i) = None" by (simp add: store_get_def)
  moreover have "ledger_reachable sample_config (snd (start_session noon ?i []))"
    by (rule ledger_reachable.step [OF ledger_reachable.empty]) (rule ledger_step.start)
  then have "ledger_reachable sample_config st'" by (simp add: s)
  ultimately show ?thesis
    using impossible_start_blocks_ledger [OF ledger_reachable.empty, where i = ?i and t = "''2026-13-01T00:00:00Z''"
      and now = noon and s = s and ?st1.0 = st' and C = sample_config and st' = st'] s
    by blast
qed

text \<open>
  The MCP outcomes are exactly the statuses of a finished session: mapping an outcome to a
  status and back is the identity, and a status has an outcome only if it comes from one.
\<close>

theorem mcp_outcome_roundtrip:
  "status_to_mcp_outcome (mcp_outcome_to_status r) = Some r
   \<and> (status_to_mcp_outcome s = None \<longleftrightarrow> s \<notin> range mcp_outcome_to_status)
   \<and> (status_to_mcp_outcome s = Some r \<longleftrightarrow> s = mcp_outcome_to_status r)"
proof -
  have "s \<in> range mcp_outcome_to_status \<longleftrightarrow> s \<in> {DONE, PARTIAL, FAILED, BLOCKED}"
  proof
    assume "s \<in> range mcp_outcome_to_status"
    then obtain x where "s = mcp_outcome_to_status x" by blast
    then show "s \<in> {DONE, PARTIAL, FAILED, BLOCKED}" by (cases x) simp_all
  qed (auto intro: range_eqI [of _ _ Completed] range_eqI [of _ _ Partial_Outcome]
      range_eqI [of _ _ Failed_Outcome] range_eqI [of _ _ Blocked_Outcome])
  then show ?thesis by (cases r; cases s) simp_all
qed

end
