(* ===== verification/Finance_Aggregate.thy ===== *)
theory Finance_Aggregate
  imports Finance_Validate "HOL-Library.Product_Lexorder"
begin

text \<open>
  \<open>domains/finance/src/aggregate.ts\<close> and \<open>provenance.ts\<close>: from a list of observed events to the finance
  read model. Every loop is a \<open>foldE\<close>; the sums and the arrays a loop fills together are one \<open>channel\<close>.
  \<open>localeCompare\<close> is the order of collation keys (the parameter \<open>collate\<close>), the wall clock is \<open>now\<close>.
  The two divisions are exact: \<open>Math.floor(a / b)\<close> of safe integers is the integer quotient, and
  \<open>amount * 10000\<close> is exact up to nine hundred billion cents; beyond that the engine would round it.
\<close>

section \<open>Figures\<close>

definition aggregator_source :: fin_source where
  "aggregator_source =
     \<lparr>fs_system = ''collector'', fs_kind = ''finance-read-model'', fs_locator = ''aggregate'', fs_label = None\<rparr>"

definition freshness_of :: "string \<Rightarrow> string \<Rightarrow> rat \<Rightarrow> fin_freshness fin_result" where
  "freshness_of observed_at as_of seconds =
     bindE (age_seconds observed_at as_of) (\<lambda>age. Inr (if of_int age \<le> seconds then FF_FRESH else FF_STALE))"

definition min_confidence :: "rat list \<Rightarrow> rat \<Rightarrow> rat" where
  "min_confidence values fallback = (if values = [] then fallback else foldl (\<lambda>m v. if v < m then v else m) 1 values)"

definition latest_observed_at :: "finance_event list \<Rightarrow> string \<Rightarrow> string" where
  "latest_observed_at evs fallback =
     (case evs of [] \<Rightarrow> fallback
      | e # _ \<Rightarrow> foldl (\<lambda>l ev. if l < fe_observed_at ev then fe_observed_at ev else l) (fe_observed_at e) evs)"

definition source_from_events :: "finance_event list \<Rightarrow> fin_source" where
  "source_from_events evs =
     (case evs of [] \<Rightarrow> aggregator_source
      | e # _ \<Rightarrow>
          (if list_all (\<lambda>ev. fs_system (fe_source ev) = fs_system (fe_source e)) evs
           then \<lparr>fs_system = fs_system (fe_source e), fs_kind = ''finance-observation'',
                 fs_locator = fs_locator (fe_source e), fs_label = None\<rparr>
           else aggregator_source))"

definition figure ::
  "int \<Rightarrow> string \<Rightarrow> string \<Rightarrow> rat \<Rightarrow> finance_event list \<Rightarrow> incomplete_reason list \<Rightarrow> string \<Rightarrow> money_figure fin_result" where
  "figure amount currency as_of seconds evs reasons generated_at =
     (let observed_at = (if evs \<noteq> [] then latest_observed_at evs as_of else generated_at) in
      bindE (if evs \<noteq> [] then freshness_of observed_at as_of seconds else Inr FF_FRESH) (\<lambda>freshness.
      Inr \<lparr>mf_amount_cents = amount, mf_currency = currency, mf_source = source_from_events evs,
           mf_observed_at = observed_at, mf_freshness = freshness,
           mf_confidence =
             (if evs \<noteq> [] then min_confidence (map fe_confidence evs) 0 else if reasons \<noteq> [] then 0 else 1),
           mf_incomplete = (reasons \<noteq> []), mf_incomplete_reasons = reasons\<rparr>))"

definition slug_char :: "char \<Rightarrow> bool" where
  "slug_char c \<longleftrightarrow> is_alnum c \<or> c \<in> set ''._~-''"

definition snapshot_id :: "string \<Rightarrow> string \<Rightarrow> string fin_result" where
  "snapshot_id seed as_of =
     (let slug = take 64 (map (\<lambda>c. if slug_char c then c else CHR ''-'') seed) in
      require_some (date_ms as_of) FINANCE_DATETIME_INVALID (\<lambda>t.
      Inr (''cc:finance-snapshot:'' @ (if slug = [] then ''default'' else slug) @ ''-'' @ take 10 (to_iso t))))"

section \<open>Obligations\<close>

record obligation =
  ob_id :: string
  ob_client_id :: string
  ob_currency :: string
  ob_billing_mode :: billing_mode
  ob_billing_cycle :: "billing_cycle option"
  ob_offer_code :: "string option"
  ob_due_at :: "string option"
  ob_cancelled :: bool
  ob_contracted :: int
  ob_invoiced :: int
  ob_confirmed_paid :: int
  ob_received_gross :: int
  ob_refunded :: int
  ob_charged_back :: int
  ob_has_contract :: bool
  ob_has_invoice :: bool
  ob_events :: "finance_event list"

definition empty_obligation :: "finance_event \<Rightarrow> obligation" where
  "empty_obligation e =
     \<lparr>ob_id = fe_obligation_id e, ob_client_id = fe_client_id e, ob_currency = fe_currency e,
      ob_billing_mode = fe_billing_mode e, ob_billing_cycle = fe_billing_cycle e,
      ob_offer_code = fe_offer_code e, ob_due_at = fe_due_at e, ob_cancelled = False,
      ob_contracted = 0, ob_invoiced = 0, ob_confirmed_paid = 0, ob_received_gross = 0, ob_refunded = 0,
      ob_charged_back = 0, ob_has_contract = False, ob_has_invoice = False, ob_events = []\<rparr>"

definition event_instant :: "finance_event \<Rightarrow> int" where
  "event_instant e = (case date_ms (fe_occurred_at e) of None \<Rightarrow> 0 | Some t \<Rightarrow> t)"

text \<open>
  The comparator parses both timestamps, so a sort of two or more events throws when one of them
  is malformed; then it orders by instant and by id.
\<close>

definition sort_events :: "(string \<Rightarrow> string) \<Rightarrow> finance_event list \<Rightarrow> finance_event list fin_result" where
  "sort_events collate evs =
     require (length evs \<le> 1 \<or> list_all (valid_utc \<circ> fe_occurred_at) evs) FINANCE_DATETIME_INVALID (
     Inr (sort_key (\<lambda>e. (event_instant e, collate (fe_id e))) evs))"

fun dedupe_from :: "string list \<Rightarrow> finance_event list \<Rightarrow> finance_event list fin_result" where
  "dedupe_from seen [] = Inr []"
| "dedupe_from seen (e # es) =
     (if fe_idempotency_key e \<in> set seen then dedupe_from seen es
      else bindE (parse_finance_event (event_json e)) (\<lambda>p.
           bindE (dedupe_from (fe_idempotency_key e # seen) es) (\<lambda>ps. Inr (p # ps))))"

definition dedupe :: "(string \<Rightarrow> string) \<Rightarrow> finance_event list \<Rightarrow> finance_event list fin_result" where
  "dedupe collate evs = bindE (sort_events collate evs) (dedupe_from [])"

definition note_event :: "finance_event \<Rightarrow> obligation \<Rightarrow> obligation" where
  "note_event e s =
     s\<lparr>ob_events := ob_events s @ [e],
       ob_due_at := or_option (fe_due_at e) (ob_due_at s),
       ob_billing_mode := (if fe_billing_mode e \<noteq> BM_UNKNOWN then fe_billing_mode e else ob_billing_mode s),
       ob_billing_cycle := or_option (fe_billing_cycle e) (ob_billing_cycle s),
       ob_offer_code := or_option (fe_offer_code e) (ob_offer_code s)\<rparr>"

definition apply_adjustment :: "obligation \<Rightarrow> finance_event \<Rightarrow> obligation fin_result" where
  "apply_adjustment s e =
     (let amount = fe_amount_cents e in
      case fe_adjustment_target e of
        Some AT_Contratada \<Rightarrow>
          bindE (add_cents (ob_contracted s) amount) (\<lambda>c. Inr (s\<lparr>ob_contracted := c, ob_has_contract := True\<rparr>))
      | Some AT_Faturada \<Rightarrow>
          bindE (add_cents (ob_invoiced s) amount) (\<lambda>c. Inr (s\<lparr>ob_invoiced := c, ob_has_invoice := True\<rparr>))
      | Some AT_Paga \<Rightarrow> bindE (add_cents (ob_confirmed_paid s) amount) (\<lambda>c. Inr (s\<lparr>ob_confirmed_paid := c\<rparr>))
      | Some AT_Recebida \<Rightarrow> bindE (add_cents (ob_received_gross s) amount) (\<lambda>c. Inr (s\<lparr>ob_received_gross := c\<rparr>))
      | _ \<Rightarrow> Inr s)"

definition apply_event :: "obligation \<Rightarrow> finance_event \<Rightarrow> obligation fin_result" where
  "apply_event state e =
     (let s = note_event e state; amount = fe_amount_cents e in
      case fe_kind e of
        Contract_Signed \<Rightarrow>
          bindE (add_cents (ob_contracted s) amount) (\<lambda>c. Inr (s\<lparr>ob_contracted := c, ob_has_contract := True\<rparr>))
      | Invoice_Issued \<Rightarrow>
          bindE (add_cents (ob_invoiced s) amount) (\<lambda>i.
          if \<not> ob_has_contract s then
            bindE (add_cents (ob_contracted s) amount) (\<lambda>c.
            Inr (s\<lparr>ob_invoiced := i, ob_has_invoice := True, ob_contracted := c\<rparr>))
          else Inr (s\<lparr>ob_invoiced := i, ob_has_invoice := True\<rparr>))
      | Payment_Confirmed \<Rightarrow> bindE (add_cents (ob_confirmed_paid s) amount) (\<lambda>c. Inr (s\<lparr>ob_confirmed_paid := c\<rparr>))
      | Settlement_Received \<Rightarrow> bindE (add_cents (ob_received_gross s) amount) (\<lambda>c. Inr (s\<lparr>ob_received_gross := c\<rparr>))
      | Refund \<Rightarrow> bindE (add_cents (ob_refunded s) amount) (\<lambda>c. Inr (s\<lparr>ob_refunded := c\<rparr>))
      | Chargeback \<Rightarrow> bindE (add_cents (ob_charged_back s) amount) (\<lambda>c. Inr (s\<lparr>ob_charged_back := c\<rparr>))
      | Invoice_Overdue \<Rightarrow> Inr s
      | Contract_Cancelled \<Rightarrow> Inr (s\<lparr>ob_cancelled := True\<rparr>)
      | Manual_Adjustment \<Rightarrow> apply_adjustment s e
      | Expense \<Rightarrow> Inr s
      | Cash_Balance \<Rightarrow> Inr s)"

definition net_received :: "obligation \<Rightarrow> int fin_result" where
  "net_received s = bindE (add_cents (ob_refunded s) (ob_charged_back s)) (sub_cents_floor (ob_received_gross s))"

definition gross_paid :: "obligation \<Rightarrow> int" where
  "gross_paid s = (if ob_confirmed_paid s > ob_received_gross s then ob_confirmed_paid s else ob_received_gross s)"

definition net_paid :: "obligation \<Rightarrow> int fin_result" where
  "net_paid s = bindE (add_cents (ob_refunded s) (ob_charged_back s)) (sub_cents_floor (gross_paid s))"

definition open_ar :: "obligation \<Rightarrow> int fin_result" where
  "open_ar s =
     (if ob_cancelled s then Inr 0
      else bindE (net_received s) (\<lambda>r. bindE (add_cents r (ob_refunded s)) (sub_cents_floor (ob_invoiced s))))"

definition is_overdue :: "obligation \<Rightarrow> string \<Rightarrow> bool fin_result" where
  "is_overdue s as_of =
     bindE (open_ar s) (\<lambda>ar.
     if ar \<le> 0 then Inr False
     else case ob_due_at s of
       None \<Rightarrow> Inr False
     | Some due \<Rightarrow> bindE (days_between due as_of) (\<lambda>days. Inr (0 < days)))"

definition aging_key :: "obligation \<Rightarrow> string \<Rightarrow> aging_key fin_result" where
  "aging_key s as_of =
     bindE (open_ar s) (\<lambda>ar.
     if ar \<le> 0 then Inr AK_current
     else case ob_due_at s of
       None \<Rightarrow> Inr AK_unknown
     | Some due \<Rightarrow>
         bindE (days_between due as_of) (\<lambda>days.
         Inr (if days \<le> 0 then AK_current else if days \<le> 30 then AK_d1_30
              else if days \<le> 60 then AK_d31_60 else if days \<le> 90 then AK_d61_90 else AK_d91_plus)))"

text \<open>The \<open>Map\<close> of obligations, in insertion order.\<close>

definition put_obligation :: "obligation \<Rightarrow> obligation list \<Rightarrow> obligation list" where
  "put_obligation s obs =
     (if List.find (\<lambda>o'. ob_id o' = ob_id s) obs = None then obs @ [s]
      else update_first (\<lambda>o'. ob_id o' = ob_id s) (\<lambda>_. s) obs)"

definition off_ledger :: "finance_event \<Rightarrow> bool" where
  "off_ledger e \<longleftrightarrow>
     fe_kind e = Expense \<or> fe_kind e = Cash_Balance
     \<or> fe_kind e = Manual_Adjustment \<and> fe_adjustment_target e \<in> {Some AT_Expense, Some AT_Cash_Balance}"

definition collect_event :: "obligation list \<Rightarrow> finance_event \<Rightarrow> obligation list fin_result" where
  "collect_event obs e =
     (if off_ledger e then Inr obs
      else let current = or_else (List.find (\<lambda>s. ob_id s = fe_obligation_id e) obs) (empty_obligation e) in
        require (ob_currency current = fe_currency e) FINANCE_MIXED_CURRENCY (
        bindE (apply_event current e) (\<lambda>s. Inr (put_obligation s obs))))"

definition collect_obligations :: "finance_event list \<Rightarrow> obligation list fin_result" where
  "collect_obligations evs = foldE collect_event [] evs"

section \<open>The totals\<close>

record channel =
  ch_amount :: int
  ch_events :: "finance_event list"
  ch_reasons :: "incomplete_reason list"

record totals =
  tt_contratada :: channel
  tt_faturada :: channel
  tt_paga :: channel
  tt_recebida :: channel
  tt_vencida :: channel
  tt_a_receber :: channel
  tt_mrr :: channel
  tt_snapshot :: "incomplete_reason list"

definition no_channel :: channel where
  "no_channel = \<lparr>ch_amount = 0, ch_events = [], ch_reasons = []\<rparr>"

definition no_totals :: "incomplete_reason list \<Rightarrow> totals" where
  "no_totals reasons =
     \<lparr>tt_contratada = no_channel, tt_faturada = no_channel, tt_paga = no_channel, tt_recebida = no_channel,
      tt_vencida = no_channel, tt_a_receber = no_channel, tt_mrr = no_channel, tt_snapshot = reasons\<rparr>"

text \<open>The new amount of a channel, with the events and the reasons pushed to it.\<close>

definition grow :: "channel \<Rightarrow> int \<Rightarrow> finance_event list \<Rightarrow> incomplete_reason list \<Rightarrow> channel" where
  "grow c amount evs reasons =
     \<lparr>ch_amount = amount, ch_events = ch_events c @ evs, ch_reasons = ch_reasons c @ reasons\<rparr>"

definition if_reason :: "bool \<Rightarrow> incomplete_reason \<Rightarrow> incomplete_reason list" where
  "if_reason c r = (if c then [r] else [])"

definition adjusts :: "adjustment_target \<Rightarrow> finance_event \<Rightarrow> bool" where
  "adjusts t e \<longleftrightarrow> fe_kind e = Manual_Adjustment \<and> fe_adjustment_target e = Some t"

definition contratada_event :: "obligation \<Rightarrow> finance_event \<Rightarrow> bool" where
  "contratada_event s e \<longleftrightarrow>
     fe_kind e = Contract_Signed \<or> fe_kind e = Invoice_Issued \<and> \<not> ob_has_contract s \<or> adjusts AT_Contratada e"

definition faturada_event :: "finance_event \<Rightarrow> bool" where
  "faturada_event e \<longleftrightarrow> fe_kind e = Invoice_Issued \<or> adjusts AT_Faturada e"

definition paga_event :: "finance_event \<Rightarrow> bool" where
  "paga_event e \<longleftrightarrow>
     fe_kind e \<in> {Payment_Confirmed, Settlement_Received, Refund, Chargeback} \<or> adjusts AT_Paga e"

definition recebida_event :: "finance_event \<Rightarrow> bool" where
  "recebida_event e \<longleftrightarrow> fe_kind e \<in> {Settlement_Received, Refund, Chargeback} \<or> adjusts AT_Recebida e"

definition monthly :: "obligation \<Rightarrow> bool" where
  "monthly s \<longleftrightarrow> ob_billing_mode s = BM_RECURRING \<and> ob_billing_cycle s = Some BC_MONTHLY"

definition omitted_recurring :: "obligation \<Rightarrow> bool" where
  "omitted_recurring s \<longleftrightarrow> ob_billing_mode s = BM_RECURRING \<and> ob_billing_cycle s \<noteq> Some BC_MONTHLY"

definition add_obligation :: "string \<Rightarrow> totals \<Rightarrow> obligation \<Rightarrow> totals fin_result" where
  "add_obligation as_of tt s =
     (if ob_cancelled s then Inr tt
      else
        bindE (add_cents (ch_amount (tt_contratada tt)) (ob_contracted s)) (\<lambda>contratada.
        bindE (add_cents (ch_amount (tt_faturada tt)) (ob_invoiced s)) (\<lambda>faturada.
        bindE (net_paid s) (\<lambda>paid.
        bindE (net_received s) (\<lambda>received.
        bindE (add_cents (ch_amount (tt_paga tt)) paid) (\<lambda>paga.
        bindE (add_cents (ch_amount (tt_recebida tt)) received) (\<lambda>recebida.
        bindE (open_ar s) (\<lambda>ar.
        bindE (add_cents (ch_amount (tt_a_receber tt)) ar) (\<lambda>a_receber.
        bindE (is_overdue s as_of) (\<lambda>overdue.
        bindE (if overdue then add_cents (ch_amount (tt_vencida tt)) ar else Inr (ch_amount (tt_vencida tt))) (\<lambda>vencida.
        bindE (if monthly s
               then add_cents (ch_amount (tt_mrr tt)) (if 0 < ob_contracted s then ob_contracted s else ob_invoiced s)
               else Inr (ch_amount (tt_mrr tt))) (\<lambda>mrr.
        let no_contract = if_reason (ob_has_invoice s \<and> \<not> ob_has_contract s) IR_Invoice_Without_Contract;
            exceeds = if_reason (ob_received_gross s < ob_refunded s) IR_Refund_Exceeds_Received @
                      if_reason (ob_received_gross s < ob_charged_back s) IR_Chargeback_Exceeds_Received;
            unsettled = if_reason (received < paid) IR_Paid_Without_Settlement;
            undated = if_reason (0 < ar \<and> ob_due_at s = None) IR_Missing_Due_Date;
            unknown = if_reason (ob_billing_mode s = BM_UNKNOWN) IR_Unknown_Billing_Mode;
            omitted = if_reason (omitted_recurring s) IR_Non_Monthly_Recurring_Omitted
        in Inr
          \<lparr>tt_contratada = grow (tt_contratada tt) contratada (filter (contratada_event s) (ob_events s)) no_contract,
           tt_faturada = grow (tt_faturada tt) faturada (filter faturada_event (ob_events s)) [],
           tt_paga = grow (tt_paga tt) paga (filter paga_event (ob_events s)) unsettled,
           tt_recebida = grow (tt_recebida tt) recebida (filter recebida_event (ob_events s)) exceeds,
           tt_vencida = grow (tt_vencida tt) vencida (if overdue then ob_events s else []) undated,
           tt_a_receber = grow (tt_a_receber tt) a_receber (if 0 < ar then ob_events s else []) undated,
           tt_mrr = grow (tt_mrr tt) mrr (if monthly s then ob_events s else []) (unknown @ omitted),
           tt_snapshot = tt_snapshot tt @ no_contract @ exceeds @ unsettled @ undated @ unknown @ omitted\<rparr>))))))))))))"

section \<open>Cash in, aging, concentration, runway\<close>

definition cash_in_event :: "time_window \<Rightarrow> int \<times> finance_event list \<Rightarrow> finance_event \<Rightarrow> (int \<times> finance_event list) fin_result" where
  "cash_in_event window acc e =
     (case acc of (cash, evs) \<Rightarrow>
        bindE (is_in_window (fe_occurred_at e) (tw_from window) (tw_to window)) (\<lambda>inside.
        if \<not> inside then Inr (cash, evs)
        else if fe_kind e = Settlement_Received \<or> adjusts AT_Recebida e then
          bindE (add_cents cash (fe_amount_cents e)) (\<lambda>c. Inr (c, evs @ [e]))
        else if fe_kind e = Refund \<or> fe_kind e = Chargeback then
          bindE (add_cents cash (- fe_amount_cents e)) (\<lambda>c. Inr (c, evs @ [e]))
        else Inr (cash, evs)))"

definition bucket_order :: "aging_key list" where
  "bucket_order = [AK_current, AK_d1_30, AK_d31_60, AK_d61_90, AK_d91_plus, AK_unknown]"

definition empty_buckets :: "aging_bucket list" where
  "empty_buckets = map (\<lambda>k. \<lparr>ab_key = k, ab_amount_cents = 0, ab_obligation_count = 0\<rparr>) bucket_order"

definition bucket_amount :: "aging_bucket list \<Rightarrow> aging_key \<Rightarrow> int" where
  "bucket_amount buckets k =
     (case List.find (\<lambda>b. ab_key b = k) buckets of None \<Rightarrow> 0 | Some b \<Rightarrow> ab_amount_cents b)"

definition age_obligation :: "string \<Rightarrow> aging_bucket list \<Rightarrow> obligation \<Rightarrow> aging_bucket list fin_result" where
  "age_obligation as_of buckets s =
     bindE (open_ar s) (\<lambda>ar.
     if ar \<le> 0 \<or> ob_cancelled s then Inr buckets
     else
       bindE (aging_key s as_of) (\<lambda>k.
       bindE (add_cents (bucket_amount buckets k) ar) (\<lambda>amount.
       Inr (update_first (\<lambda>b. ab_key b = k)
              (\<lambda>b. b\<lparr>ab_amount_cents := amount, ab_obligation_count := ab_obligation_count b + 1\<rparr>) buckets))))"

fun set_entry :: "'k \<Rightarrow> 'v \<Rightarrow> ('k \<times> 'v) list \<Rightarrow> ('k \<times> 'v) list" where
  "set_entry k v [] = [(k, v)]"
| "set_entry k v ((a, b) # ps) = (if a = k then (k, v) # ps else (a, b) # set_entry k v ps)"

definition add_client :: "(string \<times> int) list \<Rightarrow> obligation \<Rightarrow> (string \<times> int) list fin_result" where
  "add_client clients s =
     bindE (open_ar s) (\<lambda>ar.
     if ar \<le> 0 then Inr clients
     else
       bindE (add_cents (or_else (map_of clients (ob_client_id s)) 0) ar) (\<lambda>amount.
       Inr (set_entry (ob_client_id s) amount clients)))"

definition client_shares :: "(string \<Rightarrow> string) \<Rightarrow> int \<Rightarrow> (string \<times> int) list \<Rightarrow> client_share list" where
  "client_shares collate a_receber clients =
     sort_key (\<lambda>s. (- sh_amount_cents s, collate (sh_client_id s)))
       (map (\<lambda>(c, amount).
          \<lparr>sh_client_id = c, sh_amount_cents = amount,
           sh_share_bps = (if a_receber = 0 then 0 else (amount * 10000) div a_receber)\<rparr>) clients)"

definition top_share :: "client_share list \<Rightarrow> int" where
  "top_share shares = (case shares of [] \<Rightarrow> 0 | s # _ \<Rightarrow> sh_share_bps s)"

definition reliable_confidence :: rat where
  "reliable_confidence = 8 / 10"

definition reliable_expense :: "finance_event \<Rightarrow> bool" where
  "reliable_expense e \<longleftrightarrow> (fe_kind e = Expense \<or> adjusts AT_Expense e) \<and> reliable_confidence \<le> fe_confidence e"

definition balance_event :: "finance_event \<Rightarrow> bool" where
  "balance_event e \<longleftrightarrow> fe_kind e = Cash_Balance \<or> adjusts AT_Cash_Balance e"

definition omit_runway :: "runway_reason \<Rightarrow> string \<Rightarrow> rat \<Rightarrow> runway" where
  "omit_runway reason as_of confidence = Runway_Omitted reason aggregator_source as_of FF_UNKNOWN confidence"

text \<open>The most recent balance (the first of them in a stable sort, newest first).\<close>

definition latest_balance :: "finance_event list \<Rightarrow> finance_event option" where
  "latest_balance balances = (case sort_key (\<lambda>e. - event_instant e) balances of [] \<Rightarrow> None | e # _ \<Rightarrow> Some e)"

definition burn_events :: "int \<Rightarrow> finance_event list \<Rightarrow> finance_event list" where
  "burn_events as_of_ms expenses =
     (let recent = filter (\<lambda>e. as_of_ms - 30 * 86400000 \<le> event_instant e) expenses
      in if recent \<noteq> [] then recent else expenses)"

definition estimate_runway ::
  "string \<Rightarrow> string \<Rightarrow> finance_event list \<Rightarrow> (incomplete_reason list \<times> runway) fin_result" where
  "estimate_runway as_of currency evs =
     (let expenses = filter reliable_expense evs; balances = filter balance_event evs in
      if expenses = [] then
        Inr ([IR_Missing_Reliable_Expenses], omit_runway RW_missing_reliable_expenses as_of 0)
      else case latest_balance balances of
        None \<Rightarrow>
          Inr ([IR_Missing_Cash_Balance],
               omit_runway RW_missing_cash_balance as_of (min_confidence (map fe_confidence expenses) 0))
      | Some balance \<Rightarrow>
          bindE (fin_parse_utc as_of) (\<lambda>as_of_ms.
          let burning = burn_events as_of_ms expenses in
          bindE (foldE add_cents 0 (map fe_amount_cents burning)) (\<lambda>burn.
          if burn \<le> 0 then Inr ([], omit_runway RW_non_positive_burn as_of 0)
          else
            bindE (assert_cents (fe_amount_cents balance div burn)) (\<lambda>months.
            Inr ([], Runway_Estimated
              \<lparr>rw_months = months, rw_cash_balance_cents = fe_amount_cents balance, rw_monthly_burn_cents = burn,
               rw_currency = currency, rw_source = fe_source balance, rw_observed_at = fe_observed_at balance,
               rw_freshness = fe_freshness balance,
               rw_confidence = min_confidence (fe_confidence balance # map fe_confidence burning) 0\<rparr>)))))"

section \<open>The read model\<close>

definition has_manual_cash :: "finance_event list \<Rightarrow> bool" where
  "has_manual_cash evs \<longleftrightarrow> list_ex (adjusts AT_Recebida) evs"

definition figures_of :: "string \<Rightarrow> string \<Rightarrow> rat \<Rightarrow> string \<Rightarrow> totals \<Rightarrow> incomplete_reason list \<Rightarrow> finance_figures fin_result" where
  "figures_of currency as_of seconds generated_at tt recebida_reasons =
     (let fig = (\<lambda>c reasons. figure (ch_amount c) currency as_of seconds (ch_events c) (unique_strings reasons) generated_at) in
      bindE (fig (tt_contratada tt) (ch_reasons (tt_contratada tt))) (\<lambda>contratada.
      bindE (fig (tt_faturada tt) (ch_reasons (tt_faturada tt))) (\<lambda>faturada.
      bindE (fig (tt_paga tt) (ch_reasons (tt_paga tt))) (\<lambda>paga.
      bindE (fig (tt_recebida tt) recebida_reasons) (\<lambda>recebida.
      bindE (fig (tt_vencida tt) (ch_reasons (tt_vencida tt))) (\<lambda>vencida.
      bindE (fig (tt_a_receber tt) (ch_reasons (tt_a_receber tt))) (\<lambda>a_receber.
      Inr \<lparr>fg_contratada = contratada, fg_faturada = faturada, fg_paga = paga, fg_recebida = recebida,
           fg_vencida = vencida, fg_a_receber = a_receber\<rparr>)))))))"

definition currency_of :: "finance_event list \<Rightarrow> string" where
  "currency_of evs = (case evs of [] \<Rightarrow> ''BRL'' | e # _ \<Rightarrow> fe_currency e)"

definition one_currency :: "finance_event list \<Rightarrow> bool" where
  "one_currency evs \<longleftrightarrow> list_all (\<lambda>e. fe_currency e = currency_of evs) evs"

definition window_seconds :: "aggregate_options \<Rightarrow> rat" where
  "window_seconds opts = or_else (ao_freshness_window_seconds opts) 86400"

definition adjustments_applied :: "finance_event list \<Rightarrow> nat" where
  "adjustments_applied evs = length (filter (\<lambda>e. fe_kind e = Manual_Adjustment) evs)"

text \<open>From the deduplicated events to the read model.\<close>

definition read_model :: "(string \<Rightarrow> string) \<Rightarrow> int \<Rightarrow> aggregate_options \<Rightarrow> finance_event list \<Rightarrow> finance_read_model fin_result" where
  "read_model collate now opts evs =
     (let as_of = ao_as_of opts; seconds = window_seconds opts; generated_at = to_iso now;
          currency = currency_of evs; window = ao_cash_in_window opts in
      require (one_currency evs) FINANCE_MIXED_CURRENCY (
      bindE (collect_obligations evs) (\<lambda>states.
      bindE (foldE (add_obligation as_of) (no_totals (if_reason (evs = []) IR_Empty_Input)) states) (\<lambda>tt.
      bindE (foldE (cash_in_event window) (0, []) evs) (\<lambda>(cash, cash_events).
      bindE (foldE (age_obligation as_of) empty_buckets states) (\<lambda>buckets.
      bindE (foldE add_client [] states) (\<lambda>clients.
      bindE (estimate_runway as_of currency evs) (\<lambda>(runway_reasons, runway).
      let manual = if_reason (has_manual_cash evs) IR_Manual_Cash_Assertion;
          recebida_reasons = ch_reasons (tt_recebida tt) @ manual;
          shares = client_shares collate (ch_amount (tt_a_receber tt)) clients;
          reasons = unique_strings (tt_snapshot tt @ manual @ runway_reasons @
            if_reason (list_ex (\<lambda>e. fe_confidence e < 1 / 2) evs) IR_Low_Confidence_Input)
      in
      bindE (figures_of currency as_of seconds generated_at tt recebida_reasons) (\<lambda>figures.
      bindE (figure cash currency as_of seconds cash_events (unique_strings recebida_reasons) generated_at) (\<lambda>cash_in.
      bindE (figure (ch_amount (tt_mrr tt)) currency as_of seconds (ch_events (tt_mrr tt))
               (unique_strings (ch_reasons (tt_mrr tt))) generated_at) (\<lambda>mrr.
      bindE (case ao_snapshot_id opts of Some i \<Rightarrow> Inr i | None \<Rightarrow> snapshot_id ''finance'' as_of) (\<lambda>id.
      Inr \<lparr>rm_id = id, rm_scope = or_else (ao_scope opts) ''finance'', rm_generated_at = generated_at,
           rm_as_of = as_of, rm_currency = currency, rm_figures = figures, rm_cash_in = cash_in,
           rm_cash_in_window = window, rm_mrr = mrr,
           rm_ar_aging = \<lparr>aa_figure = fg_a_receber figures, aa_buckets = buckets\<rparr>,
           rm_concentracao =
             \<lparr>co_figure = fg_a_receber figures, co_clients = shares, co_top_share_bps = top_share shares\<rparr>,
           rm_runway = runway, rm_incomplete_data = (reasons \<noteq> []), rm_incomplete_reasons = reasons,
           rm_provenance =
             \<lparr>fp_source = aggregator_source, fp_observed_at = generated_at,
              fp_freshness = (if evs = [] then FF_UNKNOWN else FF_FRESH),
              fp_confidence = min_confidence (map fe_confidence evs) 0, fp_window_seconds = seconds\<rparr>,
           rm_adjustments_applied = adjustments_applied evs, rm_event_count = length evs\<rparr>))))))))))))"

definition aggregate_finance ::
  "(string \<Rightarrow> string) \<Rightarrow> int \<Rightarrow> aggregate_options \<Rightarrow> finance_event list \<Rightarrow> finance_read_model fin_result" where
  "aggregate_finance collate now opts raw =
     bindE (fin_parse_utc (ao_as_of opts)) (\<lambda>_.
     require (is_integer (window_seconds opts) \<and> \<not> window_seconds opts < 0) FINANCE_FRESHNESS_WINDOW_INVALID (
     bindE (dedupe collate raw) (read_model collate now opts)))"

definition to_contracts_stub :: "finance_read_model \<Rightarrow> finance_stub" where
  "to_contracts_stub m =
     \<lparr>st_receivables_open =
        \<lparr>fm_amount_cents = mf_amount_cents (fg_a_receber (rm_figures m)), fm_currency = rm_currency m\<rparr>,
      st_receivables_overdue =
        \<lparr>fm_amount_cents = mf_amount_cents (fg_vencida (rm_figures m)), fm_currency = rm_currency m\<rparr>\<rparr>"

text \<open>\<open>assertIntegerCents\<close>: the amounts it checks, in its order.\<close>

definition checked_amounts :: "finance_read_model \<Rightarrow> int list" where
  "checked_amounts m =
     (let f = rm_figures m in
      map mf_amount_cents [fg_contratada f, fg_faturada f, fg_paga f, fg_recebida f, fg_vencida f,
        fg_a_receber f, rm_cash_in m, rm_mrr m]
      @ map ab_amount_cents (aa_buckets (rm_ar_aging m))
      @ map sh_amount_cents (co_clients (rm_concentracao m))
      @ (case rm_runway m of
           Runway_Omitted _ _ _ _ _ \<Rightarrow> []
         | Runway_Estimated r \<Rightarrow> [rw_months r, rw_cash_balance_cents r, rw_monthly_burn_cents r]))"

definition assert_integer_cents :: "finance_read_model \<Rightarrow> unit fin_result" where
  "assert_integer_cents m = bindE (mapE assert_cents (checked_amounts m)) (\<lambda>_. Inr ())"

end
