(* ===== verification/Finance_Events.thy ===== *)
theory Finance_Events
  imports Finance_Validate
begin

text \<open>
  What a reader of \<open>validate.ts\<close> guarantees of the event it returns (\<open>valid_event\<close>), and that writing a
  valid event and reading it again gives the event back.
\<close>

section \<open>Enumerations and optional fields\<close>

lemma field_simps [simp]:
  "field [] k' = None"
  "field ((k, x) # ps) k' = (if k = k' then Some x else field ps k')"
  "field (opt_entry k f v @ ps) k' = (if k = k' then or_option (map_option f v) (field ps k') else field ps k')"
  by (cases v; auto simp: field_def opt_entry_def)+

lemma parse_optional_Inr [guards]:
  "parse_optional p v = Inr x \<longleftrightarrow> (v = None \<and> x = None) \<or> (\<exists>j y. v = Some j \<and> x = Some y \<and> p (Some j) = Inr y)"
  by (cases v) (auto simp: parse_optional_def)

lemma parse_optional_Some: "parse_optional p (Some j) = bindE (p (Some j)) (\<lambda>y. Inr (Some y))"
  by (simp add: parse_optional_def)

lemma parse_optional_map:
  "(\<And>x. v = Some x \<Longrightarrow> p (Some (f x)) = Inr x) \<Longrightarrow> parse_optional p (map_option f v) = Inr v"
  by (cases v) (simp_all add: parse_optional_def)

lemma parse_enum_name: "map_of table (name_of table x) = Some x \<Longrightarrow> parse_enum table e (Some (JStr (name_of table x))) = Inr x"
  by (simp add: parse_enum_def)

lemma names_back [simp]:
  "map_of freshness_names (name_of freshness_names fr) = Some fr"
  "map_of kind_names (name_of kind_names k) = Some k"
  "map_of billing_mode_names (name_of billing_mode_names m) = Some m"
  "map_of billing_cycle_names (name_of billing_cycle_names c) = Some c"
  "map_of target_names (name_of target_names t) = Some t"
  subgoal by (cases fr) (simp_all add: freshness_names_def name_of_def)
  subgoal by (cases k) (simp_all add: kind_names_def name_of_def)
  subgoal by (cases m) (simp_all add: billing_mode_names_def name_of_def)
  subgoal by (cases c) (simp_all add: billing_cycle_names_def name_of_def)
  subgoal by (cases t) (simp_all add: target_names_def name_of_def)
  done

lemma parse_names [simp]:
  "parse_freshness (Some (JStr (name_of freshness_names fr))) = Inr fr"
  "parse_kind (Some (JStr (name_of kind_names k))) = Inr k"
  "parse_billing_mode (Some (JStr (name_of billing_mode_names m))) = Inr m"
  "parse_billing_cycle (Some (JStr (name_of billing_cycle_names c))) = Inr c"
  "parse_adjustment_target (Some (JStr (name_of target_names t))) = Inr t"
  by (simp_all add: parse_freshness_def parse_kind_def parse_billing_mode_def parse_billing_cycle_def
      parse_adjustment_target_def parse_enum_name)

lemma require_string_Inr [guards]:
  "require_string v lo hi = Inr s \<longleftrightarrow> v = Some (JStr s) \<and> lo \<le> length s \<and> length s \<le> hi"
  by (auto simp: require_string_def split: option.splits json.splits)

lemma require_string_JStr [simp]:
  "require_string (Some (JStr s)) lo hi = require (lo \<le> length s \<and> length s \<le> hi) FINANCE_STRING_INVALID (Inr s)"
  by (simp add: require_string_def)

section \<open>Valid events\<close>

definition text_ok :: "nat \<Rightarrow> string \<Rightarrow> bool" where
  "text_ok n s \<longleftrightarrow> s \<noteq> [] \<and> length s \<le> n"

definition opt_ok :: "('a \<Rightarrow> bool) \<Rightarrow> 'a option \<Rightarrow> bool" where
  "opt_ok p v = (case v of None \<Rightarrow> True | Some x \<Rightarrow> p x)"

definition valid_source :: "fin_source \<Rightarrow> bool" where
  "valid_source s \<longleftrightarrow>
     length (fs_system s) \<le> 64 \<and> source_system_pattern (fs_system s)
     \<and> length (fs_kind s) \<le> 64 \<and> source_kind_pattern (fs_kind s)
     \<and> text_ok 512 (fs_locator s) \<and> opt_ok (text_ok 128) (fs_label s)"

definition settlement_agrees :: "finance_event_kind \<Rightarrow> bool \<Rightarrow> bool" where
  "settlement_agrees k proven \<longleftrightarrow> (k = Settlement_Received \<longrightarrow> proven) \<and> (k = Payment_Confirmed \<longrightarrow> \<not> proven)"

definition valid_event :: "finance_event \<Rightarrow> bool" where
  "valid_event e \<longleftrightarrow>
     text_ok 128 (fe_id e) \<and> resource_id_pattern (fe_id e)
     \<and> text_ok 256 (fe_idempotency_key e) \<and> idempotency_key_pattern (fe_idempotency_key e)
     \<and> valid_utc (fe_occurred_at e)
     \<and> is_safe (fe_amount_cents e) \<and> (fe_kind e = Manual_Adjustment \<or> 0 \<le> fe_amount_cents e)
     \<and> currency_pattern (fe_currency e)
     \<and> text_ok 64 (fe_client_id e) \<and> text_ok 128 (fe_obligation_id e)
     \<and> settlement_agrees (fe_kind e) (fe_settlement_proven e)
     \<and> valid_source (fe_source e) \<and> valid_utc (fe_observed_at e)
     \<and> 0 \<le> fe_confidence e \<and> fe_confidence e \<le> 1
     \<and> opt_ok (text_ok 64) (fe_offer_code e) \<and> opt_ok (text_ok 128) (fe_invoice_id e)
     \<and> opt_ok (text_ok 128) (fe_contract_id e) \<and> opt_ok valid_utc (fe_due_at e)
     \<and> (fe_kind e = Manual_Adjustment \<longrightarrow> fe_adjustment_target e \<noteq> None)
     \<and> opt_ok (text_ok 512) (fe_notes e)"

lemma utc_length: "is_utc_datetime s \<Longrightarrow> 20 \<le> length s \<and> length s \<le> 30"
  by (auto simp: is_utc_datetime_def)

lemma parse_timestamp_iff [guards]: "parse_timestamp v = Inr s \<longleftrightarrow> v = Some (JStr s) \<and> valid_utc s"
  by (auto simp: parse_timestamp_def require_string_Inr valid_utc_def dest: utc_length)

lemma parse_settlement_iff [guards]:
  "parse_settlement_proven k v = Inr b \<longleftrightarrow> v = Some (JBool b) \<and> settlement_agrees k b"
  by (auto simp: parse_settlement_proven_def settlement_agrees_def require_def split: option.splits json.splits)

lemma parse_confidence_iff [guards]:
  "parse_confidence v = Inr r \<longleftrightarrow> v = Some (JNum r) \<and> 0 \<le> r \<and> r \<le> 1"
  by (auto simp: parse_confidence_def split: option.splits json.splits)

lemma parse_cents_iff [guards]: "parse_cents v = Inr n \<longleftrightarrow> v = Some (JNum (of_int n)) \<and> is_safe n"
  by (auto simp: parse_cents_def is_integer_def split: option.splits json.splits)

lemma parse_due_at_iff [guards]:
  "parse_due_at v = Inr d \<longleftrightarrow>
     (v \<in> {None, Some JNull} \<and> d = None) \<or> (\<exists>s. v = Some (JStr s) \<and> valid_utc s \<and> d = Some s)"
  by (auto simp: parse_due_at_def parse_timestamp_iff split: option.splits json.splits)

lemma parse_currency_iff:
  "bindE (require_string v 3 3) assert_currency = Inr c \<longleftrightarrow> v = Some (JStr c) \<and> currency_pattern c"
  by (auto simp: require_string_Inr assert_currency_def currency_pattern_def)

lemma reject_secret_Inr [guards]:
  "reject_secret_keys obj k = Inr x \<longleftrightarrow> \<not> list_ex (\<lambda>(key, _). secret_key key) obj \<and> k = Inr x"
  by (simp add: reject_secret_keys_def)

lemma parse_label_iff:
  "parse_optional (\<lambda>v. require_string v lo hi) v = Inr x \<longleftrightarrow>
     (v = None \<and> x = None) \<or> (\<exists>s. v = Some (JStr s) \<and> x = Some s \<and> lo \<le> length s \<and> length s \<le> hi)"
  by (auto simp: parse_optional_Inr require_string_Inr)

lemma parse_source_valid: "parse_source_ref v = Inr s \<Longrightarrow> valid_source s"
  by (auto simp: parse_source_ref_def valid_source_def parse_label_iff text_ok_def opt_ok_def guards split: option.splits json.splits)

text \<open>No field the code writes is a secret-bearing key.\<close>

lemma event_keys_plain: "list_all (\<lambda>k. \<not> secret_key k) event_keys"
  and source_keys_plain: "list_all (\<lambda>k. \<not> secret_key k) [''kind'', ''label'', ''locator'', ''system'']"
  by (simp_all add: event_keys_def secret_key_def secret_words_def ends_with_def secret_prefix_def lower_char_def
      is_upper_def)

lemma list_ex_opt_entry: "list_ex P (opt_entry k f v) \<longleftrightarrow> (\<exists>x. v = Some x \<and> P (k, f x))"
  by (cases v) (simp_all add: opt_entry_def)

lemma list_all_opt_entry: "list_all P (opt_entry k f v) \<longleftrightarrow> (\<forall>x. v = Some x \<longrightarrow> P (k, f x))"
  by (cases v) (simp_all add: opt_entry_def)

lemma source_patterns_nonempty: "source_system_pattern s \<Longrightarrow> s \<noteq> []" "source_kind_pattern s \<Longrightarrow> s \<noteq> []"
  by (simp_all add: source_system_pattern_def source_kind_pattern_def)

lemma parse_source_json: "valid_source s \<Longrightarrow> parse_source_ref (Some (source_json s)) = Inr s"
  by (cases s; cases "fs_label s")
    (auto simp: parse_source_ref_def source_json_def valid_source_def text_ok_def opt_ok_def reject_secret_keys_def
      source_keys_plain [simplified] list_ex_opt_entry parse_optional_def source_patterns_nonempty Suc_le_eq)

section \<open>Reading is sound and inverts writing\<close>

lemma parse_text_ok: "parse_optional (\<lambda>v. require_string v (Suc 0) hi) v = Inr x \<Longrightarrow> opt_ok (text_ok hi) x"
  by (auto simp: parse_label_iff opt_ok_def text_ok_def)

lemma parse_due_ok: "parse_due_at v = Inr d \<Longrightarrow> opt_ok valid_utc d"
  by (auto simp: parse_due_at_iff opt_ok_def)

lemma require_string_text_ok: "require_string v (Suc 0) hi = Inr s \<Longrightarrow> text_ok hi s"
  by (auto simp: require_string_Inr text_ok_def)

lemma parse_finance_event_valid: "parse_finance_event j = Inr e \<Longrightarrow> valid_event e"
  by (cases j)
    (clarsimp simp: parse_finance_event_def reject_secret_Inr valid_event_def parse_timestamp_iff parse_cents_iff
      parse_settlement_iff parse_confidence_iff assert_currency_def
      dest!: parse_text_ok parse_due_ok require_string_text_ok parse_source_valid)+

lemma parse_text_map: "opt_ok (text_ok hi) v \<Longrightarrow> parse_optional (\<lambda>v. require_string v (Suc 0) hi) (map_option JStr v) = Inr v"
  by (rule parse_optional_map) (simp add: opt_ok_def text_ok_def Suc_le_eq)

lemma parse_due_map: "opt_ok valid_utc v \<Longrightarrow> parse_due_at (map_option JStr v) = Inr v"
  by (cases v) (auto simp: opt_ok_def parse_due_at_iff)

lemma event_json_keys:
  "list_all (\<lambda>(k, _). k \<in> set event_keys) (case event_json e of JObj obj \<Rightarrow> obj | _ \<Rightarrow> [])"
  by (simp add: event_json_def list_all_opt_entry event_keys_def)

lemma known_not_secret: "list_all (\<lambda>(k, _). k \<in> set event_keys) obj \<Longrightarrow> \<not> list_ex (\<lambda>(k, _). secret_key k) obj"
  using event_keys_plain by (auto simp: list_all_iff list_ex_iff)

lemma event_json_fields:
  assumes obj: "event_json e = JObj obj"
  shows
    "field obj ''id'' = Some (JStr (fe_id e))"
    "field obj ''idempotency_key'' = Some (JStr (fe_idempotency_key e))"
    "field obj ''kind'' = Some (JStr (name_of kind_names (fe_kind e)))"
    "field obj ''occurred_at'' = Some (JStr (fe_occurred_at e))"
    "field obj ''amount_cents'' = Some (JNum (of_int (fe_amount_cents e)))"
    "field obj ''currency'' = Some (JStr (fe_currency e))"
    "field obj ''client_id'' = Some (JStr (fe_client_id e))"
    "field obj ''obligation_id'' = Some (JStr (fe_obligation_id e))"
    "field obj ''billing_mode'' = Some (JStr (name_of billing_mode_names (fe_billing_mode e)))"
    "field obj ''settlement_proven'' = Some (JBool (fe_settlement_proven e))"
    "field obj ''source'' = Some (source_json (fe_source e))"
    "field obj ''observed_at'' = Some (JStr (fe_observed_at e))"
    "field obj ''freshness_status'' = Some (JStr (name_of freshness_names (fe_freshness e)))"
    "field obj ''confidence'' = Some (JNum (fe_confidence e))"
    "field obj ''billing_cycle'' = map_option (\<lambda>c. JStr (name_of billing_cycle_names c)) (fe_billing_cycle e)"
    "field obj ''offer_code'' = map_option JStr (fe_offer_code e)"
    "field obj ''invoice_id'' = map_option JStr (fe_invoice_id e)"
    "field obj ''contract_id'' = map_option JStr (fe_contract_id e)"
    "field obj ''due_at'' = map_option JStr (fe_due_at e)"
    "field obj ''adjustment_target'' = map_option (\<lambda>t. JStr (name_of target_names t)) (fe_adjustment_target e)"
    "field obj ''notes'' = map_option JStr (fe_notes e)"
  unfolding obj [unfolded event_json_def json.inject, symmetric] by simp_all

lemma event_json_readable:
  assumes "event_json e = JObj obj"
  shows "known_keys event_keys obj" "\<not> list_ex (\<lambda>(k, _). secret_key k) obj"
  using event_json_keys [of e] known_not_secret by (simp_all add: assms known_keys_def)

lemma parse_event_json: "valid_event e \<Longrightarrow> parse_finance_event (event_json e) = Inr e"
proof -
  assume e: "valid_event e"
  obtain obj where obj: "event_json e = JObj obj" by (simp add: event_json_def)
  have str: "require_string (Some (JStr s)) (Suc 0) n = Inr s" if "text_ok n s" for s n
    using that by (simp add: text_ok_def Suc_le_eq)
  have vals:
    "parse_timestamp (Some (JStr (fe_occurred_at e))) = Inr (fe_occurred_at e)"
    "parse_timestamp (Some (JStr (fe_observed_at e))) = Inr (fe_observed_at e)"
    "parse_cents (Some (JNum (of_int (fe_amount_cents e)))) = Inr (fe_amount_cents e)"
    "require_string (Some (JStr (fe_currency e))) 3 3 = Inr (fe_currency e)" "assert_currency (fe_currency e) = Inr (fe_currency e)"
    "parse_settlement_proven (fe_kind e) (Some (JBool (fe_settlement_proven e))) = Inr (fe_settlement_proven e)"
    "parse_confidence (Some (JNum (fe_confidence e))) = Inr (fe_confidence e)"
    "parse_due_at (map_option JStr (fe_due_at e)) = Inr (fe_due_at e)"
    using e by (simp_all add: valid_event_def parse_timestamp_iff parse_cents_iff assert_currency_def
        currency_pattern_def parse_settlement_iff parse_confidence_iff parse_due_map)
  have enums:
    "parse_optional parse_billing_cycle (map_option (\<lambda>c. JStr (name_of billing_cycle_names c)) (fe_billing_cycle e)) = Inr (fe_billing_cycle e)"
    "parse_optional parse_adjustment_target (map_option (\<lambda>t. JStr (name_of target_names t)) (fe_adjustment_target e)) = Inr (fe_adjustment_target e)"
    by (simp_all add: parse_optional_map)
  show ?thesis
    using e unfolding obj parse_finance_event_def json.case reject_secret_keys_def
    by (simp add: event_json_readable [OF obj] event_json_fields [OF obj] vals enums str parse_text_map parse_source_json valid_event_def not_less
        del: require_string_JStr)
qed

lemma parse_text_back: "parse_optional (\<lambda>v. require_string v lo hi) (map_option JStr v) = Inr x \<Longrightarrow> x = v"
  by (cases v) (auto simp: parse_label_iff)

lemma parse_due_back: "parse_due_at (map_option JStr v) = Inr x \<Longrightarrow> x = v"
  by (cases v) (auto simp: parse_due_at_iff)

lemma parse_source_back: "parse_source_ref (Some (source_json s)) = Inr s' \<Longrightarrow> s' = s"
  by (cases s; cases "fs_label s") (auto simp: parse_source_ref_def source_json_def parse_label_iff guards)

lemma parse_event_back: "parse_finance_event (event_json e) = Inr e' \<Longrightarrow> e' = e"
proof -
  assume p: "parse_finance_event (event_json e) = Inr e'"
  obtain obj where obj: "event_json e = JObj obj" by (simp add: event_json_def)
  from p show ?thesis
    unfolding obj parse_finance_event_def json.case
    by (cases e) (clarsimp simp: reject_secret_Inr event_json_fields [OF obj] parse_timestamp_iff parse_cents_iff
        parse_settlement_iff parse_confidence_iff assert_currency_def parse_optional_map
        dest!: parse_text_back parse_due_back parse_source_back)
qed

lemma parse_event_iff: "parse_finance_event (event_json e) = Inr e' \<longleftrightarrow> valid_event e \<and> e' = e"
  using parse_event_back parse_event_json parse_finance_event_valid by blast

end
