(* ===== verification/Finance_Accounting.thy ===== *)
theory Finance_Accounting
  imports Finance_Aggregate Finance_Events Event_Sourcing
begin

text \<open>
  The accounting of the read model: what the loops of \<open>aggregateFinanceReadModel\<close> add up to. Deduplication
  keeps the valid first event of each key; the totals, the aging buckets and the client balances are
  three ways to add the same open amounts.
\<close>

section \<open>Deduplication\<close>

lemma dedupe_from_iff:
  "dedupe_from seen es = Inr out \<longleftrightarrow>
     out = first_by fe_idempotency_key (set seen) es \<and> list_all valid_event out"
  by (induction seen es arbitrary: out rule: dedupe_from.induct) (auto simp: parse_event_iff)

definition sort_rank :: "(string \<Rightarrow> string) \<Rightarrow> finance_event \<Rightarrow> int \<times> string" where
  "sort_rank collate e = (event_instant e, collate (fe_id e))"

definition sortable :: "finance_event list \<Rightarrow> bool" where
  "sortable evs \<longleftrightarrow> length evs \<le> 1 \<or> list_all (valid_utc \<circ> fe_occurred_at) evs"

lemma sort_events_Inr [guards]:
  "sort_events collate evs = Inr out \<longleftrightarrow> sortable evs \<and> out = sort_key (sort_rank collate) evs"
  by (auto simp: sort_events_def sortable_def sort_rank_def [abs_def])

lemma dedupe_Inr:
  "dedupe collate evs = Inr out \<longleftrightarrow>
     sortable evs \<and> out = first_by fe_idempotency_key {} (sort_key (sort_rank collate) evs) \<and> list_all valid_event out"
  by (auto simp: dedupe_def sort_events_Inr dedupe_from_iff)

section \<open>Open amounts\<close>

definition open_amount :: "obligation \<Rightarrow> int" where
  "open_amount s = (case open_ar s of Inl _ \<Rightarrow> 0 | Inr n \<Rightarrow> n)"

lemma open_amount_eq: "open_ar s = Inr n \<Longrightarrow> open_amount s = n"
  by (simp add: open_amount_def)

lemma open_ar_bounds: "open_ar s = Inr n \<Longrightarrow> 0 \<le> n \<and> is_safe n"
  by (auto simp: open_ar_def max_def split: if_splits)

lemma open_amount_nonneg [simp]: "0 \<le> open_amount s"
  using open_ar_bounds by (auto simp: open_amount_def split: sum.split)

lemma open_amount_cancelled [simp]: "ob_cancelled s \<Longrightarrow> open_amount s = 0"
  by (simp add: open_amount_def open_ar_def)

lemma received_le_paid:
  assumes "net_received s = Inr r" "net_paid s = Inr p"
  shows "0 \<le> r \<and> r \<le> p"
  using assms by (auto simp: net_received_def net_paid_def gross_paid_def split: if_splits)

section \<open>The totals\<close>

text \<open>What one obligation that is not cancelled adds to the channels.\<close>

lemma add_obligation_cases:
  assumes "add_obligation as_of tt s = Inr tt'"
  obtains (cancelled) "ob_cancelled s" "tt' = tt"
  | (added) paid received where "\<not> ob_cancelled s"
      "net_paid s = Inr paid" "net_received s = Inr received" "open_ar s = Inr (open_amount s)"
      "ch_amount (tt_contratada tt') = ch_amount (tt_contratada tt) + ob_contracted s"
      "ch_amount (tt_faturada tt') = ch_amount (tt_faturada tt) + ob_invoiced s"
      "ch_amount (tt_paga tt') = ch_amount (tt_paga tt) + paid"
      "ch_amount (tt_recebida tt') = ch_amount (tt_recebida tt) + received"
      "ch_amount (tt_a_receber tt') = ch_amount (tt_a_receber tt) + open_amount s"
      "ch_amount (tt_vencida tt') \<in> {ch_amount (tt_vencida tt), ch_amount (tt_vencida tt) + open_amount s}"
      "\<forall>c \<in> {tt_contratada, tt_faturada, tt_paga, tt_recebida, tt_a_receber}. is_safe (ch_amount (c tt'))"
      "is_safe (ch_amount (tt_vencida tt)) \<longrightarrow> is_safe (ch_amount (tt_vencida tt'))"
      "is_safe (ch_amount (tt_mrr tt)) \<longrightarrow> is_safe (ch_amount (tt_mrr tt'))"
proof (cases "ob_cancelled s")
  case True
  with assms show ?thesis by (intro cancelled) (simp_all add: add_obligation_def)
next
  case False
  with assms show ?thesis
    by (clarsimp simp: add_obligation_def Let_def grow_def open_amount_eq)
       (rule added; (assumption | simp add: open_amount_eq split: if_splits)+)
qed

definition totals_ok :: "totals \<Rightarrow> bool" where
  "totals_ok tt \<longleftrightarrow>
     (\<forall>c \<in> {tt_contratada, tt_faturada, tt_paga, tt_recebida, tt_vencida, tt_a_receber, tt_mrr}. is_safe (ch_amount (c tt)))
     \<and> 0 \<le> ch_amount (tt_vencida tt) \<and> ch_amount (tt_vencida tt) \<le> ch_amount (tt_a_receber tt)
     \<and> 0 \<le> ch_amount (tt_recebida tt) \<and> ch_amount (tt_recebida tt) \<le> ch_amount (tt_paga tt)"

lemma no_totals_ok: "totals_ok (no_totals rs)" "ch_amount (tt_a_receber (no_totals rs)) = 0"
  by (simp_all add: totals_ok_def no_totals_def no_channel_def)

lemma add_obligation_ok:
  assumes "add_obligation as_of tt s = Inr tt'" "totals_ok tt"
  shows "totals_ok tt' \<and> ch_amount (tt_a_receber tt') = ch_amount (tt_a_receber tt) + open_amount s"
  using assms(1)
proof (cases rule: add_obligation_cases)
  case (added paid received)
  note le = received_le_paid [OF added(3,2)]
  have "is_safe (ch_amount (tt_vencida tt'))" "is_safe (ch_amount (tt_mrr tt'))"
    using added(12,13) assms(2) by (simp_all add: totals_ok_def)
  moreover have "0 \<le> ch_amount (tt_vencida tt')" "ch_amount (tt_vencida tt') \<le> ch_amount (tt_a_receber tt')"
    using added(9,10) assms(2) by (auto simp: totals_ok_def add_increasing2)
  moreover have "0 \<le> ch_amount (tt_recebida tt')" "ch_amount (tt_recebida tt') \<le> ch_amount (tt_paga tt')"
    using added(7,8) assms(2) le by (auto simp: totals_ok_def)
  ultimately show ?thesis using added(9,11) by (simp add: totals_ok_def)
qed (use assms(2) in simp)

lemma add_obligations_ok:
  assumes "foldE (add_obligation as_of) tt ss = Inr tt'" "totals_ok tt"
  shows "totals_ok tt' \<and> ch_amount (tt_a_receber tt') = ch_amount (tt_a_receber tt) + (\<Sum>s\<leftarrow>ss. open_amount s)"
  using assms
proof (induction ss arbitrary: tt)
  case (Cons s ss)
  from Cons.prems(1) obtain tt1 where "add_obligation as_of tt s = Inr tt1" "foldE (add_obligation as_of) tt1 ss = Inr tt'"
    by auto
  with add_obligation_ok [OF this(1) Cons.prems(2)] Cons.IH [OF this(2)] show ?case by simp
qed simp

section \<open>Aging and concentration\<close>

lemma sum_update_first:
  assumes "List.find p xs = Some x" "f (g x) = f x + (d :: int)"
  shows "(\<Sum>y\<leftarrow>update_first p g xs. f y) = (\<Sum>y\<leftarrow>xs. f y) + d"
  using assms by (induction xs) (auto split: if_splits)

lemma age_obligation_sum:
  assumes "age_obligation as_of bs s = Inr bs'" "map ab_key bs = bucket_order"
  shows "map ab_key bs' = bucket_order \<and> (\<Sum>b\<leftarrow>bs'. ab_amount_cents b) = (\<Sum>b\<leftarrow>bs. ab_amount_cents b) + open_amount s"
proof (cases "open_amount s \<le> 0 \<or> ob_cancelled s")
  case True
  then have "open_amount s = 0" using open_amount_nonneg [of s] by auto
  with assms True show ?thesis by (auto simp: age_obligation_def open_amount_eq split: if_splits)
next
  case False
  with assms(1) obtain k where k: "bs' = update_first (\<lambda>b. ab_key b = k)
      (\<lambda>b. b\<lparr>ab_amount_cents := bucket_amount bs k + open_amount s, ab_obligation_count := ab_obligation_count b + 1\<rparr>) bs"
    by (auto simp: age_obligation_def open_amount_eq split: if_splits)
  have "k \<in> set (map ab_key bs)" unfolding assms(2) by (cases k) (simp_all add: bucket_order_def)
  then obtain b where b: "List.find (\<lambda>b. ab_key b = k) bs = Some b"
    by (cases "List.find (\<lambda>b. ab_key b = k) bs") (auto simp: find_None_iff)
  have "map ab_key bs' = map ab_key bs" unfolding k by (rule map_update_first) simp
  moreover have "(\<Sum>b\<leftarrow>bs'. ab_amount_cents b) = (\<Sum>b\<leftarrow>bs. ab_amount_cents b) + open_amount s"
    unfolding k by (rule sum_update_first [OF b]) (simp add: bucket_amount_def b)
  ultimately show ?thesis using assms(2) by simp
qed

lemma age_obligations_sum:
  assumes "foldE (age_obligation as_of) bs ss = Inr bs'" "map ab_key bs = bucket_order"
  shows "map ab_key bs' = bucket_order
    \<and> (\<Sum>b\<leftarrow>bs'. ab_amount_cents b) = (\<Sum>b\<leftarrow>bs. ab_amount_cents b) + (\<Sum>s\<leftarrow>ss. open_amount s)"
  using assms
proof (induction ss arbitrary: bs)
  case (Cons s ss)
  from Cons.prems(1) obtain bs1 where "age_obligation as_of bs s = Inr bs1" "foldE (age_obligation as_of) bs1 ss = Inr bs'"
    by auto
  with age_obligation_sum [OF this(1) Cons.prems(2)] Cons.IH [OF this(2)] show ?case by simp
qed simp

lemma age_safe:
  assumes "foldE (age_obligation as_of) bs ss = Inr bs'" "\<forall>b \<in> set bs. is_safe (ab_amount_cents b)"
  shows "\<forall>b \<in> set bs'. is_safe (ab_amount_cents b)"
  using assms
proof (rule foldE_invariant)
  fix bs s bs' assume "\<forall>b \<in> set bs. is_safe (ab_amount_cents b)" "age_obligation as_of bs s = Inr bs'"
  then show "\<forall>b \<in> set bs'. is_safe (ab_amount_cents b)"
    by (auto simp: age_obligation_def split: if_splits dest!: set_update_first [THEN subsetD])
qed

lemma sum_set_entry:
  "(\<Sum>p\<leftarrow>set_entry k v ps. snd p) = (\<Sum>p\<leftarrow>ps. snd p) - or_else (map_of ps k) 0 + (v :: int)"
  by (induction k v ps rule: set_entry.induct) auto

lemma set_set_entry: "set (set_entry k v ps) \<subseteq> insert (k, v) (set ps)"
  by (induction k v ps rule: set_entry.induct) auto

lemma keys_set_entry: "map fst (set_entry k v ps) = (if k \<in> fst ` set ps then map fst ps else map fst ps @ [k])"
  by (induction k v ps rule: set_entry.induct) auto

definition balances_ok :: "(string \<times> int) list \<Rightarrow> bool" where
  "balances_ok cs \<longleftrightarrow> distinct (map fst cs) \<and> (\<forall>(c, n) \<in> set cs. 0 < n \<and> is_safe n)"

lemma add_client_sum:
  assumes "add_client cs s = Inr cs'" "balances_ok cs"
  shows "balances_ok cs' \<and> (\<Sum>p\<leftarrow>cs'. snd p) = (\<Sum>p\<leftarrow>cs. snd p) + open_amount s"
proof (cases "open_amount s \<le> 0")
  case True
  then have "open_amount s = 0" using open_amount_nonneg [of s] by simp
  with assms True show ?thesis by (auto simp: add_client_def open_amount_eq split: if_splits)
next
  case False
  let ?old = "or_else (map_of cs (ob_client_id s)) 0"
  from False assms(1) have cs': "cs' = set_entry (ob_client_id s) (?old + open_amount s) cs" "is_safe (?old + open_amount s)"
    by (auto simp: add_client_def open_amount_eq split: if_splits)
  have "0 \<le> ?old" using assms(2)
    by (cases "map_of cs (ob_client_id s)") (auto simp: balances_ok_def dest!: map_of_SomeD intro: less_imp_le)
  then have "balances_ok cs'" using assms(2) False cs'(2)
    unfolding balances_ok_def cs'(1) by (auto simp: keys_set_entry dest!: set_set_entry [THEN subsetD])
  then show ?thesis by (simp add: cs'(1) sum_set_entry)
qed

lemma add_clients_sum:
  assumes "foldE add_client cs ss = Inr cs'" "balances_ok cs"
  shows "balances_ok cs' \<and> (\<Sum>p\<leftarrow>cs'. snd p) = (\<Sum>p\<leftarrow>cs. snd p) + (\<Sum>s\<leftarrow>ss. open_amount s)"
  using assms
proof (induction ss arbitrary: cs)
  case (Cons s ss)
  from Cons.prems(1) obtain cs1 where "add_client cs s = Inr cs1" "foldE add_client cs1 ss = Inr cs'" by auto
  with add_client_sum [OF this(1) Cons.prems(2)] Cons.IH [OF this(2)] show ?case by simp
qed simp

section \<open>Shares\<close>

lemma sum_div_le:
  assumes "0 < (t :: int)"
  shows "(\<Sum>x\<leftarrow>xs. f x div t) \<le> (\<Sum>x\<leftarrow>xs. f x) div t"
proof (induction xs)
  case (Cons x xs)
  have "f x div t + (\<Sum>x\<leftarrow>xs. f x) div t \<le> (f x + (\<Sum>x\<leftarrow>xs. f x)) div t"
    using assms by (simp add: div_add1_eq [of "f x"] pos_imp_zdiv_nonneg_iff)
  with Cons show ?case by simp
qed simp

lemma sum_list_sort_key: "(\<Sum>x\<leftarrow>sort_key f xs. g x :: int) = (\<Sum>x\<leftarrow>xs. g x)"
  by (metis mset_map mset_sort sum_mset_sum_list)

lemma client_shares_amounts:
  "(\<Sum>s\<leftarrow>client_shares collate owed cs. sh_amount_cents s) = (\<Sum>p\<leftarrow>cs. snd p)"
  by (simp add: client_shares_def sum_list_sort_key case_prod_beta comp_def)

lemma client_shares_bps:
  assumes "s \<in> set (client_shares collate owed cs)" "0 < owed"
  shows "sh_share_bps s = (sh_amount_cents s * 10000) div owed"
  using assms by (auto simp: client_shares_def)

lemma client_shares_sum_bps:
  assumes "(\<Sum>p\<leftarrow>cs. snd p) = owed" "0 < owed"
  shows "(\<Sum>s\<leftarrow>client_shares collate owed cs. sh_share_bps s) \<le> 10000"
proof -
  have "(\<Sum>s\<leftarrow>client_shares collate owed cs. sh_share_bps s) = (\<Sum>p\<leftarrow>cs. (snd p * 10000) div owed)"
    using assms(2) by (simp add: client_shares_def sum_list_sort_key case_prod_beta comp_def)
  also have "\<dots> \<le> (\<Sum>p\<leftarrow>cs. snd p * 10000) div owed" using assms(2) by (rule sum_div_le)
  also have "(\<Sum>p\<leftarrow>cs. snd p * 10000) = owed * 10000" by (simp add: sum_list_mult_const assms(1))
  finally show ?thesis using assms(2) by simp
qed

lemma top_share_max:
  assumes "s \<in> set (client_shares collate owed cs)" "0 < owed"
  shows "sh_share_bps s \<le> top_share (client_shares collate owed cs)"
proof (cases "client_shares collate owed cs")
  case (Cons t ts)
  have "sorted (map (\<lambda>s. (- sh_amount_cents s, collate (sh_client_id s))) (t # ts))"
    unfolding Cons [symmetric] client_shares_def by (rule sorted_sort_key)
  then have "sh_amount_cents s \<le> sh_amount_cents t" using assms(1) unfolding Cons by auto
  then show ?thesis using assms Cons client_shares_bps [OF assms] client_shares_bps [of t collate owed cs]
    by (simp add: top_share_def zdiv_mono1)
qed (use assms in simp)

section \<open>Runway\<close>

lemma foldE_add_safe: "foldE add_cents n xs = Inr m \<Longrightarrow> is_safe n \<Longrightarrow> is_safe m"
  by (erule foldE_invariant) simp_all

lemma latest_balance_in: "latest_balance bs = Some b \<Longrightarrow> b \<in> set bs"
  by (auto simp: latest_balance_def split: list.splits) (metis list.set_intros(1) set_sort)

lemma estimate_runway_safe:
  assumes "estimate_runway as_of currency evs = Inr (rs, Runway_Estimated r)" "\<forall>e \<in> set evs. is_safe (fe_amount_cents e)"
  shows "is_safe (rw_months r)" "is_safe (rw_cash_balance_cents r)" "is_safe (rw_monthly_burn_cents r)" "0 < rw_monthly_burn_cents r"
proof -
  from assms(1) obtain b where "latest_balance (filter balance_event evs) = Some b"
    and r: "is_safe (rw_months r)" "rw_cash_balance_cents r = fe_amount_cents b"
      "is_safe (rw_monthly_burn_cents r)" "0 < rw_monthly_burn_cents r"
    by (auto simp: estimate_runway_def Let_def omit_runway_def dest: foldE_add_safe split: if_splits option.splits)
  with latest_balance_in [OF this(1)] assms(2) show "is_safe (rw_months r)" "is_safe (rw_cash_balance_cents r)"
    "is_safe (rw_monthly_burn_cents r)" "0 < rw_monthly_burn_cents r" by simp_all
qed

lemma cash_in_safe:
  assumes "foldE (cash_in_event w) (n, es) evs = Inr (m, es')" "is_safe n"
  shows "is_safe m"
proof -
  have "is_safe (fst (m, es'))" using assms(1)
  proof (rule foldE_invariant [where P = "\<lambda>acc. is_safe (fst acc)"])
    show "is_safe (fst (n, es))" using assms(2) by simp
  next
    fix s x t assume "is_safe (fst s)" "cash_in_event w s x = Inr t"
    then show "is_safe (fst t)" by (cases s) (auto simp: cash_in_event_def split: if_splits)
  qed
  then show ?thesis by simp
qed

section \<open>The parts of a read model\<close>

lemma figure_amount: "figure amount currency as_of seconds evs rs g = Inr f \<Longrightarrow> mf_amount_cents f = amount"
  by (auto simp: figure_def Let_def)

lemma figures_of_amounts:
  assumes "figures_of currency as_of seconds g tt rs = Inr f"
  shows "mf_amount_cents (fg_contratada f) = ch_amount (tt_contratada tt)"
    "mf_amount_cents (fg_faturada f) = ch_amount (tt_faturada tt)"
    "mf_amount_cents (fg_paga f) = ch_amount (tt_paga tt)"
    "mf_amount_cents (fg_recebida f) = ch_amount (tt_recebida tt)"
    "mf_amount_cents (fg_vencida f) = ch_amount (tt_vencida tt)"
    "mf_amount_cents (fg_a_receber f) = ch_amount (tt_a_receber tt)"
  using assms by (auto simp: figures_of_def Let_def dest: figure_amount)

lemma read_model_parts:
  assumes "read_model collate now opts evs = Inr m"
  obtains states tt clients cash cash_events rs where
    "collect_obligations evs = Inr states"
    "foldE (add_obligation (ao_as_of opts)) (no_totals (if_reason (evs = []) IR_Empty_Input)) states = Inr tt"
    "foldE (age_obligation (ao_as_of opts)) empty_buckets states = Inr (aa_buckets (rm_ar_aging m))"
    "foldE add_client [] states = Inr clients"
    "foldE (cash_in_event (ao_cash_in_window opts)) (0, []) evs = Inr (cash, cash_events)"
    "estimate_runway (ao_as_of opts) (currency_of evs) evs = Inr (rs, rm_runway m)"
    "co_clients (rm_concentracao m) = client_shares collate (ch_amount (tt_a_receber tt)) clients"
    "co_top_share_bps (rm_concentracao m) = top_share (co_clients (rm_concentracao m))"
    "mf_amount_cents (fg_contratada (rm_figures m)) = ch_amount (tt_contratada tt)"
    "mf_amount_cents (fg_faturada (rm_figures m)) = ch_amount (tt_faturada tt)"
    "mf_amount_cents (fg_paga (rm_figures m)) = ch_amount (tt_paga tt)"
    "mf_amount_cents (fg_recebida (rm_figures m)) = ch_amount (tt_recebida tt)"
    "mf_amount_cents (fg_vencida (rm_figures m)) = ch_amount (tt_vencida tt)"
    "mf_amount_cents (fg_a_receber (rm_figures m)) = ch_amount (tt_a_receber tt)"
    "mf_amount_cents (rm_cash_in m) = cash"
    "mf_amount_cents (rm_mrr m) = ch_amount (tt_mrr tt)"
  using assms by (clarsimp simp: read_model_def Let_def) (rule that; simp add: figures_of_amounts figure_amount)

text \<open>A read model comes from the deduplicated events, all valid.\<close>

lemma aggregate_finance_cases:
  assumes "aggregate_finance collate now opts raw = Inr m"
  obtains evs where "dedupe collate raw = Inr evs" "list_all valid_event evs" "read_model collate now opts evs = Inr m"
  using assms by (auto simp: aggregate_finance_def dedupe_Inr)

lemma mapE_assert_cents: "\<forall>n \<in> set ns. is_safe n \<Longrightarrow> mapE assert_cents ns = Inr ns"
  by (induction ns) (simp_all add: assert_cents_def)

end
