(* ===== verification/Finance_Samples.thy ===== *)
theory Finance_Samples
  imports Finance_Accounting
begin

text \<open>A small ledger for the witnesses: two clients, a signed and invoiced contract, a partial settlement.\<close>

definition sample_fin_source :: fin_source where
  "sample_fin_source = \<lparr>fs_system = ''asaas'', fs_kind = ''payment'', fs_locator = ''p1'', fs_label = None\<rparr>"

definition sample_fin_event ::
  "string \<Rightarrow> finance_event_kind \<Rightarrow> string \<Rightarrow> int \<Rightarrow> string \<Rightarrow> string \<Rightarrow> finance_event" where
  "sample_fin_event key kind occurred amount client obligation =
     \<lparr>fe_id = ''cc:e:'' @ key, fe_idempotency_key = key, fe_kind = kind, fe_occurred_at = occurred,
      fe_amount_cents = amount, fe_currency = ''BRL'', fe_client_id = client, fe_obligation_id = obligation,
      fe_billing_mode = BM_ONE_TIME, fe_settlement_proven = (kind = Settlement_Received),
      fe_source = sample_fin_source, fe_observed_at = occurred, fe_freshness = FF_FRESH, fe_confidence = 1,
      fe_billing_cycle = None, fe_offer_code = None, fe_invoice_id = None, fe_contract_id = None,
      fe_due_at = Some ''2026-02-01T00:00:00Z'', fe_adjustment_target = None, fe_notes = None\<rparr>"

definition fin_invoice :: finance_event where
  "fin_invoice = sample_fin_event ''k1'' Invoice_Issued ''2026-01-01T00:00:00Z'' 900 ''ana'' ''o1''"

definition fin_settlement :: finance_event where
  "fin_settlement = sample_fin_event ''k2'' Settlement_Received ''2026-01-02T00:00:00Z'' 300 ''ana'' ''o1''"

definition fin_invoice2 :: finance_event where
  "fin_invoice2 = sample_fin_event ''k3'' Invoice_Issued ''2026-01-03T00:00:00Z'' 200 ''bia'' ''o2''"

definition fin_contract :: finance_event where
  "fin_contract = sample_fin_event ''k4'' Contract_Signed ''2026-01-04T00:00:00Z'' 900 ''ana'' ''o1''"

definition sample_fin_events :: "finance_event list" where
  "sample_fin_events = [fin_invoice, fin_settlement, fin_invoice2]"

definition sample_options :: aggregate_options where
  "sample_options =
     \<lparr>ao_as_of = ''2026-03-01T00:00:00Z'',
      ao_cash_in_window = \<lparr>tw_from = ''2026-01-01T00:00:00Z'', tw_to = ''2026-02-01T00:00:00Z''\<rparr>,
      ao_freshness_window_seconds = None, ao_scope = None, ao_snapshot_id = None\<rparr>"

lemma sample_events_valid: "list_all valid_event [fin_invoice, fin_settlement, fin_invoice2, fin_contract]"
  by code_simp

lemma sample_read_model:
  "case read_model id 0 sample_options sample_fin_events of Inl _ \<Rightarrow> False
   | Inr m \<Rightarrow> map sh_amount_cents (co_clients (rm_concentracao m)) = [600, 200]
       \<and> mf_amount_cents (fg_recebida (rm_figures m)) = 300 \<and> co_top_share_bps (rm_concentracao m) = 7500
       \<and> mf_amount_cents (rm_cash_in m) = 300"
  by code_simp

end
