(* ===== verification/Finance_Properties.thy ===== *)
theory Finance_Properties
  imports Finance_Samples
begin

text \<open>
  What the finance read model guarantees: the receivables are conserved between the total, the aging
  and the concentration; cash is never confused with confirmed payments; every figure stays in
  the safe integers; the input order and repeated observations do not matter; reading and writing
  events are inverse.
\<close>

section \<open>Order and repetition\<close>

lemma sort_key_permuted:
  assumes "mset xs = mset ys" "inj_on f (set xs)"
  shows "sort_key f xs = sort_key f ys"
proof -
  have "map f (sort_key f xs) = sort (map f xs)" for xs
    by (rule properties_for_sort [symmetric]) simp_all
  moreover have "sort (map f xs) = sort (map f ys)"
    using assms(1) by (intro properties_for_sort) (simp_all add: mset_map)
  ultimately have "map f (sort_key f xs) = map f (sort_key f ys)" by metis
  moreover have "set ys = set xs" using assms(1) by (metis set_mset_mset)
  ultimately show ?thesis using assms(2) by (auto dest: map_inj_on)
qed

lemma insort_below: "\<forall>v \<in> set vs. f a \<le> f v \<Longrightarrow> insort_key f a (us @ vs) = insort_key f a us @ vs"
  by (induction us) (auto, cases vs, auto)

lemma insort_above: "\<forall>u \<in> set us. f u < f a \<Longrightarrow> insort_key f a (us @ vs) = us @ insort_key f a vs"
  by (induction us) auto

lemma sort_key_snoc:
  "\<exists>us vs. sort_key f xs = us @ vs \<and> sort_key f (xs @ [x]) = us @ x # vs
     \<and> (\<forall>u \<in> set us. f u \<le> f x) \<and> (\<forall>v \<in> set vs. f x < f v)"
proof (induction xs)
  case (Cons a xs)
  then obtain us vs where IH: "sort_key f xs = us @ vs" "sort_key f (xs @ [x]) = us @ x # vs"
    "\<forall>u \<in> set us. f u \<le> f x" "\<forall>v \<in> set vs. f x < f v" by blast
  show ?case
  proof (cases "f a \<le> f x")
    case True
    have "\<forall>v \<in> set vs. f a \<le> f v" using True IH(4) by (meson less_imp_le order.trans)
    then have "insort_key f a (us @ vs) = insort_key f a us @ vs" "insort_key f a (us @ x # vs) = insort_key f a us @ x # vs"
      using True by (simp_all add: insort_below)
    with IH True show ?thesis
      by (intro exI [of _ "insort_key f a us"] exI [of _ vs]) (auto simp: set_insort_key)
  next
    case False
    then have "\<forall>u \<in> set us. f u < f a" using IH(3) by auto
    then have "insort_key f a (us @ vs) = us @ insort_key f a vs" "insort_key f a (us @ x # vs) = us @ x # insort_key f a vs"
      using False by (simp_all add: insort_above)
    with IH False show ?thesis
      by (intro exI [of _ us] exI [of _ "insort_key f a vs"]) (auto simp: set_insort_key)
  qed
qed simp

lemma first_by_skip:
  "key x \<in> key ` set us \<union> seen \<Longrightarrow> first_by key seen (us @ x # vs) = first_by key seen (us @ vs)"
  by (induction us arbitrary: seen) auto

lemma dedupe_permuted:
  assumes "mset evs = mset evs'" "inj_on (sort_rank collate) (set evs)"
  shows "dedupe collate evs = dedupe collate evs'"
proof -
  have "set evs = set evs'" "length evs = length evs'"
    using assms(1) by (metis set_mset_mset, metis size_mset)
  then have "list_all p evs = list_all p evs'" for p by (simp add: list_all_iff)
  then show ?thesis
    using sort_key_permuted [OF assms] \<open>length evs = length evs'\<close>
    by (simp add: dedupe_def sort_events_def sort_rank_def [abs_def])
qed

lemma dedupe_repeat:
  assumes "dedupe collate evs = Inr out" "e \<in> set evs" "fe_idempotency_key e' = fe_idempotency_key e"
    "sort_rank collate e \<le> sort_rank collate e'" "valid_utc (fe_occurred_at e')"
  shows "dedupe collate (evs @ [e']) = Inr out"
proof -
  obtain us vs where s: "sort_key (sort_rank collate) evs = us @ vs" "sort_key (sort_rank collate) (evs @ [e']) = us @ e' # vs"
    "\<forall>v \<in> set vs. sort_rank collate e' < sort_rank collate v"
    using sort_key_snoc [of "sort_rank collate" evs e'] by blast
  have "e \<in> set (us @ vs)" using assms(2) s(1) by (metis set_sort)
  then have "e \<in> set us" using s(3) assms(4) by auto
  then have "fe_idempotency_key e' \<in> fe_idempotency_key ` set us \<union> {}" using assms(3) by force
  then have same: "first_by fe_idempotency_key {} (us @ e' # vs) = first_by fe_idempotency_key {} (us @ vs)"
    by (rule first_by_skip)
  have "list_all (valid_utc \<circ> fe_occurred_at) evs"
  proof (cases "length evs \<le> 1")
    case True
    with assms(2) have "evs = [e]" by (cases evs) auto
    with assms(1) show ?thesis by (auto simp: dedupe_Inr valid_event_def)
  next
    case False
    with assms(1) show ?thesis by (simp add: dedupe_Inr sortable_def)
  qed
  with assms(1,5) same s(1,2) show ?thesis by (auto simp: dedupe_Inr sortable_def)
qed

section \<open>Properties\<close>

text \<open>
  C25. The open receivables are conserved: the aging buckets and the client balances
  of a read model each add up to \<open>a_receber\<close>, of which the overdue amount is a part.
\<close>

theorem receivables_conserved:
  assumes "aggregate_finance collate now opts raw = Inr m"
  shows "(\<Sum>b\<leftarrow>aa_buckets (rm_ar_aging m). ab_amount_cents b) = mf_amount_cents (fg_a_receber (rm_figures m))
    \<and> (\<Sum>s\<leftarrow>co_clients (rm_concentracao m). sh_amount_cents s) = mf_amount_cents (fg_a_receber (rm_figures m))
    \<and> 0 \<le> mf_amount_cents (fg_vencida (rm_figures m))
    \<and> mf_amount_cents (fg_vencida (rm_figures m)) \<le> mf_amount_cents (fg_a_receber (rm_figures m))"
  using assms
proof (rule aggregate_finance_cases)
  fix evs assume "read_model collate now opts evs = Inr m"
  then show ?thesis
  proof (rule read_model_parts)
    fix states tt clients cash cash_events rs
    assume *: "foldE (add_obligation (ao_as_of opts)) (no_totals (if_reason (evs = []) IR_Empty_Input)) states = Inr tt"
      "foldE (age_obligation (ao_as_of opts)) empty_buckets states = Inr (aa_buckets (rm_ar_aging m))"
      "foldE add_client [] states = Inr clients"
      "co_clients (rm_concentracao m) = client_shares collate (ch_amount (tt_a_receber tt)) clients"
      "mf_amount_cents (fg_vencida (rm_figures m)) = ch_amount (tt_vencida tt)"
      "mf_amount_cents (fg_a_receber (rm_figures m)) = ch_amount (tt_a_receber tt)"
    note owed = add_obligations_ok [OF *(1) no_totals_ok(1)]
    have "map ab_key empty_buckets = bucket_order" "(\<Sum>b\<leftarrow>empty_buckets. ab_amount_cents b) = 0"
      by (simp_all add: empty_buckets_def bucket_order_def)
    with age_obligations_sum [OF *(2)] add_clients_sum [OF *(3)] owed * show ?thesis
      by (simp add: balances_ok_def client_shares_amounts no_totals_ok(2) totals_ok_def)
  qed
qed

lemma sample_aggregate:
  obtains m where "aggregate_finance id 0 sample_options sample_fin_events = Inr m"
    "map sh_amount_cents (co_clients (rm_concentracao m)) = [600, 200]"
    "mf_amount_cents (fg_recebida (rm_figures m)) = 300" "co_top_share_bps (rm_concentracao m) = 7500"
    "mf_amount_cents (rm_cash_in m) = 300"
proof -
  have "map event_instant sample_fin_events = [1767225600000, 1767312000000, 1767398400000]" by code_simp
  then have "sorted (map (sort_rank id) sample_fin_events)" by (simp add: sample_fin_events_def sort_rank_def)
  then have "sort_key (sort_rank id) sample_fin_events = sample_fin_events" by (rule sort_key_id_if_sorted)
  moreover have "distinct (map fe_idempotency_key sample_fin_events)"
    by (simp add: sample_fin_events_def fin_invoice_def fin_settlement_def fin_invoice2_def sample_fin_event_def)
  moreover have "sortable sample_fin_events" "list_all valid_event sample_fin_events"
    using sample_events_valid by (simp_all add: sample_fin_events_def sortable_def valid_event_def)
  ultimately have "dedupe id sample_fin_events = Inr sample_fin_events"
    by (simp add: dedupe_Inr first_by_distinct)
  moreover have "is_ok (fin_parse_utc (ao_as_of sample_options))" by code_simp
  moreover have "window_seconds sample_options = 86400" by (simp add: window_seconds_def sample_options_def)
  ultimately have "aggregate_finance id 0 sample_options sample_fin_events = read_model id 0 sample_options sample_fin_events"
    by (auto simp: aggregate_finance_def is_ok_iff fin_parse_utc_def)
  with sample_read_model that show ?thesis by (simp split: sum.splits)
qed

lemma receivables_conserved_witness:
  "\<exists>m. aggregate_finance id 0 sample_options sample_fin_events = Inr m
     \<and> mf_amount_cents (fg_a_receber (rm_figures m)) = 800"
proof (rule sample_aggregate)
  fix m assume m: "aggregate_finance id 0 sample_options sample_fin_events = Inr m"
    "map sh_amount_cents (co_clients (rm_concentracao m)) = [600, 200]"
  from receivables_conserved [OF m(1)] have "mf_amount_cents (fg_a_receber (rm_figures m)) = 800"
    by (simp add: m(2))
  with m(1) show ?thesis by (intro exI conjI)
qed

text \<open>
  A confirmed payment is not cash: what was effectively received never exceeds
  what was paid, and neither is negative.
\<close>

theorem cash_is_not_confirmation:
  assumes "aggregate_finance collate now opts raw = Inr m"
  shows "0 \<le> mf_amount_cents (fg_recebida (rm_figures m))
    \<and> mf_amount_cents (fg_recebida (rm_figures m)) \<le> mf_amount_cents (fg_paga (rm_figures m))"
  using assms
proof (rule aggregate_finance_cases)
  fix evs assume "read_model collate now opts evs = Inr m"
  then show ?thesis
    by (rule read_model_parts) (use add_obligations_ok [OF _ no_totals_ok(1)] in \<open>fastforce simp: totals_ok_def\<close>)
qed

lemma cash_is_not_confirmation_witness:
  "\<exists>m. aggregate_finance id 0 sample_options sample_fin_events = Inr m
     \<and> 300 \<le> mf_amount_cents (fg_paga (rm_figures m))"
proof (rule sample_aggregate)
  fix m assume m: "aggregate_finance id 0 sample_options sample_fin_events = Inr m"
    "mf_amount_cents (fg_recebida (rm_figures m)) = 300"
  from cash_is_not_confirmation [OF m(1)] have "300 \<le> mf_amount_cents (fg_paga (rm_figures m))" by (simp add: m(2))
  with m(1) show ?thesis by (intro exI conjI)
qed

text \<open>
  The concentration is in basis points: no share is negative or above 10000, all
  together are at most 10000, and the top share is the greatest of them.
\<close>

theorem shares_bounded:
  assumes "aggregate_finance collate now opts raw = Inr m" "s \<in> set (co_clients (rm_concentracao m))"
  shows "0 \<le> sh_share_bps s \<and> sh_share_bps s \<le> co_top_share_bps (rm_concentracao m)
    \<and> co_top_share_bps (rm_concentracao m) \<le> 10000
    \<and> (\<Sum>s\<leftarrow>co_clients (rm_concentracao m). sh_share_bps s) \<le> 10000"
  using assms(1)
proof (rule aggregate_finance_cases)
  fix evs assume "read_model collate now opts evs = Inr m"
  then show ?thesis
  proof (rule read_model_parts)
    fix states tt clients cash cash_events rs
    assume *: "foldE (add_obligation (ao_as_of opts)) (no_totals (if_reason (evs = []) IR_Empty_Input)) states = Inr tt"
      "foldE add_client [] states = Inr clients"
      "co_clients (rm_concentracao m) = client_shares collate (ch_amount (tt_a_receber tt)) clients"
      "co_top_share_bps (rm_concentracao m) = top_share (co_clients (rm_concentracao m))"
    let ?owed = "ch_amount (tt_a_receber tt)" and ?shares = "co_clients (rm_concentracao m)"
    have sum: "(\<Sum>p\<leftarrow>clients. snd p) = ?owed" and ok: "balances_ok clients"
      using add_obligations_ok [OF *(1) no_totals_ok(1)] add_clients_sum [OF *(2)]
      by (simp_all add: balances_ok_def no_totals_ok(2))
    have pos: "0 < sh_amount_cents t" "sh_amount_cents t \<le> ?owed" if "t \<in> set ?shares" for t
    proof -
      obtain c n where cn: "(c, n) \<in> set clients" "sh_amount_cents t = n"
        using \<open>t \<in> set ?shares\<close> by (auto simp: *(3) client_shares_def)
      then show "0 < sh_amount_cents t" using ok by (auto simp: balances_ok_def)
      have "n \<in> set (map snd clients)" "\<forall>x \<in> set (map snd clients). 0 \<le> x"
        using cn(1) ok by (force simp: balances_ok_def)+
      then have "n \<le> sum_list (map snd clients)" by (intro member_le_sum_list) auto
      with sum cn(2) show "sh_amount_cents t \<le> ?owed" by simp
    qed
    have owed: "0 < ?owed" using pos [OF assms(2)] by simp
    have bps: "0 \<le> sh_share_bps t" "sh_share_bps t \<le> 10000" if "t \<in> set ?shares" for t
    proof -
      have "sh_share_bps t = (sh_amount_cents t * 10000) div ?owed"
        using that owed client_shares_bps by (simp add: *(3))
      moreover have "(sh_amount_cents t * 10000) div ?owed \<le> (?owed * 10000) div ?owed"
        using pos [OF that] owed by (intro zdiv_mono1) simp_all
      ultimately show "0 \<le> sh_share_bps t" "sh_share_bps t \<le> 10000"
        using pos [OF that] owed by (simp_all add: pos_imp_zdiv_nonneg_iff)
    qed
    have "sh_share_bps s \<le> top_share ?shares" using top_share_max assms(2) owed by (simp add: *(3))
    moreover have "top_share ?shares \<le> 10000"
      using bps assms(2) by (cases ?shares) (simp_all add: top_share_def)
    moreover have "(\<Sum>s\<leftarrow>?shares. sh_share_bps s) \<le> 10000" using client_shares_sum_bps sum owed by (simp add: *(3))
    ultimately show ?thesis using bps(1) [OF assms(2)] by (simp add: *(4))
  qed
qed

lemma shares_bounded_witness:
  "\<exists>m s. aggregate_finance id 0 sample_options sample_fin_events = Inr m
     \<and> s \<in> set (co_clients (rm_concentracao m)) \<and> sh_share_bps s \<le> 7500"
proof (rule sample_aggregate)
  fix m assume m: "aggregate_finance id 0 sample_options sample_fin_events = Inr m"
    "map sh_amount_cents (co_clients (rm_concentracao m)) = [600, 200]" "co_top_share_bps (rm_concentracao m) = 7500"
  then have "hd (co_clients (rm_concentracao m)) \<in> set (co_clients (rm_concentracao m))"
    by (cases "co_clients (rm_concentracao m)") simp_all
  then obtain s where s: "s \<in> set (co_clients (rm_concentracao m))" by blast
  with shares_bounded [OF m(1) s] have "sh_share_bps s \<le> 7500" by (simp add: m(3))
  with m(1) s show ?thesis by (intro exI conjI)
qed

text \<open>
  C26. \<open>assertIntegerCents\<close> never rejects a read model the aggregate returned: every
  amount in it is a safe integer, and sums that would leave the safe range are thrown instead.
\<close>

theorem aggregate_passes_own_check:
  assumes "aggregate_finance collate now opts raw = Inr m"
  shows "assert_integer_cents m = Inr ()"
  using assms
proof (rule aggregate_finance_cases)
  fix evs assume valid: "list_all valid_event evs" and "read_model collate now opts evs = Inr m"
  from this(2) show ?thesis
  proof (rule read_model_parts)
    fix states tt clients cash cash_events rs
    assume *: "foldE (add_obligation (ao_as_of opts)) (no_totals (if_reason (evs = []) IR_Empty_Input)) states = Inr tt"
      "foldE (age_obligation (ao_as_of opts)) empty_buckets states = Inr (aa_buckets (rm_ar_aging m))"
      "foldE add_client [] states = Inr clients"
      "foldE (cash_in_event (ao_cash_in_window opts)) (0, []) evs = Inr (cash, cash_events)"
      "estimate_runway (ao_as_of opts) (currency_of evs) evs = Inr (rs, rm_runway m)"
      "co_clients (rm_concentracao m) = client_shares collate (ch_amount (tt_a_receber tt)) clients"
    assume amounts: "mf_amount_cents (fg_contratada (rm_figures m)) = ch_amount (tt_contratada tt)"
      "mf_amount_cents (fg_faturada (rm_figures m)) = ch_amount (tt_faturada tt)"
      "mf_amount_cents (fg_paga (rm_figures m)) = ch_amount (tt_paga tt)"
      "mf_amount_cents (fg_recebida (rm_figures m)) = ch_amount (tt_recebida tt)"
      "mf_amount_cents (fg_vencida (rm_figures m)) = ch_amount (tt_vencida tt)"
      "mf_amount_cents (fg_a_receber (rm_figures m)) = ch_amount (tt_a_receber tt)"
      "mf_amount_cents (rm_cash_in m) = cash" "mf_amount_cents (rm_mrr m) = ch_amount (tt_mrr tt)"
    have "\<forall>b \<in> set empty_buckets. is_safe (ab_amount_cents b)" by (simp add: empty_buckets_def)
    then have "\<forall>b \<in> set (aa_buckets (rm_ar_aging m)). is_safe (ab_amount_cents b)" by (rule age_safe [OF *(2)])
    moreover have "\<forall>s \<in> set (co_clients (rm_concentracao m)). is_safe (sh_amount_cents s)"
      using add_clients_sum [OF *(3)] by (auto simp: balances_ok_def *(6) client_shares_def)
    moreover have "\<forall>e \<in> set evs. is_safe (fe_amount_cents e)" using valid by (simp add: list_all_iff valid_event_def)
    moreover have "is_safe cash" using *(4) by (rule cash_in_safe) simp
    ultimately have "\<forall>n \<in> set (checked_amounts m). is_safe n"
      using add_obligations_ok [OF *(1) no_totals_ok(1)] estimate_runway_safe [of "ao_as_of opts" "currency_of evs" evs rs] *(5)
      by (auto simp: checked_amounts_def Let_def amounts totals_ok_def split: runway.splits)
    then show ?thesis by (simp add: assert_integer_cents_def mapE_assert_cents)
  qed
qed

lemma aggregate_passes_own_check_witness:
  "\<exists>m. aggregate_finance id 0 sample_options sample_fin_events = Inr m
     \<and> mf_amount_cents (rm_cash_in m) = 300 \<and> assert_integer_cents m = Inr ()"
proof (rule sample_aggregate)
  fix m assume m: "aggregate_finance id 0 sample_options sample_fin_events = Inr m" "mf_amount_cents (rm_cash_in m) = 300"
  from aggregate_passes_own_check [OF m(1)] m show ?thesis by (intro exI conjI)
qed

text \<open>
  C27. The order in which the observations arrive does not matter, as long as the sort decides it: when two
  different events of the list never have both the same instant and ids that collate alike, any permutation
  of the list gives the same read model, or the same error. The same event may occur more than once. (Events
  that tie keep their arrival order in the stable sort, so nothing is claimed of them.)
\<close>

theorem aggregate_order_independent:
  assumes "mset raw = mset raw'" "inj_on (sort_rank collate) (set raw)"
  shows "aggregate_finance collate now opts raw = aggregate_finance collate now opts raw'"
  using dedupe_permuted [OF assms] by (simp add: aggregate_finance_def)

lemma sample_ranks: "map event_instant [fin_invoice, fin_settlement, fin_invoice2, fin_contract]
    = [1767225600000, 1767312000000, 1767398400000, 1767484800000]"
  by code_simp

lemma aggregate_order_independent_witness:
  "aggregate_finance id 0 sample_options [fin_invoice2, fin_invoice, fin_settlement]
     = aggregate_finance id 0 sample_options sample_fin_events"
proof (rule aggregate_order_independent)
  show "mset [fin_invoice2, fin_invoice, fin_settlement] = mset sample_fin_events"
    by (simp add: sample_fin_events_def)
  show "inj_on (sort_rank id) (set [fin_invoice2, fin_invoice, fin_settlement])"
    using sample_ranks by (auto simp: inj_on_def sort_rank_def)
qed

text \<open>
  Observing an event again, under the same idempotency key and not before the
  first observation, changes nothing in the read model, whatever the repeated event says.
\<close>

theorem repeated_observation_ignored:
  assumes "aggregate_finance collate now opts raw = Inr m" "e \<in> set raw"
    "fe_idempotency_key e' = fe_idempotency_key e" "sort_rank collate e \<le> sort_rank collate e'"
    "valid_utc (fe_occurred_at e')"
  shows "aggregate_finance collate now opts (raw @ [e']) = Inr m"
  using assms(1) dedupe_repeat [OF _ assms(2-5)] by (auto simp: aggregate_finance_def)

lemma repeated_observation_ignored_witness:
  "\<exists>m. aggregate_finance id 0 sample_options sample_fin_events = Inr m
     \<and> aggregate_finance id 0 sample_options (sample_fin_events @ [fin_settlement\<lparr>fe_amount_cents := 1\<rparr>]) = Inr m"
proof (rule sample_aggregate)
  fix m assume m: "aggregate_finance id 0 sample_options sample_fin_events = Inr m"
  have "fin_settlement \<in> set sample_fin_events" by (simp add: sample_fin_events_def)
  moreover have "sort_rank id (fin_settlement\<lparr>fe_amount_cents := 1\<rparr>) = sort_rank id fin_settlement"
    by (simp add: sort_rank_def event_instant_def)
  then have "sort_rank id fin_settlement \<le> sort_rank id (fin_settlement\<lparr>fe_amount_cents := 1\<rparr>)"
    by (metis order.refl)
  moreover have "valid_utc (fe_occurred_at fin_settlement)" using sample_events_valid by (simp add: valid_event_def)
  ultimately have "aggregate_finance id 0 sample_options (sample_fin_events @ [fin_settlement\<lparr>fe_amount_cents := 1\<rparr>]) = Inr m"
    by (intro repeated_observation_ignored [OF m]) simp_all
  with m show ?thesis by (intro exI conjI)
qed

text \<open>
  C28. Reading is sound and idempotent: an event that \<open>parseFinanceEvent\<close> returns satisfies
  every rule of the contract (patterns, lengths, safe and non-negative cents, a proven settlement,
  real instants, an adjustment target), and reading what is written of it gives it back.
\<close>

theorem event_reading_sound:
  assumes "parse_finance_event j = Inr e"
  shows "valid_event e \<and> parse_finance_event (event_json e) = Inr e"
  using parse_finance_event_valid [OF assms] parse_event_json by blast

lemma event_reading_sound_witness: "parse_finance_event (event_json fin_contract) = Inr fin_contract"
proof -
  have "parse_finance_event (event_json fin_contract) = Inr fin_contract"
    using sample_events_valid parse_event_json by simp
  from event_reading_sound [OF this] show ?thesis by simp
qed

lemma collect_pair:
  assumes "collect_obligations [a, b] = Inr ss" "fe_obligation_id b = fe_obligation_id a"
    "fe_kind a \<in> {Invoice_Issued, Contract_Signed}" "fe_kind b \<in> {Invoice_Issued, Contract_Signed}"
  obtains s t where "apply_event (empty_obligation a) a = Inr s" "apply_event s b = Inr t" "ss = [t]"
proof -
  have "ob_id s = ob_id o'" if "apply_event o' e = Inr s" "fe_kind e \<in> {Invoice_Issued, Contract_Signed}" for s o' e
    using that by (auto simp: apply_event_def Let_def note_event_def split: if_splits)
  with assms that show ?thesis
    by (auto simp: collect_obligations_def collect_event_def off_ledger_def put_obligation_def empty_obligation_def Let_def)
qed

lemma pair_contratada:
  assumes "read_model collate now opts [a, b] = Inr m" "fe_obligation_id b = fe_obligation_id a"
    "fe_kind a \<in> {Invoice_Issued, Contract_Signed}" "fe_kind b \<in> {Invoice_Issued, Contract_Signed}"
  shows "mf_amount_cents (fg_contratada (rm_figures m)) =
    fe_amount_cents a + (if fe_kind a = Contract_Signed \<and> fe_kind b = Invoice_Issued then 0 else fe_amount_cents b)"
  using assms(1)
proof (rule read_model_parts)
  fix states tt
  assume *: "collect_obligations [a, b] = Inr states"
    "foldE (add_obligation (ao_as_of opts)) (no_totals (if_reason ([a, b] = []) IR_Empty_Input)) states = Inr tt"
    "mf_amount_cents (fg_contratada (rm_figures m)) = ch_amount (tt_contratada tt)"
  from collect_pair [OF *(1) assms(2-4)] obtain s t where st:
    "apply_event (empty_obligation a) a = Inr s" "apply_event s b = Inr t" "states = [t]" by blast
  then have "\<not> ob_cancelled t" "ob_contracted t =
      fe_amount_cents a + (if fe_kind a = Contract_Signed \<and> fe_kind b = Invoice_Issued then 0 else fe_amount_cents b)"
    using assms(3,4) by (auto simp: apply_event_def Let_def note_event_def empty_obligation_def split: if_splits)
  moreover have "ch_amount (tt_contratada tt) = ob_contracted t"
  proof -
    from *(2) have "add_obligation (ao_as_of opts) (no_totals []) t = Inr tt" by (simp add: st(3) if_reason_def)
    then show ?thesis using \<open>\<not> ob_cancelled t\<close>
      by (cases rule: add_obligation_cases) (simp_all add: no_totals_def no_channel_def)
  qed
  ultimately show ?thesis by (simp add: *(3))
qed

text \<open>
  A contract that is signed after its first invoice is counted twice: the same two
  events of one obligation give as contracted revenue the contract alone when it comes first, and the
  invoice plus the contract when the invoice does.
\<close>

theorem late_contract_counted_twice:
  assumes "valid_event i" "valid_event c" "fe_kind i = Invoice_Issued" "fe_kind c = Contract_Signed"
    "fe_obligation_id c = fe_obligation_id i" "fe_idempotency_key c \<noteq> fe_idempotency_key i"
    "aggregate_finance collate now opts [i, c] = Inr m"
  shows "mf_amount_cents (fg_contratada (rm_figures m)) =
    (if sort_rank collate i \<le> sort_rank collate c then fe_amount_cents i + fe_amount_cents c else fe_amount_cents c)"
proof -
  from assms(7) obtain evs where e: "dedupe collate [i, c] = Inr evs" "read_model collate now opts evs = Inr m"
    by (rule aggregate_finance_cases)
  from e(1) assms(6) have "evs = (if sort_rank collate i \<le> sort_rank collate c then [i, c] else [c, i])"
    by (auto simp: dedupe_Inr)
  with e(2) pair_contratada [of collate now opts i c m] pair_contratada [of collate now opts c i m] assms(3-5)
  show ?thesis by (simp split: if_splits)
qed

lemma sample_late_contract: "is_ok (read_model id 0 sample_options [fin_invoice, fin_contract])"
  by code_simp

lemma late_contract_counted_twice_witness:
  "\<exists>m. aggregate_finance id 0 sample_options [fin_invoice, fin_contract] = Inr m
     \<and> mf_amount_cents (fg_contratada (rm_figures m)) = 1800"
proof -
  have rank: "sort_rank id fin_invoice \<le> sort_rank id fin_contract"
    using sample_ranks by (simp add: sort_rank_def)
  have v: "valid_event fin_invoice" "valid_event fin_contract" using sample_events_valid by simp_all
  then have "dedupe id [fin_invoice, fin_contract] = Inr [fin_invoice, fin_contract]"
    using rank by (simp add: dedupe_Inr sortable_def valid_event_def)
      (simp add: fin_invoice_def fin_contract_def sample_fin_event_def)
  moreover have "is_ok (fin_parse_utc (ao_as_of sample_options))" by code_simp
  moreover have "window_seconds sample_options = 86400" by (simp add: window_seconds_def sample_options_def)
  ultimately have "aggregate_finance id 0 sample_options [fin_invoice, fin_contract]
      = read_model id 0 sample_options [fin_invoice, fin_contract]"
    by (auto simp: aggregate_finance_def is_ok_iff fin_parse_utc_def)
  then obtain m where m: "aggregate_finance id 0 sample_options [fin_invoice, fin_contract] = Inr m"
    using sample_late_contract by (auto simp: is_ok_iff)
  have "mf_amount_cents (fg_contratada (rm_figures m)) = 1800"
    using late_contract_counted_twice [OF v _ _ _ _ m] rank
    by (simp add: fin_invoice_def fin_contract_def sample_fin_event_def)
  with m show ?thesis by (intro exI conjI)
qed

end
