(* ===== verification/Keyed_Log.thy ===== *)
theory Keyed_Log
  imports Prelude
begin

text \<open>
  The contract of an append-only log that takes at most one entry per key: a new key is appended at
  the end and answered \<open>True\<close>, a known key changes nothing and is answered \<open>False\<close>. What the clients
  of such a log rely on is proved here once.
\<close>

locale keyed_log =
  fixes key :: "'e \<Rightarrow> 'k"
    and rows :: "'l \<Rightarrow> 'e list"
    and insert_row :: "'e \<Rightarrow> 'l \<Rightarrow> bool \<times> 'l"
  assumes insert_new: "key e \<notin> key ` set (rows l) \<Longrightarrow> insert_row e l = (b, l') \<Longrightarrow> b \<and> rows l' = rows l @ [e]"
    and insert_known: "key e \<in> key ` set (rows l) \<Longrightarrow> insert_row e l = (False, l)"
begin

lemma insert_cases:
  assumes "insert_row e l = (b, l')"
  shows "(b \<and> key e \<notin> key ` set (rows l) \<and> rows l' = rows l @ [e])
    \<or> (\<not> b \<and> key e \<in> key ` set (rows l) \<and> l' = l)"
proof (cases "key e \<in> key ` set (rows l)")
  case True
  with insert_known [OF True] assms show ?thesis by simp
next
  case False
  with insert_new [OF False assms] show ?thesis by simp
qed

lemma insert_distinct:
  "insert_row e l = (b, l') \<Longrightarrow> distinct (map key (rows l)) \<Longrightarrow> distinct (map key (rows l'))"
  using insert_cases [of e l b l'] by auto

lemma insert_extends: "insert_row e l = (b, l') \<Longrightarrow> \<exists>es. rows l' = rows l @ es"
  using insert_cases [of e l b l'] by auto

lemma insert_present: "insert_row e l = (b, l') \<Longrightarrow> key e \<in> key ` set (rows l')"
  using insert_cases [of e l b l'] by auto

lemma insert_twice: "insert_row e l = (b, l') \<Longrightarrow> key f = key e \<Longrightarrow> insert_row f l' = (False, l')"
  using insert_present [of e l b l'] insert_known [of f l'] by simp

text \<open>Loading a list keeps the first entry of each key.\<close>

definition load :: "'e list \<Rightarrow> 'l \<Rightarrow> 'l" where
  "load es l = foldl (\<lambda>l e. snd (insert_row e l)) l es"

lemma load_distinct: "distinct (map key (rows l)) \<Longrightarrow> distinct (map key (rows (load es l)))"
  unfolding load_def
proof (induction es arbitrary: l)
  case (Cons e es)
  have "distinct (map key (rows (snd (insert_row e l))))"
    using Cons.prems by (rule insert_distinct [rotated]) (rule prod.collapse [symmetric])
  with Cons.IH show ?case by simp
qed simp

lemma load_keys: "key ` set (rows (load es l)) = key ` set (rows l) \<union> key ` set es"
  unfolding load_def
proof (induction es arbitrary: l)
  case (Cons e es)
  have "key ` set (rows (snd (insert_row e l))) = insert (key e) (key ` set (rows l))"
    using insert_cases [of e l "fst (insert_row e l)" "snd (insert_row e l)"] by auto
  with Cons show ?case by auto
qed simp

end

end
