(* ===== verification/Finance_Ledger.thy ===== *)
theory Finance_Ledger
  imports Finance_Validate Keyed_Log
begin

text \<open>
  \<open>domains/finance/src/adjustments.ts\<close>: the in-memory ledger of observations, and the manual adjustments
  that a person appends to it. The module's sequence counter is part of the state; one reading of the
  clock (\<open>now\<close>) stands for the readings of one call. \<open>ingest\<close> interprets \<open>keyed_log\<close>.
\<close>

section \<open>State\<close>

datatype audit_action = Adjustment_Appended | Adjustment_Denied

datatype audit_outcome = AO_Success | AO_Denied | AO_Error

record adjustment_record =
  aj_id :: string
  aj_event :: finance_event
  aj_created_by :: fin_actor
  aj_reason :: string
  aj_created_at :: string

record audit_record =
  au_id :: string
  au_at :: string
  au_actor :: fin_actor
  au_action :: audit_action
  au_resource_id :: "string option"
  au_outcome :: audit_outcome
  au_target :: adjustment_target
  au_amount_cents :: int
  au_currency :: string
  au_reason :: string
  au_idempotency_key :: string
  au_denied_code :: "finance_error option"

text \<open>\<open>adjustmentsByKey\<close> is a \<open>Map\<close>, written as an association list in insertion order.\<close>

record fin_ledger =
  fl_events :: "finance_event list"
  fl_adjustments :: "(string \<times> adjustment_record) list"
  fl_audits :: "audit_record list"
  fl_seq :: nat

section \<open>Identifiers\<close>

definition base36_digit :: "nat \<Rightarrow> char" where
  "base36_digit n = char_of (if n < 10 then 48 + n else 87 + n)"

fun base36 :: "nat \<Rightarrow> string" where
  "base36 n = (if n < 36 then [base36_digit n] else base36 (n div 36) @ [base36_digit (n mod 36)])"

declare base36.simps [simp del]

definition next_id :: "string \<Rightarrow> int \<Rightarrow> fin_ledger \<Rightarrow> string \<times> fin_ledger" where
  "next_id prefix now l =
     (let n = fl_seq l + 1
      in (''cc:'' @ prefix @ '':'' @ base36 (nat now) @ base36 n, l\<lparr>fl_seq := n\<rparr>))"

section \<open>Operations\<close>

definition adjustment_to_event :: "adjustment_input \<Rightarrow> string \<Rightarrow> finance_event" where
  "adjustment_to_event i event_id =
     \<lparr>fe_id = event_id, fe_idempotency_key = ai_idempotency_key i, fe_kind = Manual_Adjustment,
      fe_occurred_at = ai_effective_at i, fe_amount_cents = ai_amount_cents i, fe_currency = ai_currency i,
      fe_client_id = ai_client_id i, fe_obligation_id = ai_obligation_id i,
      fe_billing_mode = or_else (ai_billing_mode i) BM_UNKNOWN,
      fe_settlement_proven = (ai_target i = AT_Recebida), fe_source = ai_source i,
      fe_observed_at = ai_observed_at i, fe_freshness = ai_freshness i, fe_confidence = ai_confidence i,
      fe_billing_cycle = ai_billing_cycle i, fe_offer_code = ai_offer_code i, fe_invoice_id = None,
      fe_contract_id = None, fe_due_at = None, fe_adjustment_target = Some (ai_target i),
      fe_notes = Some (ai_reason i)\<rparr>"

definition audit_success :: "adjustment_record \<Rightarrow> adjustment_input \<Rightarrow> int \<Rightarrow> fin_ledger \<Rightarrow> audit_record \<times> fin_ledger" where
  "audit_success r i now l =
     (case next_id ''audit-event'' now l of (rid, l') \<Rightarrow>
        (\<lparr>au_id = rid, au_at = aj_created_at r, au_actor = ai_created_by i, au_action = Adjustment_Appended,
          au_resource_id = Some (aj_id r), au_outcome = AO_Success, au_target = ai_target i,
          au_amount_cents = ai_amount_cents i, au_currency = ai_currency i, au_reason = ai_reason i,
          au_idempotency_key = ai_idempotency_key i, au_denied_code = None\<rparr>, l'))"

definition audit_denied :: "adjustment_input \<Rightarrow> finance_error \<Rightarrow> string \<Rightarrow> int \<Rightarrow> fin_ledger \<Rightarrow> audit_record \<times> fin_ledger" where
  "audit_denied i code at_ts now l =
     (case next_id ''audit-event'' now l of (rid, l') \<Rightarrow>
        (\<lparr>au_id = rid, au_at = at_ts, au_actor = ai_created_by i, au_action = Adjustment_Denied,
          au_resource_id = None, au_outcome = AO_Denied, au_target = ai_target i,
          au_amount_cents = ai_amount_cents i, au_currency = ai_currency i, au_reason = ai_reason i,
          au_idempotency_key = ai_idempotency_key i, au_denied_code = Some code\<rparr>, l'))"

definition ingest :: "finance_event \<Rightarrow> fin_ledger \<Rightarrow> bool \<times> fin_ledger" where
  "ingest e l =
     (if list_ex (\<lambda>x. fe_idempotency_key x = fe_idempotency_key e) (fl_events l) then (False, l)
      else (True, l\<lparr>fl_events := fl_events l @ [e]\<rparr>))"

definition get_adjustment :: "string \<Rightarrow> fin_ledger \<Rightarrow> adjustment_record option" where
  "get_adjustment k l = map_of (fl_adjustments l) k"

fun put_entry :: "'k \<Rightarrow> 'v \<Rightarrow> ('k \<times> 'v) list \<Rightarrow> ('k \<times> 'v) list" where
  "put_entry k v [] = [(k, v)]"
| "put_entry k v ((a, b) # ps) = (if a = k then (a, v) # ps else (a, b) # put_entry k v ps)"

definition put_adjustment :: "adjustment_record \<Rightarrow> fin_ledger \<Rightarrow> fin_ledger" where
  "put_adjustment r l = l\<lparr>fl_adjustments := put_entry (fe_idempotency_key (aj_event r)) r (fl_adjustments l)\<rparr>"

text \<open>The constructor ingests the initial events one by one.\<close>

definition create_memory_ledger :: "nat \<Rightarrow> finance_event list \<Rightarrow> fin_ledger" where
  "create_memory_ledger seq initial =
     foldl (\<lambda>l e. snd (ingest e l)) \<lparr>fl_events = [], fl_adjustments = [], fl_audits = [], fl_seq = seq\<rparr> initial"

text \<open>A result of \<open>appendManualAdjustment\<close>: the record, the audit entry, and whether it is a duplicate.\<close>

type_synonym adjustment_result = "adjustment_record \<times> audit_record \<times> bool"

definition append_parsed :: "int \<Rightarrow> adjustment_input \<Rightarrow> fin_ledger \<Rightarrow> adjustment_result fin_result \<times> fin_ledger" where
  "append_parsed now i l =
     (if fs_system (ai_source i) \<noteq> ''manual'' then
        (case audit_denied i FINANCE_ADJUSTMENT_SOURCE (to_iso now) now l of (a, l1) \<Rightarrow>
           (Inl FINANCE_ADJUSTMENT_SOURCE, l1\<lparr>fl_audits := fl_audits l1 @ [a]\<rparr>))
      else case get_adjustment (ai_idempotency_key i) l of
        Some prior \<Rightarrow>
          (case audit_success prior i now l of (a, l1) \<Rightarrow> (Inr (prior, a, True), l1))
      | None \<Rightarrow>
          (case next_id ''manual-adjustment'' now l of (record_id, l1) \<Rightarrow>
           case ingest (adjustment_to_event i record_id) l1 of (inserted, l2) \<Rightarrow>
           case (inserted, get_adjustment (ai_idempotency_key i) l2) of
             (False, Some existing) \<Rightarrow>
               (case audit_success existing i now l2 of (a, l3) \<Rightarrow> (Inr (existing, a, True), l3))
           | _ \<Rightarrow>
               (let r = \<lparr>aj_id = record_id, aj_event = adjustment_to_event i record_id, aj_created_by = ai_created_by i,
                         aj_reason = ai_reason i, aj_created_at = to_iso now\<rparr>
                in case audit_success r i now (put_adjustment r l2) of (a, l3) \<Rightarrow>
                  (Inr (r, a, False), l3\<lparr>fl_audits := fl_audits l3 @ [a]\<rparr>))))"

definition append_manual_adjustment :: "int \<Rightarrow> json \<Rightarrow> fin_ledger \<Rightarrow> adjustment_result fin_result \<times> fin_ledger" where
  "append_manual_adjustment now raw l =
     (case parse_manual_adjustment raw of Inl e \<Rightarrow> (Inl e, l) | Inr i \<Rightarrow> append_parsed now i l)"

section \<open>The log of observations\<close>

interpretation observations: keyed_log fe_idempotency_key fl_events ingest
  by unfold_locales (auto simp: ingest_def list_ex_iff image_iff split: if_splits)

lemma create_memory_ledger_load:
  "create_memory_ledger seq initial =
     observations.load initial \<lparr>fl_events = [], fl_adjustments = [], fl_audits = [], fl_seq = seq\<rparr>"
  by (simp add: create_memory_ledger_def observations.load_def)

section \<open>What an append does\<close>

text \<open>
  The four ways an append ends: the input is rejected, the source is denied, the key was adjusted
  before, or a record is put.
\<close>

lemma map_of_put_entry [simp]: "map_of (put_entry k v ps) = (map_of ps)(k \<mapsto> v)"
  by (induction k v ps rule: put_entry.induct) (auto simp: fun_eq_iff)

lemma next_id_frame:
  "next_id p now l = (i, l') \<Longrightarrow>
     fl_events l' = fl_events l \<and> fl_adjustments l' = fl_adjustments l \<and> fl_audits l' = fl_audits l"
  by (auto simp: next_id_def Let_def)

lemma audit_success_frame:
  "audit_success r i now l = (a, l') \<Longrightarrow>
     fl_events l' = fl_events l \<and> fl_adjustments l' = fl_adjustments l \<and> fl_audits l' = fl_audits l
     \<and> au_outcome a = AO_Success \<and> au_resource_id a = Some (aj_id r)
     \<and> au_idempotency_key a = ai_idempotency_key i \<and> au_amount_cents a = ai_amount_cents i"
  by (auto simp: audit_success_def split: prod.splits dest: next_id_frame)

lemma audit_denied_frame:
  "audit_denied i c t now l = (a, l') \<Longrightarrow>
     fl_events l' = fl_events l \<and> fl_adjustments l' = fl_adjustments l \<and> fl_audits l' = fl_audits l
     \<and> au_outcome a = AO_Denied \<and> au_idempotency_key a = ai_idempotency_key i"
  by (auto simp: audit_denied_def split: prod.splits dest: next_id_frame)

lemma append_parsed_cases:
  assumes "append_parsed now i l = (res, l')"
  obtains (denied) a where "fs_system (ai_source i) \<noteq> ''manual''" "res = Inl FINANCE_ADJUSTMENT_SOURCE"
      "fl_events l' = fl_events l" "fl_adjustments l' = fl_adjustments l" "fl_audits l' = fl_audits l @ [a]"
      "au_outcome a = AO_Denied" "au_idempotency_key a = ai_idempotency_key i"
  | (repeated) r a where "fs_system (ai_source i) = ''manual''" "get_adjustment (ai_idempotency_key i) l = Some r"
      "res = Inr (r, a, True)" "fl_events l' = fl_events l" "fl_adjustments l' = fl_adjustments l"
      "fl_audits l' = fl_audits l"
  | (appended) r a b l1 l2 where "fs_system (ai_source i) = ''manual''" "get_adjustment (ai_idempotency_key i) l = None"
      "res = Inr (r, a, False)" "fl_events l1 = fl_events l" "ingest (aj_event r) l1 = (b, l2)" "fl_events l' = fl_events l2"
      "fl_adjustments l' = put_entry (ai_idempotency_key i) r (fl_adjustments l)"
      "fl_audits l' = fl_audits l @ [a]" "au_outcome a = AO_Success" "au_resource_id a = Some (aj_id r)"
      "au_idempotency_key a = ai_idempotency_key i" "aj_event r = adjustment_to_event i (aj_id r)"
proof (cases "fs_system (ai_source i) = ''manual''")
  case False
  with assms denied show ?thesis
    by (auto simp: append_parsed_def split: prod.splits dest: audit_denied_frame)
next
  case True
  show ?thesis
  proof (cases "get_adjustment (ai_idempotency_key i) l")
    case (Some r)
    with True assms repeated show ?thesis
      by (auto simp: append_parsed_def split: prod.splits dest: audit_success_frame)
  next
    case None
    obtain rid l1 where n: "next_id ''manual-adjustment'' now l = (rid, l1)" by (cases "next_id ''manual-adjustment'' now l")
    obtain b l2 where g: "ingest (adjustment_to_event i rid) l1 = (b, l2)" by (cases "ingest (adjustment_to_event i rid) l1")
    define r where "r = \<lparr>aj_id = rid, aj_event = adjustment_to_event i rid, aj_created_by = ai_created_by i,
      aj_reason = ai_reason i, aj_created_at = to_iso now\<rparr>"
    obtain a l3 where s: "audit_success r i now (put_adjustment r l2) = (a, l3)"
      by (cases "audit_success r i now (put_adjustment r l2)")
    have frame: "fl_adjustments l2 = fl_adjustments l" "fl_audits l2 = fl_audits l"
      using g next_id_frame [OF n] by (auto simp: ingest_def split: if_splits)
    then have "get_adjustment (ai_idempotency_key i) l2 = None" using None by (simp add: get_adjustment_def)
    then have "res = Inr (r, a, False)" "l' = l3\<lparr>fl_audits := fl_audits l3 @ [a]\<rparr>"
      using assms True None n g s by (auto simp: append_parsed_def r_def Let_def split: bool.splits)
    then show ?thesis
      using True None next_id_frame [OF n] g audit_success_frame [OF s] frame
      by (intro appended [of r a l1 b l2]) (simp_all add: put_adjustment_def r_def adjustment_to_event_def)
  qed
qed

end
