(* ===== verification/Finance_Ledger_Properties.thy ===== *)
theory Finance_Ledger_Properties
  imports Finance_Ledger Finance_Samples
begin

text \<open>
  The ledgers that the operations can build, and what holds of all of them: one observation per key,
  one adjustment per key, no adjustment without an audit entry.
\<close>

section \<open>Reachable ledgers\<close>

inductive fin_reachable :: "fin_ledger \<Rightarrow> bool" where
  created: "fin_reachable (create_memory_ledger seq initial)"
| ingested: "fin_reachable l \<Longrightarrow> ingest e l = (b, l') \<Longrightarrow> fin_reachable l'"
| appended: "fin_reachable l \<Longrightarrow> append_manual_adjustment now raw l = (res, l') \<Longrightarrow> fin_reachable l'"

definition audited :: "adjustment_record \<Rightarrow> audit_record list \<Rightarrow> bool" where
  "audited r audits \<longleftrightarrow> (\<exists>a \<in> set audits. au_outcome a = AO_Success \<and> au_resource_id a = Some (aj_id r))"

definition adjustment_ok :: "fin_ledger \<Rightarrow> string \<Rightarrow> adjustment_record \<Rightarrow> bool" where
  "adjustment_ok l k r \<longleftrightarrow>
     fe_idempotency_key (aj_event r) = k \<and> fe_kind (aj_event r) = Manual_Adjustment
     \<and> fs_system (fe_source (aj_event r)) = ''manual''
     \<and> k \<in> fe_idempotency_key ` set (fl_events l) \<and> audited r (fl_audits l)"

definition fin_ledger_inv :: "fin_ledger \<Rightarrow> bool" where
  "fin_ledger_inv l \<longleftrightarrow>
     distinct (map fe_idempotency_key (fl_events l)) \<and> distinct (map fst (fl_adjustments l))
     \<and> (\<forall>(k, r) \<in> set (fl_adjustments l). adjustment_ok l k r)"

lemma adjustment_ok_mono:
  "adjustment_ok l k r \<Longrightarrow> set (fl_events l) \<subseteq> set (fl_events l') \<Longrightarrow> set (fl_audits l) \<subseteq> set (fl_audits l') \<Longrightarrow>
     adjustment_ok l' k r"
  by (auto simp: adjustment_ok_def audited_def)

lemma fin_ledger_inv_frame:
  assumes "fin_ledger_inv l" "distinct (map fe_idempotency_key (fl_events l'))" "set (fl_events l) \<subseteq> set (fl_events l')"
    "fl_adjustments l' = fl_adjustments l" "set (fl_audits l) \<subseteq> set (fl_audits l')"
  shows "fin_ledger_inv l'"
  using assms adjustment_ok_mono by (fastforce simp: fin_ledger_inv_def)

lemma map_fst_put_entry: "map fst (put_entry k v ps) = (if k \<in> fst ` set ps then map fst ps else map fst ps @ [k])"
  by (induction k v ps rule: put_entry.induct) auto

lemma set_put_entry: "distinct (map fst ps) \<Longrightarrow> set (put_entry k v ps) \<subseteq> insert (k, v) (set ps)"
  by (induction k v ps rule: put_entry.induct) auto

lemma ingest_inv: "fin_ledger_inv l \<Longrightarrow> ingest e l = (b, l') \<Longrightarrow> fin_ledger_inv l'"
proof (rule fin_ledger_inv_frame [of l])
  assume l: "fin_ledger_inv l" "ingest e l = (b, l')"
  then show "distinct (map fe_idempotency_key (fl_events l'))"
    using observations.insert_distinct [of e l b l'] by (simp add: fin_ledger_inv_def)
  from l(2) show "set (fl_events l) \<subseteq> set (fl_events l')" "fl_adjustments l' = fl_adjustments l"
    "set (fl_audits l) \<subseteq> set (fl_audits l')"
    by (auto simp: ingest_def split: if_splits)
qed

lemma created_inv: "fin_ledger_inv (create_memory_ledger seq initial)"
proof -
  have "fl_adjustments (foldl (\<lambda>l e. snd (ingest e l)) l es) = fl_adjustments l" for l es
    by (induction es arbitrary: l) (simp_all add: ingest_def)
  then show ?thesis
    using observations.load_distinct [of "\<lparr>fl_events = [], fl_adjustments = [], fl_audits = [], fl_seq = seq\<rparr>" initial]
    by (simp add: fin_ledger_inv_def create_memory_ledger_load) (simp add: observations.load_def)
qed

lemma append_parsed_inv:
  assumes "fin_ledger_inv l" "append_parsed now i l = (res, l')"
  shows "fin_ledger_inv l'"
  using assms(2)
proof (cases rule: append_parsed_cases)
  case (denied a)
  with assms(1) show ?thesis by (intro fin_ledger_inv_frame [OF assms(1)]) (auto simp: fin_ledger_inv_def)
next
  case (repeated r a)
  with assms(1) show ?thesis by (intro fin_ledger_inv_frame [OF assms(1)]) (simp_all add: fin_ledger_inv_def)
next
  case (appended r a b l1 l2)
  have "distinct (map fe_idempotency_key (fl_events l'))"
    using observations.insert_distinct [OF appended(5)] assms(1) appended(4,6) by (simp add: fin_ledger_inv_def)
  moreover have sub: "set (fl_events l) \<subseteq> set (fl_events l')"
    using observations.insert_extends [OF appended(5)] appended(4,6) by auto
  moreover have "adjustment_ok l' (ai_idempotency_key i) r"
    using observations.insert_present [OF appended(5)] appended
    by (simp add: adjustment_ok_def audited_def adjustment_to_event_def)
  moreover have "adjustment_ok l' k q" if "(k, q) \<in> set (fl_adjustments l)" for k q
  proof (rule adjustment_ok_mono)
    show "adjustment_ok l k q" using that assms(1) by (auto simp: fin_ledger_inv_def)
    show "set (fl_audits l) \<subseteq> set (fl_audits l')" by (auto simp: appended(8))
  qed (rule sub)
  moreover have "distinct (map fst (fl_adjustments l'))"
    using assms(1) by (simp add: appended(7) map_fst_put_entry fin_ledger_inv_def)
  moreover have "set (fl_adjustments l') \<subseteq> insert (ai_idempotency_key i, r) (set (fl_adjustments l))"
    unfolding appended(7) using assms(1) by (intro set_put_entry) (simp add: fin_ledger_inv_def)
  ultimately show ?thesis unfolding fin_ledger_inv_def by blast
qed

lemma fin_reachable_inv: "fin_reachable l \<Longrightarrow> fin_ledger_inv l"
proof (induction rule: fin_reachable.induct)
  case (appended l now raw res l')
  then show ?case
    by (auto simp: append_manual_adjustment_def split: sum.splits intro: append_parsed_inv)
qed (auto intro: created_inv ingest_inv)

section \<open>A manual adjustment\<close>

definition sample_adjustment :: "string \<Rightarrow> int \<Rightarrow> json" where
  "sample_adjustment key amount =
     JObj [(''amount_cents'', JNum (of_int amount)), (''client_id'', JStr ''ana''), (''confidence'', JNum 1),
           (''created_by'', JObj [(''id'', JStr ''tiago''), (''kind'', JStr ''human'')]),
           (''currency'', JStr ''BRL''), (''effective_at'', JStr ''2026-01-05T00:00:00Z''),
           (''freshness_status'', JStr ''FRESH''), (''idempotency_key'', JStr key),
           (''obligation_id'', JStr ''o1''), (''observed_at'', JStr ''2026-01-05T00:00:00Z''),
           (''reason'', JStr ''typo''),
           (''source'', JObj [(''kind'', JStr ''note''), (''locator'', JStr ''n1''), (''system'', JStr ''manual'')]),
           (''target'', JStr ''recebida'')]"

definition sample_input :: "string \<Rightarrow> int \<Rightarrow> adjustment_input" where
  "sample_input key amount =
     \<lparr>ai_idempotency_key = key, ai_target = AT_Recebida, ai_amount_cents = amount, ai_currency = ''BRL'',
      ai_reason = ''typo'', ai_created_by = \<lparr>fa_kind = FA_Human, fa_id = ''tiago'', fa_display_name = None\<rparr>,
      ai_effective_at = ''2026-01-05T00:00:00Z'',
      ai_source = \<lparr>fs_system = ''manual'', fs_kind = ''note'', fs_locator = ''n1'', fs_label = None\<rparr>,
      ai_observed_at = ''2026-01-05T00:00:00Z'', ai_freshness = FF_FRESH, ai_confidence = 1,
      ai_obligation_id = ''o1'', ai_client_id = ''ana'', ai_billing_mode = None, ai_billing_cycle = None,
      ai_offer_code = None\<rparr>"

lemma adjustment_keys_plain: "list_all (\<lambda>k. \<not> secret_key k) (''id'' # ''kind'' # ''locator'' # ''system'' # adjustment_keys)"
  by (simp add: adjustment_keys_def secret_key_def secret_words_def ends_with_def secret_prefix_def
      lower_char_def is_upper_def)

lemma sample_instant: "fin_parse_utc ''2026-01-05T00:00:00Z'' = Inr 1767571200000"
  by code_simp

lemma sample_source: "parse_source_ref (Some (JObj [(''kind'', JStr ''note''), (''locator'', JStr ''n1''), (''system'', JStr ''manual'')]))
    = Inr \<lparr>fs_system = ''manual'', fs_kind = ''note'', fs_locator = ''n1'', fs_label = None\<rparr>"
  using adjustment_keys_plain
  by (simp add: parse_source_ref_def reject_secret_keys_def adjustment_keys_def parse_optional_def
      source_system_pattern_def source_kind_pattern_def kebab_char_def is_lower_def is_digit_def)

lemma sample_actor: "parse_actor_ref (Some (JObj [(''id'', JStr ''tiago''), (''kind'', JStr ''human'')]))
    = Inr \<lparr>fa_kind = FA_Human, fa_id = ''tiago'', fa_display_name = None\<rparr>"
  using adjustment_keys_plain
  by (simp add: parse_actor_ref_def reject_secret_keys_def adjustment_keys_def parse_optional_def parse_enum_def
      fin_actor_kind_names_def fin_actor_id_pattern_def is_alnum_def is_lower_def)

lemma sample_parsed:
  assumes "idempotency_key_pattern key" "length key \<le> 256" "is_safe amount"
  shows "parse_manual_adjustment (sample_adjustment key amount) = Inr (sample_input key amount)"
proof -
  have k: "Suc 0 \<le> length key" "length key \<le> 256"
    using assms(1,2) by (simp_all add: idempotency_key_pattern_def Suc_le_eq)
  have "parse_cents (Some (JNum (of_int amount))) = Inr amount" using assms(3) by (simp add: parse_cents_iff)
  with adjustment_keys_plain assms(1) show ?thesis
    by (simp add: parse_manual_adjustment_def sample_adjustment_def sample_input_def reject_secret_keys_def known_keys_def
        adjustment_keys_def parse_optional_def k sample_instant sample_source sample_actor parse_adjustment_target_def
        parse_freshness_def parse_enum_def target_names_def freshness_names_def parse_confidence_def
        assert_currency_def currency_pattern_def is_upper_def del: fin_parse_utc_Inr)
qed

text \<open>A ledger with one observed invoice, then one adjustment.\<close>

definition sample_fin_ledger :: fin_ledger where
  "sample_fin_ledger = create_memory_ledger 0 [fin_invoice]"

definition adjusted_ledger :: fin_ledger where
  "adjusted_ledger = snd (append_manual_adjustment 5 (sample_adjustment ''a1'' 50) sample_fin_ledger)"

lemma sample_keys: "idempotency_key_pattern ''a1''" "idempotency_key_pattern ''k1''" "is_safe 50" "is_safe 70"
  by code_simp+

lemma sample_fin_ledger_events:
  "fl_events sample_fin_ledger = [fin_invoice]" "fl_adjustments sample_fin_ledger = []"
  "fe_idempotency_key fin_invoice = ''k1''"
  by (simp_all add: sample_fin_ledger_def create_memory_ledger_def ingest_def fin_invoice_def sample_fin_event_def)

lemma adjusted_ledger_step:
  obtains r a where "append_manual_adjustment 5 (sample_adjustment ''a1'' 50) sample_fin_ledger = (Inr (r, a, False), adjusted_ledger)"
    "get_adjustment ''a1'' adjusted_ledger = Some r" "fin_reachable adjusted_ledger"
proof -
  let ?step = "append_manual_adjustment 5 (sample_adjustment ''a1'' 50) sample_fin_ledger"
  have p: "?step = append_parsed 5 (sample_input ''a1'' 50) sample_fin_ledger"
    using sample_parsed [OF sample_keys(1) _ sample_keys(3)] by (simp add: append_manual_adjustment_def)
  obtain res where ap: "append_parsed 5 (sample_input ''a1'' 50) sample_fin_ledger = (res, adjusted_ledger)"
    unfolding adjusted_ledger_def p [symmetric] by (cases ?step) simp
  then obtain r a where "res = Inr (r, a, False)" "get_adjustment ''a1'' adjusted_ledger = Some r"
    by (cases rule: append_parsed_cases) (auto simp: sample_input_def get_adjustment_def sample_fin_ledger_events)
  moreover have "fin_reachable adjusted_ledger"
    using fin_reachable.appended [OF fin_reachable.created, of 5 "sample_adjustment ''a1'' 50" 0 "[fin_invoice]" res adjusted_ledger]
      ap p by (simp add: sample_fin_ledger_def)
  ultimately show ?thesis using that ap p by simp
qed

section \<open>Properties\<close>

text \<open>
  C29. In every reachable ledger there is one observation and one adjustment per idempotency
  key, and every adjustment is a manual one, under its own key, with a successful audit entry.
\<close>

theorem adjustments_audited:
  assumes "fin_reachable l"
  shows "distinct (map fe_idempotency_key (fl_events l)) \<and> distinct (map fst (fl_adjustments l))
    \<and> (get_adjustment k l = Some r \<longrightarrow> adjustment_ok l k r)"
  using fin_reachable_inv [OF assms]
  by (auto simp: fin_ledger_inv_def get_adjustment_def dest!: map_of_SomeD)

lemma adjustments_audited_witness: "\<exists>r. adjustment_ok adjusted_ledger ''a1'' r"
proof (rule adjusted_ledger_step)
  fix r a assume *: "get_adjustment ''a1'' adjusted_ledger = Some r" "fin_reachable adjusted_ledger"
  from adjustments_audited [OF *(2), of "''a1''" r] *(1) show ?thesis by (intro exI [of _ r]) simp
qed

text \<open>
  A key adjusts once: when an adjustment was recorded or was already there, every
  later manual input with the same key, whatever it asks for, is answered with the first record as a
  duplicate, and neither the observations, nor the adjustments, nor the stored audits change.
\<close>

theorem adjustment_applied_once:
  assumes "append_manual_adjustment now raw l = (Inr (r, a, d), l1)" "parse_manual_adjustment raw = Inr i"
    "parse_manual_adjustment raw' = Inr j" "ai_idempotency_key j = ai_idempotency_key i"
    "fs_system (ai_source j) = ''manual''"
  shows "\<exists>a' l2. append_manual_adjustment later raw' l1 = (Inr (r, a', True), l2)
    \<and> fl_events l2 = fl_events l1 \<and> fl_adjustments l2 = fl_adjustments l1 \<and> fl_audits l2 = fl_audits l1"
proof -
  from assms(1,2) have "append_parsed now i l = (Inr (r, a, d), l1)" by (simp add: append_manual_adjustment_def)
  then have "get_adjustment (ai_idempotency_key j) l1 = Some r"
    by (cases rule: append_parsed_cases) (simp_all add: get_adjustment_def assms(4))
  with assms(3,5) show ?thesis
    by (auto simp: append_manual_adjustment_def append_parsed_def split: prod.splits dest: audit_success_frame)
qed

lemma adjustment_applied_once_witness:
  "\<exists>r a l. append_manual_adjustment 9 (sample_adjustment ''a1'' 70) adjusted_ledger = (Inr (r, a, True), l)
     \<and> fl_events l = fl_events adjusted_ledger"
proof (rule adjusted_ledger_step)
  fix r a assume "append_manual_adjustment 5 (sample_adjustment ''a1'' 50) sample_fin_ledger = (Inr (r, a, False), adjusted_ledger)"
  from adjustment_applied_once [OF this sample_parsed [OF sample_keys(1) _ sample_keys(3)]
      sample_parsed [OF sample_keys(1) _ sample_keys(4)], of 9]
  show ?thesis by (force simp: sample_input_def)
qed

text \<open>
  An adjustment whose key an ordinary observation already used is lost: the call answers
  with a new record and a successful audit entry, which it stores, but no event is added, so that the
  read model computed from the ledger is the one before.
\<close>

theorem adjustment_lost:
  assumes "parse_manual_adjustment raw = Inr i" "fs_system (ai_source i) = ''manual''"
    "get_adjustment (ai_idempotency_key i) l = None"
    "ai_idempotency_key i \<in> fe_idempotency_key ` set (fl_events l)"
  shows "\<exists>r a l'. append_manual_adjustment now raw l = (Inr (r, a, False), l')
    \<and> au_outcome a = AO_Success \<and> fl_audits l' = fl_audits l @ [a]
    \<and> get_adjustment (ai_idempotency_key i) l' = Some r
    \<and> aggregate_finance collate t opts (fl_events l') = aggregate_finance collate t opts (fl_events l)"
proof -
  obtain res l' where ap: "append_parsed now i l = (res, l')" by (cases "append_parsed now i l")
  then show ?thesis
  proof (cases rule: append_parsed_cases)
    case (appended r a b l1 l2)
    have "fe_idempotency_key (aj_event r) \<in> fe_idempotency_key ` set (fl_events l1)"
      using assms(4) appended(4,12) by (simp add: adjustment_to_event_def)
    then have "fl_events l' = fl_events l"
      using observations.insert_known appended(4-6) by (metis prod.inject)
    then show ?thesis using ap appended assms(1) by (simp add: append_manual_adjustment_def get_adjustment_def)
  qed (use assms in simp_all)
qed

lemma adjustment_lost_witness:
  "\<exists>r a l. append_manual_adjustment 5 (sample_adjustment ''k1'' 50) sample_fin_ledger = (Inr (r, a, False), l)
     \<and> au_outcome a = AO_Success"
  using adjustment_lost [OF sample_parsed [OF sample_keys(2) _ sample_keys(3)], of sample_fin_ledger 5 id 0 sample_options]
  by (force simp: sample_input_def get_adjustment_def sample_fin_ledger_events)

end
