(* ===== verification/Circuit_Breaker.thy ===== *)
theory Circuit_Breaker
  imports Main
begin

text \<open>
  \<open>connectors/warmbly/src/http/circuit-breaker.ts\<close>: the breaker both Warmbly clients share, as a state
  that every operation returns updated; the clock reading of an operation is its argument. The laws
  give the exact condition under which it refuses.
\<close>

datatype circuit_state = CS_Closed | CS_Open | CS_Half_Open

record circuit_breaker =
  cb_failure_threshold :: int
  cb_reset_ms :: int
  cb_failures :: int
  cb_state :: circuit_state
  cb_opened_at :: int

definition new_breaker :: "int \<Rightarrow> int \<Rightarrow> circuit_breaker" where
  "new_breaker threshold reset_ms =
     \<lparr>cb_failure_threshold = threshold, cb_reset_ms = reset_ms, cb_failures = 0, cb_state = CS_Closed,
      cb_opened_at = 0\<rparr>"

definition maybe_half_open :: "int \<Rightarrow> circuit_breaker \<Rightarrow> circuit_breaker" where
  "maybe_half_open now b =
     (if cb_state b = CS_Open \<and> now - cb_opened_at b \<ge> cb_reset_ms b then b\<lparr>cb_state := CS_Half_Open\<rparr> else b)"

definition get_state :: "int \<Rightarrow> circuit_breaker \<Rightarrow> circuit_state \<times> circuit_breaker" where
  "get_state now b = (let b' = maybe_half_open now b in (cb_state b', b'))"

text \<open>\<open>assertClosed\<close>: whether it throws \<open>CircuitOpenError\<close>\<close>

definition assert_closed :: "int \<Rightarrow> circuit_breaker \<Rightarrow> bool \<times> circuit_breaker" where
  "assert_closed now b = (case get_state now b of (s, b') \<Rightarrow> (s = CS_Open, b'))"

definition record_success :: "circuit_breaker \<Rightarrow> circuit_breaker" where
  "record_success b = b\<lparr>cb_failures := 0, cb_state := CS_Closed, cb_opened_at := 0\<rparr>"

definition record_failure :: "int \<Rightarrow> circuit_breaker \<Rightarrow> circuit_breaker" where
  "record_failure now b =
     (let b' = b\<lparr>cb_failures := cb_failures b + 1\<rparr>
      in if cb_state b' = CS_Half_Open \<or> cb_failures b' \<ge> cb_failure_threshold b'
         then b'\<lparr>cb_state := CS_Open, cb_opened_at := now\<rparr> else b')"

section \<open>Runs\<close>

datatype breaker_event = Success int | Failure int | Check int

fun event_time :: "breaker_event \<Rightarrow> int" where
  "event_time (Success t) = t"
| "event_time (Failure t) = t"
| "event_time (Check t) = t"

fun breaker_step :: "circuit_breaker \<Rightarrow> breaker_event \<Rightarrow> circuit_breaker" where
  "breaker_step b (Success t) = record_success b"
| "breaker_step b (Failure t) = record_failure t b"
| "breaker_step b (Check t) = snd (get_state t b)"

definition breaker_run :: "int \<Rightarrow> int \<Rightarrow> breaker_event list \<Rightarrow> circuit_breaker" where
  "breaker_run threshold reset_ms es = foldl breaker_step (new_breaker threshold reset_ms) es"

text \<open>The times of the failures since the last success, the latest first.\<close>

fun failure_times :: "breaker_event list \<Rightarrow> int list" where
  "failure_times [] = []"
| "failure_times (Failure t # es) = t # failure_times es"
| "failure_times (Check t # es) = failure_times es"
| "failure_times (Success t # es) = []"

definition recent_failures :: "breaker_event list \<Rightarrow> int list" where
  "recent_failures es = failure_times (rev es)"

text \<open>
  The state of a run: closed below the threshold; at or above it open since the last failure, or half
  open because a check found the waiting time over.
\<close>

lemma breaker_run_snoc: "breaker_run n r (es @ [e]) = breaker_step (breaker_run n r es) e"
  by (simp add: breaker_run_def)

lemma breaker_run_config [simp]:
  "cb_failure_threshold (breaker_run n r es) = n" "cb_reset_ms (breaker_run n r es) = r"
proof (induction es rule: rev_induct)
  case (snoc e es)
  { case 1 from snoc show ?case
      by (cases e) (simp_all add: breaker_run_snoc record_success_def record_failure_def get_state_def
          maybe_half_open_def Let_def) }
  { case 2 from snoc show ?case
      by (cases e) (simp_all add: breaker_run_snoc record_success_def record_failure_def get_state_def
          maybe_half_open_def Let_def) }
qed (simp_all add: breaker_run_def new_breaker_def)

lemma breaker_run_state:
  assumes "0 < n" "sorted (map event_time es)"
  shows "cb_failures (breaker_run n r es) = int (length (recent_failures es))
    \<and> (if int (length (recent_failures es)) < n then cb_state (breaker_run n r es) = CS_Closed
       else cb_opened_at (breaker_run n r es) = hd (recent_failures es)
         \<and> (cb_state (breaker_run n r es) = CS_Open
            \<or> cb_state (breaker_run n r es) = CS_Half_Open
              \<and> (\<exists>e \<in> set es. event_time e - hd (recent_failures es) \<ge> r)))"
  using assms(2)
proof (induction es rule: rev_induct)
  case Nil
  with assms(1) show ?case by (simp add: breaker_run_def new_breaker_def recent_failures_def)
next
  case (snoc e es)
  let ?b = "breaker_run n r es"
  have sorted: "sorted (map event_time es)" using snoc.prems by (simp add: sorted_append)
  note IH = snoc.IH [OF sorted]
  show ?case
  proof (cases e)
    case (Success t)
    with assms(1) show ?thesis
      by (simp add: breaker_run_snoc record_success_def recent_failures_def)
  next
    case (Failure t)
    with IH show ?thesis
      by (auto simp: breaker_run_snoc record_failure_def recent_failures_def Let_def split: if_splits)
  next
    case (Check t)
    then have rf: "recent_failures (es @ [e]) = recent_failures es" by (simp add: recent_failures_def)
    show ?thesis
      using IH unfolding rf
      by (auto simp: Check breaker_run_snoc get_state_def maybe_half_open_def Let_def split: if_splits)
  qed
qed

section \<open>When the breaker refuses\<close>

text \<open>
  C39. The breaker refuses exactly when it should: after any sequence of successes, failures and checks in
  the order of time it throws at \<open>now\<close> if and only if at least \<open>threshold\<close> calls failed since the last
  success and the last failure is less than the waiting time ago.
\<close>

theorem breaker_refuses_exactly:
  assumes "0 < threshold" "sorted (map event_time es @ [now])"
  shows "fst (assert_closed now (breaker_run threshold reset_ms es)) =
    (threshold \<le> int (length (recent_failures es)) \<and> now - hd (recent_failures es) < reset_ms)"
proof -
  have "sorted (map event_time es)" "\<forall>e \<in> set es. event_time e \<le> now"
    using assms(2) by (auto simp: sorted_append)
  with breaker_run_state [OF assms(1), of es reset_ms] show ?thesis
    by (auto simp: assert_closed_def get_state_def maybe_half_open_def Let_def split: if_splits)
qed

theorem breaker_refuses_exactly_witness:
  "fst (assert_closed 3500 (breaker_run 2 1000 [Failure 1000, Success 1500, Failure 2000, Failure 3000]))"
  using breaker_refuses_exactly [of 2 "[Failure 1000, Success 1500, Failure 2000, Failure 3000]" 3500 1000]
  by (simp add: recent_failures_def)

end
