(* ===== verification/Forward_Auth.thy ===== *)
theory Forward_Auth
  imports Json
begin

text \<open>
  \<open>security/src/identity.ts\<close> and \<open>hop.ts\<close>: the identity of an operator is read from the headers a
  trusted reverse proxy sets. \<open>isIP\<close> and \<open>BlockList\<close> of \<open>node:net\<close> are parameters. The \<open>NUMBER\<close> of a
  prefix covers blank text and decimal digits; other numeric literals (signs, exponents, hexadecimal)
  are the parameter \<open>ne_number\<close>. Reason texts are not modelled.
\<close>

section \<open>Trusted hops\<close>

datatype ip_type = IPv4 | IPv6

record net_env =
  ne_ip_version :: "string \<Rightarrow> ip_type option"
  ne_block_list :: "(string \<times> int \<times> ip_type) list \<Rightarrow> string \<Rightarrow> ip_type \<Rightarrow> bool"
  ne_number :: "string \<Rightarrow> rat option"

text \<open>\<open>/^(\d{1,3}(?:\.\d{1,3}){3}):\d+$/\<close>: the address in front of the port\<close>

definition ipv4_port :: "string \<Rightarrow> string option" where
  "ipv4_port s =
     (let a = takeWhile (\<lambda>c. c \<noteq> CHR '':'') s; port = drop (length a + 1) s; parts = split_on (CHR ''.'') a
      in if length a < length s \<and> port \<noteq> [] \<and> list_all is_digit port \<and> length parts = 4
            \<and> list_all (\<lambda>p. p \<noteq> [] \<and> length p \<le> 3 \<and> list_all is_digit p) parts
         then Some a else None)"

definition normalize_remote_address :: "net_env \<Rightarrow> string \<Rightarrow> string" where
  "normalize_remote_address N raw =
     (let trimmed = js_trim raw;
          value = (if starts_with trimmed ''['' \<and> CHR '']'' \<in> set trimmed
                   then takeWhile (\<lambda>c. c \<noteq> CHR '']'') (tl trimmed)
                   else or_else (ipv4_port trimmed) trimmed)
      in if starts_with (js_lower value) ''::ffff:'' \<and> ne_ip_version N (drop 7 value) = Some IPv4
         then drop 7 value else value)"

text \<open>\<open>Number(s)\<close>\<close>

definition js_number :: "net_env \<Rightarrow> string \<Rightarrow> rat option" where
  "js_number N s =
     (let t = js_trim s
      in if t = [] then Some 0
         else if list_all is_digit t
              then Some (of_nat (foldl (\<lambda>n c. 10 * n + (of_char c - 48)) 0 t))
              else ne_number N t)"

definition prefix_length :: "net_env \<Rightarrow> string \<Rightarrow> int \<Rightarrow> int option" where
  "prefix_length N s hi =
     (case js_number N s of
        None \<Rightarrow> None
      | Some r \<Rightarrow> if is_integer r \<and> 0 \<le> r \<and> r \<le> of_int hi then Some \<lfloor>r\<rfloor> else None)"

text \<open>\<open>None\<close>: the error of an invalid hop is thrown.\<close>

definition parse_cidr :: "net_env \<Rightarrow> string \<Rightarrow> (string \<times> int \<times> ip_type) option" where
  "parse_cidr N cidr =
     (let t = js_trim cidr; suffix = rev (takeWhile (\<lambda>c. c \<noteq> CHR ''/'') (rev t))
      in if length t \<le> length suffix + 1
         then (case ne_ip_version N t of
                 Some IPv4 \<Rightarrow> Some (t, 32, IPv4)
               | Some IPv6 \<Rightarrow> Some (t, 128, IPv6)
               | None \<Rightarrow> None)
         else let address = take (length t - length suffix - 1) t
              in case ne_ip_version N address of
                   Some IPv4 \<Rightarrow> map_option (\<lambda>p. (address, p, IPv4)) (prefix_length N suffix 32)
                 | Some IPv6 \<Rightarrow> map_option (\<lambda>p. (address, p, IPv6)) (prefix_length N suffix 128)
                 | None \<Rightarrow> None)"

fun map_opt :: "('a \<Rightarrow> 'b option) \<Rightarrow> 'a list \<Rightarrow> 'b list option" where
  "map_opt f [] = Some []"
| "map_opt f (x # xs) =
     (case f x of None \<Rightarrow> None | Some y \<Rightarrow> map_option (\<lambda>ys. y # ys) (map_opt f xs))"

definition is_trusted_hop :: "net_env \<Rightarrow> string \<Rightarrow> string list \<Rightarrow> bool option" where
  "is_trusted_hop N remote cidrs =
     (if cidrs = [] then Some False
      else let ip = normalize_remote_address N remote
           in case ne_ip_version N ip of
                None \<Rightarrow> Some False
              | Some v \<Rightarrow> map_option (\<lambda>subnets. ne_block_list N subnets ip v) (map_opt (parse_cidr N) cidrs))"

section \<open>Identity headers\<close>

datatype header_field = HV_One string | HV_Many "string list" | HV_Undefined

record identity_request =
  fq_remote_address :: string
  fq_headers :: "(string \<times> header_field) list"
  fq_raw_headers :: "string list option"

record trusted_hop_policy =
  tp_trusted_hops :: "string list"
  tp_required_groups :: "string list"

record forward_auth_identity =
  fi_user :: string
  fi_groups :: "string list"
  fi_name :: string
  fi_email :: string

datatype deny_code =
    Untrusted_Hop | Missing_Identity | Empty_Identity | Spoofed_Identity | Malformed_Identity

datatype identity_outcome = Denied deny_code | Identified forward_auth_identity

definition forward_auth_headers :: "string list" where
  "forward_auth_headers = [''Remote-User'', ''Remote-Groups'', ''Remote-Name'', ''Remote-Email'']"

definition header_value :: "(string \<times> header_field) list \<Rightarrow> string \<Rightarrow> string option" where
  "header_value headers name =
     (case List.find (\<lambda>(k, _). js_lower k = js_lower name) headers of
        None \<Rightarrow> None
      | Some (_, HV_One s) \<Rightarrow> Some s
      | Some (_, HV_Many [s]) \<Rightarrow> Some s
      | Some (_, _) \<Rightarrow> None)"

definition split_groups :: "string \<Rightarrow> string list" where
  "split_groups v = filter (\<lambda>g. g \<noteq> []) (map js_trim (split_on (CHR '','') v))"

text \<open>
  The names are at the even positions of the raw list. Without a raw list the count is 0, which says that
  it is unknown, not that the header is absent.
\<close>

fun even_positions :: "'a list \<Rightarrow> 'a list" where
  "even_positions [] = []"
| "even_positions [x] = [x]"
| "even_positions (x # y # xs) = x # even_positions xs"

definition raw_header_occurrences :: "string list option \<Rightarrow> string \<Rightarrow> nat" where
  "raw_header_occurrences raw name =
     (case raw of None \<Rightarrow> 0
      | Some xs \<Rightarrow> length (filter (\<lambda>k. js_lower k = js_lower name) (even_positions xs)))"

text \<open>\<open>/^[a-zA-Z0-9._-]{1,64}$/\<close>, the email and the name pattern\<close>

definition user_pattern :: "string \<Rightarrow> bool" where
  "user_pattern s \<longleftrightarrow> s \<noteq> [] \<and> length s \<le> 64 \<and> list_all (\<lambda>c. is_alnum c \<or> c \<in> set ''._-'') s"

definition email_pattern :: "string \<Rightarrow> bool" where
  "email_pattern s \<longleftrightarrow>
     (let local = takeWhile (\<lambda>c. c \<noteq> CHR ''@'') s; host = drop (length local + 1) s;
          tld = rev (takeWhile (\<lambda>c. c \<noteq> CHR ''.'') (rev host)); name = take (length host - length tld - 1) host
      in length local < length s \<and> local \<noteq> [] \<and> list_all (\<lambda>c. is_alnum c \<or> c \<in> set ''._%+-'') local
         \<and> length tld < length host \<and> 2 \<le> length tld \<and> list_all (\<lambda>c. is_lower c \<or> is_upper c) tld
         \<and> name \<noteq> [] \<and> list_all (\<lambda>c. is_alnum c \<or> c \<in> set ''.-'') name)"

definition control_char :: "char \<Rightarrow> bool" where
  "control_char c \<longleftrightarrow> (let n = of_char c :: nat in n < 32 \<or> 127 \<le> n \<and> n \<le> 159)"

definition name_pattern :: "string \<Rightarrow> bool" where
  "name_pattern s \<longleftrightarrow> s \<noteq> [] \<and> length s \<le> 128 \<and> list_all (\<lambda>c. \<not> control_char c) s"

text \<open>The first of the four required fields that is missing or blank decides.\<close>

fun required_fields :: "string option list \<Rightarrow> deny_code option" where
  "required_fields [] = None"
| "required_fields (None # vs) = Some Missing_Identity"
| "required_fields (Some v # vs) = (if js_trim v = [] then Some Empty_Identity else required_fields vs)"

definition required_groups :: "string list" where
  "required_groups = [''operators'']"

definition check_identity :: "trusted_hop_policy \<Rightarrow> string \<Rightarrow> string \<Rightarrow> string \<Rightarrow> string \<Rightarrow> identity_outcome" where
  "check_identity P user groups name email =
     (if \<not> user_pattern user then Denied Malformed_Identity
      else if \<not> email_pattern email then Denied Malformed_Identity
      else if \<not> name_pattern name then Denied Malformed_Identity
      else let gs = split_groups groups;
               required = (if tp_required_groups P \<noteq> [] then tp_required_groups P else required_groups)
           in if gs = [] then Denied Empty_Identity
              else if \<not> list_ex (\<lambda>g. g \<in> set gs) required then Denied Malformed_Identity
              else Identified \<lparr>fi_user = user, fi_groups = gs, fi_name = name, fi_email = email\<rparr>)"

definition parse_forward_auth_identity ::
  "net_env \<Rightarrow> identity_request \<Rightarrow> trusted_hop_policy \<Rightarrow> identity_outcome option" where
  "parse_forward_auth_identity N r P =
     map_option (\<lambda>trusted.
       let vals = map (header_value (fq_headers r)) forward_auth_headers in
       if list_ex (\<lambda>n. raw_header_occurrences (fq_raw_headers r) n > 1) forward_auth_headers
       then Denied Spoofed_Identity
       else if \<not> trusted
       then Denied (if list_ex (\<lambda>v. v \<noteq> None) vals then Spoofed_Identity else Untrusted_Hop)
       else case required_fields vals of
         Some e \<Rightarrow> Denied e
       | None \<Rightarrow>
           let text = map (\<lambda>v. js_trim (or_else v [])) vals
           in check_identity P (text ! 0) (text ! 1) (text ! 2) (text ! 3))
     (is_trusted_hop N (fq_remote_address r) (tp_trusted_hops P))"

section \<open>What an identity proves\<close>

lemma required_fields_None:
  "required_fields vs = None \<longleftrightarrow> (\<forall>v \<in> set vs. \<exists>s. v = Some s \<and> js_trim s \<noteq> [])"
  by (induction vs rule: required_fields.induct) auto

definition accepted_groups :: "trusted_hop_policy \<Rightarrow> string list" where
  "accepted_groups P = (if tp_required_groups P \<noteq> [] then tp_required_groups P else required_groups)"

lemma check_identity_ok:
  assumes "check_identity P u g n e = Identified i"
  shows "i = \<lparr>fi_user = u, fi_groups = split_groups g, fi_name = n, fi_email = e\<rparr>
    \<and> user_pattern u \<and> email_pattern e \<and> name_pattern n
    \<and> list_ex (\<lambda>r. r \<in> set (split_groups g)) (accepted_groups P)"
  using assms by (auto simp: check_identity_def accepted_groups_def Let_def split: if_splits)

text \<open>
  C40. An operator identity is never taken from an untrusted request. When the parser accepts, the TCP peer
  is a trusted hop; the raw header list, if the caller gives one, names no identity header twice (a
  duplicate is invisible without that list); each of the four headers has one value in the header map, and
  none is blank; the identity is made of these values, trimmed, with the groups split at commas; user, email
  and name have their patterns; and the groups include one of the required groups, or \<open>operators\<close> when the
  policy requires none by itself.
\<close>

theorem identity_needs_trusted_hop:
  assumes "parse_forward_auth_identity N r P = Some (Identified i)"
  shows "is_trusted_hop N (fq_remote_address r) (tp_trusted_hops P) = Some True
    \<and> (\<forall>raw. fq_raw_headers r = Some raw \<longrightarrow>
         list_all (\<lambda>n. raw_header_occurrences (Some raw) n \<le> 1) forward_auth_headers)
    \<and> (\<exists>user groups name email. map (header_value (fq_headers r)) forward_auth_headers
           = [Some user, Some groups, Some name, Some email]
         \<and> list_all (\<lambda>s. js_trim s \<noteq> []) [user, groups, name, email]
         \<and> i = \<lparr>fi_user = js_trim user, fi_groups = split_groups (js_trim groups), fi_name = js_trim name,
                fi_email = js_trim email\<rparr>)
    \<and> user_pattern (fi_user i) \<and> email_pattern (fi_email i) \<and> name_pattern (fi_name i)
    \<and> list_ex (\<lambda>g. g \<in> set (fi_groups i)) (accepted_groups P)"
proof -
  from assms obtain trusted where t: "is_trusted_hop N (fq_remote_address r) (tp_trusted_hops P) = Some trusted"
    by (auto simp: parse_forward_auth_identity_def)
  let ?vals = "map (header_value (fq_headers r)) forward_auth_headers"
  let ?trimmed = "map (\<lambda>v. js_trim (or_else v [])) ?vals"
  from assms have dup: "\<not> list_ex (\<lambda>n. raw_header_occurrences (fq_raw_headers r) n > 1) forward_auth_headers"
    and trusted: "trusted" and req: "required_fields ?vals = None"
    and ok: "check_identity P (?trimmed ! 0) (?trimmed ! 1) (?trimmed ! 2) (?trimmed ! 3) = Identified i"
    by (auto simp: parse_forward_auth_identity_def t Let_def split: if_splits option.splits)
  from req obtain user groups name email where vals: "?vals = [Some user, Some groups, Some name, Some email]"
    and filled: "list_all (\<lambda>s. js_trim s \<noteq> []) [user, groups, name, email]"
    by (auto simp: required_fields_None forward_auth_headers_def)
  from ok have "check_identity P (js_trim user) (js_trim groups) (js_trim name) (js_trim email) = Identified i"
    unfolding vals by (simp add: numeral_eq_Suc)
  note parts = check_identity_ok [OF this]
  have once: "\<forall>raw. fq_raw_headers r = Some raw \<longrightarrow>
      list_all (\<lambda>n. raw_header_occurrences (Some raw) n \<le> 1) forward_auth_headers"
    using dup by (auto simp: list_ex_iff list_all_iff not_less)
  from parts vals filled show ?thesis unfolding t using trusted once by simp
qed

definition sample_net :: net_env where
  "sample_net = \<lparr>ne_ip_version = (\<lambda>s. if s = ''127.0.0.1'' then Some IPv4 else None),
     ne_block_list = (\<lambda>subnets ip v. list_ex (\<lambda>(a, p, t). a = ip \<and> t = v) subnets), ne_number = (\<lambda>_. None)\<rparr>"

definition sample_identity_request :: identity_request where
  "sample_identity_request =
     \<lparr>fq_remote_address = ''127.0.0.1'',
      fq_headers = [(''remote-user'', HV_One ''ana''), (''remote-groups'', HV_One ''operators, admins''),
                    (''remote-name'', HV_One ''Ana''), (''remote-email'', HV_One ''ana@x.io'')],
      fq_raw_headers = Some [''Host'', ''x'', ''Remote-User'', ''ana'', ''Remote-Groups'', ''operators, admins'',
                             ''Remote-Name'', ''Ana'', ''Remote-Email'', ''ana@x.io'']\<rparr>"

definition sample_hop_policy :: trusted_hop_policy where
  "sample_hop_policy = \<lparr>tp_trusted_hops = [''127.0.0.1/32''], tp_required_groups = [''operators'']\<rparr>"

lemma sample_identity:
  "parse_forward_auth_identity sample_net sample_identity_request sample_hop_policy =
     Some (Identified \<lparr>fi_user = ''ana'', fi_groups = [''operators'', ''admins''], fi_name = ''Ana'',
                       fi_email = ''ana@x.io''\<rparr>)"
  by code_simp

theorem identity_needs_trusted_hop_witness:
  "is_trusted_hop sample_net ''127.0.0.1'' [''127.0.0.1/32''] = Some True
   \<and> raw_header_occurrences (fq_raw_headers sample_identity_request) ''Remote-Groups'' \<le> 1"
  using identity_needs_trusted_hop [OF sample_identity]
  by (simp add: sample_hop_policy_def sample_identity_request_def forward_auth_headers_def)

text \<open>
  A hop with an empty prefix is read as the prefix zero, which trusts every address of its family:
  \<open>Number("")\<close> is 0.
\<close>

lemma empty_prefix_trusts_all:
  assumes "ne_ip_version N ''10.89.0.0'' = Some IPv4"
  shows "parse_cidr N ''10.89.0.0/'' = Some (''10.89.0.0'', 0, IPv4)"
proof -
  have "js_trim ''10.89.0.0/'' = ''10.89.0.0/''" by code_simp
  with assms show ?thesis
    by (simp add: parse_cidr_def prefix_length_def js_number_def Let_def) (simp add: js_trim_def)
qed

end
