(* ===== verification/Operator_Channel.thy ===== *)
theory Operator_Channel
  imports Circuit_Breaker Forward_Auth
begin

text \<open>
  \<open>connectors/warmbly/src/operator\<close>: \<open>actions.ts\<close>, \<open>allowlist.ts\<close>, \<open>confirmation.ts\<close>, \<open>identity.ts\<close>,
  \<open>ledger.ts\<close>, and the entries \<open>channel.ts\<close> builds. The channel has three named actions; the one that
  lets traffic flow takes a confirmation, and every call writes a ledger entry. Reason texts of
  refusals, logs and headers are not modelled. The runtime's URL parser, SHA-256 and the random
  identifiers are parameters.
\<close>

section \<open>Actions\<close>

datatype operator_action = Pause_Dispatch | Resume_Dispatch | Acknowledge_Inbound_Alert

datatype target_kind = TK_Dispatch | TK_Inbound_Alert | TK_Unknown

definition operator_action_names :: "(string \<times> operator_action) list" where
  "operator_action_names =
     [(''pause_dispatch'', Pause_Dispatch), (''resume_dispatch'', Resume_Dispatch),
      (''acknowledge_inbound_alert'', Acknowledge_Inbound_Alert)]"

definition dispatch_target_id :: string where
  "dispatch_target_id = ''confenge-dispatch''"

record action_definition =
  ad_target_kind :: target_kind
  ad_target_in_path :: bool
  ad_default_target_id :: "string option"
  ad_two_step :: bool
  ad_reason_required :: bool

fun operator_actions :: "operator_action \<Rightarrow> action_definition" where
  "operator_actions Pause_Dispatch =
     \<lparr>ad_target_kind = TK_Dispatch, ad_target_in_path = False, ad_default_target_id = Some dispatch_target_id,
      ad_two_step = False, ad_reason_required = True\<rparr>"
| "operator_actions Resume_Dispatch =
     \<lparr>ad_target_kind = TK_Dispatch, ad_target_in_path = False, ad_default_target_id = Some dispatch_target_id,
      ad_two_step = True, ad_reason_required = True\<rparr>"
| "operator_actions Acknowledge_Inbound_Alert =
     \<lparr>ad_target_kind = TK_Inbound_Alert, ad_target_in_path = True, ad_default_target_id = None,
      ad_two_step = False, ad_reason_required = False\<rparr>"

definition hex_digit :: "nat \<Rightarrow> char" where
  "hex_digit n = char_of (if n < 10 then 48 + n else 55 + n)"

definition percent_octet :: "nat \<Rightarrow> string" where
  "percent_octet n = [CHR ''%'', hex_digit (n div 16), hex_digit (n mod 16)]"

text \<open>\<open>encodeURIComponent\<close>: the unreserved characters stay, the others become their UTF-8 octets.\<close>

definition uri_unreserved :: "char \<Rightarrow> bool" where
  "uri_unreserved c \<longleftrightarrow> is_alnum c \<or> c \<in> set ''-_.!~*'' \<or> (of_char c :: nat) \<in> {39, 40, 41}"

definition encode_uri_component :: "string \<Rightarrow> string" where
  "encode_uri_component s =
     concat (map (\<lambda>c. if uri_unreserved c then [c]
                      else let n = of_char c :: nat
                           in if n < 128 then percent_octet n
                              else percent_octet (192 + n div 64) @ percent_octet (128 + n mod 64)) s)"

definition pause_path :: string where
  "pause_path = ''/v1/confenge/dispatch/pause''"

definition resume_path :: string where
  "resume_path = ''/v1/confenge/dispatch/resume''"

definition ack_prefix :: string where
  "ack_prefix = ''/v1/confenge/inbound/''"

definition ack_suffix :: string where
  "ack_suffix = ''/acknowledge''"

fun build_path :: "operator_action \<Rightarrow> string \<Rightarrow> string" where
  "build_path Pause_Dispatch target = pause_path"
| "build_path Resume_Dispatch target = resume_path"
| "build_path Acknowledge_Inbound_Alert target = ack_prefix @ encode_uri_component target @ ack_suffix"

fun build_body :: "operator_action \<Rightarrow> string option \<Rightarrow> json" where
  "build_body Pause_Dispatch reason = JObj [(''reason'', JStr (or_else reason []))]"
| "build_body Resume_Dispatch reason = JObj []"
| "build_body Acknowledge_Inbound_Alert reason = JObj []"

definition resolve_operator_action :: "string \<Rightarrow> operator_action option" where
  "resolve_operator_action name = map_of operator_action_names name"

text \<open>\<open>/^[A-Za-z0-9_~-]{1,128}$/\<close>, and the reason pattern, whose letters beyond ASCII start at \<open>U+00C0\<close>\<close>

definition is_valid_target_id :: "string \<Rightarrow> bool" where
  "is_valid_target_id s \<longleftrightarrow> s \<noteq> [] \<and> length s \<le> 128 \<and> list_all (\<lambda>c. is_alnum c \<or> c \<in> set ''_~-'') s"

definition is_valid_reason :: "string \<Rightarrow> bool" where
  "is_valid_reason s \<longleftrightarrow>
     (let t = js_trim s
      in t \<noteq> [] \<and> length t \<le> 200
         \<and> list_all (\<lambda>c. is_alnum c \<or> c \<in> set '' _.,:;()-'' \<or> 192 \<le> (of_char c :: nat)) t)"

section \<open>Write allowlist\<close>

definition hex_value :: "char \<Rightarrow> nat option" where
  "hex_value c =
     (let n = of_char c :: nat
      in if is_digit c then Some (n - 48)
         else if 97 \<le> n \<and> n \<le> 102 then Some (n - 87)
         else if 65 \<le> n \<and> n \<le> 70 then Some (n - 55) else None)"

text \<open>
  \<open>decodeURIComponent\<close> as a list of code points; \<open>None\<close> when it throws. An octet of 128 or more opens a
  UTF-8 sequence, which has to be complete, shortest and no surrogate.
\<close>

fun percent_value :: "string \<Rightarrow> (nat \<times> string) option" where
  "percent_value (p # a # b # s) =
     (if p = CHR ''%''
      then (case (hex_value a, hex_value b) of (Some x, Some y) \<Rightarrow> Some (16 * x + y, s) | _ \<Rightarrow> None)
      else None)"
| "percent_value _ = None"

fun utf8_rest :: "nat \<Rightarrow> nat \<Rightarrow> string \<Rightarrow> (nat \<times> string) option" where
  "utf8_rest 0 acc s = Some (acc, s)"
| "utf8_rest (Suc k) acc s =
     (case percent_value s of
        None \<Rightarrow> None
      | Some (n, t) \<Rightarrow> if 128 \<le> n \<and> n < 192 then utf8_rest k (64 * acc + (n - 128)) t else None)"

definition decode_octets :: "nat \<Rightarrow> string \<Rightarrow> (nat \<times> string) option" where
  "decode_octets n t =
     (if n < 128 then Some (n, t)
      else if 192 \<le> n \<and> n < 224
      then (case utf8_rest 1 (n - 192) t of Some (v, u) \<Rightarrow> if 128 \<le> v then Some (v, u) else None | None \<Rightarrow> None)
      else if 224 \<le> n \<and> n < 240
      then (case utf8_rest 2 (n - 224) t of
              Some (v, u) \<Rightarrow> if 2048 \<le> v \<and> \<not> (55296 \<le> v \<and> v < 57344) then Some (v, u) else None | None \<Rightarrow> None)
      else if 240 \<le> n \<and> n < 248
      then (case utf8_rest 3 (n - 240) t of
              Some (v, u) \<Rightarrow> if 65536 \<le> v \<and> v < 1114112 then Some (v, u) else None | None \<Rightarrow> None)
      else None)"

fun decode_uri_fuel :: "nat \<Rightarrow> string \<Rightarrow> nat list option" where
  "decode_uri_fuel 0 s = (if s = [] then Some [] else None)"
| "decode_uri_fuel (Suc k) [] = Some []"
| "decode_uri_fuel (Suc k) (c # s) =
     (if c \<noteq> CHR ''%'' then map_option (\<lambda>ns. of_char c # ns) (decode_uri_fuel k s)
      else case percent_value (c # s) of
        None \<Rightarrow> None
      | Some (n, t) \<Rightarrow> (case decode_octets n t of
          None \<Rightarrow> None
        | Some (v, u) \<Rightarrow> map_option (\<lambda>ns. v # ns) (decode_uri_fuel k u)))"

definition decode_uri_component :: "string \<Rightarrow> nat list option" where
  "decode_uri_component s = decode_uri_fuel (length s) s"

definition ack_segment :: "string \<Rightarrow> bool" where
  "ack_segment s \<longleftrightarrow> s \<noteq> [] \<and> length s \<le> 160 \<and> list_all (\<lambda>c. is_alnum c \<or> c \<in> set ''_~%-'') s"

definition is_acknowledge_path :: "string \<Rightarrow> bool" where
  "is_acknowledge_path pathname \<longleftrightarrow>
     starts_with pathname ack_prefix \<and> ends_with pathname ack_suffix
     \<and> (let parts = filter (\<lambda>p. p \<noteq> []) (split_on (CHR ''/'') pathname)
        in length parts = 5 \<and> parts ! 0 = ''v1'' \<and> parts ! 1 = ''confenge'' \<and> parts ! 2 = ''inbound''
           \<and> parts ! 4 = ''acknowledge'' \<and> ack_segment (parts ! 3)
           \<and> (case decode_uri_component (parts ! 3) of
                None \<Rightarrow> False
              | Some d \<Rightarrow> 47 \<notin> set d \<and> 92 \<notin> set d \<and> d \<noteq> [46, 46] \<and> d \<noteq> [46]))"

record channel_env =
  ce_net :: net_env
  ce_policy :: trusted_hop_policy
  ce_url_pathname :: "string \<Rightarrow> string option"
  ce_sha256 :: "string \<Rightarrow> string"
  ce_ttl_ms :: int
  ce_base_url :: string

definition pathname_of :: "channel_env \<Rightarrow> string \<Rightarrow> string" where
  "pathname_of E s =
     (case (if starts_with s ''http://'' \<or> starts_with s ''https://'' then ce_url_pathname E s else None) of
        Some p \<Rightarrow> p
      | None \<Rightarrow> let cut = takeWhile (\<lambda>c. c \<noteq> CHR ''?'') s
                in if starts_with cut ''/'' then cut else ''/'' @ cut)"

text \<open>The pathname of an allowed request; \<open>None\<close> for a denied one.\<close>

definition classify_operator_request :: "channel_env \<Rightarrow> string \<Rightarrow> string \<Rightarrow> string option" where
  "classify_operator_request E method url =
     (let path = pathname_of E url
      in if map (\<lambda>c. if is_lower c then char_of ((of_char c :: nat) - 32) else c) method \<noteq> ''POST'' then None
         else if path = pause_path \<or> path = resume_path \<or> is_acknowledge_path path then Some path
         else None)"

section \<open>Confirmations\<close>

record confirmation_challenge =
  cg_token :: string
  cg_token_id :: string
  cg_reason_hash :: string
  cg_action :: operator_action
  cg_target_id :: string
  cg_actor_id :: string
  cg_issued_at :: int
  cg_expires_at_ms :: int

type_synonym confirmation_store = "confirmation_challenge list"

definition confirmation_reason_hash :: "channel_env \<Rightarrow> string option \<Rightarrow> string" where
  "confirmation_reason_hash E reason = ce_sha256 E (''warmbly-operator-reason:'' @ or_else reason [])"

fun operator_action_text :: "operator_action \<Rightarrow> string" where
  "operator_action_text Pause_Dispatch = ''pause_dispatch''"
| "operator_action_text Resume_Dispatch = ''resume_dispatch''"
| "operator_action_text Acknowledge_Inbound_Alert = ''acknowledge_inbound_alert''"

definition sweep_expired :: "int \<Rightarrow> confirmation_store \<Rightarrow> confirmation_store" where
  "sweep_expired now cs = filter (\<lambda>c. \<not> cg_expires_at_ms c \<le> now) cs"

text \<open>\<open>byToken.set(token, challenge)\<close>\<close>

definition set_challenge :: "confirmation_challenge \<Rightarrow> confirmation_store \<Rightarrow> confirmation_store" where
  "set_challenge c cs =
     (if cg_token c \<in> set (map cg_token cs) then map (\<lambda>d. if cg_token d = cg_token c then c else d) cs
      else cs @ [c])"

definition issue_challenge :: "channel_env \<Rightarrow> operator_action \<Rightarrow> string \<Rightarrow> string \<Rightarrow> string option \<Rightarrow> int
    \<Rightarrow> string \<times> string \<Rightarrow> confirmation_store \<Rightarrow> confirmation_challenge \<times> confirmation_store" where
  "issue_challenge E action target actor reason now fresh cs =
     (let c = \<lparr>cg_token = fst fresh,
               cg_token_id = ''cnf:'' @ operator_action_text action @ '':'' @ target @ '':'' @ snd fresh,
               cg_reason_hash = confirmation_reason_hash E reason, cg_action = action, cg_target_id = target,
               cg_actor_id = actor, cg_issued_at = now, cg_expires_at_ms = now + ce_ttl_ms E\<rparr>
      in (c, set_challenge c (sweep_expired now cs)))"

definition delete_token :: "string \<Rightarrow> confirmation_store \<Rightarrow> confirmation_store" where
  "delete_token t cs = filter (\<lambda>c. cg_token c \<noteq> t) cs"

definition consume_challenge :: "channel_env \<Rightarrow> string \<Rightarrow> operator_action \<Rightarrow> string \<Rightarrow> string \<Rightarrow> string option
    \<Rightarrow> int \<Rightarrow> confirmation_store \<Rightarrow> confirmation_challenge option \<times> confirmation_store" where
  "consume_challenge E t action target actor reason now cs0 =
     (let cs = sweep_expired now cs0 in
      if js_trim t = [] then (None, cs)
      else case List.find (\<lambda>c. cg_token c = t) cs of
        None \<Rightarrow> (None, cs)
      | Some c \<Rightarrow>
          if cg_expires_at_ms c \<le> now then (None, delete_token t cs)
          else if cg_action c \<noteq> action \<or> cg_target_id c \<noteq> target \<or> cg_actor_id c \<noteq> actor
                  \<or> cg_reason_hash c \<noteq> confirmation_reason_hash E reason
          then (None, cs)
          else (Some c, delete_token t cs))"

definition invalidate_challenges ::
  "operator_action \<Rightarrow> string \<Rightarrow> string option \<Rightarrow> confirmation_store \<Rightarrow> confirmation_store" where
  "invalidate_challenges action target actor cs =
     filter (\<lambda>c. \<not> (cg_action c = action \<and> cg_target_id c = target
                     \<and> (actor = None \<or> actor = Some (cg_actor_id c)))) cs"

section \<open>Ledger entries\<close>

datatype operator_outcome = OO_Executed | OO_Refused | OO_Challenged | OO_Unknown

datatype refusal_code =
    RC_Missing_Actor | RC_Unknown_Action | RC_Invalid_Target | RC_Invalid_Reason | RC_Confirmation_Required
  | RC_Confirmation_Invalid | RC_Confirmation_Not_Applicable | RC_Forbidden_Path | RC_Circuit_Open
  | RC_Upstream_Error | RC_Transport_Error | RC_Transport_Unknown

record operator_actor =
  pa_id :: string
  pa_display_name :: string

record ledger_target =
  lt_kind :: target_kind
  lt_id :: string

record ledger_upstream =
  lu_post :: bool
  lu_path :: "string option"
  lu_status :: "int option"

record ledger_confirmation =
  lf_required :: bool
  lf_satisfied :: bool
  lf_token_id :: "string option"

record ledger_entry =
  le_id :: string
  le_correlation_id :: string
  le_client_reference :: "string option"
  le_requested_action :: string
  le_action :: "operator_action option"
  le_outcome :: operator_outcome
  le_refusal_code :: "refusal_code option"
  le_actor :: "operator_actor option"
  le_target :: ledger_target
  le_upstream :: ledger_upstream
  le_confirmation :: ledger_confirmation
  le_circuit_state :: circuit_state
  le_reason :: "string option"
  le_recorded_at :: int

text \<open>\<open>operatorLedgerId\<close>: each run of other characters becomes one hyphen, at most 96 characters.\<close>

definition ledger_slug_char :: "char \<Rightarrow> bool" where
  "ledger_slug_char c \<longleftrightarrow> is_alnum c \<or> c \<in> set ''._~-''"

fun slug_runs :: "bool \<Rightarrow> string \<Rightarrow> string" where
  "slug_runs in_run [] = []"
| "slug_runs in_run (c # s) =
     (if ledger_slug_char c then c # slug_runs False s
      else if in_run then slug_runs True s else CHR ''-'' # slug_runs True s)"

definition operator_ledger_id :: "string \<Rightarrow> string" where
  "operator_ledger_id correlation = ''cc:warmbly-operator-action:'' @ take 96 (slug_runs False correlation)"

text \<open>
  The state: the breaker, the pending confirmations, the ledger, the entries that went to the log of
  last resort because the ledger refused them, and the number of POSTs.
\<close>

record channel_state =
  os_breaker :: circuit_breaker
  os_confirmations :: confirmation_store
  os_entries :: "ledger_entry list"
  os_wal :: "ledger_entry list"
  os_hits :: nat

text \<open>What a call returns; \<open>Threw\<close> when the ledger refused the entry or the hop policy cannot be parsed.\<close>

datatype call_result =
    Executed ledger_entry int json
  | Challenged ledger_entry confirmation_challenge
  | Refused ledger_entry
  | Unresolved ledger_entry
  | Threw

text \<open>\<open>record\<close>: \<open>accepts\<close> says whether \<open>ledger.record\<close> returns.\<close>

definition record_entry :: "bool \<Rightarrow> ledger_entry \<Rightarrow> call_result \<Rightarrow> channel_state \<Rightarrow> call_result \<times> channel_state" where
  "record_entry accepts e r s =
     (if accepts then (r, s\<lparr>os_entries := os_entries s @ [e]\<rparr>) else (Threw, s\<lparr>os_wal := os_wal s @ [e]\<rparr>))"

record entry_parts =
  ep_requested_action :: string
  ep_action :: "operator_action option"
  ep_outcome :: operator_outcome
  ep_code :: "refusal_code option"
  ep_actor :: "operator_actor option"
  ep_target :: ledger_target
  ep_upstream :: ledger_upstream
  ep_confirmation :: ledger_confirmation
  ep_reason :: "string option"

record call_context =
  cx_now :: int
  cx_correlation_id :: string
  cx_client_reference :: "string option"
  cx_accepts :: bool

text \<open>Reading the circuit state of an entry may half-open the breaker.\<close>

definition build_entry :: "call_context \<Rightarrow> entry_parts \<Rightarrow> channel_state \<Rightarrow> ledger_entry \<times> channel_state" where
  "build_entry x p s =
     (case get_state (cx_now x) (os_breaker s) of (circuit, b) \<Rightarrow>
       (\<lparr>le_id = operator_ledger_id (cx_correlation_id x), le_correlation_id = cx_correlation_id x,
         le_client_reference = cx_client_reference x, le_requested_action = ep_requested_action p,
         le_action = ep_action p, le_outcome = ep_outcome p, le_refusal_code = ep_code p, le_actor = ep_actor p,
         le_target = ep_target p, le_upstream = ep_upstream p, le_confirmation = ep_confirmation p,
         le_circuit_state = circuit, le_reason = ep_reason p, le_recorded_at = cx_now x\<rparr>,
        s\<lparr>os_breaker := b\<rparr>))"

definition conclude :: "call_context \<Rightarrow> entry_parts \<Rightarrow> (ledger_entry \<Rightarrow> call_result) \<Rightarrow> channel_state
    \<Rightarrow> call_result \<times> channel_state" where
  "conclude x p r s = (case build_entry x p s of (e, s') \<Rightarrow> record_entry (cx_accepts x) e (r e) s')"

definition no_upstream :: ledger_upstream where
  "no_upstream = \<lparr>lu_post = False, lu_path = None, lu_status = None\<rparr>"

definition no_confirmation :: ledger_confirmation where
  "no_confirmation = \<lparr>lf_required = False, lf_satisfied = False, lf_token_id = None\<rparr>"

definition unknown_target :: ledger_target where
  "unknown_target = \<lparr>lt_kind = TK_Unknown, lt_id = ''unknown''\<rparr>"

end
