(* ===== verification/Operator_Calls.thy ===== *)
theory Operator_Calls
  imports Operator_Channel
begin

text \<open>
  \<open>connectors/warmbly/src/operator/channel.ts\<close> and \<open>client.ts\<close>: the calls of the channel. A call is two
  atomic parts around the only wait, the answer to the POST: \<open>execute_begin\<close> up to the request and
  \<open>execute_finish\<close> from the answer on; calls interleave between them. One clock reading serves a part.
  The outcome of \<open>fetch\<close> is an argument of \<open>execute_finish\<close>.
\<close>

section \<open>Input and checks\<close>

record operator_input =
  oi_action :: string
  oi_request :: "identity_request option"
  oi_target_id :: "string option"
  oi_reason :: "string option"
  oi_confirmation_token :: "string option"
  oi_client_reference :: "string option"

definition trimmed :: "string option \<Rightarrow> string" where
  "trimmed v = (case v of Some s \<Rightarrow> js_trim s | None \<Rightarrow> [])"

definition client_reference_of :: "operator_input \<Rightarrow> string option" where
  "client_reference_of i =
     (let raw = trimmed (oi_client_reference i)
      in if raw \<noteq> [] \<and> length raw \<le> 96 \<and> list_all (\<lambda>c. is_alnum c \<or> c \<in> set ''._:~-'') raw
         then Some raw else None)"

definition correlation_of :: "string \<Rightarrow> string" where
  "correlation_of fresh = ''cc:warmbly-op:'' @ fresh"

definition call_context :: "operator_input \<Rightarrow> int \<Rightarrow> string \<Rightarrow> bool \<Rightarrow> call_context" where
  "call_context i now fresh accepts =
     \<lparr>cx_now = now, cx_correlation_id = correlation_of fresh, cx_client_reference = client_reference_of i,
      cx_accepts = accepts\<rparr>"

definition operator_actor_from_identity :: "forward_auth_identity \<Rightarrow> operator_actor" where
  "operator_actor_from_identity d = \<lparr>pa_id = fi_user d, pa_display_name = fi_name d\<rparr>"

text \<open>The outer \<open>None\<close> is an exception, the inner one a denial.\<close>

definition resolve_operator_actor :: "channel_env \<Rightarrow> identity_request option \<Rightarrow> operator_actor option option" where
  "resolve_operator_actor E r =
     (case r of
        None \<Rightarrow> Some None
      | Some q \<Rightarrow>
          if fq_remote_address q = [] then Some None
          else map_option (\<lambda>d. case d of Denied _ \<Rightarrow> None | Identified f \<Rightarrow> Some (operator_actor_from_identity f))
                 (parse_forward_auth_identity (ce_net E) q (ce_policy E)))"

definition refusal :: "string \<Rightarrow> operator_action option \<Rightarrow> refusal_code \<Rightarrow> operator_actor option \<Rightarrow> entry_parts" where
  "refusal requested action code actor =
     \<lparr>ep_requested_action = requested, ep_action = action, ep_outcome = OO_Refused, ep_code = Some code,
      ep_actor = actor, ep_target = unknown_target, ep_upstream = no_upstream,
      ep_confirmation = no_confirmation, ep_reason = None\<rparr>"

record prepared =
  pd_action :: operator_action
  pd_actor :: operator_actor
  pd_target :: ledger_target
  pd_path :: string
  pd_reason :: "string option"

definition choose_target :: "action_definition \<Rightarrow> string option \<Rightarrow> string option" where
  "choose_target d supplied = (if trimmed supplied \<noteq> [] then Some (trimmed supplied) else ad_default_target_id d)"

definition prepare_for :: "channel_env \<Rightarrow> operator_input \<Rightarrow> operator_actor \<Rightarrow> entry_parts + prepared" where
  "prepare_for E i actor =
     (let requested = oi_action i in
      require_some (resolve_operator_action requested)
        (refusal requested None RC_Unknown_Action (Some actor)) (\<lambda>a.
      let d = operator_actions a;
          bad_target = (\<lambda>t. (refusal requested (Some a) RC_Invalid_Target (Some actor))
            \<lparr>ep_target := \<lparr>lt_kind = ad_target_kind d, lt_id = t\<rparr>\<rparr>) in
      require_some (choose_target d (oi_target_id i)) (bad_target ''invalid'') (\<lambda>t.
      require (is_valid_target_id t) (bad_target ''invalid'') (
      require (ad_target_in_path d \<or> Some t = ad_default_target_id d) (bad_target t) (
      let target = \<lparr>lt_kind = ad_target_kind d, lt_id = t\<rparr>;
          raw = trimmed (oi_reason i);
          bad_reason = (refusal requested (Some a) RC_Invalid_Reason (Some actor))\<lparr>ep_target := target\<rparr> in
      require (ad_reason_required d \<longrightarrow> is_valid_reason raw) bad_reason (
      require (raw \<noteq> [] \<longrightarrow> is_valid_reason raw) bad_reason (
      let reason = (if raw = [] then None else Some raw); path = build_path a t in
      require_some (classify_operator_request E ''POST'' path)
        ((refusal requested (Some a) RC_Forbidden_Path (Some actor))
           \<lparr>ep_target := target, ep_upstream := no_upstream\<lparr>lu_path := Some path\<rparr>, ep_reason := reason\<rparr>) (\<lambda>p.
      Inr \<lparr>pd_action = a, pd_actor = actor, pd_target = target, pd_path = p, pd_reason = reason\<rparr>))))))))"

definition prepare_checks :: "channel_env \<Rightarrow> operator_input \<Rightarrow> (entry_parts + prepared) option" where
  "prepare_checks E i =
     map_option (\<lambda>actor. case actor of
         None \<Rightarrow> Inl (refusal (oi_action i) None RC_Missing_Actor None)
       | Some a \<Rightarrow> prepare_for E i a)
     (resolve_operator_actor E (oi_request i))"

definition prepare :: "channel_env \<Rightarrow> call_context \<Rightarrow> operator_input \<Rightarrow> channel_state
    \<Rightarrow> (call_result \<times> channel_state) + prepared" where
  "prepare E x i s =
     (case prepare_checks E i of
        None \<Rightarrow> Inl (Threw, s)
      | Some (Inl p) \<Rightarrow> Inl (conclude x p Refused s)
      | Some (Inr d) \<Rightarrow> Inr d)"

text \<open>The entry of a prepared call.\<close>

definition prepared_parts ::
  "prepared \<Rightarrow> operator_outcome \<Rightarrow> refusal_code option \<Rightarrow> ledger_upstream \<Rightarrow> ledger_confirmation \<Rightarrow> entry_parts" where
  "prepared_parts d outcome code upstream confirmation =
     \<lparr>ep_requested_action = operator_action_text (pd_action d), ep_action = Some (pd_action d),
      ep_outcome = outcome, ep_code = code, ep_actor = Some (pd_actor d), ep_target = pd_target d,
      ep_upstream = upstream, ep_confirmation = confirmation, ep_reason = pd_reason d\<rparr>"

section \<open>Step one of a release\<close>

definition two_step_open :: ledger_confirmation where
  "two_step_open = \<lparr>lf_required = True, lf_satisfied = False, lf_token_id = None\<rparr>"

definition request_confirmation :: "channel_env \<Rightarrow> call_context \<Rightarrow> operator_input \<Rightarrow> string \<times> string
    \<Rightarrow> channel_state \<Rightarrow> call_result \<times> channel_state" where
  "request_confirmation E x i fresh s =
     (case prepare E x i s of
        Inl r \<Rightarrow> r
      | Inr d \<Rightarrow>
          if \<not> ad_two_step (operator_actions (pd_action d))
          then conclude x (prepared_parts d OO_Refused (Some RC_Confirmation_Not_Applicable) no_upstream
                 no_confirmation) Refused s
          else let a = pd_action d; t = lt_id (pd_target d); u = pa_id (pd_actor d) in
            (case issue_challenge E a t u (pd_reason d) (cx_now x) fresh
                    (invalidate_challenges a t (Some u) (os_confirmations s)) of
               (c, cs) \<Rightarrow>
                 conclude x (prepared_parts d OO_Challenged None no_upstream
                     (two_step_open\<lparr>lf_token_id := Some (cg_token_id c)\<rparr>)) (\<lambda>e. Challenged e c)
                   (s\<lparr>os_confirmations := cs\<rparr>)))"

section \<open>The POST\<close>

definition join_url :: "string \<Rightarrow> string \<Rightarrow> string" where
  "join_url base path =
     rev (dropWhile (\<lambda>c. c = CHR ''/'') (rev base)) @ (if starts_with path ''/'' then path else ''/'' @ path)"

record posted_call =
  pg_prepared :: prepared
  pg_confirmation :: ledger_confirmation
  pg_correlation_id :: string
  pg_client_reference :: "string option"
  pg_path :: string
  pg_url :: string
  pg_body :: json

text \<open>\<open>client.post\<close> up to \<open>fetch\<close>: the code of the error thrown, or the classified path.\<close>

definition post_begin :: "channel_env \<Rightarrow> int \<Rightarrow> string \<Rightarrow> channel_state \<Rightarrow> (refusal_code + string) \<times> channel_state" where
  "post_begin E now path s =
     (case classify_operator_request E ''POST'' path of
        None \<Rightarrow> (Inl RC_Forbidden_Path, s)
      | Some p \<Rightarrow>
          (case assert_closed now (os_breaker s) of (refuses, b) \<Rightarrow>
             if refuses then (Inl RC_Circuit_Open, s\<lparr>os_breaker := b\<rparr>)
             else (Inr p, s\<lparr>os_breaker := b, os_hits := os_hits s + 1\<rparr>)))"

text \<open>What the deliberate call revokes.\<close>

definition intervene :: "prepared \<Rightarrow> confirmation_store \<Rightarrow> confirmation_store" where
  "intervene d cs =
     (case pd_action d of
        Pause_Dispatch \<Rightarrow> invalidate_challenges Resume_Dispatch dispatch_target_id None cs
      | Acknowledge_Inbound_Alert \<Rightarrow>
          invalidate_challenges Resume_Dispatch dispatch_target_id (Some (pa_id (pd_actor d))) cs
      | Resume_Dispatch \<Rightarrow> cs)"

definition check_confirmation :: "channel_env \<Rightarrow> int \<Rightarrow> operator_input \<Rightarrow> prepared \<Rightarrow> confirmation_store
    \<Rightarrow> (refusal_code + ledger_confirmation) \<times> confirmation_store" where
  "check_confirmation E now i d cs =
     (if \<not> ad_two_step (operator_actions (pd_action d)) then (Inr no_confirmation, cs)
      else if trimmed (oi_confirmation_token i) = [] then (Inl RC_Confirmation_Required, cs)
      else case consume_challenge E (or_else (oi_confirmation_token i) []) (pd_action d) (lt_id (pd_target d))
                  (pa_id (pd_actor d)) (pd_reason d) now cs of
        (None, cs') \<Rightarrow> (Inl RC_Confirmation_Invalid, cs')
      | (Some c, cs') \<Rightarrow>
          (Inr \<lparr>lf_required = True, lf_satisfied = True, lf_token_id = Some (cg_token_id c)\<rparr>, cs'))"

definition execute_begin :: "channel_env \<Rightarrow> call_context \<Rightarrow> operator_input \<Rightarrow> channel_state
    \<Rightarrow> (call_result \<times> channel_state) + (posted_call \<times> channel_state)" where
  "execute_begin E x i s =
     (case prepare E x i s of
        Inl r \<Rightarrow> Inl r
      | Inr d \<Rightarrow>
          (case check_confirmation E (cx_now x) i d (intervene d (os_confirmations s)) of
             (Inl code, cs) \<Rightarrow>
               Inl (conclude x (prepared_parts d OO_Refused (Some code) no_upstream two_step_open) Refused
                      (s\<lparr>os_confirmations := cs\<rparr>))
           | (Inr conf, cs) \<Rightarrow>
               let s1 = s\<lparr>os_confirmations := cs\<rparr>; up = \<lparr>lu_post = True, lu_path = Some (pd_path d), lu_status = None\<rparr> in
               (case assert_closed (cx_now x) (os_breaker s1) of (refuses, b) \<Rightarrow>
                  let s2 = s1\<lparr>os_breaker := b\<rparr> in
                  if refuses
                  then Inl (conclude x (prepared_parts d OO_Refused (Some RC_Circuit_Open) up conf) Refused s2)
                  else (case post_begin E (cx_now x) (pd_path d) s2 of
                    (Inl code, s3) \<Rightarrow> Inl (conclude x (prepared_parts d OO_Refused (Some code) up conf) Refused s3)
                  | (Inr path, s3) \<Rightarrow>
                      Inr (\<lparr>pg_prepared = d, pg_confirmation = conf, pg_correlation_id = cx_correlation_id x,
                            pg_client_reference = cx_client_reference x, pg_path = path,
                            pg_url = join_url (ce_base_url E) path,
                            pg_body = build_body (pd_action d) (pd_reason d)\<rparr>, s3)))))"

section \<open>The answer\<close>

text \<open>
  A thrown value: the properties the code reads of an object. \<open>JE_Other\<close> is any other value. Only errors
  of the outer five levels are read.
\<close>

datatype js_error =
    JE_Other
  | JE_Object (je_name: "string option") (je_message: "string option") (je_code: "string option")
      (je_cause: "js_error option") (je_errors: "js_error list option")

datatype fetch_outcome = Answered int json | Fetch_Threw js_error

definition inner_errors :: "js_error \<Rightarrow> js_error list" where
  "inner_errors e =
     (case e of JE_Other \<Rightarrow> []
      | JE_Object _ _ _ cause errors \<Rightarrow> (case cause of Some c \<Rightarrow> [c] | None \<Rightarrow> []) @ or_else errors [])"

fun error_messages_of :: "nat \<Rightarrow> js_error \<Rightarrow> string list" where
  "error_messages_of 0 e = []"
| "error_messages_of (Suc levels) e =
     (case e of JE_Other \<Rightarrow> []
      | JE_Object _ message _ _ _ \<Rightarrow>
          (case message of Some m \<Rightarrow> [js_lower m] | None \<Rightarrow> [])
          @ concat (map (error_messages_of levels) (inner_errors e)))"

fun error_codes_of :: "nat \<Rightarrow> js_error \<Rightarrow> string list" where
  "error_codes_of 0 e = []"
| "error_codes_of (Suc levels) e =
     (case e of JE_Other \<Rightarrow> []
      | JE_Object _ _ code _ _ \<Rightarrow>
          (case code of Some c \<Rightarrow> [c] | None \<Rightarrow> [])
          @ concat (map (error_codes_of levels) (inner_errors e)))"

definition pre_flight_error_codes :: "string list" where
  "pre_flight_error_codes =
     [''ECONNREFUSED'', ''ENOTFOUND'', ''EAI_AGAIN'', ''EHOSTUNREACH'', ''ENETUNREACH'', ''EACCES'',
      ''ERR_INVALID_URL'', ''UND_ERR_CONNECT_TIMEOUT'', ''DEPTH_ZERO_SELF_SIGNED_CERT'',
      ''UNABLE_TO_VERIFY_LEAF_SIGNATURE'', ''SELF_SIGNED_CERT_IN_CHAIN'', ''CERT_HAS_EXPIRED'',
      ''ERR_TLS_CERT_ALTNAME_INVALID'']"

definition pre_flight_messages :: "string list" where
  "pre_flight_messages = [''bad port'', ''unsupported protocol'', ''invalid url'', ''failed to parse url'']"

definition is_pre_flight_transport_failure :: "js_error \<Rightarrow> bool" where
  "is_pre_flight_transport_failure e \<longleftrightarrow>
     list_ex (\<lambda>c. c \<in> set pre_flight_error_codes) (error_codes_of 5 e)
     \<or> list_ex (\<lambda>m. list_ex (string_includes m) pre_flight_messages) (error_messages_of 5 e)"

definition is_abort_error :: "js_error \<Rightarrow> bool" where
  "is_abort_error e = (case e of JE_Other \<Rightarrow> False | JE_Object name _ _ _ _ \<Rightarrow> name = Some ''AbortError'')"

text \<open>\<open>client.post\<close> from the answer on: how the answer moves the breaker.\<close>

definition post_finish :: "int \<Rightarrow> fetch_outcome \<Rightarrow> circuit_breaker \<Rightarrow> circuit_breaker" where
  "post_finish now out b =
     (case out of
        Answered status _ \<Rightarrow> if status \<ge> 500 \<or> status = 429 then record_failure now b else record_success b
      | Fetch_Threw _ \<Rightarrow> record_failure now b)"

definition execute_finish :: "int \<Rightarrow> bool \<Rightarrow> posted_call \<Rightarrow> fetch_outcome \<Rightarrow> channel_state
    \<Rightarrow> call_result \<times> channel_state" where
  "execute_finish now accepts g out s =
     (let d = pg_prepared g; conf = pg_confirmation g;
          x = \<lparr>cx_now = now, cx_correlation_id = pg_correlation_id g,
               cx_client_reference = pg_client_reference g, cx_accepts = accepts\<rparr>;
          s1 = s\<lparr>os_breaker := post_finish now out (os_breaker s)\<rparr>
      in case out of
        Answered status body \<Rightarrow>
          let up = \<lparr>lu_post = True, lu_path = Some (pg_path g), lu_status = Some status\<rparr> in
          if status < 200 \<or> status > 299
          then conclude x (prepared_parts d OO_Refused (Some RC_Upstream_Error) up conf) Refused s1
          else conclude x (prepared_parts d OO_Executed None up conf) (\<lambda>e. Executed e status body) s1
      | Fetch_Threw err \<Rightarrow>
          if is_abort_error err \<or> \<not> is_pre_flight_transport_failure err
          then conclude x (prepared_parts d OO_Unknown (Some RC_Transport_Unknown)
                 \<lparr>lu_post = True, lu_path = Some (pd_path d), lu_status = None\<rparr> conf) Unresolved s1
          else conclude x (prepared_parts d OO_Refused (Some RC_Transport_Error) no_upstream conf) Refused s1)"

section \<open>The named calls\<close>

definition pause_input :: "operator_input \<Rightarrow> operator_input" where
  "pause_input i = i\<lparr>oi_action := ''pause_dispatch'', oi_target_id := Some dispatch_target_id\<rparr>"

definition resume_input :: "operator_input \<Rightarrow> operator_input" where
  "resume_input i = i\<lparr>oi_action := ''resume_dispatch'', oi_target_id := Some dispatch_target_id\<rparr>"

definition acknowledge_input :: "operator_input \<Rightarrow> operator_input" where
  "acknowledge_input i = i\<lparr>oi_action := ''acknowledge_inbound_alert''\<rparr>"

section \<open>Interleaved calls\<close>

text \<open>
  The labels of a run: a request for confirmation, a call that ended before the POST, a POST, and the end
  of a call whose POST was answered.
\<close>

datatype operator_label =
    L_Request call_context operator_input "string \<times> string" call_result
  | L_Ended call_context operator_input call_result
  | L_Sent call_context operator_input posted_call
  | L_Answered posted_call fetch_outcome call_result

inductive operator_run :: "channel_env \<Rightarrow> operator_label list \<Rightarrow> posted_call list \<Rightarrow> channel_state \<Rightarrow> bool"
  for E :: channel_env where
  run_start: "operator_run E [] []
    \<lparr>os_breaker = new_breaker n r, os_confirmations = [], os_entries = [], os_wal = [], os_hits = 0\<rparr>"
| run_request: "operator_run E tr gs s \<Longrightarrow> x = call_context i now fresh accepts
    \<Longrightarrow> request_confirmation E x i tokens s = (r, s')
    \<Longrightarrow> operator_run E (tr @ [L_Request x i tokens r]) gs s'"
| run_ended: "operator_run E tr gs s \<Longrightarrow> x = call_context i now fresh accepts
    \<Longrightarrow> execute_begin E x i s = Inl (r, s') \<Longrightarrow> operator_run E (tr @ [L_Ended x i r]) gs s'"
| run_sent: "operator_run E tr gs s \<Longrightarrow> x = call_context i now fresh accepts
    \<Longrightarrow> execute_begin E x i s = Inr (g, s') \<Longrightarrow> operator_run E (tr @ [L_Sent x i g]) (gs @ [g]) s'"
| run_answered: "operator_run E tr gs s \<Longrightarrow> g \<in> set gs \<Longrightarrow> execute_finish now accepts g out s = (r, s')
    \<Longrightarrow> operator_run E (tr @ [L_Answered g out r]) (remove1 g gs) s'"

end
