(* ===== verification/Operator_Laws.thy ===== *)
theory Operator_Laws
  imports Operator_Calls
begin

text \<open>
  Laws of the operator channel: what a concluded call leaves behind, what the confirmation store keeps,
  which paths the checks let through, and how each part of a call moves the state.
\<close>

section \<open>Concluding a call\<close>

definition all_entries :: "channel_state \<Rightarrow> ledger_entry list" where
  "all_entries s = os_entries s @ os_wal s"

lemma conclude_state:
  assumes "conclude x p r s = (r', s')"
  shows "\<exists>e. mset (all_entries s') = add_mset e (mset (all_entries s)) \<and> le_correlation_id e = cx_correlation_id x
    \<and> le_outcome e = ep_outcome p \<and> le_refusal_code e = ep_code p \<and> le_upstream e = ep_upstream p
    \<and> os_hits s' = os_hits s \<and> os_confirmations s' = os_confirmations s
    \<and> os_breaker s' = maybe_half_open (cx_now x) (os_breaker s)
    \<and> (if cx_accepts x then r' = r e \<and> e \<in> set (os_entries s') else r' = Threw)"
proof -
  obtain e s1 where e: "build_entry x p s = (e, s1)" by (cases "build_entry x p s")
  show ?thesis
  proof (intro exI [of _ e] conjI)
    show "mset (all_entries s') = add_mset e (mset (all_entries s))"
      using assms e by (auto simp: conclude_def record_entry_def build_entry_def all_entries_def split: prod.splits if_splits)
  qed (use assms e in \<open>auto simp: conclude_def record_entry_def build_entry_def get_state_def Let_def
          split: prod.splits if_splits\<close>)
qed

lemma conclude_confirmations: "conclude x p r s = (r', s') \<Longrightarrow> os_confirmations s' = os_confirmations s"
  by (drule conclude_state) (elim exE conjE)

section \<open>The confirmation store\<close>

lemma set_invalidate:
  "set (invalidate_challenges a t u cs) =
     {c \<in> set cs. \<not> (cg_action c = a \<and> cg_target_id c = t \<and> (u = None \<or> u = Some (cg_actor_id c)))}"
  by (auto simp: invalidate_challenges_def)

lemma set_set_challenge: "set (set_challenge c cs) \<subseteq> insert c (set cs)"
  by (auto simp: set_challenge_def)

lemma find_set_challenge: "List.find (\<lambda>d. cg_token d = cg_token c) (set_challenge c cs) = Some c"
proof (cases "cg_token c \<in> set (map cg_token cs)")
  case True
  then have "List.find (\<lambda>d. cg_token d = cg_token c) (map (\<lambda>d. if cg_token d = cg_token c then c else d) cs) = Some c"
    by (induction cs) auto
  with True show ?thesis by (simp add: set_challenge_def)
next
  case False
  then have "List.find (\<lambda>d. cg_token d = cg_token c) cs = None" by (induction cs) auto
  with False show ?thesis by (simp add: set_challenge_def find_snoc)
qed

lemma consume_Some:
  assumes "consume_challenge E t a target actor reason now cs = (Some c, cs')"
  shows "c \<in> set cs \<and> cg_token c = t \<and> cg_action c = a \<and> cg_target_id c = target \<and> cg_actor_id c = actor
    \<and> cg_reason_hash c = confirmation_reason_hash E reason \<and> now < cg_expires_at_ms c
    \<and> set cs' \<subseteq> {d \<in> set cs. cg_token d \<noteq> t}"
  using assms
  by (auto simp: consume_challenge_def delete_token_def sweep_expired_def Let_def split: if_splits option.splits
      dest!: find_Some_in)

lemma consume_keeps: "set (snd (consume_challenge E t a target actor reason now cs)) \<subseteq> set cs"
  by (auto simp: consume_challenge_def delete_token_def sweep_expired_def Let_def split: option.splits)

section \<open>Checks\<close>

lemma identity_trusted:
  assumes "parse_forward_auth_identity N r P = Some (Identified f)"
  shows "is_trusted_hop N (fq_remote_address r) (tp_trusted_hops P) = Some True"
proof -
  from assms obtain trusted where t: "is_trusted_hop N (fq_remote_address r) (tp_trusted_hops P) = Some trusted"
    by (auto simp: parse_forward_auth_identity_def)
  with assms show ?thesis
    by (auto simp: parse_forward_auth_identity_def Let_def split: if_splits)
qed

lemma prepare_Inr: "prepare E x i s = Inr d \<longleftrightarrow> prepare_checks E i = Some (Inr d)"
  by (auto simp: prepare_def split: option.splits sum.splits)

lemma prepare_Inl:
  "prepare E x i s = Inl q \<longleftrightarrow>
     (prepare_checks E i = None \<and> q = (Threw, s)) \<or> (\<exists>p. prepare_checks E i = Some (Inl p) \<and> q = conclude x p Refused s)"
  by (auto simp: prepare_def split: option.splits sum.splits)

lemma two_step_iff [simp]: "ad_two_step (operator_actions a) \<longleftrightarrow> a = Resume_Dispatch"
  by (cases a) simp_all

lemma resolve_operator_actor_Some:
  "resolve_operator_actor E q = Some (Some u) \<longleftrightarrow>
     (\<exists>r f. q = Some r \<and> fq_remote_address r \<noteq> []
        \<and> parse_forward_auth_identity (ce_net E) r (ce_policy E) = Some (Identified f)
        \<and> u = operator_actor_from_identity f)"
proof (cases q)
  case (Some r)
  then show ?thesis
    by (cases "parse_forward_auth_identity (ce_net E) r (ce_policy E)")
       (auto simp: resolve_operator_actor_def split: identity_outcome.splits)
qed (simp add: resolve_operator_actor_def)

text \<open>Target ids survive encoding and decoding, so every path the actions build is an allowed one.\<close>

lemma valid_target_chars:
  assumes "is_valid_target_id t" "c \<in> set t"
  shows "(is_alnum c \<or> c \<in> set ''_~-'') \<and> c \<noteq> CHR ''/'' \<and> c \<noteq> CHR ''%'' \<and> c \<noteq> CHR ''?'' \<and> c \<noteq> CHR ''.''
    \<and> c \<noteq> CHR 0x5C"
proof -
  have "is_alnum c \<or> c \<in> set ''_~-''" using assms by (auto simp: is_valid_target_id_def list_all_iff)
  then show ?thesis by (auto simp: is_alnum_def is_digit_def is_lower_def is_upper_def)
qed

lemma encode_valid_target: "is_valid_target_id t \<Longrightarrow> encode_uri_component t = t"
proof -
  assume a: "is_valid_target_id t"
  have "uri_unreserved c" if "c \<in> set t" for c
    using valid_target_chars [OF a that] by (auto simp: uri_unreserved_def)
  then have "map (\<lambda>c. if uri_unreserved c then [c]
                      else let n = of_char c :: nat
                           in if n < 128 then percent_octet n
                              else percent_octet (192 + n div 64) @ percent_octet (128 + n mod 64)) t
             = map (\<lambda>c. [c]) t" by simp
  then have "encode_uri_component t = concat (map (\<lambda>c. [c]) t)"
    unfolding encode_uri_component_def by (rule arg_cong)
  then show ?thesis by simp
qed

lemma decode_plain: "CHR ''%'' \<notin> set t \<Longrightarrow> length t \<le> n \<Longrightarrow> decode_uri_fuel n t = Some (map of_char t)"
proof (induction t arbitrary: n)
  case Nil
  show ?case by (cases n) simp_all
next
  case (Cons c t)
  then obtain m where "n = Suc m" by (cases n) auto
  with Cons show ?case by auto
qed

lemma split_ack_path:
  assumes "is_valid_target_id t"
  shows "filter (\<lambda>p. p \<noteq> []) (split_on (CHR ''/'') (ack_prefix @ t @ ack_suffix)) =
    [''v1'', ''confenge'', ''inbound'', t, ''acknowledge'']"
proof -
  have "CHR ''/'' \<notin> set t" using valid_target_chars [OF assms] by blast
  then have "split_on (CHR ''/'') (t @ CHR ''/'' # ''acknowledge'') = [t, ''acknowledge'']"
    by (simp add: split_on_append)
  moreover have "t \<noteq> []" using assms by (simp add: is_valid_target_id_def)
  ultimately show ?thesis by (simp add: ack_prefix_def ack_suffix_def)
qed

lemma is_acknowledge_built:
  assumes t: "is_valid_target_id t"
  shows "is_acknowledge_path (ack_prefix @ t @ ack_suffix)"
proof -
  note c = valid_target_chars [OF t]
  have d: "decode_uri_component t = Some (map of_char t)"
    using c unfolding decode_uri_component_def by (intro decode_plain) auto
  have k: "char_of (47 :: nat) = CHR ''/''" "char_of (92 :: nat) = CHR 0x5C" "char_of (46 :: nat) = CHR ''.''"
    by code_simp+
  have n: "(47 :: nat) \<notin> set (map of_char t)" "(92 :: nat) \<notin> set (map of_char t)" "(46 :: nat) \<notin> set (map of_char t)"
    using c k by (auto simp del: of_char_Char)
  then have dots: "map of_char t \<noteq> [46 :: nat, 46]" "map of_char t \<noteq> [46 :: nat]" by auto
  have seg: "ack_segment t"
    using t c by (auto simp: ack_segment_def is_valid_target_id_def list_all_iff)
  have "starts_with (ack_prefix @ t @ ack_suffix) ack_prefix" "ends_with (ack_prefix @ t @ ack_suffix) ack_suffix"
    by (simp_all add: starts_with_def ends_with_def)
  with d n dots seg show ?thesis
    by (simp add: is_acknowledge_path_def split_ack_path [OF t] Let_def)
qed

lemma pathname_of_plain:
  assumes "s = CHR ''/'' # r" "CHR ''?'' \<notin> set s"
  shows "pathname_of E s = s"
proof -
  have "takeWhile (\<lambda>c. c \<noteq> CHR ''?'') s = s" using assms(2) by (auto simp: takeWhile_eq_all_conv)
  moreover have "starts_with s ''/''" "\<not> starts_with s ''http://''" "\<not> starts_with s ''https://''"
    using assms(1) by (simp_all add: starts_with_def)
  ultimately show ?thesis by (simp add: pathname_of_def Let_def del: takeWhile_eq_all_conv)
qed

lemma classify_post:
  "classify_operator_request E ''POST'' path =
     (let p = pathname_of E path
      in if p = pause_path \<or> p = resume_path \<or> is_acknowledge_path p then Some p else None)"
  by (simp add: classify_operator_request_def is_lower_def Let_def)

lemma classify_built:
  assumes "is_valid_target_id t"
  shows "classify_operator_request E ''POST'' (build_path a t) = Some (build_path a t)"
proof (cases a)
  case Acknowledge_Inbound_Alert
  have "CHR ''?'' \<notin> set t" using valid_target_chars [OF assms] by blast
  then have "pathname_of E (ack_prefix @ t @ ack_suffix) = ack_prefix @ t @ ack_suffix"
    by (intro pathname_of_plain [where r = "tl ack_prefix @ t @ ack_suffix"])
       (simp_all add: ack_prefix_def ack_suffix_def)
  with Acknowledge_Inbound_Alert is_acknowledge_built [OF assms] show ?thesis
    by (simp add: classify_post encode_valid_target [OF assms] Let_def)
qed (simp_all add: classify_post pathname_of_plain pause_path_def resume_path_def Let_def)

lemma prepare_for_Inr:
  assumes "prepare_for E i u = Inr d"
  shows "resolve_operator_action (oi_action i) = Some (pd_action d) \<and> pd_actor d = u
    \<and> is_valid_target_id (lt_id (pd_target d)) \<and> pd_path d = build_path (pd_action d) (lt_id (pd_target d))
    \<and> (pd_action d \<noteq> Acknowledge_Inbound_Alert \<longrightarrow> lt_id (pd_target d) = dispatch_target_id \<and> pd_reason d \<noteq> None)"
proof -
  from assms obtain a t where "resolve_operator_action (oi_action i) = Some a"
    and t: "is_valid_target_id t" "ad_target_in_path (operator_actions a) \<or> Some t = ad_default_target_id (operator_actions a)"
    and r: "ad_reason_required (operator_actions a) \<longrightarrow> is_valid_reason (trimmed (oi_reason i))"
    and d: "d = \<lparr>pd_action = a, pd_actor = u, pd_target = \<lparr>lt_kind = ad_target_kind (operator_actions a), lt_id = t\<rparr>,
       pd_path = build_path a t, pd_reason = (if trimmed (oi_reason i) = [] then None else Some (trimmed (oi_reason i)))\<rparr>"
    by (auto simp: prepare_for_def Let_def classify_built)
  moreover have "js_trim [] = []" by (simp add: js_trim_def)
  ultimately show ?thesis by (cases a) (auto simp: is_valid_reason_def Let_def)
qed

lemma prepare_checks_Inr:
  assumes "prepare_checks E i = Some (Inr d)"
  shows "resolve_operator_actor E (oi_request i) = Some (Some (pd_actor d)) \<and> prepare_for E i (pd_actor d) = Inr d"
proof -
  from assms obtain u where "resolve_operator_actor E (oi_request i) = Some (Some u)" "prepare_for E i u = Inr d"
    by (auto simp: prepare_checks_def split: option.splits)
  moreover from prepare_for_Inr [OF this(2)] have "pd_actor d = u" by simp
  ultimately show ?thesis by simp
qed

lemma checks_not_posted:
  assumes "prepare_checks E i = Some (Inl p)"
  shows "ep_outcome p = OO_Refused \<and> ep_code p \<noteq> Some RC_Upstream_Error \<and> ep_code p \<noteq> Some RC_Transport_Error"
proof -
  have "ep_outcome p = OO_Refused \<and> ep_code p \<noteq> Some RC_Upstream_Error \<and> ep_code p \<noteq> Some RC_Transport_Error"
    if "prepare_for E i u = Inl p" for u
    using that by (auto simp: prepare_for_def Let_def require_def require_some_def refusal_def split: option.splits if_splits)
  with assms show ?thesis by (auto simp: prepare_checks_def refusal_def split: option.splits)
qed

lemma checks_return:
  assumes "map_opt (parse_cidr (ce_net E)) (tp_trusted_hops (ce_policy E)) \<noteq> None"
  shows "prepare_checks E i \<noteq> None"
  using assms
  by (auto simp: prepare_checks_def resolve_operator_actor_def parse_forward_auth_identity_def is_trusted_hop_def
      Let_def split: option.splits)

section \<open>Calls that go through\<close>

lemma assert_closed_again:
  "assert_closed now b = (False, b') \<Longrightarrow> cb_state b' \<noteq> CS_Open \<and> assert_closed later b' = (False, b')"
  by (auto simp: assert_closed_def get_state_def maybe_half_open_def Let_def split: if_splits)

lemma not_open_closed: "cb_state b \<noteq> CS_Open \<Longrightarrow> assert_closed now b = (False, b)"
  by (simp add: assert_closed_def get_state_def maybe_half_open_def Let_def)

lemma begin_goes:
  assumes "prepare_checks E i = Some (Inr d)"
    "check_confirmation E (cx_now x) i d (intervene d (os_confirmations s)) = (Inr v, cs)"
    "\<not> fst (assert_closed (cx_now x) (os_breaker s))"
  shows "\<exists>g s'. execute_begin E x i s = Inr (g, s') \<and> pg_prepared g = d"
proof -
  obtain b where b: "assert_closed (cx_now x) (os_breaker s) = (False, b)"
    using assms(3) by (cases "assert_closed (cx_now x) (os_breaker s)") auto
  have "classify_operator_request E ''POST'' (pd_path d) = Some (pd_path d)"
    using prepare_checks_Inr [OF assms(1)] prepare_for_Inr by (metis classify_built)
  with assms(1,2) b assert_closed_again [OF b] show ?thesis
    by (simp add: execute_begin_def prepare_def post_begin_def Let_def)
qed

lemma finish_executes:
  assumes "200 \<le> status" "status \<le> 299"
  shows "\<exists>e s'. execute_finish now True g (Answered status body) s = (Executed e status body, s')
    \<and> e \<in> set (os_entries s') \<and> cb_state (os_breaker s') = CS_Closed"
proof -
  let ?x = "\<lparr>cx_now = now, cx_correlation_id = pg_correlation_id g,
    cx_client_reference = pg_client_reference g, cx_accepts = True\<rparr>"
  let ?s = "s\<lparr>os_breaker := record_success (os_breaker s)\<rparr>"
  let ?p = "prepared_parts (pg_prepared g) OO_Executed None
    \<lparr>lu_post = True, lu_path = Some (pg_path g), lu_status = Some status\<rparr> (pg_confirmation g)"
  obtain r s' where c: "conclude ?x ?p (\<lambda>e. Executed e status body) ?s = (r, s')"
    by (cases "conclude ?x ?p (\<lambda>e. Executed e status body) ?s")
  have "execute_finish now True g (Answered status body) s = (r, s')"
    using assms c by (simp add: execute_finish_def post_finish_def Let_def)
  moreover from conclude_state [OF c] obtain e where "r = Executed e status body" "e \<in> set (os_entries s')"
    "os_breaker s' = maybe_half_open now (record_success (os_breaker s))" by auto
  ultimately show ?thesis by (auto simp: maybe_half_open_def record_success_def)
qed

text \<open>The request of an identified operator for the dispatch switch passes every check.\<close>

definition dispatch_prepared :: "operator_action \<Rightarrow> operator_actor \<Rightarrow> operator_input \<Rightarrow> prepared" where
  "dispatch_prepared a u i =
     \<lparr>pd_action = a, pd_actor = u, pd_target = \<lparr>lt_kind = TK_Dispatch, lt_id = dispatch_target_id\<rparr>,
      pd_path = build_path a dispatch_target_id, pd_reason = Some (trimmed (oi_reason i))\<rparr>"

lemma dispatch_checks:
  assumes "resolve_operator_actor E (oi_request i) = Some (Some u)" "is_valid_reason (trimmed (oi_reason i))"
    "oi_action i = operator_action_text a" "a \<noteq> Acknowledge_Inbound_Alert" "oi_target_id i = Some dispatch_target_id"
  shows "prepare_checks E i = Some (Inr (dispatch_prepared a u i))"
proof -
  have t: "is_valid_target_id dispatch_target_id" "trimmed (Some dispatch_target_id) = dispatch_target_id" by code_simp+
  then have c: "choose_target (operator_actions a) (oi_target_id i) = Some dispatch_target_id"
    using assms(5) by (simp add: choose_target_def dispatch_target_id_def)
  have r: "resolve_operator_action (oi_action i) = Some a"
    using assms(3) by (cases a) (simp_all add: resolve_operator_action_def operator_action_names_def)
  have "trimmed (oi_reason i) \<noteq> []" using assms(2) by (auto simp: is_valid_reason_def js_trim_def)
  with assms(1,2,4) c r t(1) have p: "prepare_for E i u = Inr (dispatch_prepared a u i)"
    using classify_built [OF t(1), of E a]
    by (cases a) (simp_all add: prepare_for_def Let_def dispatch_prepared_def)
  with assms(1) show ?thesis by (simp add: prepare_checks_def)
qed

lemma pause_goes:
  assumes "resolve_operator_actor E (oi_request i) = Some (Some u)" "is_valid_reason (trimmed (oi_reason i))"
    "\<not> fst (assert_closed (cx_now x) (os_breaker s))"
  shows "\<exists>g s'. execute_begin E x (pause_input i) s = Inr (g, s') \<and> pd_action (pg_prepared g) = Pause_Dispatch"
proof -
  have "prepare_checks E (pause_input i) = Some (Inr (dispatch_prepared Pause_Dispatch u (pause_input i)))"
    using assms(1,2) by (intro dispatch_checks) (simp_all add: pause_input_def)
  from begin_goes [OF this _ assms(3)] show ?thesis
    by (auto simp: check_confirmation_def dispatch_prepared_def)
qed

lemma request_goes:
  assumes "resolve_operator_actor E (oi_request i) = Some (Some u)" "is_valid_reason (trimmed (oi_reason i))"
    "cx_accepts x"
  shows "\<exists>e c s1. request_confirmation E x (resume_input i) fresh s = (Challenged e c, s1)
    \<and> List.find (\<lambda>d. cg_token d = fst fresh) (os_confirmations s1) = Some c
    \<and> cg_token c = fst fresh \<and> cg_action c = Resume_Dispatch \<and> cg_target_id c = dispatch_target_id
    \<and> cg_actor_id c = pa_id u \<and> cg_reason_hash c = confirmation_reason_hash E (Some (trimmed (oi_reason i)))
    \<and> cg_expires_at_ms c = cx_now x + ce_ttl_ms E
    \<and> os_breaker s1 = maybe_half_open (cx_now x) (os_breaker s)"
proof -
  let ?d = "dispatch_prepared Resume_Dispatch u (resume_input i)"
  have d: "prepare_checks E (resume_input i) = Some (Inr ?d)"
    using assms(1,2) by (intro dispatch_checks) (simp_all add: resume_input_def)
  let ?reason = "Some (trimmed (oi_reason i))"
  obtain c cs where c: "issue_challenge E Resume_Dispatch dispatch_target_id (pa_id u) ?reason (cx_now x) fresh
      (invalidate_challenges Resume_Dispatch dispatch_target_id (Some (pa_id u)) (os_confirmations s)) = (c, cs)"
    by (cases "issue_challenge E Resume_Dispatch dispatch_target_id (pa_id u) ?reason (cx_now x) fresh
      (invalidate_challenges Resume_Dispatch dispatch_target_id (Some (pa_id u)) (os_confirmations s))")
  let ?p = "prepared_parts ?d OO_Challenged None no_upstream (two_step_open\<lparr>lf_token_id := Some (cg_token_id c)\<rparr>)"
  let ?s = "s\<lparr>os_confirmations := cs\<rparr>"
  obtain r s1 where r: "conclude x ?p (\<lambda>e. Challenged e c) ?s = (r, s1)"
    by (cases "conclude x ?p (\<lambda>e. Challenged e c) ?s")
  have "request_confirmation E x (resume_input i) fresh s = (r, s1)"
    using d c r by (simp add: request_confirmation_def prepare_def Let_def dispatch_prepared_def resume_input_def)
  moreover from conclude_state [OF r] assms(3) obtain e where "r = Challenged e c" "os_confirmations s1 = cs"
    "os_breaker s1 = maybe_half_open (cx_now x) (os_breaker s)" by auto
  moreover from c have "cg_token c = fst fresh" "cg_action c = Resume_Dispatch" "cg_target_id c = dispatch_target_id"
    "cg_actor_id c = pa_id u" "cg_reason_hash c = confirmation_reason_hash E ?reason"
    "cg_expires_at_ms c = cx_now x + ce_ttl_ms E" by (auto simp: issue_challenge_def Let_def)
  moreover from c have "List.find (\<lambda>d. cg_token d = cg_token c) cs = Some c"
    using find_set_challenge [of c] by (auto simp: issue_challenge_def Let_def)
  ultimately show ?thesis by auto
qed

lemma resume_goes:
  assumes "resolve_operator_actor E (oi_request i) = Some (Some u)" "is_valid_reason (trimmed (oi_reason i))"
    "\<not> fst (assert_closed (cx_now x) (os_breaker s))" "cx_accepts x" "js_trim (fst fresh) \<noteq> []"
    "cx_now y < cx_now x + ce_ttl_ms E"
  shows "\<exists>e c s1 g s2. request_confirmation E x (resume_input i) fresh s = (Challenged e c, s1)
    \<and> cg_token c = fst fresh
    \<and> execute_begin E y (resume_input (i\<lparr>oi_confirmation_token := Some (cg_token c)\<rparr>)) s1 = Inr (g, s2)
    \<and> pd_action (pg_prepared g) = Resume_Dispatch"
proof -
  from request_goes [OF assms(1,2,4), of fresh s] obtain e c s1 where
    c: "request_confirmation E x (resume_input i) fresh s = (Challenged e c, s1)" "cg_token c = fst fresh"
    and found: "List.find (\<lambda>d. cg_token d = fst fresh) (os_confirmations s1) = Some c"
    and fields: "cg_action c = Resume_Dispatch" "cg_target_id c = dispatch_target_id" "cg_actor_id c = pa_id u"
      "cg_reason_hash c = confirmation_reason_hash E (Some (trimmed (oi_reason i)))"
      "cg_expires_at_ms c = cx_now x + ce_ttl_ms E"
    and b: "os_breaker s1 = maybe_half_open (cx_now x) (os_breaker s)" by (elim exE conjE) (rule that)
  let ?i = "resume_input (i\<lparr>oi_confirmation_token := Some (cg_token c)\<rparr>)"
  let ?d = "dispatch_prepared Resume_Dispatch u ?i"
  have d: "prepare_checks E ?i = Some (Inr ?d)"
    using assms(1,2) by (intro dispatch_checks) (simp_all add: resume_input_def)
  have open_b: "\<not> fst (assert_closed (cx_now y) (os_breaker s1))"
    using assms(3) b by (auto simp: assert_closed_def get_state_def maybe_half_open_def Let_def split: if_splits)
  have live: "List.find (\<lambda>d. cg_token d = fst fresh) (sweep_expired (cx_now y) (os_confirmations s1)) = Some c"
    unfolding sweep_expired_def using found fields(5) assms(6) by (intro find_filter) simp_all
  have "check_confirmation E (cx_now y) ?i ?d (intervene ?d (os_confirmations s1)) =
      (Inr \<lparr>lf_required = True, lf_satisfied = True, lf_token_id = Some (cg_token_id c)\<rparr>,
       delete_token (fst fresh) (sweep_expired (cx_now y) (os_confirmations s1)))"
    using assms(5,6) c(2) live fields
    by (simp add: check_confirmation_def intervene_def dispatch_prepared_def resume_input_def trimmed_def
        consume_challenge_def Let_def)
  from begin_goes [OF d this open_b] c show ?thesis by (auto simp: dispatch_prepared_def)
qed

end
