(* ===== verification/Operator_Properties.thy ===== *)
theory Operator_Properties
  imports Operator_Laws
begin

text \<open>
  What the operator channel promises: a release of the kill switch was confirmed and not revoked, POSTs
  come from identified operators and go to the three controls, no call and no POST goes unrecorded, and an
  identified operator can pause in one call and resume in two.
\<close>

section \<open>Confirmations along a run\<close>

definition intervenes :: "channel_env \<Rightarrow> confirmation_challenge \<Rightarrow> operator_input \<Rightarrow> bool" where
  "intervenes E c i \<longleftrightarrow>
     (case prepare_checks E i of
        Some (Inr d) \<Rightarrow>
          (case pd_action d of
             Pause_Dispatch \<Rightarrow> True
           | Acknowledge_Inbound_Alert \<Rightarrow> pa_id (pd_actor d) = cg_actor_id c
           | Resume_Dispatch \<Rightarrow> False)
      | _ \<Rightarrow> False)"

fun revokes :: "channel_env \<Rightarrow> confirmation_challenge \<Rightarrow> operator_label \<Rightarrow> bool" where
  "revokes E c (L_Request x i fresh r) \<longleftrightarrow>
     (case prepare_checks E i of
        Some (Inr d) \<Rightarrow> pd_action d = Resume_Dispatch \<and> pa_id (pd_actor d) = cg_actor_id c
      | _ \<Rightarrow> False)"
| "revokes E c (L_Ended x i r) \<longleftrightarrow> intervenes E c i"
| "revokes E c (L_Sent x i g) \<longleftrightarrow>
     intervenes E c i
     \<or> pd_action (pg_prepared g) = Resume_Dispatch \<and> oi_confirmation_token i = Some (cg_token c)"
| "revokes E c (L_Answered g out r) \<longleftrightarrow> False"

text \<open>The challenge a prepared release is given.\<close>

definition minted :: "channel_env \<Rightarrow> call_context \<Rightarrow> string \<times> string \<Rightarrow> prepared \<Rightarrow> confirmation_challenge" where
  "minted E x fresh d =
     fst (issue_challenge E (pd_action d) (lt_id (pd_target d)) (pa_id (pd_actor d)) (pd_reason d) (cx_now x) fresh [])"

definition mints :: "channel_env \<Rightarrow> operator_label \<Rightarrow> confirmation_challenge \<Rightarrow> bool" where
  "mints E l c \<longleftrightarrow>
     (\<exists>x i fresh r d. l = L_Request x i fresh r \<and> prepare_checks E i = Some (Inr d)
        \<and> pd_action d = Resume_Dispatch \<and> c = minted E x fresh d)"

definition backed :: "channel_env \<Rightarrow> operator_label list \<Rightarrow> confirmation_challenge \<Rightarrow> bool" where
  "backed E tr c \<longleftrightarrow> (\<exists>a l b. tr = a @ l # b \<and> mints E l c \<and> list_all (\<lambda>k. \<not> revokes E c k) b)"

definition kept :: "channel_env \<Rightarrow> operator_label \<Rightarrow> confirmation_store \<Rightarrow> confirmation_store \<Rightarrow> bool" where
  "kept E l cs cs' \<longleftrightarrow> (\<forall>c \<in> set cs'. mints E l c \<or> c \<in> set cs \<and> \<not> revokes E c l)"

definition release_only :: "confirmation_challenge \<Rightarrow> bool" where
  "release_only c \<longleftrightarrow> cg_action c = Resume_Dispatch \<and> cg_target_id c = dispatch_target_id"

lemma backed_snoc: "backed E tr c \<Longrightarrow> \<not> revokes E c l \<Longrightarrow> backed E (tr @ [l]) c"
proof -
  assume "backed E tr c" and l: "\<not> revokes E c l"
  then obtain a k b where "tr = a @ k # b" "mints E k c" "list_all (\<lambda>k. \<not> revokes E c k) b"
    by (auto simp: backed_def)
  with l have "tr @ [l] = a @ k # (b @ [l])" "list_all (\<lambda>k. \<not> revokes E c k) (b @ [l])" by simp_all
  with \<open>mints E k c\<close> show ?thesis unfolding backed_def by blast
qed

lemma backed_new: "mints E l c \<Longrightarrow> backed E (tr @ [l]) c"
  unfolding backed_def by (intro exI [of _ tr] exI [of _ l] exI [of _ "[]"]) simp

lemma prepared_target:
  assumes "prepare_checks E i = Some (Inr d)" "pd_action d \<noteq> Acknowledge_Inbound_Alert"
  shows "lt_id (pd_target d) = dispatch_target_id"
  using prepare_checks_Inr [OF assms(1)] prepare_for_Inr assms(2) by blast

lemma mints_release: "mints E l c \<Longrightarrow> release_only c"
  by (auto simp: mints_def minted_def issue_challenge_def release_only_def Let_def prepared_target)

lemma set_issue:
  "set (snd (issue_challenge E a t u reason now fresh cs)) \<subseteq> insert (fst (issue_challenge E a t u reason now fresh [])) (set cs)"
proof -
  let ?c = "fst (issue_challenge E a t u reason now fresh [])"
  have "snd (issue_challenge E a t u reason now fresh cs) = set_challenge ?c (sweep_expired now cs)"
    by (simp add: issue_challenge_def Let_def)
  moreover have "set (sweep_expired now cs) \<subseteq> set cs" by (auto simp: sweep_expired_def)
  ultimately show ?thesis using set_set_challenge [of ?c "sweep_expired now cs"] by auto
qed

lemma request_keeps:
  assumes "request_confirmation E x i fresh s = (r, s')" "list_all release_only (os_confirmations s)"
  shows "kept E (L_Request x i fresh r) (os_confirmations s) (os_confirmations s')"
proof (cases "prepare E x i s")
  case (Inl q)
  then have "\<nexists>d. prepare_checks E i = Some (Inr d)" by (auto simp: prepare_Inl)
  moreover have "os_confirmations s' = os_confirmations s"
    using assms(1) Inl by (auto simp: request_confirmation_def prepare_Inl dest: conclude_confirmations conclude_confirmations [OF sym])
  ultimately show ?thesis by (auto simp: kept_def split: option.splits sum.splits)
next
  case (Inr d)
  then have d: "prepare_checks E i = Some (Inr d)" by (simp add: prepare_Inr)
  show ?thesis
  proof (cases "pd_action d = Resume_Dispatch")
    case False
    with assms(1) Inr have "os_confirmations s' = os_confirmations s"
      by (auto simp: request_confirmation_def dest: conclude_confirmations conclude_confirmations [OF sym])
    with d False show ?thesis by (auto simp: kept_def)
  next
    case True
    let ?t = "lt_id (pd_target d)" and ?u = "pa_id (pd_actor d)"
    let ?kept = "invalidate_challenges Resume_Dispatch ?t (Some ?u) (os_confirmations s)"
    have "os_confirmations s' = snd (issue_challenge E Resume_Dispatch ?t ?u (pd_reason d) (cx_now x) fresh ?kept)"
      using assms(1) Inr True
      by (auto simp: request_confirmation_def Let_def split: prod.splits dest!: conclude_confirmations)
    then have "set (os_confirmations s') \<subseteq> insert (minted E x fresh d) (set ?kept)"
      using set_issue by (simp add: minted_def True)
    moreover have "mints E (L_Request x i fresh r) (minted E x fresh d)" using d True by (auto simp: mints_def)
    moreover have "\<not> revokes E c (L_Request x i fresh r)" if "c \<in> set ?kept" for c
      using that assms(2) d True prepared_target [OF d] by (auto simp: set_invalidate release_only_def list_all_iff)
    ultimately show ?thesis by (auto simp: kept_def set_invalidate)
  qed
qed

lemma intervene_keeps:
  assumes "list_all release_only cs" "prepare_checks E i = Some (Inr d)" "c \<in> set (intervene d cs)"
  shows "c \<in> set cs \<and> \<not> intervenes E c i"
  using assms by (auto simp: intervene_def intervenes_def set_invalidate release_only_def list_all_iff
      split: operator_action.splits)

lemma check_confirmation_keeps: "set (snd (check_confirmation E now i d cs)) \<subseteq> set cs"
  using consume_keeps [of E "or_else (oi_confirmation_token i) []" "pd_action d" "lt_id (pd_target d)"
      "pa_id (pd_actor d)" "pd_reason d" now cs]
  by (auto simp: check_confirmation_def split: prod.splits option.splits)

lemma begin_ended_keeps:
  assumes "execute_begin E x i s = Inl (r, s')" "list_all release_only (os_confirmations s)"
  shows "kept E (L_Ended x i r) (os_confirmations s) (os_confirmations s')"
proof (cases "prepare E x i s")
  case (Inl q)
  then have "\<nexists>d. prepare_checks E i = Some (Inr d)" by (auto simp: prepare_Inl)
  moreover have "os_confirmations s' = os_confirmations s"
    using assms(1) Inl by (auto simp: execute_begin_def prepare_Inl dest: conclude_confirmations conclude_confirmations [OF sym])
  ultimately show ?thesis by (auto simp: kept_def intervenes_def split: option.splits sum.splits)
next
  case (Inr d)
  then have d: "prepare_checks E i = Some (Inr d)" by (simp add: prepare_Inr)
  obtain v cs where v: "check_confirmation E (cx_now x) i d (intervene d (os_confirmations s)) = (v, cs)"
    by (cases "check_confirmation E (cx_now x) i d (intervene d (os_confirmations s))")
  have "os_confirmations s' = cs"
    using assms(1) Inr v
    by (auto simp: execute_begin_def post_begin_def Let_def split: prod.splits sum.splits option.splits if_splits
        dest!: conclude_confirmations)
  moreover have "set cs \<subseteq> set (intervene d (os_confirmations s))"
    using check_confirmation_keeps [of E "cx_now x" i d "intervene d (os_confirmations s)"] v by simp
  ultimately show ?thesis using intervene_keeps [OF assms(2) d] by (auto simp: kept_def)
qed

text \<open>A POST: the state it leaves and, for a release, the challenge it spent.\<close>

lemma begin_sent:
  assumes "execute_begin E x i s = Inr (g, s')"
  shows "\<exists>d v cs. prepare_checks E i = Some (Inr d) \<and> pg_prepared g = d
    \<and> check_confirmation E (cx_now x) i d (intervene d (os_confirmations s)) = (Inr v, cs)
    \<and> os_confirmations s' = cs \<and> pg_correlation_id g = cx_correlation_id x \<and> pg_path g = pd_path d
    \<and> all_entries s' = all_entries s \<and> os_hits s' = os_hits s + 1"
proof -
  from assms obtain d where d: "prepare E x i s = Inr d"
    by (auto simp: execute_begin_def split: sum.splits)
  then have c: "prepare_checks E i = Some (Inr d)" by (simp add: prepare_Inr)
  with prepare_checks_Inr prepare_for_Inr have "classify_operator_request E ''POST'' (pd_path d) = Some (pd_path d)"
    by (metis classify_built)
  with assms d c show ?thesis
    by (auto simp: execute_begin_def post_begin_def all_entries_def Let_def split: prod.splits sum.splits if_splits)
qed

lemma begin_sent_keeps:
  assumes "execute_begin E x i s = Inr (g, s')" "list_all release_only (os_confirmations s)"
  shows "kept E (L_Sent x i g) (os_confirmations s) (os_confirmations s')"
proof -
  from begin_sent [OF assms(1)] obtain d v cs where d: "prepare_checks E i = Some (Inr d)" "pg_prepared g = d"
    and v: "check_confirmation E (cx_now x) i d (intervene d (os_confirmations s)) = (Inr v, cs)"
    and s': "os_confirmations s' = cs" by (elim exE conjE) (rule that)
  have sub: "set cs \<subseteq> set (intervene d (os_confirmations s))"
    using check_confirmation_keeps [of E "cx_now x" i d "intervene d (os_confirmations s)"] v by simp
  have "oi_confirmation_token i \<noteq> Some (cg_token c)" if "c \<in> set cs" "pd_action d = Resume_Dispatch" for c
  proof -
    from v that(2) obtain c' where "consume_challenge E (or_else (oi_confirmation_token i) []) (pd_action d)
        (lt_id (pd_target d)) (pa_id (pd_actor d)) (pd_reason d) (cx_now x) (intervene d (os_confirmations s)) = (Some c', cs)"
      by (auto simp: check_confirmation_def split: prod.splits option.splits if_splits)
    from consume_Some [OF this] that(1) show ?thesis by auto
  qed
  with intervene_keeps [OF assms(2) d(1)] sub s' d show ?thesis by (auto simp: kept_def)
qed

lemma finish_keeps: "execute_finish now accepts g out s = (r, s') \<Longrightarrow> os_confirmations s' = os_confirmations s"
  by (auto simp: execute_finish_def Let_def split: fetch_outcome.splits if_splits dest!: conclude_confirmations)

lemma challenges_backed:
  assumes "operator_run E tr gs s"
  shows "list_all (\<lambda>c. release_only c \<and> backed E tr c) (os_confirmations s)"
  using assms
proof (induction rule: operator_run.induct)
  have step: "list_all (\<lambda>c. release_only c \<and> backed E (tr @ [l]) c) cs'"
    if "kept E l cs cs'" "list_all (\<lambda>c. release_only c \<and> backed E tr c) cs" for tr l cs cs'
    using that backed_snoc backed_new mints_release by (fastforce simp: kept_def list_all_iff)
  { case run_start show ?case by simp }
  { case run_request then show ?case by (intro step) (auto intro!: request_keeps simp: list_all_iff) }
  { case run_ended then show ?case by (intro step) (auto intro!: begin_ended_keeps simp: list_all_iff) }
  { case run_sent then show ?case by (intro step) (auto intro!: begin_sent_keeps simp: list_all_iff) }
  { case run_answered then show ?case by (intro step) (auto simp: kept_def finish_keeps) }
qed

inductive_cases run_snocE: "operator_run E (tr @ [l]) gs s"

lemma run_prefix: "operator_run E (tr @ us) gs s \<Longrightarrow> \<exists>gs0 s0. operator_run E tr gs0 s0"
proof (induction us arbitrary: gs s rule: rev_induct)
  case (snoc u us)
  from snoc.prems have "operator_run E ((tr @ us) @ [u]) gs s" by simp
  then show ?case by (rule run_snocE) (auto intro: snoc.IH)
qed auto

lemma sent_from_run:
  assumes "operator_run E (pre @ L_Sent x i g # post) gs s"
  obtains gs0 s0 s1 where "operator_run E pre gs0 s0" "execute_begin E x i s0 = Inr (g, s1)"
proof -
  have "operator_run E ((pre @ [L_Sent x i g]) @ post) gs s" using assms by simp
  from run_prefix [OF this] obtain gs1 s1 where "operator_run E (pre @ [L_Sent x i g]) gs1 s1" by (elim exE)
  then show thesis by (rule run_snocE) (auto intro: that)
qed

text \<open>
  C3. The kill switch is released only on a fresh confirmation. Every POST of \<open>resume_dispatch\<close> spends a
  token that an earlier request minted for the same operator and the same hash of the audit reason, and
  that has not expired. Between the two nothing revoked it: no accepted pause by anyone, no accepted
  acknowledgement and no newer request by that operator, and no other POST with the token.
\<close>

theorem release_was_confirmed:
  assumes "operator_run E (pre @ L_Sent x i g # post) gs s" "pd_action (pg_prepared g) = Resume_Dispatch"
  shows "\<exists>a x0 i0 fresh r b d. pre = a @ L_Request x0 i0 fresh r # b
    \<and> prepare_checks E i0 = Some (Inr d) \<and> pd_action d = Resume_Dispatch
    \<and> pa_id (pd_actor d) = pa_id (pd_actor (pg_prepared g))
    \<and> confirmation_reason_hash E (pd_reason d) = confirmation_reason_hash E (pd_reason (pg_prepared g))
    \<and> oi_confirmation_token i = Some (fst fresh) \<and> cx_now x < cx_now x0 + ce_ttl_ms E
    \<and> list_all (\<lambda>l. \<not> revokes E (minted E x0 fresh d) l) b"
proof -
  from assms(1) obtain gs0 s0 s1 where run: "operator_run E pre gs0 s0" and started: "execute_begin E x i s0 = Inr (g, s1)"
    by (rule sent_from_run)
  from begin_sent [OF started] obtain d' v cs where
    v: "check_confirmation E (cx_now x) i (pg_prepared g) (intervene (pg_prepared g) (os_confirmations s0)) = (Inr v, cs)"
    by (elim exE conjE) (use that in simp)
  with assms(2) have token: "trimmed (oi_confirmation_token i) \<noteq> []"
    by (auto simp: check_confirmation_def split: if_splits)
  with v assms(2) obtain c where
    "consume_challenge E (or_else (oi_confirmation_token i) []) Resume_Dispatch (lt_id (pd_target (pg_prepared g)))
       (pa_id (pd_actor (pg_prepared g))) (pd_reason (pg_prepared g)) (cx_now x) (os_confirmations s0) = (Some c, cs)"
    by (auto simp: check_confirmation_def intervene_def split: prod.splits option.splits)
  note c = consume_Some [OF this]
  with challenges_backed [OF run] have "backed E pre c" by (simp add: list_all_iff)
  then obtain a l b where pre: "pre = a @ l # b" and l: "mints E l c" and b: "list_all (\<lambda>k. \<not> revokes E c k) b"
    by (auto simp: backed_def)
  from l obtain x0 i0 fresh r d where m: "l = L_Request x0 i0 fresh r" "prepare_checks E i0 = Some (Inr d)"
    "pd_action d = Resume_Dispatch" "c = minted E x0 fresh d" by (auto simp: mints_def)
  have t: "oi_confirmation_token i = Some (cg_token c)"
    using token c by (cases "oi_confirmation_token i") (auto simp: trimmed_def)
  have "cg_token c = fst fresh" "cg_actor_id c = pa_id (pd_actor d)" "cg_reason_hash c = confirmation_reason_hash E (pd_reason d)"
    "cg_expires_at_ms c = cx_now x0 + ce_ttl_ms E"
    by (simp_all add: m(4) minted_def issue_challenge_def Let_def)
  with c t m b pre show ?thesis by (intro exI conjI) auto
qed

section \<open>What the ledger records\<close>

definition posted_entry :: "ledger_entry \<Rightarrow> bool" where
  "posted_entry e \<longleftrightarrow> le_outcome e = OO_Executed \<or> le_outcome e = OO_Unknown
     \<or> le_refusal_code e = Some RC_Upstream_Error \<or> le_refusal_code e = Some RC_Transport_Error"

fun opened_call :: "operator_label \<Rightarrow> string list" where
  "opened_call (L_Request x i fresh r) = [cx_correlation_id x]"
| "opened_call (L_Ended x i r) = [cx_correlation_id x]"
| "opened_call (L_Sent x i g) = [cx_correlation_id x]"
| "opened_call (L_Answered g out r) = []"

text \<open>One more entry, under this correlation id, that speaks of a POST or not.\<close>

definition one_entry :: "bool \<Rightarrow> string \<Rightarrow> channel_state \<Rightarrow> channel_state \<Rightarrow> bool" where
  "one_entry posted cid s s' \<longleftrightarrow>
     (\<exists>e. mset (all_entries s') = add_mset e (mset (all_entries s)) \<and> le_correlation_id e = cid
        \<and> posted_entry e = posted) \<and> os_hits s' = os_hits s"

lemma conclude_one_entry:
  assumes "conclude x p r s1 = (r', s')" "all_entries s1 = all_entries s" "os_hits s1 = os_hits s"
    "(ep_outcome p = OO_Executed \<or> ep_outcome p = OO_Unknown \<or> ep_code p = Some RC_Upstream_Error
      \<or> ep_code p = Some RC_Transport_Error) = posted"
  shows "one_entry posted (cx_correlation_id x) s s'"
  using conclude_state [OF assms(1)] assms(2-) unfolding one_entry_def posted_entry_def by metis

lemma checks_one_entry:
  assumes "prepare E x i s = Inl (r, s')" "prepare_checks E i \<noteq> None"
  shows "one_entry False (cx_correlation_id x) s s'"
proof -
  from assms obtain p where p: "prepare_checks E i = Some (Inl p)" "conclude x p Refused s = (r, s')"
    by (auto simp: prepare_Inl)
  show ?thesis using checks_not_posted [OF p(1)] by (intro conclude_one_entry [OF p(2) refl refl]) auto
qed

lemma request_one_entry:
  assumes "request_confirmation E x i fresh s = (r, s')" "prepare_checks E i \<noteq> None"
  shows "one_entry False (cx_correlation_id x) s s'"
proof (cases "prepare E x i s")
  case (Inl q)
  with assms show ?thesis by (auto simp: request_confirmation_def intro: checks_one_entry)
next
  case (Inr d)
  with assms show ?thesis
    by (auto simp: request_confirmation_def Let_def all_entries_def prepared_parts_def
        intro!: conclude_one_entry split: if_splits prod.splits)
qed

lemma ended_one_entry:
  assumes "execute_begin E x i s = Inl (r, s')" "prepare_checks E i \<noteq> None"
  shows "one_entry False (cx_correlation_id x) s s'"
proof (cases "prepare E x i s")
  case (Inl q)
  with assms show ?thesis by (auto simp: execute_begin_def intro: checks_one_entry)
next
  case (Inr d)
  obtain v cs where v: "check_confirmation E (cx_now x) i d (intervene d (os_confirmations s)) = (v, cs)"
    by (cases "check_confirmation E (cx_now x) i d (intervene d (os_confirmations s))")
  have code: "c \<noteq> RC_Upstream_Error \<and> c \<noteq> RC_Transport_Error" if "v = Inl c" for c
    using v that by (auto simp: check_confirmation_def split: if_splits prod.splits option.splits)
  from assms Inr v obtain code up conf s1 where c:
    "conclude x (prepared_parts d OO_Refused (Some code) up conf) Refused s1 = (r, s')"
    "all_entries s1 = all_entries s" "os_hits s1 = os_hits s"
    "code \<noteq> RC_Upstream_Error \<and> code \<noteq> RC_Transport_Error"
    using code
    by (auto simp: execute_begin_def post_begin_def all_entries_def Let_def
        split: prod.splits sum.splits option.splits if_splits)
  show ?thesis using c(4) by (intro conclude_one_entry [OF c(1-3)]) (auto simp: prepared_parts_def)
qed

lemma prepared_code: "ep_code (prepared_parts d out code up conf) = code"
  and prepared_outcome: "ep_outcome (prepared_parts d out code up conf) = out"
  by (simp_all add: prepared_parts_def)

lemma finish_one_entry:
  assumes "execute_finish now accepts g out s = (r, s')"
  shows "one_entry True (pg_correlation_id g) s s'"
proof -
  let ?x = "\<lparr>cx_now = now, cx_correlation_id = pg_correlation_id g,
    cx_client_reference = pg_client_reference g, cx_accepts = accepts\<rparr>"
  let ?s = "s\<lparr>os_breaker := post_finish now out (os_breaker s)\<rparr>"
  have s: "all_entries ?s = all_entries s" "os_hits ?s = os_hits s" by (simp_all add: all_entries_def)
  have "\<exists>p f. conclude ?x p f ?s = (r, s') \<and> (ep_outcome p = OO_Executed \<or> ep_outcome p = OO_Unknown
      \<or> ep_code p = Some RC_Upstream_Error \<or> ep_code p = Some RC_Transport_Error)"
  proof (cases out)
    case (Answered status body)
    show ?thesis
    proof (cases "status < 200 \<or> status > 299")
      case True
      with assms Answered show ?thesis
        by (intro exI conjI [rotated]) (rule disjI2, rule disjI2, rule disjI1, rule prepared_code,
            simp add: execute_finish_def Let_def del: One_nat_def)
    next
      case False
      with assms Answered show ?thesis
        by (intro exI conjI [rotated]) (rule disjI1, rule prepared_outcome, simp add: execute_finish_def Let_def)
    qed
  next
    case (Fetch_Threw err)
    show ?thesis
    proof (cases "is_abort_error err \<or> \<not> is_pre_flight_transport_failure err")
      case True
      with assms Fetch_Threw show ?thesis
        by (intro exI conjI [rotated]) (rule disjI2, rule disjI1, rule prepared_outcome, simp add: execute_finish_def Let_def)
    next
      case False
      with assms Fetch_Threw show ?thesis
        by (intro exI conjI [rotated]) (rule disjI2, rule disjI2, rule disjI2, rule prepared_code,
            simp add: execute_finish_def Let_def)
    qed
  qed
  then obtain p f where "conclude ?x p f ?s = (r, s')" "ep_outcome p = OO_Executed \<or> ep_outcome p = OO_Unknown
      \<or> ep_code p = Some RC_Upstream_Error \<or> ep_code p = Some RC_Transport_Error" by (elim exE conjE)
  then have "one_entry True (cx_correlation_id ?x) s s'" by (intro conclude_one_entry [OF _ s]) simp_all
  then show ?thesis by simp
qed

lemma mset_waiting: "g \<in> set gs \<Longrightarrow> mset gs = add_mset g (mset (remove1 g gs))"
  by simp

text \<open>
  C8. Nothing the channel does goes unrecorded. In every run the entries in the ledger and in the log of
  last resort, together with the POSTs still waiting for an answer, carry exactly the correlation ids of
  the calls made, each once; and the POSTs sent are those waiting and those whose entry says executed,
  unknown, upstream error or transport error.
\<close>

theorem every_call_recorded:
  assumes "operator_run E tr gs s" "map_opt (parse_cidr (ce_net E)) (tp_trusted_hops (ce_policy E)) \<noteq> None"
  shows "mset (map le_correlation_id (os_entries s @ os_wal s)) + mset (map pg_correlation_id gs)
      = mset (concat (map opened_call tr))
    \<and> os_hits s = length gs + length (filter posted_entry (os_entries s @ os_wal s))"
proof -
  note total = checks_return [OF assms(2)]
  have "image_mset le_correlation_id (mset (all_entries s)) + mset (map pg_correlation_id gs)
      = mset (concat (map opened_call tr))
    \<and> os_hits s = length gs + size (filter_mset posted_entry (mset (all_entries s)))"
    using assms(1)
  proof (induction rule: operator_run.induct)
    case run_start
    show ?case by (simp add: all_entries_def)
  next
    case (run_request tr gs s x i now fresh accepts tokens r s')
    with request_one_entry [OF run_request.hyps(3) total] show ?case by (auto simp: one_entry_def)
  next
    case (run_ended tr gs s x i now fresh accepts r s')
    with ended_one_entry [OF run_ended.hyps(3) total] show ?case by (auto simp: one_entry_def)
  next
    case (run_sent tr gs s x i now fresh accepts g s')
    from begin_sent [OF run_sent.hyps(3)] have "pg_correlation_id g = cx_correlation_id x"
      "all_entries s' = all_entries s" "os_hits s' = os_hits s + 1" by (elim exE conjE, simp)+
    with run_sent.IH show ?case by simp
  next
    case (run_answered tr gs s g now accepts out r s')
    note w = mset_waiting [OF run_answered.hyps(2)]
    have "mset (map pg_correlation_id gs) =
        add_mset (pg_correlation_id g) (mset (map pg_correlation_id (remove1 g gs)))"
      using arg_cong [OF w, of "image_mset pg_correlation_id"] by simp
    moreover have "length gs = Suc (length (remove1 g gs))" using length_pos_if_in_set [OF run_answered.hyps(2)] run_answered.hyps(2)
      by (simp add: length_remove1)
    moreover note run_answered.IH finish_one_entry [OF run_answered.hyps(3)]
    ultimately show ?case by (simp add: one_entry_def) (elim exE conjE, simp)
  qed
  moreover have "length (filter posted_entry (all_entries s)) = size (filter_mset posted_entry (mset (all_entries s)))"
    by (metis mset_filter size_mset)
  ultimately show ?thesis by (simp add: all_entries_def)
qed

text \<open>
  C10. A POST is made only for an operator the trusted proxy identified, and only to the path of the named
  action: pause, resume, or the acknowledgement of one alert whose id is a plain identifier.
\<close>

theorem posts_are_controls:
  assumes "operator_run E (pre @ L_Sent x i g # post) gs s"
  shows "(\<exists>r f. oi_request i = Some r \<and> parse_forward_auth_identity (ce_net E) r (ce_policy E) = Some (Identified f)
      \<and> pa_id (pd_actor (pg_prepared g)) = fi_user f)
    \<and> is_trusted_hop (ce_net E) (fq_remote_address (the (oi_request i))) (tp_trusted_hops (ce_policy E)) = Some True
    \<and> resolve_operator_action (oi_action i) = Some (pd_action (pg_prepared g))
    \<and> (pg_path g = pause_path \<or> pg_path g = resume_path
       \<or> (\<exists>t. is_valid_target_id t \<and> pg_path g = ack_prefix @ t @ ack_suffix))"
proof -
  from assms obtain gs0 s0 s1 where "execute_begin E x i s0 = Inr (g, s1)" by (rule sent_from_run)
  from begin_sent [OF this] have d: "prepare_checks E i = Some (Inr (pg_prepared g))" "pg_path g = pd_path (pg_prepared g)"
    by (elim exE conjE, simp)+
  note c = prepare_checks_Inr [OF d(1)]
  note p = prepare_for_Inr [OF conjunct2 [OF c]]
  from c obtain r f where r: "oi_request i = Some r"
    "parse_forward_auth_identity (ce_net E) r (ce_policy E) = Some (Identified f)"
    "pd_actor (pg_prepared g) = operator_actor_from_identity f" by (auto simp: resolve_operator_actor_Some)
  have "is_trusted_hop (ce_net E) (fq_remote_address r) (tp_trusted_hops (ce_policy E)) = Some True"
    using identity_trusted [OF r(2)] .
  moreover have "pg_path g = pause_path \<or> pg_path g = resume_path
       \<or> (\<exists>t. is_valid_target_id t \<and> pg_path g = ack_prefix @ t @ ack_suffix)"
    using p d(2) by (cases "pd_action (pg_prepared g)") (auto simp: encode_valid_target)
  ultimately show ?thesis using r p by (auto simp: operator_actor_from_identity_def)
qed

section \<open>Calls that get through\<close>

text \<open>
  C9. The channel never locks an operator out. While the breaker does not refuse, an identified operator with
  a valid reason pauses dispatch in one call, whatever confirmations are pending, and resumes it in two,
  the second within the lifetime of the token; an answer in the 200s makes each an executed entry of the
  ledger and closes the breaker.
\<close>

theorem operator_gets_through:
  assumes "resolve_operator_actor E (oi_request i) = Some (Some u)" "is_valid_reason (trimmed (oi_reason i))"
    "\<not> fst (assert_closed (cx_now x) (os_breaker s))" "cx_accepts x" "js_trim (fst fresh) \<noteq> []"
    "cx_now y < cx_now x + ce_ttl_ms E" "200 \<le> status" "status \<le> 299"
  shows "(\<exists>g s1 e s2. execute_begin E x (pause_input i) s = Inr (g, s1)
      \<and> pd_action (pg_prepared g) = Pause_Dispatch
      \<and> execute_finish later True g (Answered status body) s1 = (Executed e status body, s2)
      \<and> e \<in> set (os_entries s2) \<and> cb_state (os_breaker s2) = CS_Closed)
    \<and> (\<exists>e0 c s1 g s2 e s3. request_confirmation E x (resume_input i) fresh s = (Challenged e0 c, s1)
      \<and> execute_begin E y (resume_input (i\<lparr>oi_confirmation_token := Some (cg_token c)\<rparr>)) s1 = Inr (g, s2)
      \<and> pd_action (pg_prepared g) = Resume_Dispatch
      \<and> execute_finish later True g (Answered status body) s2 = (Executed e status body, s3)
      \<and> e \<in> set (os_entries s3) \<and> cb_state (os_breaker s3) = CS_Closed)"
proof (intro conjI)
  note fin = finish_executes [OF assms(7,8)]
  from pause_goes [OF assms(1-3)] obtain g s1 where "execute_begin E x (pause_input i) s = Inr (g, s1)"
    "pd_action (pg_prepared g) = Pause_Dispatch" by (elim exE conjE)
  with fin [of later g body s1] show "\<exists>g s1 e s2. execute_begin E x (pause_input i) s = Inr (g, s1)
      \<and> pd_action (pg_prepared g) = Pause_Dispatch
      \<and> execute_finish later True g (Answered status body) s1 = (Executed e status body, s2)
      \<and> e \<in> set (os_entries s2) \<and> cb_state (os_breaker s2) = CS_Closed" by blast
  from resume_goes [OF assms(1-6)] obtain e0 c s1 g s2 where
    "request_confirmation E x (resume_input i) fresh s = (Challenged e0 c, s1)"
    "execute_begin E y (resume_input (i\<lparr>oi_confirmation_token := Some (cg_token c)\<rparr>)) s1 = Inr (g, s2)"
    "pd_action (pg_prepared g) = Resume_Dispatch" by (elim exE conjE)
  with fin [of later g body s2] show "\<exists>e0 c s1 g s2 e s3. request_confirmation E x (resume_input i) fresh s = (Challenged e0 c, s1)
      \<and> execute_begin E y (resume_input (i\<lparr>oi_confirmation_token := Some (cg_token c)\<rparr>)) s1 = Inr (g, s2)
      \<and> pd_action (pg_prepared g) = Resume_Dispatch
      \<and> execute_finish later True g (Answered status body) s2 = (Executed e status body, s3)
      \<and> e \<in> set (os_entries s3) \<and> cb_state (os_breaker s3) = CS_Closed" by blast
qed

text \<open>
  A pause that is refused because its audit reason is missing or malformed revokes no pending release:
  the checks come before the revocation.
\<close>

lemma refused_pause_revokes_nothing:
  assumes "resolve_operator_actor E (oi_request i) = Some (Some u)" "\<not> is_valid_reason (trimmed (oi_reason i))"
    "execute_begin E x (pause_input i) s = Inl (r, s')"
  shows "os_confirmations s' = os_confirmations s"
proof -
  let ?i = "pause_input i"
  have same: "resolve_operator_actor E (oi_request ?i) = Some (Some u)" "\<not> is_valid_reason (trimmed (oi_reason ?i))"
    "oi_action ?i = ''pause_dispatch''" using assms(1,2) by (simp_all add: pause_input_def)
  then have "\<nexists>d. prepare_for E ?i u = Inr d"
    by (auto simp: prepare_for_def Let_def resolve_operator_action_def operator_action_names_def)
  with same(1) have "\<nexists>d. prepare E x ?i s = Inr d" by (auto simp: prepare_Inr prepare_checks_def)
  then obtain q where "prepare E x ?i s = Inl q" by (cases "prepare E x ?i s") auto
  with assms(3) show ?thesis
    by (auto simp: execute_begin_def prepare_Inl dest: conclude_confirmations conclude_confirmations [OF sym])
qed

section \<open>A sample run\<close>

definition sample_channel :: channel_env where
  "sample_channel =
     \<lparr>ce_net = sample_net, ce_policy = sample_hop_policy, ce_url_pathname = (\<lambda>_. None), ce_sha256 = (\<lambda>s. s),
      ce_ttl_ms = 120000, ce_base_url = ''http://warmbly''\<rparr>"

definition sample_operator_input :: operator_input where
  "sample_operator_input =
     \<lparr>oi_action = [], oi_request = Some sample_identity_request, oi_target_id = None, oi_reason = Some ''ok'',
      oi_confirmation_token = None, oi_client_reference = None\<rparr>"

definition sample_channel_state :: channel_state where
  "sample_channel_state =
     \<lparr>os_breaker = new_breaker 3 30000, os_confirmations = [], os_entries = [], os_wal = [], os_hits = 0\<rparr>"

lemma sample_operator_actor:
  "resolve_operator_actor sample_channel (oi_request sample_operator_input) =
     Some (Some \<lparr>pa_id = ''ana'', pa_display_name = ''Ana''\<rparr>)"
  by (simp add: resolve_operator_actor_def sample_channel_def sample_operator_input_def sample_identity
      operator_actor_from_identity_def) (simp add: sample_identity_request_def)

lemma sample_reason: "is_valid_reason (trimmed (oi_reason sample_operator_input))"
  by code_simp

lemma sample_breaker: "\<not> fst (assert_closed now (os_breaker sample_channel_state))"
  by (simp add: sample_channel_state_def assert_closed_def get_state_def maybe_half_open_def new_breaker_def Let_def)

lemma sample_ttl [simp]: "ce_ttl_ms sample_channel = 120000"
  by (simp add: sample_channel_def)

lemma sample_hops: "map_opt (parse_cidr (ce_net sample_channel)) (tp_trusted_hops (ce_policy sample_channel)) \<noteq> None"
proof -
  have "map_opt (parse_cidr sample_net) (tp_trusted_hops sample_hop_policy) = Some [(''127.0.0.1'', 32, IPv4)]"
    by code_simp
  then show ?thesis by (simp add: sample_channel_def)
qed

lemma sample_token: "js_trim ''t'' \<noteq> []"
  by code_simp

theorem operator_gets_through_witness:
  "\<exists>g s1 e s2. execute_begin sample_channel (call_context sample_operator_input 0 ''a'' True)
     (pause_input sample_operator_input) sample_channel_state = Inr (g, s1)
     \<and> execute_finish 9 True g (Answered 200 JNull) s1 = (Executed e 200 JNull, s2)"
proof -
  let ?x = "call_context sample_operator_input 0 ''a'' True" and ?y = "call_context sample_operator_input 5 ''b'' True"
  have "cx_accepts ?x" "js_trim (fst (''t'', ''u'')) \<noteq> []" "cx_now ?y < cx_now ?x + ce_ttl_ms sample_channel"
    "(200 :: int) \<le> 200" "(200 :: int) \<le> 299" using sample_token by (simp_all add: call_context_def)
  from conjunct1 [OF operator_gets_through [OF sample_operator_actor sample_reason sample_breaker this,
      where later = 9 and body = JNull]]
  show ?thesis by (elim exE conjE) (intro exI conjI)
qed

lemma sample_run:
  "\<exists>r x i g gs s. operator_run sample_channel
      [L_Request (call_context sample_operator_input 0 ''a'' True) (resume_input sample_operator_input) (''t'', ''u'') r,
       L_Sent x i g] gs s \<and> pd_action (pg_prepared g) = Resume_Dispatch"
proof -
  let ?x = "call_context sample_operator_input 0 ''a'' True" and ?y = "call_context sample_operator_input 5 ''b'' True"
  let ?i = "resume_input sample_operator_input"
  let ?j = "resume_input (sample_operator_input\<lparr>oi_confirmation_token := Some ''t''\<rparr>)"
  have same: "call_context ?i now fresh accepts = call_context sample_operator_input now fresh accepts"
    "call_context ?j now fresh accepts = call_context sample_operator_input now fresh accepts" for now fresh accepts
    by (simp_all add: call_context_def client_reference_of_def resume_input_def)
  from resume_goes [OF sample_operator_actor sample_reason sample_breaker, of ?x "(''t'', ''u'')" ?y] sample_token
  obtain e c s1 g s2 where r: "request_confirmation sample_channel ?x ?i (''t'', ''u'') sample_channel_state = (Challenged e c, s1)"
    and b: "execute_begin sample_channel ?y ?j s1 = Inr (g, s2)" and a: "pd_action (pg_prepared g) = Resume_Dispatch"
    by (auto simp: call_context_def)
  have "operator_run sample_channel [] [] sample_channel_state"
    unfolding sample_channel_state_def by (rule run_start)
  from run_request [OF this _ r, of 0 "''a''" True]
  have "operator_run sample_channel [L_Request ?x ?i (''t'', ''u'') (Challenged e c)] [] s1" by (simp add: same)
  from run_sent [OF this _ b, of 5 "''b''" True]
  have "operator_run sample_channel [L_Request ?x ?i (''t'', ''u'') (Challenged e c), L_Sent ?y ?j g] [g] s2"
    by (simp add: same)
  with a show ?thesis by blast
qed

theorem release_was_confirmed_witness:
  "\<exists>r x i g gs s. operator_run sample_channel
      ([L_Request (call_context sample_operator_input 0 ''a'' True) (resume_input sample_operator_input) (''t'', ''u'') r]
       @ [L_Sent x i g]) gs s \<and> oi_confirmation_token i = Some ''t'' \<and> cx_now x < 120000"
proof -
  from sample_run obtain r x i g gs s where run: "operator_run sample_channel
      ([L_Request (call_context sample_operator_input 0 ''a'' True) (resume_input sample_operator_input) (''t'', ''u'') r]
       @ [L_Sent x i g]) gs s" and a: "pd_action (pg_prepared g) = Resume_Dispatch" by auto
  from release_was_confirmed [OF run a] have "oi_confirmation_token i = Some ''t'' \<and> cx_now x < 120000"
    by (auto simp: Cons_eq_append_conv call_context_def)
  with run show ?thesis by blast
qed

theorem every_call_recorded_witness:
  "\<exists>tr gs s. operator_run sample_channel tr gs s
     \<and> os_hits s = length gs + length (filter posted_entry (os_entries s @ os_wal s)) \<and> length tr = 2"
proof -
  from sample_run obtain r x i g gs s where run: "operator_run sample_channel
      [L_Request (call_context sample_operator_input 0 ''a'' True) (resume_input sample_operator_input) (''t'', ''u'') r,
       L_Sent x i g] gs s" by (elim exE conjE)
  from every_call_recorded [OF run sample_hops] run show ?thesis
    by (intro exI conjI) (assumption, simp, simp)
qed

theorem posts_are_controls_witness:
  "\<exists>r x i g gs s. operator_run sample_channel
      ([L_Request (call_context sample_operator_input 0 ''a'' True) (resume_input sample_operator_input) (''t'', ''u'') r]
       @ L_Sent x i g # []) gs s \<and> resolve_operator_action (oi_action i) = Some (pd_action (pg_prepared g))"
proof -
  from sample_run obtain r x i g gs s where run: "operator_run sample_channel
      ([L_Request (call_context sample_operator_input 0 ''a'' True) (resume_input sample_operator_input) (''t'', ''u'') r]
       @ L_Sent x i g # []) gs s" by auto
  from posts_are_controls [OF run] run show ?thesis by blast
qed

end
