(* ===== verification/Collector_Runner.thy ===== *)
theory Collector_Runner
  imports Work_Order
begin

text \<open>
  \<open>connectors/runner/src\<close>: the envelope of a collection and the run over all collectors (\<open>run.ts\<close>), how one
  envelope is stored (\<open>persist.ts\<close>), and the scheduler that collects every source again and again
  (\<open>scheduler.ts\<close>). A run of a source is a sequence of steps, one per promise that \<open>scheduler.ts\<close> or \<open>persist.ts\<close>
  awaits: the connection, the advisory lock, the collection or its timeout, the opening of the stored run, the
  observation, each snapshot, the closing of the stored run and the unlocking; the steps of different runs, the
  timers and \<open>stop\<close> interleave. The collect function, the database and the random jitter are arguments. Log lines
  are not modelled.
\<close>

section \<open>Envelopes\<close>

datatype collector_name = Github | Warmbly | Asaas | Pncp | Infra

definition collector_names :: "collector_name list" where
  "collector_names = [Github, Warmbly, Asaas, Pncp, Infra]"

record collector_envelope =
  en_collector :: collector_name
  en_freshness :: freshness_status
  en_observed_at :: int
  en_confidence :: rat
  en_error :: "(string \<times> string) option"
  en_payload :: json

text \<open>\<open>canonical\<close>: the four contract values, the vocabularies of the connectors, and \<open>ERROR\<close> for anything else\<close>

definition canonical :: "string \<Rightarrow> freshness_status" where
  "canonical status =
     (case map_of [(''FRESH'', FRESH), (''STALE'', STALE), (''UNKNOWN'', UNKNOWN), (''ERROR'', ERROR)] status of
        Some f \<Rightarrow> f
      | None \<Rightarrow>
          if status = ''failed'' \<or> status = ''degraded'' \<or> status = ''unsupported''
          then (if status = ''unsupported'' then UNKNOWN else if status = ''degraded'' then STALE else ERROR)
          else if status = ''fresh'' \<or> status = ''not_modified'' then FRESH
          else if status = ''stale'' then STALE
          else if status = ''unknown'' then UNKNOWN
          else ERROR)"

definition envelope ::
  "collector_name \<Rightarrow> freshness_status \<Rightarrow> int \<Rightarrow> json \<Rightarrow> (string \<times> string) option \<Rightarrow> collector_envelope" where
  "envelope c f now payload err =
     \<lparr>en_collector = c, en_freshness = f, en_observed_at = now,
      en_confidence = (if f = FRESH then 9/10 else if f = STALE then 1/2 else 0),
      en_error = err, en_payload = payload\<rparr>"

definition failed_payload :: json where
  "failed_payload = JObj [(''ok'', JBool False)]"

definition timeout_envelope :: "collector_name \<Rightarrow> int \<Rightarrow> collector_envelope" where
  "timeout_envelope c now =
     \<lparr>en_collector = c, en_freshness = ERROR, en_observed_at = now, en_confidence = 0,
      en_error = Some (''timeout'', ''collector timed out''), en_payload = failed_payload\<rparr>"

text \<open>
  \<open>runCollectors\<close>, one collector after the other. \<open>collect\<close> answers with an envelope or rejects, which ends
  the run; \<open>aborted\<close> tells whether the signal is aborted when a collector's turn comes.
\<close>

fun run_collectors :: "(collector_name \<Rightarrow> collector_envelope option) \<Rightarrow> (collector_name \<Rightarrow> bool) \<Rightarrow> int
    \<Rightarrow> collector_name list \<Rightarrow> collector_envelope list option" where
  "run_collectors collect aborted now [] = Some []"
| "run_collectors collect aborted now (c # cs) =
     (if aborted c
      then map_option (\<lambda>es. envelope c ERROR now failed_payload (Some (''timeout'', ''collector timed out'')) # es)
             (run_collectors collect aborted now cs)
      else case collect c of
        None \<Rightarrow> None
      | Some e \<Rightarrow> map_option (\<lambda>es. e # es) (run_collectors collect aborted now cs))"

section \<open>Storing one envelope\<close>

datatype run_status = RS_Done | RS_Partial | RS_Failed | RS_Unknown

record stored_run =
  sd_status :: run_status
  sd_error_code :: "string option"
  sd_projected :: nat

definition scope_for :: "collector_name \<Rightarrow> string" where
  "scope_for c =
     (if c = Asaas then ''finance'' else if c = Warmbly then ''commercial'' else if c = Pncp then ''inbound''
      else if c = Infra then ''infrastructure'' else ''company'')"

text \<open>
  \<open>persistSourceResult\<close>: which of the database calls succeed is given; \<open>snapshots\<close> has one flag per
  projection of the envelope, or is \<open>None\<close> when projecting it throws. The answer \<open>None\<close>: opening the run,
  projecting the envelope or finishing the run rejects.
\<close>

definition persist_source_result ::
  "bool \<Rightarrow> bool \<Rightarrow> bool list option \<Rightarrow> bool \<Rightarrow> collector_envelope \<Rightarrow> stored_run option" where
  "persist_source_result opened observed snapshots finished e =
     (if \<not> opened then None
      else case snapshots of
        None \<Rightarrow> None
      | Some flags \<Rightarrow>
          let observation_failed = \<not> observed; snapshot_failed = list_ex (\<lambda>ok. \<not> ok) flags;
              collect_failed = en_error e \<noteq> None;
              status = (if collect_failed then (if en_freshness e = UNKNOWN then RS_Unknown else RS_Failed)
                        else if observation_failed \<or> snapshot_failed then RS_Partial else RS_Done);
              code = (case en_error e of
                        Some (code, _) \<Rightarrow> Some code
                      | None \<Rightarrow> if observation_failed \<or> snapshot_failed then Some ''persist_partial'' else None)
          in if \<not> finished then None
             else Some \<lparr>sd_status = status, sd_error_code = code, sd_projected = length (filter id flags)\<rparr>)"

section \<open>Schedule\<close>

record source_schedule =
  ss_interval_ms :: int
  ss_jitter_ms :: int
  ss_timeout_ms :: int
  ss_run_on_start :: bool

type_synonym scheduler_config = "collector_name \<Rightarrow> source_schedule"

text \<open>\<open>Number.parseInt(s, 10)\<close>; exact, where the runtime rounds beyond \<open>2^53\<close>\<close>

definition js_parse_int :: "string \<Rightarrow> int option" where
  "js_parse_int s =
     (let t = dropWhile js_space s;
          neg = starts_with t ''-'';
          u = (if neg \<or> starts_with t ''+'' then tl t else t);
          ds = takeWhile is_digit u;
          n = foldl (\<lambda>n c. 10 * n + (of_char c - 48)) 0 ds
      in if ds = [] then None else Some (if neg then - n else n))"

definition read_int :: "(int \<Rightarrow> bool) \<Rightarrow> string option \<Rightarrow> int \<Rightarrow> int" where
  "read_int ok raw fallback =
     (case raw of
        None \<Rightarrow> fallback
      | Some s \<Rightarrow>
          if js_trim s = [] then fallback
          else case js_parse_int s of Some n \<Rightarrow> if ok n then n else fallback | None \<Rightarrow> fallback)"

definition read_positive_int :: "string option \<Rightarrow> int \<Rightarrow> int" where
  "read_positive_int = read_int (\<lambda>n. n > 0)"

definition read_non_negative_int :: "string option \<Rightarrow> int \<Rightarrow> int" where
  "read_non_negative_int = read_int (\<lambda>n. n \<ge> 0)"

fun collector_env_name :: "collector_name \<Rightarrow> string" where
  "collector_env_name Github = ''GITHUB''"
| "collector_env_name Warmbly = ''WARMBLY''"
| "collector_env_name Asaas = ''ASAAS''"
| "collector_env_name Pncp = ''PNCP''"
| "collector_env_name Infra = ''INFRA''"

definition schedule_from_env :: "(string \<Rightarrow> string option) \<Rightarrow> scheduler_config" where
  "schedule_from_env env c =
     (let prefix = ''CC_COLLECTOR_'' @ collector_env_name c @ ''_''
      in \<lparr>ss_interval_ms = read_positive_int (env (prefix @ ''INTERVAL_MS''))
             (read_positive_int (env ''CC_COLLECTOR_INTERVAL_MS'') 300000),
          ss_jitter_ms = read_non_negative_int (env (prefix @ ''JITTER_MS''))
             (read_non_negative_int (env ''CC_COLLECTOR_JITTER_MS'') 15000),
          ss_timeout_ms = read_positive_int (env (prefix @ ''TIMEOUT_MS''))
             (read_positive_int (env ''CC_COLLECTOR_TIMEOUT_MS'') 60000),
          ss_run_on_start =
            (if env (prefix @ ''RUN_ON_START'') = Some ''0'' then False
             else if env (prefix @ ''RUN_ON_START'') = Some ''1'' then True
             else env ''CC_COLLECTOR_RUN_ON_START'' \<noteq> Some ''0'')\<rparr>)"

text \<open>\<open>r\<close> is the random integer between 0 and the jitter.\<close>

definition next_delay :: "scheduler_config \<Rightarrow> collector_name \<Rightarrow> int \<Rightarrow> int" where
  "next_delay C c r = ss_interval_ms (C c) + (if ss_jitter_ms (C c) > 0 then r else 0)"

section \<open>One run\<close>

datatype run_outcome = Ran | Skipped | Rejected

text \<open>
  The promise a run awaits. While an envelope is stored: whether the observation was, the snapshots still to
  be stored, and for each one before whether it was.
\<close>

datatype run_phase =
    Connecting | Locking | Collecting int | Timed_Out int
  | Opening collector_envelope | Observing collector_envelope
  | Snapshotting collector_envelope bool nat "bool list" | Finishing collector_envelope bool "bool list"
  | Unlocking run_outcome | Settled run_outcome

record source_run =
  sn_id :: nat
  sn_name :: collector_name
  sn_from_timer :: bool
  sn_phase :: run_phase

text \<open>
  What a thrown value contributes to the error message: \<open>raced.error\<close> is only looked at when it is truthy.
\<close>

datatype thrown_value = Falsy | An_Error string | Not_An_Error

datatype collect_outcome = Fulfilled "collector_envelope option" | Rejects thrown_value

datatype run_event =
    Connect_Answer bool
  | Lock_Answer "bool option"
  | Collect_Starts bool int
  | Collect_Answer collect_outcome
  | Time_Out
  | Open_Answer bool
  | Observe_Answer bool "nat option"
  | Snapshot_Answer bool
  | Finish_Answer bool
  | Unlock_Answer bool

definition collect_failed_envelope :: "collector_name \<Rightarrow> int \<Rightarrow> string \<Rightarrow> collector_envelope" where
  "collect_failed_envelope c now message =
     \<lparr>en_collector = c, en_freshness = ERROR, en_observed_at = now, en_confidence = 0,
      en_error = Some (''collect_failed'', message), en_payload = failed_payload\<rparr>"

text \<open>\<open>collectWithTimeout\<close> once the race is decided for the collection\<close>

fun raced_envelope :: "collector_name \<Rightarrow> int \<Rightarrow> collect_outcome \<Rightarrow> collector_envelope" where
  "raced_envelope c now (Rejects (An_Error m)) = collect_failed_envelope c now m"
| "raced_envelope c now (Rejects Not_An_Error) = collect_failed_envelope c now ''collect failed''"
| "raced_envelope c now (Rejects Falsy) = timeout_envelope c now"
| "raced_envelope c now (Fulfilled v) = or_else v (timeout_envelope c now)"

text \<open>
  \<open>runSourceLocked\<close> with the calls of \<open>persistSourceResult\<close>. The collection starts in the same turn in which the
  lock is granted; if starting it throws, the lock is given back. After a timeout the run still waits for the
  collection. The envelope is projected in the turn in which the observation is answered, into the given number
  of snapshots, or projecting throws (\<open>None\<close>); a refused observation or snapshot is only noted.
\<close>

fun phase_step :: "collector_name \<Rightarrow> run_event \<Rightarrow> run_phase \<Rightarrow> run_phase option" where
  "phase_step c ev Connecting =
     (case ev of Connect_Answer ok \<Rightarrow> Some (if ok then Locking else Settled Rejected) | _ \<Rightarrow> None)"
| "phase_step c ev Locking =
     (case ev of
        Lock_Answer None \<Rightarrow> Some (Settled Rejected)
      | Lock_Answer (Some granted) \<Rightarrow> if granted then None else Some (Settled Skipped)
      | Collect_Starts ok now \<Rightarrow> Some (if ok then Collecting now else Unlocking Rejected)
      | _ \<Rightarrow> None)"
| "phase_step c ev (Collecting now) =
     (case ev of
        Collect_Answer out \<Rightarrow> Some (Opening (raced_envelope c now out))
      | Time_Out \<Rightarrow> Some (Timed_Out now)
      | _ \<Rightarrow> None)"
| "phase_step c ev (Timed_Out now) =
     (case ev of Collect_Answer out \<Rightarrow> Some (Opening (timeout_envelope c now)) | _ \<Rightarrow> None)"
| "phase_step c ev (Opening e) =
     (case ev of Open_Answer ok \<Rightarrow> Some (if ok then Observing e else Unlocking Rejected) | _ \<Rightarrow> None)"
| "phase_step c ev (Observing e) =
     (case ev of
        Observe_Answer ok projected \<Rightarrow>
          Some (case projected of
                  None \<Rightarrow> Unlocking Rejected
                | Some n \<Rightarrow> if n = 0 then Finishing e ok [] else Snapshotting e ok n [])
      | _ \<Rightarrow> None)"
| "phase_step c ev (Snapshotting e ok n flags) =
     (case ev of
        Snapshot_Answer stored \<Rightarrow>
          Some (if n \<le> 1 then Finishing e ok (flags @ [stored]) else Snapshotting e ok (n - 1) (flags @ [stored]))
      | _ \<Rightarrow> None)"
| "phase_step c ev (Finishing e ok flags) =
     (case ev of
        Finish_Answer finished \<Rightarrow>
          Some (Unlocking (if persist_source_result True ok (Some flags) finished e = None then Rejected else Ran))
      | _ \<Rightarrow> None)"
| "phase_step c ev (Unlocking out) =
     (case ev of Unlock_Answer ok \<Rightarrow> Some (Settled (if ok then out else Rejected)) | _ \<Rightarrow> None)"
| "phase_step c ev (Settled out) = None"

text \<open>The advisory lock is held from its grant to the answer of the unlocking.\<close>

fun holds_lock :: "run_phase \<Rightarrow> bool" where
  "holds_lock (Collecting _) = True"
| "holds_lock (Timed_Out _) = True"
| "holds_lock (Opening _) = True"
| "holds_lock (Observing _) = True"
| "holds_lock (Snapshotting _ _ _ _) = True"
| "holds_lock (Finishing _ _ _) = True"
| "holds_lock (Unlocking _) = True"
| "holds_lock _ = False"

section \<open>The scheduler\<close>

text \<open>
  \<open>sc_pending\<close> are the callbacks the event loop still has to run, \<open>sc_timers\<close> the map that \<open>stop\<close> clears,
  \<open>sc_stops\<close> the waiting \<open>stop\<close> calls with the runs each still waits for, \<open>sc_answers\<close> whether a \<open>stop\<close>
  call returned or rejected.
\<close>

record scheduler =
  sc_initialized :: bool
  sc_stopping :: bool
  sc_pending :: "(nat \<times> collector_name \<times> int) list"
  sc_timers :: "collector_name \<Rightarrow> nat option"
  sc_runs :: "source_run list"
  sc_stops :: "nat list list"
  sc_answers :: "bool list"
  sc_next :: nat

definition new_scheduler :: scheduler where
  "new_scheduler =
     \<lparr>sc_initialized = False, sc_stopping = False, sc_pending = [], sc_timers = (\<lambda>_. None), sc_runs = [],
      sc_stops = [], sc_answers = [], sc_next = 0\<rparr>"

definition arm :: "collector_name \<Rightarrow> int \<Rightarrow> scheduler \<Rightarrow> scheduler" where
  "arm c delay s =
     (if sc_stopping s then s
      else s\<lparr>sc_pending := sc_pending s @ [(sc_next s, c, delay)], sc_timers := (sc_timers s)(c := Some (sc_next s)),
             sc_next := sc_next s + 1\<rparr>)"

text \<open>\<open>start\<close> after its query was answered\<close>

definition start_scheduler ::
  "scheduler_config \<Rightarrow> (collector_name \<Rightarrow> int) \<Rightarrow> collector_name list \<Rightarrow> scheduler \<Rightarrow> scheduler" where
  "start_scheduler C rnd names s =
     (if sc_stopping s then s
      else foldl (\<lambda>t c. arm c (if ss_run_on_start (C c) then 0 else next_delay C c (rnd c)) t)
             (s\<lparr>sc_initialized := True\<rparr>) names)"

text \<open>\<open>runSource\<close>: the new state, and whether the answer is \<open>stopped\<close>\<close>

definition run_source :: "bool \<Rightarrow> collector_name \<Rightarrow> scheduler \<Rightarrow> bool \<times> scheduler" where
  "run_source from_timer c s =
     (if sc_stopping s \<or> \<not> sc_initialized s then (True, s)
      else (False, s\<lparr>sc_runs := sc_runs s @ [\<lparr>sn_id = sc_next s, sn_name = c, sn_from_timer = from_timer,
                                              sn_phase = Connecting\<rparr>],
                     sc_next := sc_next s + 1\<rparr>))"

definition fire_timer ::
  "scheduler_config \<Rightarrow> nat \<Rightarrow> (collector_name \<Rightarrow> int) \<Rightarrow> scheduler \<Rightarrow> scheduler option" where
  "fire_timer C t rnd s =
     (case map_of (sc_pending s) t of
        None \<Rightarrow> None
      | Some (c, _) \<Rightarrow>
          (case run_source True c (s\<lparr>sc_pending := filter (\<lambda>p. fst p \<noteq> t) (sc_pending s)\<rparr>) of
             (stopped, s') \<Rightarrow> Some (if stopped then arm c (next_delay C c (rnd c)) s' else s')))"

definition step_run :: "nat \<Rightarrow> run_event \<Rightarrow> scheduler \<Rightarrow> scheduler option" where
  "step_run i ev s =
     (case List.find (\<lambda>r. sn_id r = i) (sc_runs s) of
        None \<Rightarrow> None
      | Some r \<Rightarrow>
          map_option (\<lambda>p. s\<lparr>sc_runs := update_first (\<lambda>r. sn_id r = i) (\<lambda>r. r\<lparr>sn_phase := p\<rparr>) (sc_runs s)\<rparr>)
            (phase_step (sn_name r) ev (sn_phase r)))"

text \<open>
  \<open>Promise.all\<close> over the runs in flight: the first rejection rejects it, the last fulfilment fulfils it. Then
  \<open>stop\<close> sets \<open>initialized\<close> and returns; on a rejection it does not.
\<close>

definition settle_stops :: "nat \<Rightarrow> run_outcome \<Rightarrow> scheduler \<Rightarrow> scheduler" where
  "settle_stops i out s =
     (let hit = filter (\<lambda>w. i \<in> set w) (sc_stops s); rest = filter (\<lambda>w. i \<notin> set w) (sc_stops s) in
      if out = Rejected
      then s\<lparr>sc_stops := rest, sc_answers := sc_answers s @ map (\<lambda>_. False) hit\<rparr>
      else let left = map (filter (\<lambda>j. j \<noteq> i)) hit; finished = filter (\<lambda>w. w = []) left
           in s\<lparr>sc_stops := rest @ filter (\<lambda>w. w \<noteq> []) left,
                sc_answers := sc_answers s @ map (\<lambda>_. True) finished,
                sc_initialized := (sc_initialized s \<and> finished = [])\<rparr>)"

definition settle_run ::
  "scheduler_config \<Rightarrow> nat \<Rightarrow> (collector_name \<Rightarrow> int) \<Rightarrow> scheduler \<Rightarrow> scheduler option" where
  "settle_run C i rnd s =
     (case List.find (\<lambda>r. sn_id r = i) (sc_runs s) of
        None \<Rightarrow> None
      | Some r \<Rightarrow>
          (case sn_phase r of
             Settled out \<Rightarrow>
               (let s1 = settle_stops i out (s\<lparr>sc_runs := filter (\<lambda>r. sn_id r \<noteq> i) (sc_runs s)\<rparr>)
                in Some (if sn_from_timer r then arm (sn_name r) (next_delay C (sn_name r) (rnd (sn_name r))) s1 else s1))
           | _ \<Rightarrow> None))"

definition stop_scheduler :: "scheduler \<Rightarrow> scheduler" where
  "stop_scheduler s =
     (let s1 = s\<lparr>sc_stopping := True,
                 sc_pending := filter (\<lambda>(t, c, _). sc_timers s c \<noteq> Some t) (sc_pending s), sc_timers := (\<lambda>_. None)\<rparr>
      in if sc_runs s = [] then s1\<lparr>sc_initialized := False, sc_answers := sc_answers s @ [True]\<rparr>
         else s1\<lparr>sc_stops := sc_stops s @ [map sn_id (sc_runs s)]\<rparr>)"

section \<open>Executions\<close>

datatype scheduler_event =
    Fire nat "collector_name \<Rightarrow> int" | Call collector_name | Step nat run_event
  | Settle nat "collector_name \<Rightarrow> int" | Stop

definition scheduler_step :: "scheduler_config \<Rightarrow> scheduler_event \<Rightarrow> scheduler \<Rightarrow> scheduler option" where
  "scheduler_step C ev s =
     (case ev of
        Fire t rnd \<Rightarrow> fire_timer C t rnd s
      | Call c \<Rightarrow> Some (snd (run_source False c s))
      | Step i e \<Rightarrow> step_run i e s
      | Settle i rnd \<Rightarrow> settle_run C i rnd s
      | Stop \<Rightarrow> Some (stop_scheduler s))"

text \<open>
  The database grants the lock of a source to one session at a time: another session that holds it makes
  the answer \<open>False\<close>. Sessions of other processes may hold it too, so a refusal is always possible.
\<close>

definition lock_free :: "nat \<Rightarrow> scheduler \<Rightarrow> bool" where
  "lock_free i s \<longleftrightarrow>
     (case List.find (\<lambda>r. sn_id r = i) (sc_runs s) of
        None \<Rightarrow> True
      | Some r \<Rightarrow> list_all (\<lambda>q. sn_name q = sn_name r \<and> holds_lock (sn_phase q) \<longrightarrow> sn_id q = i) (sc_runs s))"

definition random_within :: "scheduler_config \<Rightarrow> (collector_name \<Rightarrow> int) \<Rightarrow> bool" where
  "random_within C rnd \<longleftrightarrow> list_all (\<lambda>c. 0 \<le> rnd c \<and> rnd c \<le> max 0 (ss_jitter_ms (C c))) collector_names"

definition environment_ok :: "scheduler_config \<Rightarrow> scheduler_event \<Rightarrow> scheduler \<Rightarrow> bool" where
  "environment_ok C ev s \<longleftrightarrow>
     (case ev of
        Step i (Collect_Starts ok now) \<Rightarrow> lock_free i s
      | Fire t rnd \<Rightarrow> random_within C rnd
      | Settle i rnd \<Rightarrow> random_within C rnd
      | _ \<Rightarrow> True)"

text \<open>The scheduler of a process is started once; it may be stopped before and after.\<close>

inductive scheduler_reaches :: "scheduler_config \<Rightarrow> collector_name list \<Rightarrow> bool \<Rightarrow> scheduler \<Rightarrow> bool"
  for C :: scheduler_config and names :: "collector_name list" where
  reach_new: "scheduler_reaches C names False new_scheduler"
| reach_start: "scheduler_reaches C names False s \<Longrightarrow> random_within C rnd
    \<Longrightarrow> scheduler_reaches C names True (start_scheduler C rnd names s)"
| reach_step: "scheduler_reaches C names b s \<Longrightarrow> environment_ok C ev s \<Longrightarrow> scheduler_step C ev s = Some s'
    \<Longrightarrow> scheduler_reaches C names b s'"

end
