(* ===== verification/Collector_Laws.thy ===== *)
theory Collector_Laws
  imports Collector_Runner
begin

text \<open>
  The scheduler, proved: no source falls out of the schedule or enters it twice, no two runs of a source
  overlap between the grant of its lock and the unlocking, a run ends and gives its lock back, and what
  a returned \<open>stop\<close> guarantees.
\<close>

section \<open>Runs end\<close>

text \<open>
  The answers a phase still waits for at most; before the observation is answered the number of snapshots is
  not known, and the answers to them are not counted.
\<close>

fun phase_rank :: "run_phase \<Rightarrow> nat" where
  "phase_rank Connecting = 8"
| "phase_rank Locking = 7"
| "phase_rank (Collecting _) = 6"
| "phase_rank (Timed_Out _) = 5"
| "phase_rank (Opening _) = 4"
| "phase_rank (Observing _) = 3"
| "phase_rank (Snapshotting _ _ n _) = 2 + max 1 n"
| "phase_rank (Finishing _ _ _) = 2"
| "phase_rank (Unlocking _) = 1"
| "phase_rank (Settled _) = 0"

fun snapshots_of :: "run_event \<Rightarrow> nat" where
  "snapshots_of (Observe_Answer ok (Some n)) = n"
| "snapshots_of _ = 0"

fun phase_run :: "collector_name \<Rightarrow> run_event list \<Rightarrow> run_phase \<Rightarrow> run_phase option" where
  "phase_run c [] p = Some p"
| "phase_run c (ev # evs) p = (case phase_step c ev p of None \<Rightarrow> None | Some q \<Rightarrow> phase_run c evs q)"

lemma phase_step_rank: "phase_step c ev p = Some q \<Longrightarrow> phase_rank q < phase_rank p + snapshots_of ev"
  by (cases p) (auto split: if_splits run_event.splits option.splits)

lemma phase_run_rank: "phase_run c evs p = Some q \<Longrightarrow> length evs + phase_rank q \<le> phase_rank p + sum_list (map snapshots_of evs)"
proof (induction evs arbitrary: p)
  case (Cons ev evs)
  from Cons.prems obtain p' where p': "phase_step c ev p = Some p'" "phase_run c evs p' = Some q"
    by (auto split: option.splits)
  from phase_step_rank [OF p'(1)] Cons.IH [OF p'(2)] show ?case by simp
qed simp

lemma phase_run_append: "phase_run c evs p = Some q \<Longrightarrow> phase_run c (evs @ fs) p = phase_run c fs q"
  by (induction evs arbitrary: p) (auto split: option.splits)

lemma phase_run_snoc:
  assumes "phase_run c (evs @ [ev]) p = Some q"
  obtains p' where "phase_run c evs p = Some p'" "phase_step c ev p' = Some q"
  using assms by (induction evs arbitrary: p) (auto split: option.splits)

lemma phase_step_enabled: "phase_rank p \<noteq> 0 \<Longrightarrow> \<exists>ev. phase_step c ev p \<noteq> None"
proof (cases p)
  case Connecting
  then have "phase_step c (Connect_Answer True) p \<noteq> None" by simp
  then show ?thesis ..
next
  case Locking
  then have "phase_step c (Lock_Answer None) p \<noteq> None" by simp
  then show ?thesis ..
next
  case (Collecting t)
  then have "phase_step c Time_Out p \<noteq> None" by simp
  then show ?thesis ..
next
  case (Timed_Out t)
  then have "phase_step c (Collect_Answer (Fulfilled None)) p \<noteq> None" by simp
  then show ?thesis ..
next
  case (Opening e)
  then have "phase_step c (Open_Answer True) p \<noteq> None" by simp
  then show ?thesis ..
next
  case (Observing e)
  then have "phase_step c (Observe_Answer True None) p \<noteq> None" by simp
  then show ?thesis ..
next
  case (Snapshotting e ok n flags)
  then have "phase_step c (Snapshot_Answer True) p \<noteq> None" by simp
  then show ?thesis ..
next
  case (Finishing e ok flags)
  then have "phase_step c (Finish_Answer True) p \<noteq> None" by simp
  then show ?thesis ..
next
  case (Unlocking out)
  then have "phase_step c (Unlock_Answer True) p \<noteq> None" by simp
  then show ?thesis ..
qed simp

text \<open>
  What the answers so far were. The lock was granted when the collection started; a run that has the lock
  does not settle before the unlocking is answered, and \<open>ran\<close> means that the stored run was closed.
\<close>

definition got_lock :: "run_event list \<Rightarrow> bool" where
  "got_lock evs \<longleftrightarrow> (\<exists>ok now. Collect_Starts ok now \<in> set evs)"

definition unlocked_last :: "run_event list \<Rightarrow> bool \<Rightarrow> bool" where
  "unlocked_last evs ok \<longleftrightarrow> evs \<noteq> [] \<and> last evs = Unlock_Answer ok"

fun phase_history :: "run_event list \<Rightarrow> run_phase \<Rightarrow> bool" where
  "phase_history evs Connecting = (evs = [])"
| "phase_history evs Locking = (evs = [Connect_Answer True])"
| "phase_history evs (Unlocking out) =
     (got_lock evs \<and> out \<noteq> Skipped \<and> (out = Ran \<longrightarrow> Open_Answer True \<in> set evs \<and> Finish_Answer True \<in> set evs))"
| "phase_history evs (Settled out) =
     ((got_lock evs \<longrightarrow> unlocked_last evs True \<or> unlocked_last evs False)
      \<and> (out = Ran \<longrightarrow> got_lock evs \<and> unlocked_last evs True \<and> Open_Answer True \<in> set evs \<and> Finish_Answer True \<in> set evs)
      \<and> (out = Skipped \<longrightarrow> evs = [Connect_Answer True, Lock_Answer (Some False)]))"
| "phase_history evs (Collecting _) = got_lock evs"
| "phase_history evs (Timed_Out _) = got_lock evs"
| "phase_history evs (Opening _) = got_lock evs"
| "phase_history evs (Observing _) = (got_lock evs \<and> Open_Answer True \<in> set evs)"
| "phase_history evs (Snapshotting _ _ _ _) = (got_lock evs \<and> Open_Answer True \<in> set evs)"
| "phase_history evs (Finishing _ _ _) = (got_lock evs \<and> Open_Answer True \<in> set evs)"

lemma got_lock_simps [simp]:
  "\<not> got_lock []" "got_lock (ev # evs) \<longleftrightarrow> (\<exists>ok now. ev = Collect_Starts ok now) \<or> got_lock evs"
  "got_lock (evs @ fs) \<longleftrightarrow> got_lock evs \<or> got_lock fs"
  by (auto simp: got_lock_def)

lemma stored_iff_finished: "persist_source_result True ok (Some flags) finished e = None \<longleftrightarrow> \<not> finished"
  by (simp add: persist_source_result_def Let_def)

lemma phase_history_step: "phase_step c ev p = Some q \<Longrightarrow> phase_history evs p \<Longrightarrow> phase_history (evs @ [ev]) q"
  by (cases p)
     (auto simp: unlocked_last_def stored_iff_finished split: if_splits run_event.splits option.splits)

lemma phase_history_run: "phase_run c evs Connecting = Some p \<Longrightarrow> phase_history evs p"
proof (induction evs arbitrary: p rule: rev_induct)
  case (snoc ev evs)
  from snoc.prems show ?case by (rule phase_run_snoc) (rule phase_history_step, assumption, rule snoc.IH)
qed simp

section \<open>The invariant\<close>

text \<open>The timers and the runs started by a timer that keep a source in the schedule.\<close>

definition scheduled :: "collector_name \<Rightarrow> scheduler \<Rightarrow> nat" where
  "scheduled c s =
     length (filter (\<lambda>p. fst (snd p) = c) (sc_pending s))
     + length (filter (\<lambda>r. sn_name r = c \<and> sn_from_timer r) (sc_runs s))"

definition delay_ok :: "scheduler_config \<Rightarrow> collector_name \<Rightarrow> int \<Rightarrow> bool" where
  "delay_ok C c d \<longleftrightarrow>
     d = 0 \<and> ss_run_on_start (C c) \<or> ss_interval_ms (C c) \<le> d \<and> d \<le> ss_interval_ms (C c) + max 0 (ss_jitter_ms (C c))"

definition exclusive :: "source_run list \<Rightarrow> bool" where
  "exclusive rs \<longleftrightarrow>
     (\<forall>r \<in> set rs. \<forall>q \<in> set rs. sn_name r = sn_name q \<longrightarrow> holds_lock (sn_phase r) \<longrightarrow> holds_lock (sn_phase q) \<longrightarrow> r = q)"

definition scheduler_inv ::
  "scheduler_config \<Rightarrow> (collector_name \<Rightarrow> nat) \<Rightarrow> bool \<Rightarrow> scheduler \<Rightarrow> bool" where
  "scheduler_inv C k b s \<longleftrightarrow>
     distinct (map fst (sc_pending s)) \<and> (\<forall>p \<in> set (sc_pending s). fst p < sc_next s)
     \<and> distinct (map sn_id (sc_runs s)) \<and> (\<forall>r \<in> set (sc_runs s). sn_id r < sc_next s)
     \<and> (\<forall>(t, c, d) \<in> set (sc_pending s). sc_timers s c = Some t \<and> delay_ok C c d)
     \<and> exclusive (sc_runs s)
     \<and> (if sc_stopping s then sc_pending s = [] \<and> (\<forall>w \<in> set (sc_stops s). sn_id ` set (sc_runs s) \<subseteq> set w)
        else sc_initialized s = b \<and> sc_stops s = [] \<and> sc_answers s = [] \<and> (\<forall>c. scheduled c s = k c))
     \<and> (True \<in> set (sc_answers s) \<longrightarrow> sc_stopping s \<and> sc_runs s = [] \<and> \<not> sc_initialized s)"

lemma inv_stopping_pending: "scheduler_inv C k b s \<Longrightarrow> sc_stopping s \<Longrightarrow> sc_pending s = []"
  by (simp add: scheduler_inv_def)

lemma inv_stopping: "scheduler_inv C k b s \<Longrightarrow> sc_stopping s \<Longrightarrow> scheduler_inv C k' b s"
  by (simp add: scheduler_inv_def)

lemma next_delay_ok: "random_within C rnd \<Longrightarrow> delay_ok C c (next_delay C c (rnd c))"
  by (cases c) (auto simp: random_within_def collector_names_def delay_ok_def next_delay_def)

lemma scheduled_zero:
  "scheduled c s = 0 \<Longrightarrow> p \<in> set (sc_pending s) \<Longrightarrow> fst (snd p) \<noteq> c"
  by (auto simp: scheduled_def filter_empty_conv)

lemma arm_inv:
  assumes "scheduler_inv C k b s" "k c = 0" "delay_ok C c d"
  shows "scheduler_inv C (k(c := 1)) b (arm c d s)"
proof (cases "sc_stopping s")
  case True
  with assms(1) show ?thesis by (simp add: scheduler_inv_def arm_def)
next
  case False
  note inv = assms(1) [unfolded scheduler_inv_def]
  from inv False assms(2) have "scheduled c s = 0" by simp
  then have other: "\<And>p. p \<in> set (sc_pending s) \<Longrightarrow> fst (snd p) \<noteq> c" by (rule scheduled_zero)
  have "scheduled c' (arm c d s) = (k(c := 1)) c'" for c'
    using inv False assms(2) by (auto simp: arm_def scheduled_def)
  with inv False other assms(3) show ?thesis
    by (fastforce simp: scheduler_inv_def arm_def less_Suc_eq)
qed

lemma arm_all_inv:
  assumes "scheduler_inv C k b s" "distinct names" "\<And>c. c \<in> set names \<Longrightarrow> k c = 0" "\<And>c. delay_ok C c (d c)"
  shows "scheduler_inv C (\<lambda>c. if c \<in> set names then 1 else k c) b (foldl (\<lambda>t c. arm c (d c) t) s names)"
  using assms(1-3)
proof (induction names arbitrary: s k)
  case (Cons n names)
  have step: "scheduler_inv C (k(n := 1)) b (arm n (d n) s)"
    using Cons.prems assms(4) by (intro arm_inv) simp_all
  have zero: "c \<in> set names \<Longrightarrow> (k(n := 1)) c = 0" for c using Cons.prems(2,3) by auto
  have "scheduler_inv C (\<lambda>c. if c \<in> set names then 1 else (k(n := 1)) c) b
      (foldl (\<lambda>t c. arm c (d c) t) (arm n (d n) s) names)"
    using Cons.IH [OF step _ zero] Cons.prems(2) by simp
  moreover have "(\<lambda>c. if c \<in> set names then 1 else (k(n := 1)) c) = (\<lambda>c. if c \<in> set (n # names) then 1 else k c)"
    by (rule ext) simp
  ultimately show ?case by simp
qed simp

definition in_names :: "collector_name list \<Rightarrow> collector_name \<Rightarrow> nat" where
  "in_names names c = (if c \<in> set names then 1 else 0)"

lemma start_inv:
  assumes "scheduler_inv C (\<lambda>_. 0) False s" "distinct names" "random_within C rnd"
  shows "scheduler_inv C (in_names names) True (start_scheduler C rnd names s)"
proof (cases "sc_stopping s")
  case True
  with assms(1) show ?thesis by (simp add: scheduler_inv_def start_scheduler_def)
next
  case False
  let ?d = "\<lambda>c. if ss_run_on_start (C c) then 0 else next_delay C c (rnd c)"
  have d: "delay_ok C c (?d c)" for c
    using next_delay_ok [OF assms(3), of c] by (auto simp: delay_ok_def)
  have "scheduler_inv C (\<lambda>_. 0) True (s\<lparr>sc_initialized := True\<rparr>)"
    using assms(1) False by (simp add: scheduler_inv_def scheduled_def)
  from arm_all_inv [OF this assms(2) _ d] False show ?thesis
    by (simp add: start_scheduler_def in_names_def [abs_def])
qed

text \<open>A new run enters; it holds no lock.\<close>

definition fresh_run :: "bool \<Rightarrow> collector_name \<Rightarrow> scheduler \<Rightarrow> source_run" where
  "fresh_run from_timer c s = \<lparr>sn_id = sc_next s, sn_name = c, sn_from_timer = from_timer, sn_phase = Connecting\<rparr>"

lemma run_source_inv:
  assumes "scheduler_inv C k b s" "run_source from_timer c s = (stopped, s')"
  shows "scheduler_inv C (if from_timer \<and> \<not> stopped then k(c := Suc (k c)) else k) b s'
    \<and> (stopped \<longrightarrow> s' = s) \<and> (stopped \<longleftrightarrow> sc_stopping s \<or> \<not> sc_initialized s)"
proof (cases "sc_stopping s \<or> \<not> sc_initialized s")
  case True
  with assms show ?thesis by (simp add: run_source_def)
next
  case False
  let ?r = "fresh_run from_timer c s"
  let ?k = "if from_timer then k(c := Suc (k c)) else k"
  from False assms(2) have s': "s' = s\<lparr>sc_runs := sc_runs s @ [?r], sc_next := sc_next s + 1\<rparr>" "\<not> stopped"
    by (auto simp: run_source_def fresh_run_def)
  note inv = assms(1) [unfolded scheduler_inv_def]
  have "scheduled c' s' = ?k c'" for c'
    using inv False by (auto simp: s' scheduled_def fresh_run_def)
  moreover have "exclusive (sc_runs s @ [?r])" using inv by (auto simp: exclusive_def fresh_run_def)
  moreover have "distinct (map sn_id (sc_runs s @ [?r]))" using inv by (auto simp: fresh_run_def)
  moreover have "True \<notin> set (sc_answers s)" using inv False by auto
  moreover have "\<forall>r \<in> set (sc_runs s @ [?r]). sn_id r < sc_next s + 1" using inv by (auto simp: fresh_run_def)
  moreover have "\<forall>p \<in> set (sc_pending s). fst p < sc_next s + 1" using inv by auto
  ultimately have "scheduler_inv C ?k b s'"
    using inv False unfolding scheduler_inv_def s' by simp
  with s'(2) False show ?thesis by simp
qed

lemma fire_inv:
  assumes "scheduler_inv C (in_names names) b s" "fire_timer C t rnd s = Some s'" "b \<or> names = []"
  shows "scheduler_inv C (in_names names) b s'"
proof -
  note inv = assms(1) [unfolded scheduler_inv_def]
  from assms(2) obtain c d where cd: "map_of (sc_pending s) t = Some (c, d)"
    by (auto simp: fire_timer_def split: option.splits prod.splits)
  then have mem: "(t, c, d) \<in> set (sc_pending s)" by (rule map_of_SomeD)
  with inv have run: "\<not> sc_stopping s" by auto
  let ?s = "s\<lparr>sc_pending := filter (\<lambda>p. fst p \<noteq> t) (sc_pending s)\<rparr>"
  have timer: "sc_timers s (fst (snd p)) = Some (fst p)" if "p \<in> set (sc_pending s)" for p
    using inv that by (cases p) auto
  have gone: "filter (\<lambda>p. fst (snd p) = c) (filter (\<lambda>p. fst p \<noteq> t) (sc_pending s)) = []"
    using timer timer [OF mem] by (force simp: filter_empty_conv)
  have kept: "filter (\<lambda>p. fst (snd p) = c') (filter (\<lambda>p. fst p \<noteq> t) (sc_pending s)) =
      filter (\<lambda>p. fst (snd p) = c') (sc_pending s)" if "c' \<noteq> c" for c'
  proof -
    have "fst p \<noteq> t" if "p \<in> set (sc_pending s)" "fst (snd p) = c'" for p
      using that timer mem inv \<open>c' \<noteq> c\<close> by (metis eq_key_imp_eq_value fst_conv prod.collapse snd_conv)
    then show ?thesis unfolding filter_filter by (intro filter_cong) auto
  qed
  have pos: "filter (\<lambda>p. fst (snd p) = c) (sc_pending s) \<noteq> []"
    using mem by (metis (mono_tags, lifting) filter_empty_conv fst_conv snd_conv)
  have total: "scheduled c' s = in_names names c'" for c' using inv run by simp
  from total [of c] pos have one: "in_names names c = 1" "filter (\<lambda>r. sn_name r = c \<and> sn_from_timer r) (sc_runs s) = []"
    by (auto simp: scheduled_def in_names_def neq_Nil_conv split: if_splits)
  with assms(3) inv run have init: "sc_initialized s" by (auto simp: in_names_def)
  have "scheduled c' ?s = ((in_names names)(c := 0)) c'" for c'
    using total [of c'] gone kept [of c'] one(2) by (cases "c' = c") (simp_all add: scheduled_def del: filter_filter)
  moreover have "distinct (map fst (filter (\<lambda>p. fst p \<noteq> t) (sc_pending s)))"
    using inv by (simp add: distinct_map_filter)
  ultimately have "scheduler_inv C ((in_names names)(c := 0)) b ?s"
    using inv run unfolding scheduler_inv_def by simp
  from run_source_inv [OF this, of True c] obtain s1 where s1: "run_source True c ?s = (False, s1)"
    "scheduler_inv C (((in_names names)(c := 0))(c := 1)) b s1"
    using run init by (cases "run_source True c ?s") auto
  have "((in_names names)(c := 0))(c := 1) = in_names names" using one(1) by (auto simp: fun_eq_iff)
  with s1 assms(2) cd show ?thesis by (simp add: fire_timer_def)
qed

lemma step_run_inv:
  assumes "scheduler_inv C k b s" "step_run i ev s = Some s'" "environment_ok C (Step i ev) s"
  shows "scheduler_inv C k b s'"
proof -
  note inv = assms(1) [unfolded scheduler_inv_def]
  from assms(2) obtain r p where r: "List.find (\<lambda>r. sn_id r = i) (sc_runs s) = Some r"
    and p: "phase_step (sn_name r) ev (sn_phase r) = Some p"
    and s': "s' = s\<lparr>sc_runs := update_first (\<lambda>r. sn_id r = i) (\<lambda>r. r\<lparr>sn_phase := p\<rparr>) (sc_runs s)\<rparr>"
    by (auto simp: step_run_def split: option.splits)
  let ?rs = "update_first (\<lambda>r. sn_id r = i) (\<lambda>r. r\<lparr>sn_phase := p\<rparr>) (sc_runs s)"
  have rs: "?rs = map (\<lambda>q. if sn_id q = i then q\<lparr>sn_phase := p\<rparr> else q) (sc_runs s)"
    using inv by (intro update_first_map) simp
  note found = find_Some_in [OF r]
  have ids: "map sn_id ?rs = map sn_id (sc_runs s)" by (intro map_update_first) simp
  have "scheduled c s' = scheduled c s" for c
    unfolding scheduled_def s' by (simp add: rs filter_map o_def)
  moreover have "exclusive ?rs"
  proof -
    have same: "q = r" if "q \<in> set (sc_runs s)" "sn_id q = i" for q
      using inv found that by (auto simp: distinct_map inj_on_def)
    have alone: "q = r" if "holds_lock p" "q \<in> set (sc_runs s)" "sn_name q = sn_name r" "holds_lock (sn_phase q)" for q
    proof (cases "holds_lock (sn_phase r)")
      case True
      with inv found that show ?thesis by (simp add: exclusive_def)
    next
      case False
      with that(1) obtain ok now where "ev = Collect_Starts ok now" using p
        by (cases "sn_phase r") (auto split: if_splits run_event.splits option.splits)
      with assms(3) r have "list_all (\<lambda>q. sn_name q = sn_name r \<and> holds_lock (sn_phase q) \<longrightarrow> sn_id q = i) (sc_runs s)"
        by (simp add: environment_ok_def lock_free_def)
      with that have "sn_id q = i" by (simp add: list_all_iff)
      with same that(2) show ?thesis by simp
    qed
    have origin: "q \<in> set (sc_runs s) \<and> sn_id q \<noteq> i \<or> q = r\<lparr>sn_phase := p\<rparr>" if "q \<in> set ?rs" for q
      using that same unfolding rs by auto
    show ?thesis unfolding exclusive_def
    proof (intro ballI impI)
      fix q1 q2
      assume q: "q1 \<in> set ?rs" "q2 \<in> set ?rs" "sn_name q1 = sn_name q2"
        "holds_lock (sn_phase q1)" "holds_lock (sn_phase q2)"
      consider "q1 = r\<lparr>sn_phase := p\<rparr>" "q2 = r\<lparr>sn_phase := p\<rparr>"
        | "q1 = r\<lparr>sn_phase := p\<rparr>" "q2 \<in> set (sc_runs s)" "sn_id q2 \<noteq> i"
        | "q2 = r\<lparr>sn_phase := p\<rparr>" "q1 \<in> set (sc_runs s)" "sn_id q1 \<noteq> i"
        | "q1 \<in> set (sc_runs s)" "q2 \<in> set (sc_runs s)"
        using origin [OF q(1)] origin [OF q(2)] by argo
      then show "q1 = q2"
      proof cases
        case 2
        with q alone [of q2] found show ?thesis by simp
      next
        case 3
        with q alone [of q1] found show ?thesis by simp
      next
        case 4
        with q inv show ?thesis by (simp add: exclusive_def)
      qed simp
    qed
  qed
  moreover have "sn_id ` set ?rs = sn_id ` set (sc_runs s)" using arg_cong [OF ids, of set] by simp
  moreover have "(\<forall>q \<in> set ?rs. sn_id q < sc_next s)" using inv unfolding rs by auto
  moreover have "sc_runs s \<noteq> []" using found by auto
  ultimately show ?thesis
    using inv ids unfolding scheduler_inv_def s' by (cases "sc_stopping s") simp_all
qed

lemma settle_stops_frame [simp]:
  "sc_pending (settle_stops i out s) = sc_pending s" "sc_timers (settle_stops i out s) = sc_timers s"
  "sc_runs (settle_stops i out s) = sc_runs s" "sc_next (settle_stops i out s) = sc_next s"
  "sc_stopping (settle_stops i out s) = sc_stopping s"
  by (simp_all add: settle_stops_def Let_def)

text \<open>
  When a run settles, every waiting \<open>stop\<close> waits for it; one returns only when no run is left.
\<close>

lemma settle_stops_effect:
  assumes "sc_stopping s" "\<forall>w \<in> set (sc_stops s). insert i (sn_id ` set (sc_runs s)) \<subseteq> set w"
    "True \<notin> set (sc_answers s)" "i \<notin> sn_id ` set (sc_runs s)"
  shows "(\<forall>w \<in> set (sc_stops (settle_stops i out s)). sn_id ` set (sc_runs s) \<subseteq> set w)
    \<and> (True \<in> set (sc_answers (settle_stops i out s)) \<longrightarrow> sc_runs s = [] \<and> \<not> sc_initialized (settle_stops i out s))"
proof -
  have hit: "filter (\<lambda>w. i \<in> set w) (sc_stops s) = sc_stops s" "filter (\<lambda>w. i \<notin> set w) (sc_stops s) = []"
    using assms(2) by (auto simp: filter_id_conv filter_empty_conv)
  have sub: "sn_id ` set (sc_runs s) \<subseteq> set (filter (\<lambda>j. j \<noteq> i) w)" if "w \<in> set (sc_stops s)" for w
    using assms(2,4) that by auto
  have empty: "sc_runs s = []" if left: "filter (\<lambda>w. w = []) (map (filter (\<lambda>j. j \<noteq> i)) (sc_stops s)) \<noteq> []"
  proof -
    from left obtain w where "w \<in> set (sc_stops s)" "filter (\<lambda>j. j \<noteq> i) w = []"
      by (auto simp: filter_empty_conv)
    with sub [of w] show ?thesis by simp
  qed
  show ?thesis
  proof (cases "out = Rejected")
    case True
    with assms(3) hit show ?thesis by (auto simp: settle_stops_def)
  next
    case False
    let ?left = "map (filter (\<lambda>j. j \<noteq> i)) (sc_stops s)"
    from False hit have new: "sc_stops (settle_stops i out s) = filter (\<lambda>w. w \<noteq> []) ?left"
      "sc_answers (settle_stops i out s) = sc_answers s @ map (\<lambda>_. True) (filter (\<lambda>w. w = []) ?left)"
      "sc_initialized (settle_stops i out s) = (sc_initialized s \<and> filter (\<lambda>w. w = []) ?left = [])"
      by (simp_all add: settle_stops_def Let_def)
    have "filter (\<lambda>w. w = []) ?left \<noteq> []" if "True \<in> set (sc_answers (settle_stops i out s))"
      using that assms(3) unfolding new by (metis append_Nil2 list.map_disc_iff)
    moreover have "sn_id ` set (sc_runs s) \<subseteq> set w" if "w \<in> set (sc_stops (settle_stops i out s))" for w
    proof -
      from that obtain v where "v \<in> set (sc_stops s)" "w = filter (\<lambda>j. j \<noteq> i) v" unfolding new by auto
      with sub [of v] show ?thesis by simp
    qed
    ultimately show ?thesis using empty new(3) by blast
  qed
qed

lemma settle_inv:
  assumes "scheduler_inv C (in_names names) b s" "settle_run C i rnd s = Some s'" "random_within C rnd"
  shows "scheduler_inv C (in_names names) b s'"
proof -
  note inv = assms(1) [unfolded scheduler_inv_def]
  from assms(2) obtain r out where r: "List.find (\<lambda>r. sn_id r = i) (sc_runs s) = Some r" "sn_phase r = Settled out"
    by (auto simp: settle_run_def split: option.splits run_phase.splits)
  note found = find_Some_in [OF r(1)]
  let ?rs = "filter (\<lambda>r. sn_id r \<noteq> i) (sc_runs s)"
  let ?s = "s\<lparr>sc_runs := ?rs\<rparr>"
  let ?s1 = "settle_stops i out ?s"
  let ?c = "sn_name r"
  have ids: "sn_id ` set (sc_runs s) = insert i (sn_id ` set ?rs)" using found by auto
  have rs: "distinct (map sn_id ?rs)" "\<forall>r \<in> set ?rs. sn_id r < sc_next s" "exclusive ?rs"
    using inv by (auto simp: distinct_map_filter exclusive_def)
  let ?k = "if sn_from_timer r then (in_names names)(?c := 0) else in_names names"
  have inv1: "scheduler_inv C ?k b ?s1"
  proof (cases "sc_stopping s")
    case True
    have "True \<notin> set (sc_answers s)" using inv found by auto
    with True inv ids settle_stops_effect [of ?s i out] have
      "(\<forall>w \<in> set (sc_stops ?s1). sn_id ` set ?rs \<subseteq> set w)
       \<and> (True \<in> set (sc_answers ?s1) \<longrightarrow> ?rs = [] \<and> \<not> sc_initialized ?s1)" by auto
    with True inv rs show ?thesis unfolding scheduler_inv_def by simp
  next
    case False
    have "scheduled c ?s = ?k c" for c
    proof -
      have same: "q = r" if "q \<in> set (sc_runs s)" "sn_id q = i" for q
        using inv found that by (auto simp: distinct_map inj_on_def)
      have total: "scheduled c s = in_names names c" using inv False by simp
      have split: "length (filter P (sc_runs s)) = length (filter P ?rs) + (if P r then 1 else 0)" for P
      proof -
        have "length (filter P (sc_runs s)) = length (filter P ?rs) + length (filter P (filter (\<lambda>q. sn_id q = i) (sc_runs s)))"
          using sum_length_filter_compl [of "\<lambda>q. sn_id q \<noteq> i" "filter P (sc_runs s)"]
          by (simp add: conj_commute)
        moreover have "filter (\<lambda>q. sn_id q = i) (sc_runs s) = [r]"
          using filter_distinct_key [of sn_id "sc_runs s" r] inv found by simp
        ultimately show ?thesis by simp
      qed
      from total split [of "\<lambda>q. sn_name q = c \<and> sn_from_timer q"] show ?thesis
        by (auto simp: scheduled_def in_names_def split: if_splits)
    qed
    moreover have "settle_stops i out ?s = ?s" using inv False by (simp add: settle_stops_def Let_def)
    ultimately show ?thesis using False inv rs unfolding scheduler_inv_def by simp
  qed
  show ?thesis
  proof (cases "sn_from_timer r")
    case False
    with inv1 assms(2) r show ?thesis by (simp add: settle_run_def Let_def)
  next
    case True
    have "scheduler_inv C (?k(?c := 1)) b (arm ?c (next_delay C ?c (rnd ?c)) ?s1)"
      using inv1 True next_delay_ok [OF assms(3)] by (intro arm_inv) simp_all
    moreover have s': "s' = arm ?c (next_delay C ?c (rnd ?c)) ?s1"
      using assms(2) r True by (simp add: settle_run_def Let_def)
    moreover have "sc_stopping s \<or> ?k(?c := 1) = in_names names"
    proof (rule disjCI)
      assume "\<not> ?k(?c := 1) = in_names names"
      with True have "in_names names ?c = 0" by (auto simp: in_names_def fun_eq_iff split: if_splits)
      show "sc_stopping s"
      proof (rule ccontr)
        assume "\<not> sc_stopping s"
        with inv have "scheduled ?c s = 0" using \<open>in_names names ?c = 0\<close> by simp
        with found True show False by (auto simp: scheduled_def filter_empty_conv)
      qed
    qed
    moreover have "sc_stopping s' = sc_stopping s" by (simp add: s' arm_def)
    ultimately show ?thesis using inv_stopping by metis
  qed
qed

lemma stop_inv: "scheduler_inv C k b s \<Longrightarrow> scheduler_inv C k b (stop_scheduler s)"
proof -
  assume "scheduler_inv C k b s"
  note inv = this [unfolded scheduler_inv_def]
  have cleared: "filter (\<lambda>(t, c, _). sc_timers s c \<noteq> Some t) (sc_pending s) = []"
    using inv by (auto simp: filter_empty_conv)
  show ?thesis
  proof (cases "sc_runs s = []")
    case True
    with inv cleared show ?thesis
      by (auto simp: scheduler_inv_def stop_scheduler_def Let_def)
  next
    case False
    with inv cleared show ?thesis
      by (auto simp: scheduler_inv_def stop_scheduler_def Let_def split: if_splits)
  qed
qed

lemma new_inv: "scheduler_inv C (\<lambda>_. 0) False new_scheduler"
  by (simp add: scheduler_inv_def new_scheduler_def scheduled_def exclusive_def)

lemma in_names_Nil: "in_names [] = (\<lambda>_. 0)"
  by (simp add: in_names_def [abs_def])

lemma scheduler_step_inv:
  assumes "scheduler_inv C (in_names names) b s" "environment_ok C ev s" "scheduler_step C ev s = Some s'"
    "b \<or> names = []"
  shows "scheduler_inv C (in_names names) b s'"
proof (cases ev)
  case (Fire t rnd)
  with assms show ?thesis by (auto simp: scheduler_step_def intro: fire_inv)
next
  case (Call c)
  obtain stopped s1 where r: "run_source False c s = (stopped, s1)" by (cases "run_source False c s")
  with assms Call have "s' = s1" by (simp add: scheduler_step_def)
  with run_source_inv [OF assms(1) r] show ?thesis by simp
next
  case (Step i e)
  with assms show ?thesis by (auto simp: scheduler_step_def intro: step_run_inv)
next
  case (Settle i rnd)
  with assms show ?thesis by (auto simp: scheduler_step_def environment_ok_def intro: settle_inv)
next
  case Stop
  with assms stop_inv show ?thesis by (auto simp: scheduler_step_def)
qed

lemma scheduler_reaches_inv:
  assumes "scheduler_reaches C names b s" "distinct names"
  shows "scheduler_inv C (in_names (if b then names else [])) b s"
  using assms(1)
proof (induction rule: scheduler_reaches.induct)
  case reach_new
  show ?case using new_inv by (simp add: in_names_Nil)
next
  case (reach_start s rnd)
  then show ?case using start_inv [OF _ assms(2)] by (simp add: in_names_Nil)
next
  case (reach_step b s ev s')
  show ?case using scheduler_step_inv [OF reach_step.IH reach_step.hyps(2,3)] by simp
qed

end
