(* ===== verification/Collector_Properties.thy ===== *)
theory Collector_Properties
  imports Collector_Laws
begin

text \<open>
  What the collector scheduler promises, and one thing it does not: \<open>stop\<close> gives up at the first run that
  rejects.
\<close>

text \<open>
  C17. No source falls out of the schedule and none enters it twice. In every state a started scheduler
  reaches before it is stopped, each of its sources has exactly one pending timer or one run a timer
  started, never both; every pending timer waits for zero (only a source that runs on start) or for the
  interval plus at most the jitter; and two runs of one source are never both between the grant of the
  lock and the unlocking.
\<close>

theorem sources_stay_scheduled:
  assumes "scheduler_reaches C names True s" "distinct names" "\<not> sc_stopping s" "c \<in> set names"
  shows "length (filter (\<lambda>p. fst (snd p) = c) (sc_pending s))
      + length (filter (\<lambda>r. sn_name r = c \<and> sn_from_timer r) (sc_runs s)) = 1
    \<and> list_all (\<lambda>(t, n, d). d = 0 \<and> ss_run_on_start (C n) \<or> ss_interval_ms (C n) \<le> d
         \<and> d \<le> ss_interval_ms (C n) + max 0 (ss_jitter_ms (C n))) (sc_pending s)
    \<and> list_all (\<lambda>r. list_all (\<lambda>q. sn_name r = sn_name q \<and> holds_lock (sn_phase r) \<and> holds_lock (sn_phase q) \<longrightarrow> r = q)
         (sc_runs s)) (sc_runs s)"
proof -
  note inv = scheduler_reaches_inv [OF assms(1,2), unfolded scheduler_inv_def]
  then have "scheduled c s = 1" using assms(3,4) by (simp add: in_names_def)
  moreover have "\<forall>(t, n, d) \<in> set (sc_pending s). delay_ok C n d" using inv by auto
  moreover have "exclusive (sc_runs s)" using inv by simp
  ultimately show ?thesis by (auto simp: scheduled_def delay_ok_def exclusive_def list_all_iff)
qed

definition sample_schedule :: scheduler_config where
  "sample_schedule = schedule_from_env (\<lambda>_. None)"

lemma sample_random: "random_within sample_schedule (\<lambda>_. 0)"
  by (simp add: random_within_def collector_names_def sample_schedule_def schedule_from_env_def
      read_non_negative_int_def read_int_def Let_def)

lemma sample_started:
  "scheduler_reaches sample_schedule [Github, Pncp] True (start_scheduler sample_schedule (\<lambda>_. 0) [Github, Pncp] new_scheduler)"
  by (rule reach_start [OF reach_new sample_random])

theorem sources_stay_scheduled_witness:
  "length (filter (\<lambda>p. fst (snd p) = Pncp)
     (sc_pending (start_scheduler sample_schedule (\<lambda>_. 0) [Github, Pncp] new_scheduler))) = 1"
  using sources_stay_scheduled [OF sample_started, of Pncp]
  by (simp add: start_scheduler_def arm_def new_scheduler_def)

text \<open>
  C19. Every run ends and gives its lock back. Whatever is answered, a run awaits at most eight answers besides one for
  each snapshot its envelope was projected into, and until it has settled there is an answer that moves it on. A run
  that was granted the lock settles only when the unlocking was answered, one that answers \<open>ran\<close> has opened and closed
  the stored run, and one that answers \<open>skipped\<close> was refused the lock and did nothing else.
\<close>

theorem runs_end:
  assumes "phase_run c evs Connecting = Some p"
  shows "length evs \<le> 8 + sum_list (map snapshots_of evs)
    \<and> ((\<exists>out. p = Settled out) \<or> (\<exists>ev. phase_run c (evs @ [ev]) Connecting \<noteq> None))
    \<and> (\<forall>out. p = Settled out \<longrightarrow>
         (got_lock evs \<longrightarrow> (\<exists>ok. last evs = Unlock_Answer ok))
         \<and> (out = Ran \<longrightarrow> got_lock evs \<and> Open_Answer True \<in> set evs \<and> Finish_Answer True \<in> set evs)
         \<and> (out = Skipped \<longrightarrow> evs = [Connect_Answer True, Lock_Answer (Some False)]))"
proof (intro conjI)
  from phase_run_rank [OF assms] show "length evs \<le> 8 + sum_list (map snapshots_of evs)" by simp
  show "(\<exists>out. p = Settled out) \<or> (\<exists>ev. phase_run c (evs @ [ev]) Connecting \<noteq> None)"
  proof (cases "phase_rank p = 0")
    case True
    then show ?thesis by (cases p) simp_all
  next
    case False
    from phase_step_enabled [OF this] obtain ev where "phase_step c ev p \<noteq> None" ..
    with phase_run_append [OF assms, of "[ev]"] show ?thesis by (auto split: option.splits)
  qed
  from phase_history_run [OF assms] show "\<forall>out. p = Settled out \<longrightarrow>
         (got_lock evs \<longrightarrow> (\<exists>ok. last evs = Unlock_Answer ok))
         \<and> (out = Ran \<longrightarrow> got_lock evs \<and> Open_Answer True \<in> set evs \<and> Finish_Answer True \<in> set evs)
         \<and> (out = Skipped \<longrightarrow> evs = [Connect_Answer True, Lock_Answer (Some False)])"
    by (auto simp: unlocked_last_def)
qed

definition sample_answers :: "run_event list" where
  "sample_answers = [Connect_Answer True, Collect_Starts True 0, Time_Out, Collect_Answer (Fulfilled None), Open_Answer True,
     Observe_Answer False (Some 1), Snapshot_Answer True, Finish_Answer True, Unlock_Answer True]"

theorem runs_end_witness:
  "phase_run Github sample_answers Connecting = Some (Settled Ran) \<and> (\<exists>ok. last sample_answers = Unlock_Answer ok)"
proof -
  have run: "phase_run Github sample_answers Connecting = Some (Settled Ran)"
    by (simp add: sample_answers_def persist_source_result_def Let_def)
  have "got_lock sample_answers" by (auto simp: got_lock_def sample_answers_def)
  with runs_end [OF run] run show ?thesis by blast
qed

text \<open>
  C18. A \<open>stop\<close> that has returned is final: no timer is pending, no run is in flight and the scheduler is not
  initialized, and nothing that can still happen changes that.
\<close>

theorem returned_stop_is_final:
  assumes "scheduler_reaches C names b s" "distinct names" "True \<in> set (sc_answers s)"
    "environment_ok C ev s" "scheduler_step C ev s = Some s'"
  shows "sc_pending s = [] \<and> sc_runs s = [] \<and> \<not> sc_initialized s
    \<and> sc_pending s' = [] \<and> sc_runs s' = [] \<and> \<not> sc_initialized s' \<and> True \<in> set (sc_answers s')"
proof -
  note inv = scheduler_reaches_inv [OF assms(1,2), unfolded scheduler_inv_def]
  from inv assms(3) have s: "sc_stopping s" "sc_pending s = []" "sc_runs s = []" "\<not> sc_initialized s" by simp_all
  with assms(3,5) show ?thesis
    by (cases ev) (auto simp: scheduler_step_def fire_timer_def step_run_def settle_run_def run_source_def
        stop_scheduler_def Let_def)
qed

theorem returned_stop_is_final_witness:
  "sc_runs (stop_scheduler (start_scheduler sample_schedule (\<lambda>_. 0) [Github, Pncp] new_scheduler)) = []"
proof -
  let ?s = "start_scheduler sample_schedule (\<lambda>_. 0) [Github, Pncp] new_scheduler"
  have "scheduler_reaches sample_schedule [Github, Pncp] True (stop_scheduler ?s)"
    by (rule reach_step [OF sample_started, where ev = Stop])
       (simp_all add: environment_ok_def scheduler_step_def)
  moreover have "True \<in> set (sc_answers (stop_scheduler ?s))"
    by (simp add: stop_scheduler_def start_scheduler_def arm_def new_scheduler_def Let_def)
  ultimately show ?thesis
    using returned_stop_is_final [where ev = Stop and s' = "stop_scheduler (stop_scheduler ?s)"]
    by (auto simp: environment_ok_def scheduler_step_def)
qed

text \<open>
  When a run in flight rejects, the waiting \<open>stop\<close> rejects at once, although another run is still in flight,
  and the scheduler stays initialized: here two sources run, the connection of the first is refused.
\<close>

definition early_stop_events :: "scheduler_event list" where
  "early_stop_events =
     [Fire 0 (\<lambda>_. 0), Fire 1 (\<lambda>_. 0), Step 3 (Connect_Answer True), Stop, Step 2 (Connect_Answer False), Settle 2 (\<lambda>_. 0)]"

fun scheduler_run :: "scheduler_config \<Rightarrow> scheduler_event list \<Rightarrow> scheduler \<Rightarrow> scheduler option" where
  "scheduler_run C [] s = Some s"
| "scheduler_run C (ev # evs) s =
     (case scheduler_step C ev s of None \<Rightarrow> None | Some t \<Rightarrow> scheduler_run C evs t)"

lemma stop_rejects_early:
  "\<exists>s. scheduler_run C early_stop_events (start_scheduler C (\<lambda>_. 0) [Github, Pncp] new_scheduler) = Some s
     \<and> sc_answers s = [False] \<and> sc_initialized s \<and> map sn_name (sc_runs s) = [Pncp]"
  by (simp add: early_stop_events_def start_scheduler_def new_scheduler_def arm_def scheduler_step_def fire_timer_def
      run_source_def step_run_def stop_scheduler_def settle_run_def settle_stops_def Let_def)

end
