(* ===== verification/Commercial_Normalize.thy ===== *)
theory Commercial_Normalize
  imports Attention_Types Work_Order
begin

text \<open>
  \<open>domains/commercial/src\<close>: \<open>contracts.ts\<close>, \<open>freshness.ts\<close>, \<open>money.ts\<close> and \<open>normalize.ts\<close>. An observation set comes
  with the types the contract declares; an absent field and \<open>null\<close> are both \<open>None\<close>. Numbers are doubles:
  a value is the rational it denotes, and \<open>cy_double\<close> rounds the exact result of a product or quotient. Date
  parsing of the runtime and the collation of \<open>localeCompare\<close> are parameters too.
\<close>

record commercial_env =
  cy_double :: "rat \<Rightarrow> rat"
  cy_parse_date :: "string \<Rightarrow> int option"
  cy_collate :: "string \<Rightarrow> string"

section \<open>Contract\<close>

datatype funnel_key = Novos_Leads | Qualificados | Oportunidades | Propostas | Clientes

definition funnel_keys :: "(string \<times> funnel_key) list" where
  "funnel_keys =
     [(''novos_leads'', Novos_Leads), (''qualificados'', Qualificados), (''oportunidades'', Oportunidades),
      (''propostas'', Propostas), (''clientes'', Clientes)]"

text \<open>
  \<open>Inherited\<close> is no bucket of the contract: it stands for a member of \<open>Object.prototype\<close>, which a lookup in the
  stage map answers for its name.
\<close>

datatype funnel_bucket = In_Funnel funnel_key | Unclassified | Lost | Inherited

datatype record_entity = Deal | Inbound_Lead | Contact | Task

record warmbly_record =
  cw_id :: string
  cw_entity :: record_entity
  cw_status :: "string option"
  cw_funnel_stage :: "string option"
  cw_stage_id :: "string option"
  cw_stage_name :: "string option"
  cw_stage_entered_at :: "string option"
  cw_value :: "rat option"
  cw_amount_cents :: "rat option"
  cw_currency :: "string option"
  cw_probability :: "rat option"
  cw_probability_reliable :: "bool option"
  cw_offer_id :: "string option"
  cw_offer_version :: "string option"
  cw_treated_as_catalog_offer :: "bool option"
  cw_next_action :: "string option"
  cw_next_action_at :: "string option"
  cw_last_activity_at :: "string option"
  cw_expected_close_at :: "string option"
  cw_created_at :: "string option"
  cw_updated_at :: "string option"
  cw_observed_at :: "string option"
  cw_freshness_status :: "string option"
  cw_confidence :: "rat option"
  cw_deal_id :: "string option"
  cw_inbound_lead_id :: "string option"
  cw_due_date :: "string option"

record known_offer =
  ko_offer_id :: string
  ko_offer_version :: string

record extra_marker =
  xm_exception_id :: string
  xm_amount_cents :: rat
  xm_currency :: string

record offer_pin =
  op_authority_id :: string
  op_catalog_id :: string
  op_known_offers :: "known_offer list"
  op_not_an_offer :: "extra_marker list"
  op_observed_at :: "string option"

text \<open>A source is a name or a reference whose absent fields are empty.\<close>

datatype source_input = Source_Name string | Source_Object source_ref

record observation_set =
  os_observed_at :: "string option"
  os_source :: "source_input option"
  os_freshness_status :: "string option"
  os_confidence :: "rat option"
  os_records :: "warmbly_record list"
  os_stage_map :: "(string \<times> funnel_key) list"
  os_offer_pin :: "offer_pin option"

section \<open>Freshness and confidence\<close>

definition freshness_names :: "(string \<times> freshness_status) list" where
  "freshness_names = [(''FRESH'', FRESH), (''STALE'', STALE), (''UNKNOWN'', UNKNOWN), (''ERROR'', ERROR)]"

definition parse_freshness :: "string \<Rightarrow> freshness_status" where
  "parse_freshness s =
     (case map_of freshness_names s of
        Some f \<Rightarrow> f
      | None \<Rightarrow>
          let key = js_upper (js_trim s)
          in case map_of freshness_names key of
               Some f \<Rightarrow> f
             | None \<Rightarrow> if key = ''EXPIRED'' then STALE else UNKNOWN)"

definition clamp_confidence :: "rat option \<Rightarrow> rat option" where
  "clamp_confidence v = map_option (\<lambda>c. if c < 0 then 0 else if c > 1 then 1 else c) v"

definition freshness_window_seconds :: int where
  "freshness_window_seconds = 86400"

definition classify_freshness :: "int option \<Rightarrow> int \<Rightarrow> freshness_status \<Rightarrow> freshness_status" where
  "classify_freshness observed now declared =
     (if declared = ERROR \<or> declared = UNKNOWN then declared
      else case observed of
        None \<Rightarrow> UNKNOWN
      | Some t \<Rightarrow> if now - t > freshness_window_seconds * 1000 then STALE else declared)"

definition rollup_freshness :: "freshness_status list \<Rightarrow> freshness_status" where
  "rollup_freshness fs =
     (if fs = [] then UNKNOWN
      else if ERROR \<in> set fs then ERROR
      else if UNKNOWN \<in> set fs \<and> FRESH \<notin> set fs \<and> STALE \<notin> set fs then UNKNOWN
      else if STALE \<in> set fs then STALE
      else if FRESH \<in> set fs then FRESH
      else UNKNOWN)"

section \<open>Money\<close>

definition default_currency :: string where
  "default_currency = ''BRL''"

definition major_units_to_cents_exact :: "commercial_env \<Rightarrow> rat \<Rightarrow> int option" where
  "major_units_to_cents_exact V v =
     (if v < 0 then None
      else let scaled = cy_double V (v * 100); nearest = js_round scaled
           in if \<bar>scaled - of_int nearest\<bar> > 1 / 1000000 then None
              else if \<not> is_safe nearest \<or> nearest < 0 then None else Some nearest)"

definition integer_cents :: "rat option \<Rightarrow> int option" where
  "integer_cents v =
     (case v of None \<Rightarrow> None
      | Some r \<Rightarrow> if \<not> is_integer r \<or> r < 0 then None else if is_safe \<lfloor>r\<rfloor> then Some \<lfloor>r\<rfloor> else None)"

definition normalize_currency :: "string \<Rightarrow> string option" where
  "normalize_currency s =
     (let t = js_upper (js_trim s) in if length t = 3 \<and> list_all is_upper t then Some t else None)"

definition weighted_cents_exact :: "commercial_env \<Rightarrow> int \<Rightarrow> rat \<Rightarrow> int option" where
  "weighted_cents_exact V amount p =
     (if amount < 0 \<or> p < 0 \<or> p > 1 then None
      else let product = cy_double V (of_int amount * p); nearest = js_round product
           in if \<bar>product - of_int nearest\<bar> > 1 / 100000000 then None
              else if \<not> is_safe nearest \<or> nearest < 0 then None else Some nearest)"

section \<open>Classification\<close>

definition default_stage_map :: "(string \<times> funnel_key) list" where
  "default_stage_map =
     map (\<lambda>k. (k, Novos_Leads)) [''new'', ''lead'', ''novos'', ''novo'', ''novos_leads'', ''inbound'', ''inbound_lead'']
     @ map (\<lambda>k. (k, Qualificados)) [''qualified'', ''qualificad'', ''qualificado'', ''qualificados'', ''mql'', ''sql'']
     @ map (\<lambda>k. (k, Oportunidades)) [''opportunity'', ''oportunidade'', ''oportunidades'', ''deal'']
     @ map (\<lambda>k. (k, Propostas)) [''proposal'', ''proposta'', ''propostas'', ''quote'', ''sent'']
     @ map (\<lambda>k. (k, Clientes)) [''client'', ''cliente'', ''clientes'', ''won'', ''customer'', ''closed-won'', ''closed_won'',
         ''closedwon'']"

definition lost_statuses :: "string list" where
  "lost_statuses = [''lost'', ''closed-lost'', ''closed_lost'', ''discarded'', ''churned'']"

definition won_statuses :: "string list" where
  "won_statuses = [''won'', ''client'', ''customer'', ''closed-won'', ''closed_won'', ''active_client'']"

definition terminal_task :: "string list" where
  "terminal_task = [''completed'', ''cancelled'', ''canceled'', ''done'']"

text \<open>\<open>replace(/\s+/g, "_")\<close>\<close>

fun space_runs :: "bool \<Rightarrow> string \<Rightarrow> string" where
  "space_runs in_run [] = []"
| "space_runs in_run (c # s) =
     (if js_space c then (if in_run then space_runs True s else CHR ''_'' # space_runs True s)
      else c # space_runs False s)"

definition norm_key :: "string \<Rightarrow> string" where
  "norm_key s = space_runs False (js_lower (js_trim s))"

text \<open>
  Reading a property of an object literal: an own property, or one inherited from \<open>Object.prototype\<close>. The
  stage map holds the entries of the input before the default ones.
\<close>

definition object_prototype :: "string list" where
  "object_prototype =
     [''constructor'', ''__proto__'', ''toString'', ''toLocaleString'', ''valueOf'', ''hasOwnProperty'', ''isPrototypeOf'',
      ''propertyIsEnumerable'', ''__defineGetter__'', ''__defineSetter__'', ''__lookupGetter__'', ''__lookupSetter__'']"

definition stage_property :: "(string \<times> funnel_key) list \<Rightarrow> string \<Rightarrow> funnel_bucket option" where
  "stage_property stages key =
     (case map_of stages key of
        Some k \<Rightarrow> Some (In_Funnel k)
      | None \<Rightarrow> if key \<in> set object_prototype then Some Inherited else None)"

definition lookup_stage :: "(string \<times> funnel_key) list \<Rightarrow> string option \<Rightarrow> funnel_bucket option" where
  "lookup_stage stages raw =
     (case raw of
        None \<Rightarrow> None
      | Some r \<Rightarrow>
          if r = [] then None
          else or_option (stage_property stages (norm_key r))
                 (or_option (stage_property stages r) (stage_property default_stage_map (norm_key r))))"

definition classify_inbound_lead :: "string \<Rightarrow> funnel_bucket" where
  "classify_inbound_lead status =
     In_Funnel (if status = ''qualified'' \<or> status = ''qualificado'' then Qualificados
       else if status = ''proposal'' \<or> status = ''proposta'' then Propostas
       else if status = ''client'' \<or> status = ''won'' then Clientes
       else if status = ''opportunity'' \<or> status = ''oportunidade'' then Oportunidades
       else Novos_Leads)"

definition classify_contact :: "string \<Rightarrow> funnel_bucket" where
  "classify_contact status =
     (if status = ''qualified'' then In_Funnel Qualificados
      else if status = ''client'' \<or> status = ''customer'' then In_Funnel Clientes
      else if status = ''lead'' \<or> status = ''new'' \<or> status = [] then In_Funnel Novos_Leads
      else Unclassified)"

definition classify_other :: "(string \<times> funnel_key) list \<Rightarrow> string \<Rightarrow> warmbly_record \<Rightarrow> funnel_bucket" where
  "classify_other stages status r =
     (if status \<in> set won_statuses \<or> cw_entity r = Contact \<and> status = ''client'' then In_Funnel Clientes
      else case or_option (lookup_stage stages (cw_stage_name r)) (lookup_stage stages (cw_stage_id r)) of
        Some bucket \<Rightarrow> bucket
      | None \<Rightarrow>
          if cw_entity r = Inbound_Lead then classify_inbound_lead status
          else if cw_entity r = Contact then classify_contact status
          else Unclassified)"

definition classify_funnel :: "(string \<times> funnel_key) list \<Rightarrow> warmbly_record \<Rightarrow> funnel_bucket" where
  "classify_funnel stages r =
     (let status = norm_key (or_else (cw_status r) []) in
      if status \<in> set lost_statuses then Lost
      else case cw_funnel_stage r of
        None \<Rightarrow> classify_other stages status r
      | Some f \<Rightarrow>
          (case map_of funnel_keys f of
             Some k \<Rightarrow> In_Funnel k
           | None \<Rightarrow>
               let key = norm_key f in
               if key = ''unknown'' \<or> key = [] then classify_other stages status r
               else case map_of funnel_keys key of
                 Some k \<Rightarrow> In_Funnel k
               | None \<Rightarrow>
                   (case lookup_stage stages (Some f) of
                      Some bucket \<Rightarrow> bucket
                    | None \<Rightarrow> classify_other stages status r)))"

section \<open>Amounts\<close>

definition resolve_amount :: "commercial_env \<Rightarrow> warmbly_record \<Rightarrow> int option \<times> string option" where
  "resolve_amount V r =
     (let has_amount = (cw_amount_cents r \<noteq> None \<or> cw_value r \<noteq> None);
          currency = (case cw_currency r of
              None \<Rightarrow> if has_amount then Some default_currency else None
            | Some s \<Rightarrow> if js_trim s = [] then (if has_amount then Some default_currency else None)
                        else normalize_currency s)
      in case integer_cents (cw_amount_cents r) of
        Some cents \<Rightarrow>
          (case cw_value r of
             None \<Rightarrow> (Some cents, currency)
           | Some v \<Rightarrow>
               (case major_units_to_cents_exact V v of
                  None \<Rightarrow> (Some cents, currency)
                | Some major \<Rightarrow> (if major \<noteq> cents then None else Some cents, currency)))
      | None \<Rightarrow>
          (case cw_value r of
             Some v \<Rightarrow> (major_units_to_cents_exact V v, currency)
           | None \<Rightarrow> (None, currency)))"

definition resolve_probability :: "warmbly_record \<Rightarrow> rat option \<times> bool" where
  "resolve_probability r =
     (case cw_probability r of
        None \<Rightarrow> (None, False)
      | Some p \<Rightarrow> if p < 0 \<or> p > 1 then (None, False) else (Some p, cw_probability_reliable r = Some True))"

section \<open>Offer pin and source\<close>

definition default_extra :: extra_marker where
  "default_extra =
     \<lparr>xm_exception_id = ''CFG-EXC-EXTRA-HISTORICAL-v1'', xm_amount_cents = 1000000, xm_currency = default_currency\<rparr>"

definition default_pin :: offer_pin where
  "default_pin =
     \<lparr>op_authority_id = ''UNKNOWN'', op_catalog_id = ''UNKNOWN'', op_known_offers = [],
      op_not_an_offer = [default_extra], op_observed_at = None\<rparr>"

definition coerce_pin :: "offer_pin option \<Rightarrow> offer_pin" where
  "coerce_pin raw =
     (case raw of
        None \<Rightarrow> default_pin
      | Some p \<Rightarrow>
          let extras = map (\<lambda>x. x\<lparr>xm_currency := or_else (normalize_currency (xm_currency x)) default_currency\<rparr>)
                (filter (\<lambda>x. is_integer (xm_amount_cents x)) (op_not_an_offer p))
          in \<lparr>op_authority_id = (if op_authority_id p \<noteq> [] then op_authority_id p else op_authority_id default_pin),
              op_catalog_id = (if op_catalog_id p \<noteq> [] then op_catalog_id p else op_catalog_id default_pin),
              op_known_offers = filter (\<lambda>k. ko_offer_id k \<noteq> [] \<and> ko_offer_version k \<noteq> []) (op_known_offers p),
              op_not_an_offer = (if extras \<noteq> [] then extras else op_not_an_offer default_pin),
              op_observed_at = op_observed_at p\<rparr>)"

definition coerce_source :: "source_input option \<Rightarrow> string \<Rightarrow> source_ref" where
  "coerce_source raw fallback =
     (let given = (\<lambda>s d. if s \<noteq> [] then s else d)
      in case raw of
        Some (Source_Object s) \<Rightarrow>
          \<lparr>sr_system = given (sr_system s) ''warmbly'', sr_kind = given (sr_kind s) ''commercial-observation'',
           sr_locator = given (sr_locator s) fallback, sr_label = sr_label s\<rparr>
      | Some (Source_Name n) \<Rightarrow>
          \<lparr>sr_system = given n ''warmbly'', sr_kind = ''commercial-observation'', sr_locator = fallback, sr_label = None\<rparr>
      | None \<Rightarrow>
          \<lparr>sr_system = ''warmbly'', sr_kind = ''commercial-observation'', sr_locator = fallback, sr_label = None\<rparr>)"

definition extra_of :: "offer_pin \<Rightarrow> extra_marker" where
  "extra_of p = (case op_not_an_offer p of [] \<Rightarrow> default_extra | x # _ \<Rightarrow> x)"

section \<open>Normalized records\<close>

record normalized_record =
  nr_id :: string
  nr_entity :: record_entity
  nr_funnel :: funnel_bucket
  nr_status :: string
  nr_amount_cents :: "int option"
  nr_currency :: "string option"
  nr_probability :: "rat option"
  nr_probability_reliable :: bool
  nr_offer_id :: "string option"
  nr_offer_version :: "string option"
  nr_treated_as_catalog_offer :: bool
  nr_next_action :: "string option"
  nr_next_action_at :: "int option"
  nr_last_activity_at :: "int option"
  nr_stage_entered_at :: "int option"
  nr_expected_close_at :: "int option"
  nr_created_at :: "int option"
  nr_updated_at :: "int option"
  nr_observed_at :: "int option"
  nr_freshness_status :: freshness_status
  nr_confidence :: "rat option"
  nr_stage_name :: "string option"
  nr_extra_historical_cents :: bool

record normalized_input =
  ni_observed_at :: "int option"
  ni_observed_at_iso :: string
  ni_source :: source_ref
  ni_freshness_status :: freshness_status
  ni_confidence :: "rat option"
  ni_records :: "normalized_record list"
  ni_offer_pin :: offer_pin
  ni_extra_historical :: extra_marker

definition parse_utc_of :: "commercial_env \<Rightarrow> string option \<Rightarrow> int option" where
  "parse_utc_of V v = (case v of None \<Rightarrow> None | Some s \<Rightarrow> if s = [] then None else cy_parse_date V s)"

definition open_task :: "warmbly_record \<Rightarrow> bool" where
  "open_task t \<longleftrightarrow> js_lower (or_else (cw_status t) []) \<notin> set terminal_task"

text \<open>The list of the map under a record's id: the open tasks that name it, in order.\<close>

definition linked_tasks :: "warmbly_record list \<Rightarrow> normalized_record \<Rightarrow> warmbly_record list" where
  "linked_tasks tasks r =
     (case nr_entity r of
        Deal \<Rightarrow> filter (\<lambda>t. open_task t \<and> cw_deal_id t = Some (nr_id r) \<and> nr_id r \<noteq> []) tasks
      | Inbound_Lead \<Rightarrow> filter (\<lambda>t. open_task t \<and> cw_inbound_lead_id t = Some (nr_id r) \<and> nr_id r \<noteq> []) tasks
      | _ \<Rightarrow> [])"

definition attach_task_next_actions ::
  "commercial_env \<Rightarrow> warmbly_record list \<Rightarrow> normalized_record list \<Rightarrow> normalized_record list" where
  "attach_task_next_actions V tasks rs =
     map (\<lambda>r. if nr_next_action r \<noteq> None \<or> nr_next_action_at r \<noteq> None then r
              else case linked_tasks tasks r of
                [] \<Rightarrow> r
              | t # _ \<Rightarrow> r\<lparr>nr_next_action := Some (or_else (cw_next_action t) ''open_task''),
                          nr_next_action_at := parse_utc_of V (or_option (cw_next_action_at t) (cw_due_date t))\<rparr>) rs"

definition non_empty :: "string option \<Rightarrow> string option" where
  "non_empty v = (case v of Some s \<Rightarrow> if s = [] then None else Some s | None \<Rightarrow> None)"

definition normalize_record ::
  "commercial_env \<Rightarrow> observation_set \<Rightarrow> extra_marker \<Rightarrow> warmbly_record \<Rightarrow> normalized_record" where
  "normalize_record V inp extra r =
     (let amount = resolve_amount V r; prob = resolve_probability r in
      \<lparr>nr_id = cw_id r, nr_entity = cw_entity r,
       nr_funnel = classify_funnel (os_stage_map inp @ default_stage_map) r,
       nr_status = js_lower (or_else (cw_status r) []), nr_amount_cents = fst amount, nr_currency = snd amount,
       nr_probability = fst prob, nr_probability_reliable = snd prob,
       nr_offer_id = cw_offer_id r, nr_offer_version = cw_offer_version r,
       nr_treated_as_catalog_offer = (cw_treated_as_catalog_offer r = Some True),
       nr_next_action = non_empty (cw_next_action r),
       nr_next_action_at = parse_utc_of V (or_option (cw_next_action_at r) (cw_due_date r)),
       nr_last_activity_at = parse_utc_of V (or_option (cw_last_activity_at r) (cw_updated_at r)),
       nr_stage_entered_at = parse_utc_of V (cw_stage_entered_at r),
       nr_expected_close_at = parse_utc_of V (cw_expected_close_at r),
       nr_created_at = parse_utc_of V (cw_created_at r), nr_updated_at = parse_utc_of V (cw_updated_at r),
       nr_observed_at = parse_utc_of V (or_option (cw_observed_at r) (os_observed_at inp)),
       nr_freshness_status =
         parse_freshness (or_else (or_option (cw_freshness_status r) (os_freshness_status inp)) ''FRESH''),
       nr_confidence = clamp_confidence (or_option (cw_confidence r) (os_confidence inp)),
       nr_stage_name = or_option (cw_stage_name r) (cw_stage_id r),
       nr_extra_historical_cents =
         (map_option of_int (fst amount) = Some (xm_amount_cents extra)
          \<and> or_else (snd amount) default_currency = xm_currency extra)\<rparr>)"

text \<open>Records without an id are dropped; the tasks lend their next action to the records they name.\<close>

definition normalize_input :: "commercial_env \<Rightarrow> observation_set \<Rightarrow> string \<Rightarrow> normalized_input" where
  "normalize_input V inp fallback =
     (let pin = coerce_pin (os_offer_pin inp); extra = extra_of pin;
          observed = parse_utc_of V (os_observed_at inp);
          all_records = filter (\<lambda>r. cw_id r \<noteq> []) (os_records inp);
          tasks = filter (\<lambda>r. cw_entity r = Task) all_records;
          commercial = filter (\<lambda>r. cw_entity r \<noteq> Task) all_records;
          records = sort_key (\<lambda>r. cy_collate V (nr_id r)) (map (normalize_record V inp extra) commercial)
      in \<lparr>ni_observed_at = observed,
          ni_observed_at_iso = (if observed \<noteq> None then or_else (os_observed_at inp) [] else ''1970-01-01T00:00:00Z''),
          ni_source = coerce_source (os_source inp) fallback,
          ni_freshness_status = parse_freshness (or_else (os_freshness_status inp) ''FRESH''),
          ni_confidence = clamp_confidence (os_confidence inp),
          ni_records = attach_task_next_actions V tasks records,
          ni_offer_pin = pin, ni_extra_historical = extra\<rparr>)"

definition is_open_pipeline :: "normalized_record \<Rightarrow> bool" where
  "is_open_pipeline r =
     (if nr_funnel r = Lost \<or> nr_funnel r = In_Funnel Clientes then False
      else if nr_funnel r = Unclassified then False
      else if nr_status r = ''won'' \<or> nr_status r \<in> set lost_statuses then False
      else True)"

end
