(* ===== verification/Commercial_Project.thy ===== *)
theory Commercial_Project
  imports Commercial_Normalize
begin

text \<open>
  \<open>domains/commercial/src/project.ts\<close>: the one-screen summary of the pipeline: the funnel counts, the nominal and
  the weighted amount, the exceptions and the three items that need attention now. Titles, summaries and
  recommended actions are texts for the reader and not modelled. The amounts are added as doubles: every addition is
  rounded by \<open>cy_double\<close>.
\<close>

section \<open>Documents\<close>

datatype attention_kind =
    Extra_Historical_As_Offer | Unknown_Offer_Id | Offer_Version_Drift | Missing_Next_Action | Stalled_Stage
  | Conversion_Window_Gap | Aging

datatype attention_severity = At_Critical | At_High | At_Medium | At_Low

fun kind_rank :: "attention_kind \<Rightarrow> int" where
  "kind_rank Extra_Historical_As_Offer = 0"
| "kind_rank Unknown_Offer_Id = 1"
| "kind_rank Offer_Version_Drift = 2"
| "kind_rank Missing_Next_Action = 3"
| "kind_rank Stalled_Stage = 4"
| "kind_rank Conversion_Window_Gap = 5"
| "kind_rank Aging = 6"

fun attention_severity_rank :: "attention_severity \<Rightarrow> int" where
  "attention_severity_rank At_Critical = 0"
| "attention_severity_rank At_High = 1"
| "attention_severity_rank At_Medium = 2"
| "attention_severity_rank At_Low = 3"

fun kind_text :: "attention_kind \<Rightarrow> string" where
  "kind_text Extra_Historical_As_Offer = ''extra_historical_as_offer''"
| "kind_text Unknown_Offer_Id = ''unknown_offer_id''"
| "kind_text Offer_Version_Drift = ''offer_version_drift''"
| "kind_text Missing_Next_Action = ''missing_next_action''"
| "kind_text Stalled_Stage = ''stalled_stage''"
| "kind_text Conversion_Window_Gap = ''conversion_window_gap''"
| "kind_text Aging = ''aging''"

record cm_provenance =
  cm_source :: source_ref
  cm_observed_at :: string
  cm_freshness :: freshness_status
  cm_confidence :: "rat option"

record figure =
  fn_value :: nat
  fn_provenance :: cm_provenance

datatype no_data_reason =
    No_Open_Pipeline | No_Open_Pipeline_Probabilities | No_Known_Amounts | Unreadable_Currency | Mixed_Currency
  | Probabilities_Missing_Or_Unreliable | Weighted_Cents_Not_Integer

datatype pipeline_money =
    Present (pm_amount: rat) (pm_currency: string) (pm_provenance: cm_provenance)
  | Insufficient_Data (pm_reason: no_data_reason) (pm_provenance: cm_provenance)

record exception_row =
  xr_id :: string
  xr_kind :: attention_kind
  xr_record_id :: string
  xr_severity :: attention_severity
  xr_provenance :: cm_provenance

record commercial_summary =
  su_generated_at :: string
  su_authority_id :: string
  su_catalog_id :: string
  su_pin_observed_at :: string
  su_provenance :: cm_provenance
  su_funnel :: "funnel_key \<Rightarrow> figure"
  su_nominal :: pipeline_money
  su_weighted :: pipeline_money
  su_exceptions :: "exception_row list"
  su_attention :: "exception_row list"
  su_unclassified :: figure

definition attention_now_limit :: nat where
  "attention_now_limit = 3"

definition two_weeks_ms :: int where
  "two_weeks_ms = 14 * 24 * 60 * 60 * 1000"

definition conversion_window_ms :: int where
  "conversion_window_ms = 30 * 24 * 60 * 60 * 1000"

text \<open>\<open>replace(/[^A-Za-z0-9._~-]+/g, "-")\<close>\<close>

fun slug_of :: "bool \<Rightarrow> string \<Rightarrow> string" where
  "slug_of in_run [] = []"
| "slug_of in_run (c # s) =
     (if is_alnum c \<or> c \<in> set ''._~-'' then c # slug_of False s
      else if in_run then slug_of True s else CHR ''-'' # slug_of True s)"

definition attention_id :: "attention_kind \<Rightarrow> string \<Rightarrow> string" where
  "attention_id k record_id = ''cc:attention-item:'' @ slug_of False (kind_text k @ ''-'' @ record_id)"

definition provenance_for :: "source_ref \<Rightarrow> string \<Rightarrow> freshness_status \<Rightarrow> rat option \<Rightarrow> cm_provenance" where
  "provenance_for source observed f confidence =
     \<lparr>cm_source = source, cm_observed_at = observed, cm_freshness = f, cm_confidence = confidence\<rparr>"

section \<open>Funnel\<close>

definition funnel_count :: "normalized_record list \<Rightarrow> funnel_key \<Rightarrow> nat" where
  "funnel_count rs k = length (filter (\<lambda>r. nr_funnel r = In_Funnel k) rs)"

definition unclassified_count :: "normalized_record list \<Rightarrow> nat" where
  "unclassified_count rs = length (filter (\<lambda>r. nr_funnel r = Unclassified) rs)"

section \<open>Pipeline\<close>

text \<open>The sums are of doubles: every addition is rounded.\<close>

definition add_cents_to :: "commercial_env \<Rightarrow> rat \<Rightarrow> int \<Rightarrow> rat" where
  "add_cents_to V cents amount = cy_double V (cents + of_int amount)"

fun sum_weighted :: "commercial_env \<Rightarrow> rat \<Rightarrow> normalized_record list \<Rightarrow> rat option" where
  "sum_weighted V cents [] = Some cents"
| "sum_weighted V cents (r # rs) =
     (case weighted_cents_exact V (or_else (nr_amount_cents r) 0) (or_else (nr_probability r) 0) of
        None \<Rightarrow> None
      | Some w \<Rightarrow> sum_weighted V (add_cents_to V cents w) rs)"

definition known_amounts :: "normalized_record list \<Rightarrow> normalized_record list" where
  "known_amounts rs = filter (\<lambda>r. nr_amount_cents r \<noteq> None) rs"

text \<open>\<open>new Set(\<dots>)\<close> of the readable currencies of the known amounts\<close>

definition currencies_of :: "normalized_record list \<Rightarrow> string list" where
  "currencies_of rs = unique_strings (map (\<lambda>r. the (nr_currency r)) (filter (\<lambda>r. nr_currency r \<noteq> None) rs))"

definition nominal_pipeline ::
  "commercial_env \<Rightarrow> source_ref \<Rightarrow> string \<Rightarrow> freshness_status \<Rightarrow> rat option \<Rightarrow> normalized_record list \<Rightarrow> pipeline_money" where
  "nominal_pipeline V source observed f confidence opens =
     (let base = provenance_for source observed f confidence; known = known_amounts opens;
          undenominated = filter (\<lambda>r. nr_currency r = None) known; currencies = currencies_of known
      in if opens = [] then Insufficient_Data No_Open_Pipeline base
         else if known = [] \<or> undenominated \<noteq> [] \<or> length currencies \<noteq> 1
         then Insufficient_Data (if known = [] then No_Known_Amounts
                else if undenominated \<noteq> [] then Unreadable_Currency else Mixed_Currency) base
         else Present (foldl (add_cents_to V) 0 (map (\<lambda>r. or_else (nr_amount_cents r) 0) known)) (hd currencies)
                (provenance_for source observed f
                   (if length known = length opens then confidence else Some (min (or_else confidence 1) (1 / 2)))))"

definition weighted_pipeline :: "commercial_env \<Rightarrow> source_ref \<Rightarrow> string \<Rightarrow> freshness_status \<Rightarrow> rat option
    \<Rightarrow> normalized_record list \<Rightarrow> pipeline_money" where
  "weighted_pipeline V source observed f confidence opens =
     (let base = provenance_for source observed f confidence; currencies = currencies_of (known_amounts opens)
      in if opens = [] then Insufficient_Data No_Open_Pipeline_Probabilities base
         else if \<not> list_all (\<lambda>r. nr_amount_cents r \<noteq> None \<and> nr_probability_reliable r \<and> nr_probability r \<noteq> None) opens
         then Insufficient_Data Probabilities_Missing_Or_Unreliable base
         else if length currencies \<noteq> 1 then Insufficient_Data Mixed_Currency base
         else case sum_weighted V 0 opens of
           None \<Rightarrow> Insufficient_Data Weighted_Cents_Not_Integer base
         | Some cents \<Rightarrow> Present cents (hd currencies) base)"

section \<open>Exceptions\<close>

definition exception_for ::
  "attention_kind \<Rightarrow> attention_severity \<Rightarrow> normalized_record \<Rightarrow> cm_provenance \<Rightarrow> exception_row" where
  "exception_for k sev r p =
     \<lparr>xr_id = attention_id k (nr_id r), xr_kind = k, xr_record_id = nr_id r, xr_severity = sev, xr_provenance = p\<rparr>"

definition record_provenance ::
  "string \<Rightarrow> normalized_record \<Rightarrow> string \<Rightarrow> freshness_status \<Rightarrow> cm_provenance" where
  "record_provenance kind r now_iso f =
     provenance_for \<lparr>sr_system = ''warmbly'', sr_kind = kind, sr_locator = nr_id r, sr_label = None\<rparr>
       (case nr_observed_at r of Some t \<Rightarrow> to_iso t | None \<Rightarrow> now_iso) f (nr_confidence r)"

definition truthy :: "string option \<Rightarrow> bool" where
  "truthy v \<longleftrightarrow> v \<noteq> None \<and> v \<noteq> Some []"

definition known_offer_of :: "offer_pin \<Rightarrow> string option \<Rightarrow> known_offer option" where
  "known_offer_of pin v =
     (if truthy v then List.find (\<lambda>k. Some (ko_offer_id k) = v) (op_known_offers pin) else None)"

text \<open>\<open>String(amount)\<close> is the decimal notation of the marker's whole amount (below \<open>10^21\<close>).\<close>

definition extra_as_offer_id :: "extra_marker \<Rightarrow> string option \<Rightarrow> bool" where
  "extra_as_offer_id extra v \<longleftrightarrow>
     v = Some (xm_exception_id extra) \<or> v = Some (show_int \<lfloor>xm_amount_cents extra\<rfloor>) \<or> v = Some ''1000000''"

definition offer_exceptions :: "normalized_input \<Rightarrow> string \<Rightarrow> freshness_status
    \<Rightarrow> normalized_record \<Rightarrow> exception_row list" where
  "offer_exceptions inp now_iso f r =
     (let p = record_provenance ''offer-discrepancy'' r now_iso f; v = nr_offer_id r;
          known = known_offer_of (ni_offer_pin inp) v;
          as_id = extra_as_offer_id (ni_extra_historical inp) v
      in (if nr_extra_historical_cents r \<and> (nr_treated_as_catalog_offer r \<or> as_id \<or> known \<noteq> None)
          then [exception_for Extra_Historical_As_Offer At_Critical r p]
          else if as_id then [exception_for Extra_Historical_As_Offer At_Critical r p] else [])
         @ (if truthy v \<and> \<not> as_id \<and> known = None \<and> nr_treated_as_catalog_offer r
            then [exception_for Unknown_Offer_Id At_High r p]
            else if truthy v \<and> \<not> as_id \<and> known = None \<and> starts_with (or_else v []) ''CFG-''
            then [exception_for Unknown_Offer_Id At_High r p] else [])
         @ (case known of
              None \<Rightarrow> []
            | Some k \<Rightarrow> if \<not> truthy (nr_offer_version r) \<or> nr_offer_version r \<noteq> Some (ko_offer_version k)
                        then [exception_for Offer_Version_Drift At_High r p] else []))"

definition older :: "int \<Rightarrow> int \<Rightarrow> int option \<Rightarrow> bool" where
  "older now window v \<longleftrightarrow> (case v of Some t \<Rightarrow> now - t \<ge> window | None \<Rightarrow> False)"

definition operational_exceptions ::
  "int \<Rightarrow> string \<Rightarrow> freshness_status \<Rightarrow> normalized_record \<Rightarrow> exception_row list" where
  "operational_exceptions now now_iso f r =
     (if \<not> is_open_pipeline r then []
      else let p = record_provenance ''commercial-record'' r now_iso f;
               stage_anchor = or_option (nr_stage_entered_at r) (or_option (nr_updated_at r) (nr_last_activity_at r));
               past_close = (case nr_expected_close_at r of Some t \<Rightarrow> t < now | None \<Rightarrow> False);
               over_window = (older now conversion_window_ms (or_option (nr_stage_entered_at r) (nr_created_at r))
                              \<and> (nr_funnel r = In_Funnel Propostas \<or> nr_funnel r = In_Funnel Oportunidades))
           in (if \<not> truthy (nr_next_action r) \<and> nr_next_action_at r = None
               then [exception_for Missing_Next_Action At_High r p] else [])
              @ (if older now two_weeks_ms stage_anchor then [exception_for Stalled_Stage At_High r p] else [])
              @ (if past_close \<or> over_window then [exception_for Conversion_Window_Gap At_Medium r p] else [])
              @ (if older now two_weeks_ms (or_option (nr_last_activity_at r) (nr_updated_at r))
                 then [exception_for Aging At_Medium r p] else []))"

definition compare_exceptions :: "commercial_env \<Rightarrow> exception_row \<Rightarrow> exception_row \<Rightarrow> int" where
  "compare_exceptions V a b =
     (if kind_rank (xr_kind a) \<noteq> kind_rank (xr_kind b) then kind_rank (xr_kind a) - kind_rank (xr_kind b)
      else if attention_severity_rank (xr_severity a) \<noteq> attention_severity_rank (xr_severity b)
           then attention_severity_rank (xr_severity a) - attention_severity_rank (xr_severity b)
      else if cy_collate V (xr_id a) < cy_collate V (xr_id b) then -1
      else if cy_collate V (xr_id b) < cy_collate V (xr_id a) then 1 else 0)"

definition collect_exceptions ::
  "commercial_env \<Rightarrow> normalized_input \<Rightarrow> int \<Rightarrow> string \<Rightarrow> freshness_status \<Rightarrow> exception_row list" where
  "collect_exceptions V inp now now_iso f =
     js_sort (compare_exceptions V)
       (concat (map (\<lambda>r. offer_exceptions inp now_iso f r @ operational_exceptions now now_iso f r)
          (ni_records inp)))"

definition better_exception :: "exception_row \<Rightarrow> exception_row \<Rightarrow> bool" where
  "better_exception a b \<longleftrightarrow>
     kind_rank (xr_kind a) < kind_rank (xr_kind b)
     \<or> kind_rank (xr_kind a) = kind_rank (xr_kind b)
       \<and> attention_severity_rank (xr_severity a) < attention_severity_rank (xr_severity b)"

text \<open>\<open>byRecord\<close>: one row per record, in order of first appearance\<close>

fun keep_better :: "exception_row \<Rightarrow> exception_row list \<Rightarrow> exception_row list" where
  "keep_better x [] = [x]"
| "keep_better x (y # ys) =
     (if xr_record_id y = xr_record_id x then (if better_exception x y then x else y) # ys
      else y # keep_better x ys)"

definition select_attention :: "commercial_env \<Rightarrow> exception_row list \<Rightarrow> exception_row list" where
  "select_attention V xs =
     take attention_now_limit (js_sort (compare_exceptions V) (foldl (\<lambda>acc x. keep_better x acc) [] xs))"

section \<open>Summary\<close>

definition aggregate_confidence :: "commercial_env \<Rightarrow> normalized_input \<Rightarrow> nat \<Rightarrow> rat" where
  "aggregate_confidence V inp unclassified =
     (if ni_records inp = [] then 0
      else case ni_confidence inp of
        Some c \<Rightarrow> if unclassified > 0 then min c (1 / 2) else c
      | None \<Rightarrow> cy_double V (of_nat (length (ni_records inp) - unclassified) / of_nat (length (ni_records inp))))"

definition project_normalized ::
  "commercial_env \<Rightarrow> int option \<Rightarrow> normalized_input \<Rightarrow> commercial_summary" where
  "project_normalized V given_now inp =
     (let now = or_else given_now (or_else (ni_observed_at inp) 0);
          observed = (case ni_observed_at inp of Some t \<Rightarrow> to_iso t | None \<Rightarrow> ni_observed_at_iso inp);
          f = rollup_freshness
                (map (\<lambda>r. classify_freshness (nr_observed_at r) now (nr_freshness_status r)) (ni_records inp)
                 @ [classify_freshness (ni_observed_at inp) now (ni_freshness_status inp)]);
          unclassified = unclassified_count (ni_records inp);
          confidence = Some (aggregate_confidence V inp unclassified);
          p = provenance_for (ni_source inp) observed f confidence;
          opens = filter is_open_pipeline (ni_records inp);
          exceptions = collect_exceptions V inp now observed f
      in \<lparr>su_generated_at = to_iso now, su_authority_id = op_authority_id (ni_offer_pin inp),
          su_catalog_id = op_catalog_id (ni_offer_pin inp),
          su_pin_observed_at = or_else (op_observed_at (ni_offer_pin inp)) observed,
          su_provenance = p, su_funnel = (\<lambda>k. \<lparr>fn_value = funnel_count (ni_records inp) k, fn_provenance = p\<rparr>),
          su_nominal = nominal_pipeline V (ni_source inp) observed f confidence opens,
          su_weighted = weighted_pipeline V (ni_source inp) observed f confidence opens,
          su_exceptions = exceptions, su_attention = select_attention V exceptions,
          su_unclassified = \<lparr>fn_value = unclassified, fn_provenance = p\<rparr>\<rparr>)"

definition project_commercial_summary ::
  "commercial_env \<Rightarrow> int option \<Rightarrow> observation_set \<Rightarrow> commercial_summary" where
  "project_commercial_summary V given_now raw =
     project_normalized V given_now (normalize_input V raw ''fixture'')"

definition attention_slice :: "commercial_summary \<Rightarrow> (string \<times> attention_kind \<times> string) list" where
  "attention_slice s = map (\<lambda>x. (xr_id x, xr_kind x, xr_record_id x)) (su_attention s)"

end
