(* ===== verification/Commercial_Laws.thy ===== *)
theory Commercial_Laws
  imports Commercial_Project
begin

text \<open>
  The commercial summary, proved: what the funnel counts, which records the two pipeline amounts add up,
  the choice of the three items of attention and the conversion of major units to cents.
\<close>

section \<open>Funnel\<close>

definition buckets_of :: "funnel_key list" where
  "buckets_of = [Novos_Leads, Qualificados, Oportunidades, Propostas, Clientes]"

lemma bucket_cases:
  "(\<Sum>k\<leftarrow>buckets_of. if b = In_Funnel k then 1 else 0) + (if b = Unclassified then 1 else 0) + (if b = Lost then 1 else 0)
     + (if b = Inherited then 1 else 0) = (1 :: nat)"
proof (cases b)
  case (In_Funnel k)
  then show ?thesis by (cases k) (simp_all add: buckets_of_def)
qed (simp_all add: buckets_of_def)

lemma length_filter_sum: "length (filter P xs) = (\<Sum>x\<leftarrow>xs. if P x then 1 else (0 :: nat))"
  by (induction xs) simp_all

lemma funnel_partition:
  "(\<Sum>k\<leftarrow>buckets_of. funnel_count rs k) + unclassified_count rs + length (filter (\<lambda>r. nr_funnel r = Lost) rs)
     + length (filter (\<lambda>r. nr_funnel r = Inherited) rs) = length rs"
proof (induction rs)
  case Nil
  then show ?case by (simp add: funnel_count_def unclassified_count_def)
next
  case (Cons r rs)
  have "funnel_count (r # rs) k = (if nr_funnel r = In_Funnel k then 1 else 0) + funnel_count rs k" for k
    by (simp add: funnel_count_def)
  then have "(\<Sum>k\<leftarrow>buckets_of. funnel_count (r # rs) k)
      = (\<Sum>k\<leftarrow>buckets_of. if nr_funnel r = In_Funnel k then 1 else 0) + (\<Sum>k\<leftarrow>buckets_of. funnel_count rs k)"
    by (simp add: sum_list_addf)
  with bucket_cases [of "nr_funnel r"] Cons.IH show ?case by (simp add: unclassified_count_def split: if_splits)
qed

lemma normalized_length:
  "length (ni_records (normalize_input V inp fallback))
     = length (filter (\<lambda>r. cw_id r \<noteq> [] \<and> cw_entity r \<noteq> Task) (os_records inp))"
  by (simp add: normalize_input_def Let_def attach_task_next_actions_def conj_commute)

text \<open>A record gets an inherited bucket only through one of the names of \<open>Object.prototype\<close>.\<close>

lemma or_option_Some: "or_option a b = Some x \<longleftrightarrow> a = Some x \<or> a = None \<and> b = Some x"
  by (cases a) simp_all

definition prototype_name :: "string option \<Rightarrow> bool" where
  "prototype_name v \<longleftrightarrow> (case v of None \<Rightarrow> False | Some s \<Rightarrow> s \<in> set object_prototype \<or> norm_key s \<in> set object_prototype)"

lemma lookup_stage_inherited:
  "lookup_stage stages raw = Some Inherited \<Longrightarrow> prototype_name raw"
  by (auto simp: prototype_name_def lookup_stage_def stage_property_def or_option_Some split: option.splits if_splits)

lemma classify_inherited:
  assumes "classify_funnel stages r = Inherited"
  shows "prototype_name (cw_funnel_stage r) \<or> prototype_name (cw_stage_name r) \<or> prototype_name (cw_stage_id r)"
proof -
  have other: ?thesis if "classify_other stages status r = Inherited" for status
  proof -
    from that have "or_option (lookup_stage stages (cw_stage_name r)) (lookup_stage stages (cw_stage_id r)) = Some Inherited"
      by (auto simp: classify_other_def classify_inbound_lead_def classify_contact_def split: if_splits option.splits)
    then consider "lookup_stage stages (cw_stage_name r) = Some Inherited"
      | "lookup_stage stages (cw_stage_id r) = Some Inherited"
      by (auto simp: or_option_Some)
    then show ?thesis by cases (auto dest: lookup_stage_inherited)
  qed
  show ?thesis
  proof (cases "lookup_stage stages (cw_funnel_stage r) = Some Inherited")
    case True
    then show ?thesis by (auto dest: lookup_stage_inherited)
  next
    case False
    with assms have "classify_other stages (norm_key (or_else (cw_status r) [])) r = Inherited"
      by (auto simp: classify_funnel_def Let_def split: if_splits option.splits)
    then show ?thesis by (rule other)
  qed
qed

section \<open>Attention\<close>

definition exception_key :: "exception_row \<Rightarrow> int \<times> int" where
  "exception_key x = (kind_rank (xr_kind x), attention_severity_rank (xr_severity x))"

lemma better_exception_key: "better_exception a b \<longleftrightarrow> exception_key a < exception_key b"
  by (auto simp: better_exception_def exception_key_def)

lemma compare_exceptions_key:
  "compare_exceptions V a b \<le> 0 \<longleftrightarrow> (exception_key a, cy_collate V (xr_id a)) \<le> (exception_key b, cy_collate V (xr_id b))"
  unfolding compare_exceptions_def exception_key_def cmp_if_le cmp_ascending by auto

lemma sort_exceptions:
  "js_sort (compare_exceptions V) xs = sort_key (\<lambda>x. (exception_key x, cy_collate V (xr_id x))) xs"
  by (rule js_sort_key) (rule compare_exceptions_key)

definition best_rows :: "exception_row list \<Rightarrow> exception_row list \<Rightarrow> bool" where
  "best_rows seen rows \<longleftrightarrow>
     distinct (map xr_record_id rows) \<and> set rows \<subseteq> set seen \<and> xr_record_id ` set rows = xr_record_id ` set seen
     \<and> (\<forall>x \<in> set rows. \<forall>y \<in> set seen. xr_record_id y = xr_record_id x \<longrightarrow> exception_key x \<le> exception_key y)"

lemma keep_better_ids:
  "map xr_record_id (keep_better x ys)
     = (if xr_record_id x \<in> xr_record_id ` set ys then map xr_record_id ys else map xr_record_id ys @ [xr_record_id x])"
  by (induction x ys rule: keep_better.induct) auto

text \<open>The row of a record after a step: untouched, the old one when it is as good, or else the new one.\<close>

definition row_kept :: "exception_row \<Rightarrow> exception_row list \<Rightarrow> exception_row \<Rightarrow> bool" where
  "row_kept x ys z \<longleftrightarrow> z \<in> set ys \<and> (xr_record_id z = xr_record_id x \<longrightarrow> exception_key z \<le> exception_key x)"

definition row_taken :: "exception_row \<Rightarrow> exception_row list \<Rightarrow> exception_row \<Rightarrow> bool" where
  "row_taken x ys z \<longleftrightarrow>
     z = x \<and> (\<forall>y \<in> set ys. xr_record_id y = xr_record_id x \<longrightarrow> exception_key x \<le> exception_key y)"

lemma keep_better_row:
  "distinct (map xr_record_id ys) \<Longrightarrow> z \<in> set (keep_better x ys) \<Longrightarrow> row_kept x ys z \<or> row_taken x ys z"
proof (induction ys)
  case Nil
  then show ?case by (simp add: row_taken_def)
next
  case (Cons y ys)
  show ?case
  proof (cases "xr_record_id y = xr_record_id x")
    case True
    with Cons.prems(1) have "xr_record_id x \<notin> xr_record_id ` set ys" by simp
    then have other: "xr_record_id w \<noteq> xr_record_id x" if "w \<in> set ys" for w
      using that by (metis imageI)
    from True Cons.prems(2) consider "z \<in> set ys" | "z = y" "\<not> better_exception x y" | "z = x" "better_exception x y"
      by (auto split: if_splits)
    then show ?thesis
    proof cases
      case 1
      with other show ?thesis by (simp add: row_kept_def)
    next
      case 2
      then show ?thesis by (simp add: row_kept_def better_exception_key not_less)
    next
      case 3
      with other show ?thesis by (auto simp: row_taken_def better_exception_key)
    qed
  next
    case False
    with Cons.prems(2) consider "z = y" | "z \<in> set (keep_better x ys)" by auto
    then show ?thesis
    proof cases
      case 1
      with False show ?thesis by (simp add: row_kept_def)
    next
      case 2
      with Cons.IH Cons.prems(1) False show ?thesis by (auto simp: row_kept_def row_taken_def)
    qed
  qed
qed

lemma best_rows_step:
  assumes "best_rows seen rows"
  shows "best_rows (seen @ [x]) (keep_better x rows)"
proof -
  let ?new = "keep_better x rows"
  note b = assms [unfolded best_rows_def]
  have ids: "map xr_record_id ?new = (if xr_record_id x \<in> xr_record_id ` set rows then map xr_record_id rows
      else map xr_record_id rows @ [xr_record_id x])"
    by (rule keep_better_ids)
  with b have d: "distinct (map xr_record_id ?new)" by simp
  have "set (map xr_record_id ?new) = insert (xr_record_id x) (xr_record_id ` set rows)"
    unfolding ids by auto
  with b have img: "xr_record_id ` set ?new = xr_record_id ` set (seen @ [x])" by simp
  have row: "z \<in> set (seen @ [x])
      \<and> (\<forall>y \<in> set (seen @ [x]). xr_record_id y = xr_record_id z \<longrightarrow> exception_key z \<le> exception_key y)"
    if "z \<in> set ?new" for z
  proof -
    from b have dist: "distinct (map xr_record_id rows)" by simp
    from b have sub: "\<forall>w \<in> set rows. w \<in> set seen
        \<and> (\<forall>y \<in> set seen. xr_record_id y = xr_record_id w \<longrightarrow> exception_key w \<le> exception_key y)" by blast
    from keep_better_row [OF dist that] show ?thesis
    proof
      assume "row_kept x rows z"
      with sub show ?thesis by (simp add: row_kept_def)
    next
      assume t: "row_taken x rows z"
      have "exception_key x \<le> exception_key y" if y: "y \<in> set seen" "xr_record_id y = xr_record_id x" for y
      proof -
        from y(1) have "xr_record_id y \<in> xr_record_id ` set seen" by simp
        with b y(2) have "xr_record_id x \<in> xr_record_id ` set rows" by simp
        then obtain w where w: "w \<in> set rows" "xr_record_id w = xr_record_id x" by auto
        with sub y have "exception_key w \<le> exception_key y" by simp
        moreover from t w have "exception_key x \<le> exception_key w" by (simp add: row_taken_def)
        ultimately show ?thesis by (rule order_trans [rotated])
      qed
      with t show ?thesis by (simp add: row_taken_def)
    qed
  qed
  then have sub: "set ?new \<subseteq> set (seen @ [x])" by blast
  from row have best: "\<forall>z \<in> set ?new. \<forall>y \<in> set (seen @ [x]).
      xr_record_id y = xr_record_id z \<longrightarrow> exception_key z \<le> exception_key y" by blast
  show ?thesis unfolding best_rows_def by (intro conjI d sub img best)
qed

lemma best_rows_fold:
  "best_rows seen rows \<Longrightarrow> best_rows (seen @ xs) (foldl (\<lambda>acc x. keep_better x acc) rows xs)"
proof (induction xs arbitrary: seen rows)
  case (Cons x xs)
  from Cons.IH [OF best_rows_step [OF Cons.prems]] show ?case by simp
qed simp

lemma best_rows_all: "best_rows xs (foldl (\<lambda>acc x. keep_better x acc) [] xs)"
  using best_rows_fold [of "[]" "[]" xs] by (simp add: best_rows_def)

lemma sorted_take_drop_le:
  assumes "sorted (map key xs)" "x \<in> set (take n xs)" "y \<in> set (drop n xs)"
  shows "key x \<le> key y"
proof -
  from assms(1) have "sorted (map key (take n xs) @ map key (drop n xs))"
    by (simp add: map_append [symmetric] del: map_append)
  with assms(2,3) show ?thesis by (auto simp: sorted_append)
qed

lemma ball_subset_mp: "A \<subseteq> B \<Longrightarrow> \<forall>x \<in> B. P x \<Longrightarrow> \<forall>x \<in> A. P x"
  by blast

lemma select_attention_worst:
  "length (select_attention V xs) \<le> 3 \<and> distinct (map xr_record_id (select_attention V xs))
    \<and> sorted (map exception_key (select_attention V xs))
    \<and> (\<forall>x \<in> set (select_attention V xs). x \<in> set xs
         \<and> (\<forall>y \<in> set xs. xr_record_id y = xr_record_id x \<longrightarrow> exception_key x \<le> exception_key y))
    \<and> (\<forall>y \<in> set xs. xr_record_id y \<in> xr_record_id ` set (select_attention V xs)
         \<or> length (select_attention V xs) = 3 \<and> (\<forall>x \<in> set (select_attention V xs). exception_key x \<le> exception_key y))"
proof -
  let ?rows = "foldl (\<lambda>acc x. keep_better x acc) [] xs"
  let ?sorted = "sort_key (\<lambda>x. (exception_key x, cy_collate V (xr_id x))) ?rows"
  have sel: "select_attention V xs = take 3 ?sorted"
    by (simp add: select_attention_def sort_exceptions attention_now_limit_def)
  note b = best_rows_all [of xs, unfolded best_rows_def]
  have keys: "sorted (map exception_key ?sorted)"
  proof -
    have "sorted (map (\<lambda>x. (exception_key x, cy_collate V (xr_id x))) ?sorted)" by (rule sorted_sort_key)
    then show ?thesis unfolding sorted_map by (rule sorted_wrt_mono_rel [rotated]) auto
  qed
  have "distinct (map xr_record_id ?sorted)"
    using b by (simp add: distinct_map)
  then have dist: "distinct (map xr_record_id (take 3 ?sorted))" by (simp flip: take_map)
  have sub: "set (take 3 ?sorted) \<subseteq> set ?rows" using set_take_subset [of 3 ?sorted] by simp
  from b have "\<forall>x \<in> set ?rows. x \<in> set xs
      \<and> (\<forall>y \<in> set xs. xr_record_id y = xr_record_id x \<longrightarrow> exception_key x \<le> exception_key y)" by blast
  from sub this have shown: "\<forall>x \<in> set (take 3 ?sorted). x \<in> set xs
      \<and> (\<forall>y \<in> set xs. xr_record_id y = xr_record_id x \<longrightarrow> exception_key x \<le> exception_key y)" by (rule ball_subset_mp)
  have rest: "xr_record_id y \<in> xr_record_id ` set (take 3 ?sorted)
      \<or> length (take 3 ?sorted) = 3 \<and> (\<forall>x \<in> set (take 3 ?sorted). exception_key x \<le> exception_key y)"
    if y: "y \<in> set xs" for y
  proof -
    from y have "xr_record_id y \<in> xr_record_id ` set xs" by (rule imageI)
    then have "xr_record_id y \<in> xr_record_id ` set ?rows" using b by simp
    then obtain w where w: "w \<in> set ?rows" "xr_record_id w = xr_record_id y" by auto
    with b y have le: "exception_key w \<le> exception_key y" by simp
    from w(1) have "w \<in> set (take 3 ?sorted @ drop 3 ?sorted)" by simp
    then consider "w \<in> set (take 3 ?sorted)" | "w \<in> set (drop 3 ?sorted)" by (auto simp del: append_take_drop_id)
    then show ?thesis
    proof cases
      case 1
      then have "xr_record_id w \<in> xr_record_id ` set (take 3 ?sorted)" by (rule imageI)
      then show ?thesis unfolding w(2) by (rule disjI1)
    next
      case 2
      then have "length (take 3 ?sorted) = 3" by (cases "length ?sorted \<le> 3") simp_all
      moreover have "exception_key x \<le> exception_key y" if "x \<in> set (take 3 ?sorted)" for x
        using sorted_take_drop_le [OF keys that 2] le by (rule order_trans)
      ultimately show ?thesis by blast
    qed
  qed
  have srt: "sorted (map exception_key (take 3 ?sorted))" using sorted_wrt_take [OF keys, of 3] by (simp add: take_map)
  have "length (take 3 ?sorted) \<le> 3" by simp
  then show ?thesis unfolding sel by (intro conjI dist shown srt ballI rest)
qed

section \<open>Pipeline\<close>

text \<open>What the rounding of a double is relied on for: it is monotone and exact on safe integers.\<close>

definition rounding_ok :: "commercial_env \<Rightarrow> bool" where
  "rounding_ok V \<longleftrightarrow> mono (cy_double V) \<and> (\<forall>n. \<bar>n\<bar> \<le> 2 ^ 53 \<longrightarrow> cy_double V (of_int n) = of_int n)"

lemma weighted_cents_range: "weighted_cents_exact V a p = Some w \<Longrightarrow> 0 \<le> w"
  by (auto simp: weighted_cents_exact_def Let_def split: if_splits)

lemma weighted_cents_le:
  assumes "rounding_ok V" "is_safe a" "weighted_cents_exact V a p = Some w"
  shows "w \<le> a"
proof -
  from assms(3) have p: "0 \<le> a" "p \<le> 1" and w: "w = js_round (cy_double V (of_int a * p))"
    by (auto simp: weighted_cents_exact_def Let_def split: if_splits)
  from p have "of_int a * p \<le> of_int a" by (simp add: mult_left_le)
  with assms(1) have "cy_double V (of_int a * p) \<le> cy_double V (of_int a)" by (auto simp: rounding_ok_def mono_def)
  also from assms(1,2) have "cy_double V (of_int a) = of_int a" by (auto simp: rounding_ok_def is_safe_def max_safe_def)
  finally show ?thesis unfolding w js_round_def by linarith
qed

lemma unique_singleton:
  assumes "length (unique_strings xs) = 1" "x \<in> set xs"
  shows "x = hd (unique_strings xs)"
proof -
  from assms(1) obtain y where y: "unique_strings xs = [y]" by (cases "unique_strings xs") auto
  with assms(2) have "x \<in> set [y]" by (metis set_unique_strings)
  with y show ?thesis by simp
qed

lemma resolve_amount_range: "resolve_amount V r = (Some a, c) \<Longrightarrow> 0 \<le> a \<and> is_safe a"
  by (auto simp: resolve_amount_def integer_cents_def major_units_to_cents_exact_def Let_def split: if_splits option.splits)

lemma resolve_probability_range: "resolve_probability r = (Some p, b) \<Longrightarrow> 0 \<le> p \<and> p \<le> 1"
  by (auto simp: resolve_probability_def split: if_splits option.splits)

text \<open>The records of a normalized input: each comes from a record of the input, up to its next action.\<close>

definition commercial_records :: "observation_set \<Rightarrow> warmbly_record list" where
  "commercial_records inp = filter (\<lambda>r. cw_id r \<noteq> [] \<and> cw_entity r \<noteq> Task) (os_records inp)"

lemma normalized_records:
  "ni_records (normalize_input V inp fallback) =
     attach_task_next_actions V (filter (\<lambda>r. cw_entity r = Task) (filter (\<lambda>r. cw_id r \<noteq> []) (os_records inp)))
       (sort_key (\<lambda>r. cy_collate V (nr_id r))
          (map (normalize_record V inp (extra_of (coerce_pin (os_offer_pin inp)))) (commercial_records inp)))"
  by (simp add: normalize_input_def Let_def commercial_records_def conj_commute)

lemma attached_map:
  assumes "\<And>r a t. f (r\<lparr>nr_next_action := a, nr_next_action_at := t\<rparr>) = f r"
  shows "map f (attach_task_next_actions V tasks rs) = map f rs"
  by (induction rs) (auto simp: attach_task_next_actions_def assms split: list.splits)

lemma normalized_mset:
  assumes "\<And>r a t. f (r\<lparr>nr_next_action := a, nr_next_action_at := t\<rparr>) = f r"
  shows "mset (map f (ni_records (normalize_input V inp fallback)))
    = mset (map (\<lambda>r. f (normalize_record V inp (extra_of (coerce_pin (os_offer_pin inp))) r)) (commercial_records inp))"
  unfolding normalized_records attached_map [OF assms] by (simp add: image_mset.compositionality comp_def)

definition record_sound :: "normalized_record \<Rightarrow> bool" where
  "record_sound r \<longleftrightarrow>
     (case nr_amount_cents r of Some a \<Rightarrow> 0 \<le> a \<and> is_safe a | None \<Rightarrow> True)
     \<and> (case nr_probability r of Some p \<Rightarrow> 0 \<le> p \<and> p \<le> 1 | None \<Rightarrow> True)"

lemma normalize_record_sound: "record_sound (normalize_record V inp extra r)"
  using resolve_amount_range [of V r] resolve_probability_range [of r]
  by (cases "resolve_amount V r"; cases "resolve_probability r")
     (auto simp: record_sound_def normalize_record_def Let_def split: option.splits)

lemma normalized_sound: "\<forall>r \<in> set (ni_records (normalize_input V inp fallback)). record_sound r"
proof -
  let ?rs = "ni_records (normalize_input V inp fallback)"
  have "mset (map record_sound ?rs)
      = mset (map (\<lambda>r. record_sound (normalize_record V inp (extra_of (coerce_pin (os_offer_pin inp))) r))
          (commercial_records inp))"
    by (rule normalized_mset) (simp add: record_sound_def)
  then have "set (map record_sound ?rs) \<subseteq> {True}"
    unfolding set_mset_mset [symmetric] by (auto simp: normalize_record_sound)
  then show ?thesis by auto
qed

text \<open>Adding cents is exact while the sum is at most \<open>2^53\<close>.\<close>

lemma add_cents_exact: "rounding_ok V \<Longrightarrow> 0 \<le> t + n \<Longrightarrow> t + n \<le> 2 ^ 53 \<Longrightarrow> add_cents_to V (of_int t) n = of_int (t + n)"
  unfolding rounding_ok_def add_cents_to_def of_int_add [symmetric] by (metis abs_of_nonneg)

lemma add_cents_nonneg:
  assumes "rounding_ok V" "0 \<le> t" "0 \<le> n"
  shows "0 \<le> add_cents_to V t n"
proof -
  have "cy_double V (of_int 0) = of_int 0" using assms(1) by (simp add: rounding_ok_def del: of_int_0)
  moreover have "cy_double V 0 \<le> cy_double V (t + of_int n)"
    using assms by (auto simp: rounding_ok_def mono_def)
  ultimately show ?thesis by (simp add: add_cents_to_def)
qed

lemma double_sum_exact:
  assumes "rounding_ok V"
  shows "\<forall>x \<in> set xs. 0 \<le> x \<Longrightarrow> 0 \<le> t \<Longrightarrow> t + sum_list xs \<le> 2 ^ 53 \<Longrightarrow>
    foldl (add_cents_to V) (of_int t) xs = of_int (t + sum_list xs)"
proof (induction xs arbitrary: t)
  case (Cons x xs)
  have "0 \<le> sum_list xs" using Cons.prems(1) by (intro sum_list_nonneg) simp
  with Cons.prems have "add_cents_to V (of_int t) x = of_int (t + x)" by (intro add_cents_exact [OF assms]) simp_all
  with Cons.IH [of "t + x"] Cons.prems show ?case by (simp add: algebra_simps)
qed simp

definition amounts_total :: "normalized_record list \<Rightarrow> int" where
  "amounts_total rs = (\<Sum>r\<leftarrow>rs. or_else (nr_amount_cents r) 0)"

lemma sound_amount: "record_sound r \<Longrightarrow> 0 \<le> or_else (nr_amount_cents r) 0 \<and> is_safe (or_else (nr_amount_cents r) 0)"
  by (cases "nr_amount_cents r") (simp_all add: record_sound_def is_safe_def max_safe_def)

lemma amounts_total_nonneg: "\<forall>r \<in> set rs. record_sound r \<Longrightarrow> 0 \<le> amounts_total rs"
  unfolding amounts_total_def by (intro sum_list_nonneg) (auto dest: sound_amount)

lemma sum_weighted_nonneg:
  "rounding_ok V \<Longrightarrow> 0 \<le> t \<Longrightarrow> sum_weighted V t rs = Some w \<Longrightarrow> 0 \<le> w"
  by (induction rs arbitrary: t) (auto split: option.splits intro: add_cents_nonneg dest: weighted_cents_range)

lemma sum_weighted_bounds:
  assumes "rounding_ok V"
  shows "sum_weighted V (of_int t) rs = Some w \<Longrightarrow> \<forall>r \<in> set rs. record_sound r \<Longrightarrow> 0 \<le> t
    \<Longrightarrow> t + amounts_total rs \<le> 2 ^ 53 \<Longrightarrow> w \<le> of_int (t + amounts_total rs)"
proof (induction rs arbitrary: t)
  case Nil
  then show ?case by (simp add: amounts_total_def)
next
  case (Cons r rs)
  from Cons.prems(1) obtain u where u: "weighted_cents_exact V (or_else (nr_amount_cents r) 0) (or_else (nr_probability r) 0) = Some u"
    and run: "sum_weighted V (add_cents_to V (of_int t) u) rs = Some w"
    by (auto split: option.splits)
  have amount: "is_safe (or_else (nr_amount_cents r) 0)" using sound_amount Cons.prems(2) by simp
  note le = weighted_cents_le [OF assms amount u] weighted_cents_range [OF u]
  have rest: "\<forall>r \<in> set rs. record_sound r" "0 \<le> amounts_total rs" using Cons.prems(2) amounts_total_nonneg by simp_all
  have total: "amounts_total (r # rs) = or_else (nr_amount_cents r) 0 + amounts_total rs" by (simp add: amounts_total_def)
  have "add_cents_to V (of_int t) u = of_int (t + u)"
    using le rest(2) Cons.prems(3,4) total by (intro add_cents_exact [OF assms]) linarith+
  with run have "sum_weighted V (of_int (t + u)) rs = Some w" by simp
  from Cons.IH [OF this rest(1)] le Cons.prems(3,4) total have "w \<le> of_int (t + u + amounts_total rs)" by simp
  also have "\<dots> \<le> of_int (t + amounts_total (r # rs))" unfolding of_int_le_iff using le total by linarith
  finally show ?case .
qed

lemma nominal_present:
  assumes "nominal_pipeline V source observed f confidence opens = Present a cur p" "rounding_ok V"
    "\<forall>r \<in> set opens. record_sound r"
  shows "opens \<noteq> [] \<and> (\<forall>r \<in> set opens. nr_amount_cents r = None \<or> nr_currency r = Some cur)
    \<and> (amounts_total opens \<le> 2 ^ 53 \<longrightarrow> a = of_int (amounts_total opens))"
proof -
  let ?known = "known_amounts opens"
  from assms(1) have n: "opens \<noteq> []" and und: "filter (\<lambda>r. nr_currency r = None) ?known = []"
    and one: "length (currencies_of ?known) = 1" and a: "a = foldl (add_cents_to V) 0 (map (\<lambda>r. or_else (nr_amount_cents r) 0) ?known)"
    and cur: "cur = hd (currencies_of ?known)"
    by (simp_all add: nominal_pipeline_def Let_def split: if_splits)
  have "nr_amount_cents r = None \<or> nr_currency r = Some cur" if r: "r \<in> set opens" for r
  proof (cases "nr_amount_cents r = None")
    case False
    note r = r False
    from r have k: "r \<in> set ?known" by (simp add: known_amounts_def)
    with und obtain c where c: "nr_currency r = Some c" by (auto simp: filter_empty_conv)
    from k c have "c \<in> set (map (\<lambda>r. the (nr_currency r)) (filter (\<lambda>r. nr_currency r \<noteq> None) ?known))"
      by (force intro: rev_image_eqI)
    from unique_singleton [OF _ this] one cur c show ?thesis by (simp add: currencies_of_def)
  qed simp
  moreover have known: "sum_list (map (\<lambda>r. or_else (nr_amount_cents r) 0) ?known) = amounts_total opens"
    unfolding known_amounts_def amounts_total_def by (rule sum_list_map_filter) auto
  moreover have "\<forall>x \<in> set (map (\<lambda>r. or_else (nr_amount_cents r) 0) ?known). 0 \<le> x"
    using assms(3) sound_amount by (auto simp: known_amounts_def)
  then have "amounts_total opens \<le> 2 ^ 53 \<longrightarrow> a = of_int (amounts_total opens)"
    using double_sum_exact [OF assms(2), of "map (\<lambda>r. or_else (nr_amount_cents r) 0) ?known" 0] unfolding known a by simp
  ultimately show ?thesis using n by auto
qed

lemma weighted_present:
  assumes "weighted_pipeline V source observed f confidence opens = Present w cur p"
  shows "(\<forall>r \<in> set opens. nr_amount_cents r \<noteq> None \<and> nr_probability_reliable r \<and> nr_probability r \<noteq> None)
    \<and> sum_weighted V 0 opens = Some w \<and> (\<forall>r \<in> set opens. nr_currency r = None \<or> nr_currency r = Some cur)"
proof -
  from assms have rel: "\<forall>r \<in> set opens. nr_amount_cents r \<noteq> None \<and> nr_probability_reliable r \<and> nr_probability r \<noteq> None"
    and w: "sum_weighted V 0 opens = Some w" and one: "length (currencies_of (known_amounts opens)) = 1"
    and cur: "cur = hd (currencies_of (known_amounts opens))"
    by (auto simp: weighted_pipeline_def Let_def list_all_iff split: if_splits option.splits)
  have "nr_currency r = Some cur" if r: "r \<in> set opens" and c: "nr_currency r = Some c" for r c
  proof -
    from r c rel have "c \<in> set (map (\<lambda>r. the (nr_currency r)) (filter (\<lambda>r. nr_currency r \<noteq> None) (known_amounts opens)))"
      by (force simp: known_amounts_def intro: rev_image_eqI)
    from unique_singleton [OF _ this] one cur c show ?thesis by (simp add: currencies_of_def)
  qed
  with rel w show ?thesis by (metis option.exhaust)
qed

lemma normalized_count:
  "length (filter (\<lambda>r. nr_funnel r = b) (ni_records (normalize_input V inp fallback)))
    = length (filter (\<lambda>r. classify_funnel (os_stage_map inp @ default_stage_map) r = b) (commercial_records inp))"
proof -
  let ?rs = "ni_records (normalize_input V inp fallback)"
  let ?c = "classify_funnel (os_stage_map inp @ default_stage_map)"
  have m: "mset (map nr_funnel ?rs) = mset (map ?c (commercial_records inp))"
    by (subst normalized_mset) (simp_all add: normalize_record_def Let_def)
  have "length (filter (\<lambda>r. f r = b) xs) = count (mset (map f xs)) b" for f :: "'x \<Rightarrow> funnel_bucket" and xs
    by (induction xs) auto
  note this [of nr_funnel ?rs, unfolded m, folded this [of ?c "commercial_records inp"]]
  then show ?thesis .
qed

lemma lookup_stage_not_lost: "lookup_stage stages raw \<noteq> Some Lost"
  by (auto simp: lookup_stage_def stage_property_def or_option_Some split: option.splits if_splits)

lemma classify_lost: "classify_funnel stages r = Lost \<longleftrightarrow> norm_key (or_else (cw_status r) []) \<in> set lost_statuses"
proof -
  have "classify_other stages status r \<noteq> Lost" for status
  proof -
    have "or_option (lookup_stage stages (cw_stage_name r)) (lookup_stage stages (cw_stage_id r)) \<noteq> Some Lost"
      by (simp add: or_option_Some lookup_stage_not_lost)
    then show ?thesis
      by (auto simp: classify_other_def classify_inbound_lead_def classify_contact_def split: option.splits)
  qed
  with lookup_stage_not_lost show ?thesis
    by (auto simp: classify_funnel_def Let_def split: option.splits)
qed

end
