(* ===== verification/Commercial_Properties.thy ===== *)
theory Commercial_Properties
  imports Commercial_Laws
begin

text \<open>
  What the commercial summary promises: every record is counted once, the pipeline amounts add up what they
  say, attention shows the worst exceptions. And where it does not: names of \<open>Object.prototype\<close> as a stage,
  amounts without a readable currency, closed deals that keep a funnel stage.
\<close>

section \<open>Samples\<close>

definition blank_record :: warmbly_record where
  "blank_record =
     \<lparr>cw_id = ''d1'', cw_entity = Deal, cw_status = None, cw_funnel_stage = None, cw_stage_id = None, cw_stage_name = None,
      cw_stage_entered_at = None, cw_value = None, cw_amount_cents = Some 10000, cw_currency = None,
      cw_probability = Some (1/2), cw_probability_reliable = Some True, cw_offer_id = None, cw_offer_version = None,
      cw_treated_as_catalog_offer = None, cw_next_action = None, cw_next_action_at = None, cw_last_activity_at = None,
      cw_expected_close_at = None, cw_created_at = None, cw_updated_at = None, cw_observed_at = None,
      cw_freshness_status = None, cw_confidence = None, cw_deal_id = None, cw_inbound_lead_id = None,
      cw_due_date = None\<rparr>"

definition proposal_record :: warmbly_record where
  "proposal_record = blank_record\<lparr>cw_funnel_stage := Some ''propostas''\<rparr>"

definition sample_observations :: "warmbly_record list \<Rightarrow> observation_set" where
  "sample_observations rs =
     \<lparr>os_observed_at = None, os_source = None, os_freshness_status = None, os_confidence = None, os_records = rs,
      os_stage_map = [], os_offer_pin = None\<rparr>"

definition exact_env :: commercial_env where
  "exact_env = \<lparr>cy_double = (\<lambda>x. x), cy_parse_date = (\<lambda>_. None), cy_collate = (\<lambda>s. s)\<rparr>"

lemma exact_rounding: "rounding_ok exact_env"
  by (simp add: rounding_ok_def exact_env_def mono_def)

section \<open>Funnel\<close>

text \<open>
  C32. Every record is counted exactly once. When no stage is named like a member of \<open>Object.prototype\<close>, the
  five funnel counts, the unclassified count and the records with a lost status together are the records of
  the input that have an id and are no tasks.
\<close>

theorem funnel_counts_everything:
  assumes "list_all (\<lambda>r. \<not> prototype_name (cw_funnel_stage r) \<and> \<not> prototype_name (cw_stage_name r)
      \<and> \<not> prototype_name (cw_stage_id r)) (os_records raw)"
  shows "(\<Sum>k\<leftarrow>map snd funnel_keys. fn_value (su_funnel (project_commercial_summary V now raw) k))
      + fn_value (su_unclassified (project_commercial_summary V now raw))
      + length (filter (\<lambda>r. norm_key (or_else (cw_status r) []) \<in> set lost_statuses)
          (filter (\<lambda>r. cw_id r \<noteq> [] \<and> cw_entity r \<noteq> Task) (os_records raw)))
    = length (filter (\<lambda>r. cw_id r \<noteq> [] \<and> cw_entity r \<noteq> Task) (os_records raw))"
proof -
  let ?rs = "ni_records (normalize_input V raw ''fixture'')"
  have count: "length (filter (\<lambda>r. nr_funnel r = b) ?rs)
      = length (filter (\<lambda>r. classify_funnel (os_stage_map raw @ default_stage_map) r = b) (commercial_records raw))" for b
    by (rule normalized_count)
  have "classify_funnel (os_stage_map raw @ default_stage_map) r \<noteq> Inherited" if "r \<in> set (commercial_records raw)" for r
    using that assms classify_inherited [of "os_stage_map raw @ default_stage_map" r]
    by (auto simp: commercial_records_def list_all_iff)
  then have inh: "length (filter (\<lambda>r. nr_funnel r = Inherited) ?rs) = 0"
    unfolding count by (simp add: filter_empty_conv)
  have lost: "length (filter (\<lambda>r. nr_funnel r = Lost) ?rs)
      = length (filter (\<lambda>r. norm_key (or_else (cw_status r) []) \<in> set lost_statuses) (commercial_records raw))"
    unfolding count by (simp add: classify_lost)
  have len: "length ?rs = length (commercial_records raw)"
    by (simp add: normalized_length commercial_records_def)
  have keys: "map snd funnel_keys = buckets_of" by (simp add: funnel_keys_def buckets_of_def)
  from funnel_partition [of ?rs] inh lost len show ?thesis
    unfolding keys by (simp add: project_commercial_summary_def project_normalized_def Let_def commercial_records_def)
qed

theorem funnel_counts_everything_witness:
  "(\<Sum>k\<leftarrow>map snd funnel_keys. fn_value (su_funnel
      (project_commercial_summary exact_env None (sample_observations [proposal_record, blank_record\<lparr>cw_status := Some ''lost''\<rparr>])) k))
    + fn_value (su_unclassified
      (project_commercial_summary exact_env None (sample_observations [proposal_record, blank_record\<lparr>cw_status := Some ''lost''\<rparr>]))) = 1"
proof -
  have p: "\<not> prototype_name (Some ''propostas'')" "\<not> prototype_name None" by code_simp+
  have l: "norm_key ''lost'' \<in> set lost_statuses" "norm_key [] \<notin> set lost_statuses" by code_simp+
  show ?thesis
    using funnel_counts_everything
      [of "sample_observations [proposal_record, blank_record\<lparr>cw_status := Some ''lost''\<rparr>]" exact_env None]
    by (simp add: sample_observations_def proposal_record_def blank_record_def p l)
qed

section \<open>Pipeline\<close>

text \<open>
  C30. The pipeline amounts say what they add up, as long as the amounts of the open records total at most \<open>2^53\<close>
  cents, up to which doubles add whole numbers exactly. A nominal amount is stated only when every known amount of
  an open record is denominated in its currency, and is then their sum; a weighted amount only when every open record
  has an amount and a reliable probability, it is never negative, and at most the sum of the amounts.
\<close>

theorem pipeline_sound:
  assumes "rounding_ok V"
    "opens = filter is_open_pipeline (ni_records (normalize_input V raw ''fixture''))"
    "whole = (\<Sum>r\<leftarrow>opens. or_else (nr_amount_cents r) 0)"
  shows "(case su_nominal (project_commercial_summary V now raw) of
        Present a cur p \<Rightarrow> opens \<noteq> [] \<and> list_all (\<lambda>r. nr_amount_cents r = None \<or> nr_currency r = Some cur) opens
          \<and> (whole \<le> 2 ^ 53 \<longrightarrow> a = of_int whole)
      | Insufficient_Data _ _ \<Rightarrow> True)
    \<and> (case su_weighted (project_commercial_summary V now raw) of
        Present w cur p \<Rightarrow> list_all (\<lambda>r. nr_amount_cents r \<noteq> None \<and> nr_probability_reliable r
              \<and> (\<exists>q. nr_probability r = Some q \<and> 0 \<le> q \<and> q \<le> 1)) opens
          \<and> 0 \<le> w \<and> (whole \<le> 2 ^ 53 \<longrightarrow> w \<le> of_int whole)
      | Insufficient_Data _ _ \<Rightarrow> True)" (is "?nominal \<and> ?weighted")
proof
  let ?inp = "normalize_input V raw ''fixture''"
  obtain source observed f confidence where
      n: "su_nominal (project_commercial_summary V now raw) = nominal_pipeline V source observed f confidence opens"
    and w: "su_weighted (project_commercial_summary V now raw) = weighted_pipeline V source observed f confidence opens"
    unfolding assms(2) by (simp add: project_commercial_summary_def project_normalized_def Let_def)
  have sound: "\<forall>r \<in> set opens. record_sound r" using normalized_sound [of V raw "''fixture''"] by (simp add: assms(2))
  have total: "whole = amounts_total opens" by (simp add: assms(3) amounts_total_def)
  show ?nominal
  proof (cases "nominal_pipeline V source observed f confidence opens")
    case (Present a cur p)
    from nominal_present [OF this assms(1) sound] show ?thesis unfolding n Present total by (simp add: list_all_iff)
  qed (simp add: n)
  show ?weighted
  proof (cases "weighted_pipeline V source observed f confidence opens")
    case (Present x cur p)
    note wp = weighted_present [OF this]
    have prob: "\<exists>q. nr_probability r = Some q \<and> 0 \<le> q \<and> q \<le> 1" if "r \<in> set opens" for r
    proof -
      from wp that obtain q where q: "nr_probability r = Some q" by auto
      from sound that have "record_sound r" by blast
      with q show ?thesis by (simp add: record_sound_def)
    qed
    from wp have run: "sum_weighted V (of_int 0) opens = Some x" by simp
    from sum_weighted_bounds [OF assms(1) run sound] sum_weighted_nonneg [OF assms(1) _ run] wp prob show ?thesis
      unfolding w Present total by (simp add: list_all_iff)
  qed (simp add: w)
qed

lemma sample_proposal_sum:
  "(\<Sum>r\<leftarrow>filter is_open_pipeline (ni_records (normalize_input exact_env (sample_observations [proposal_record]) ''fixture'')).
      or_else (nr_amount_cents r) 0) = 10000"
  by code_simp

theorem pipeline_sound_witness:
  "(case su_nominal (project_commercial_summary exact_env None (sample_observations [proposal_record])) of
     Present b cur p \<Rightarrow> b = 10000 | Insufficient_Data _ _ \<Rightarrow> True)
   \<and> (case su_weighted (project_commercial_summary exact_env None (sample_observations [proposal_record])) of
     Present w cur p \<Rightarrow> 0 \<le> w \<and> w \<le> 10000 | Insufficient_Data _ _ \<Rightarrow> True)"
  using pipeline_sound [OF exact_rounding refl refl, where now = None and raw = "sample_observations [proposal_record]"]
  unfolding sample_proposal_sum by (auto split: pipeline_money.splits)

text \<open>
  An amount whose stated currency cannot be read makes the nominal pipeline unstated, but it is added to the
  weighted pipeline in the only currency that can be read.
\<close>

definition unreadable_record :: warmbly_record where
  "unreadable_record = proposal_record\<lparr>cw_id := ''d2'', cw_currency := Some ''R$'', cw_amount_cents := Some 5000\<rparr>"

definition money_of :: "pipeline_money \<Rightarrow> no_data_reason + rat \<times> string" where
  "money_of m = (case m of Present a c p \<Rightarrow> Inr (a, c) | Insufficient_Data w p \<Rightarrow> Inl w)"

definition open_records :: "warmbly_record list \<Rightarrow> normalized_record list" where
  "open_records rs = filter is_open_pipeline (ni_records (normalize_input exact_env (sample_observations rs) ''fixture''))"

lemma summary_money:
  "\<exists>source observed f confidence.
     su_nominal (project_commercial_summary exact_env now (sample_observations rs))
       = nominal_pipeline exact_env source observed f confidence (open_records rs)
     \<and> su_weighted (project_commercial_summary exact_env now (sample_observations rs))
       = weighted_pipeline exact_env source observed f confidence (open_records rs)"
  by (simp add: project_commercial_summary_def project_normalized_def open_records_def Let_def) blast

lemma unreadable_open:
  "map (\<lambda>r. (nr_amount_cents r, nr_currency r, nr_probability r, nr_probability_reliable r))
      (open_records [proposal_record, unreadable_record])
   = [(Some 10000, Some ''BRL'', Some (1/2), True), (Some 5000, None, Some (1/2), True)]"
  by code_simp

lemma two_records:
  assumes "map f xs = [a, b]"
  obtains x y where "xs = [x, y]" "f x = a" "f y = b"
  using assms by (cases xs) (auto simp: map_eq_Cons_conv)

lemma weighted_folds_unreadable:
  "money_of (su_nominal (project_commercial_summary exact_env now (sample_observations [proposal_record, unreadable_record])))
     = Inl Unreadable_Currency
   \<and> money_of (su_weighted (project_commercial_summary exact_env now (sample_observations [proposal_record, unreadable_record])))
     = Inr (7500, ''BRL'')"
proof -
  obtain source observed f confidence where m:
    "su_nominal (project_commercial_summary exact_env now (sample_observations [proposal_record, unreadable_record]))
       = nominal_pipeline exact_env source observed f confidence (open_records [proposal_record, unreadable_record])"
    "su_weighted (project_commercial_summary exact_env now (sample_observations [proposal_record, unreadable_record]))
       = weighted_pipeline exact_env source observed f confidence (open_records [proposal_record, unreadable_record])"
    using summary_money [of now "[proposal_record, unreadable_record]"] by blast
  obtain x y where o: "open_records [proposal_record, unreadable_record] = [x, y]"
    and x: "(nr_amount_cents x, nr_currency x, nr_probability x, nr_probability_reliable x)
        = (Some 10000, Some ''BRL'', Some (1/2), True)"
    and y: "(nr_amount_cents y, nr_currency y, nr_probability y, nr_probability_reliable y)
        = (Some 5000, None, Some (1/2), True)"
    by (rule two_records [OF unreadable_open])
  have w: "weighted_cents_exact exact_env 10000 (1/2) = Some 5000" "weighted_cents_exact exact_env 5000 (1/2) = Some 2500"
    by code_simp+
  have half: "\<exists>q :: rat. q * 2 = 1" by (rule exI [of _ "1 / 2"]) simp
  show ?thesis unfolding m o using x y w
    by (simp add: half nominal_pipeline_def weighted_pipeline_def known_amounts_def currencies_of_def money_of_def add_cents_to_def
        exact_env_def Let_def)
qed

text \<open>
  A deal whose stage is called \<open>constructor\<close> is in no funnel count and not in the unclassified one, but its amount is
  part of the pipeline.
\<close>

lemma prototype_stage_uncounted:
  "map (\<lambda>r. (nr_funnel r, nr_amount_cents r)) (open_records [blank_record\<lparr>cw_stage_name := Some ''constructor''\<rparr>])
   = [(Inherited, Some 10000)]"
  by code_simp

text \<open>A deal that is closed and won but keeps a funnel stage of the sale stays in the open pipeline.\<close>

lemma closed_won_still_open:
  "map (\<lambda>status. map nr_amount_cents (open_records [proposal_record\<lparr>cw_status := Some status\<rparr>])) [''won'', ''closed-won'']
   = [[], [Some 10000]]"
  by code_simp

section \<open>Attention\<close>

text \<open>
  C31. Attention shows the worst exceptions. It has at most three items, one per record, each the worst
  exception of its record, the worst first; and an exception that is not shown belongs to a record that is
  shown with one at least as bad, or all three items are at least as bad.
\<close>

theorem attention_shows_worst:
  assumes "project_commercial_summary V now raw = s"
  shows "length (su_attention s) \<le> 3 \<and> distinct (map xr_record_id (su_attention s))
    \<and> sorted (map exception_key (su_attention s))
    \<and> (\<forall>x \<in> set (su_attention s). x \<in> set (su_exceptions s)
         \<and> (\<forall>y \<in> set (su_exceptions s). xr_record_id y = xr_record_id x \<longrightarrow> exception_key x \<le> exception_key y))
    \<and> (\<forall>y \<in> set (su_exceptions s). xr_record_id y \<in> xr_record_id ` set (su_attention s)
         \<or> length (su_attention s) = 3 \<and> (\<forall>x \<in> set (su_attention s). exception_key x \<le> exception_key y))"
proof -
  from assms have "su_attention s = select_attention V (su_exceptions s)"
    by (auto simp: project_commercial_summary_def project_normalized_def Let_def)
  with select_attention_worst [of V "su_exceptions s"] show ?thesis by simp
qed

lemma one_element:
  assumes "length xs = 1"
  obtains x where "x \<in> set xs"
  using assms by (cases xs) auto

lemma collected_operational:
  "r \<in> set (ni_records inp) \<Longrightarrow> x \<in> set (operational_exceptions now stamp f r) \<Longrightarrow>
    x \<in> set (collect_exceptions V inp now stamp f)"
  by (auto simp: collect_exceptions_def sort_exceptions)

lemma sample_exceptions:
  "su_exceptions (project_commercial_summary exact_env now (sample_observations [proposal_record])) \<noteq> []"
proof -
  have "length (filter (\<lambda>r. is_open_pipeline r \<and> nr_next_action r = None \<and> nr_next_action_at r = None)
      (ni_records (normalize_input exact_env (sample_observations [proposal_record]) ''fixture''))) = 1"
    by code_simp
  then obtain r where "r \<in> set (filter (\<lambda>r. is_open_pipeline r \<and> nr_next_action r = None \<and> nr_next_action_at r = None)
      (ni_records (normalize_input exact_env (sample_observations [proposal_record]) ''fixture'')))"
    by (rule one_element)
  then have r: "r \<in> set (ni_records (normalize_input exact_env (sample_observations [proposal_record]) ''fixture''))"
      "is_open_pipeline r" "nr_next_action r = None" "nr_next_action_at r = None"
    by simp_all
  then have ops: "operational_exceptions t iso f r \<noteq> []" for t iso f
    by (simp add: operational_exceptions_def Let_def truthy_def)
  have "collect_exceptions V (normalize_input exact_env (sample_observations [proposal_record]) ''fixture'') t stamp f \<noteq> []"
    for V t stamp f
    using collected_operational [OF r(1) list.set_sel(1) [OF ops]] by (metis empty_iff list.set(1))
  then show ?thesis by (simp add: project_commercial_summary_def project_normalized_def Let_def)
qed

theorem attention_shows_worst_witness:
  "su_attention (project_commercial_summary exact_env None (sample_observations [proposal_record])) \<noteq> []"
proof -
  let ?s = "project_commercial_summary exact_env None (sample_observations [proposal_record])"
  have "su_exceptions ?s \<noteq> []" by (rule sample_exceptions)
  then obtain y where "y \<in> set (su_exceptions ?s)" by fastforce
  with attention_shows_worst [OF refl, where V = exact_env and now = None
      and raw = "sample_observations [proposal_record]"]
  show ?thesis by (cases "su_attention ?s") auto
qed

section \<open>Money\<close>

text \<open>
  Amounts in major units convert exactly. The double nearest to a number of cents over a hundred, up to
  some 45 million units, converts back to that number of cents.
\<close>

theorem major_units_exact:
  assumes "\<And>x. \<bar>cy_double V x - x\<bar> \<le> \<bar>x\<bar> / 2 ^ 53" "0 \<le> n" "n \<le> 4503599000"
  shows "major_units_to_cents_exact V (cy_double V (of_int n / 100)) = Some n"
proof -
  define x where "x = (of_int n :: rat)"
  define v where "v = cy_double V (x / 100)"
  define w where "w = cy_double V (v * 100)"
  have x: "0 \<le> x" "x \<le> 4503599000" using assms(2,3) by (simp_all add: x_def)
  have p53: "(2 :: rat) ^ 53 = 9007199254740992" by simp
  from assms(1) [of "x / 100"] x(1) have v: "\<bar>v - x / 100\<bar> \<le> x / 900719925474099200" unfolding p53 by (simp add: v_def)
  with x(1) have v0: "0 \<le> v" by linarith
  from assms(1) [of "v * 100"] v0 have w: "\<bar>w - v * 100\<bar> \<le> v * 100 / 9007199254740992" unfolding p53 by (simp add: w_def)
  from v w x have close: "\<bar>w - x\<bar> \<le> 1 / 1000000" by linarith
  have round: "js_round w = n"
  proof -
    from close have "of_int n \<le> w + 1 / 2" "w + 1 / 2 < of_int n + 1" unfolding x_def by linarith+
    then show ?thesis unfolding js_round_def by (rule floor_unique)
  qed
  have "is_safe n" using assms(2,3) by (simp add: is_safe_def max_safe_def)
  with v0 close round assms(2) show ?thesis
    by (simp add: major_units_to_cents_exact_def x_def [symmetric] v_def [symmetric] w_def [symmetric] Let_def not_less not_le)
qed

theorem major_units_exact_witness: "major_units_to_cents_exact exact_env (cy_double exact_env (of_int 1999 / 100)) = Some 1999"
  by (rule major_units_exact) (simp_all add: exact_env_def)

end
