(* ===== verification/Directive_Input.thy ===== *)
theory Directive_Input
  imports Attention_Validate Work_Order
begin

text \<open>
  \<open>services/context/src\<close>: the data of the directive service (\<open>types.ts\<close>), its errors (\<open>errors.ts\<close>), who may do
  what (\<open>actor.ts\<close>), scopes and their inheritance (\<open>scope.ts\<close>), cleaning of texts (\<open>sanitize.ts\<close>) and the
  readers of request bodies (\<open>validate.ts\<close>). The code keeps every instant as the \<open>toISOString\<close> of a
  \<open>Date\<close>; here it is the instant. Error messages are dropped; the limit on the bytes of a body is left to the
  HTTP server.
\<close>

section \<open>Errors\<close>

text \<open>\<open>Other_Error\<close> is an \<open>Error\<close> that is no \<open>ServiceError\<close>; the HTTP server answers it with status 500.\<close>

datatype service_error =
    Missing_Actor | Unknown_Actor | Unknown_Actor_Role | Invalid_Actor_Id | Agent_Mutation_Forbidden | Invalid_Input
  | Directive_Not_Found | Proposal_Not_Found | Conflict | Other_Error

type_synonym 'a service_result = "service_error + 'a"

section \<open>Data\<close>

datatype directive_kind = DK_Decision | DK_Directive | DK_Fact | DK_Constraint | DK_Priority | DK_Risk | DK_Hypothesis

datatype directive_status = Draft | Active | Superseded | Revoked | Expired

datatype proposal_action = PA_Create | PA_Version | PA_Supersede | PA_Expire | PA_Activate | PA_Revoke

datatype proposal_status = Pending | Declined

record directive_provenance =
  dp_source :: source_ref
  dp_observed_at :: int
  dp_freshness :: freshness_status
  dp_confidence :: rat

record directive_record =
  dr_id :: string
  dr_revision_id :: string
  dr_version :: nat
  dr_kind :: directive_kind
  dr_title :: string
  dr_body :: string
  dr_scope :: string
  dr_status :: directive_status
  dr_effective_from :: int
  dr_expires_at :: "int option"
  dr_supersedes :: "string list option"
  dr_created_by :: actor_ref
  dr_created_at :: int
  dr_updated_at :: int
  dr_provenance :: directive_provenance

record directive_proposal =
  dq_id :: string
  dq_status :: proposal_status
  dq_action :: proposal_action
  dq_kind :: directive_kind
  dq_title :: string
  dq_body :: string
  dq_scope :: string
  dq_target :: "string option"
  dq_rationale :: string
  dq_created_by :: actor_ref
  dq_created_at :: int
  dq_provenance :: directive_provenance

datatype audit_entity = Directive_Entity | Proposal_Entity | Activity_Entity

record audit_record =
  dz_id :: string
  dz_at :: int
  dz_actor :: actor_ref
  dz_action :: string
  dz_entity_type :: audit_entity
  dz_entity_id :: string
  dz_revision_id :: "string option"

record create_input =
  ci_kind :: directive_kind
  ci_title :: string
  ci_body :: string
  ci_scope :: string
  ci_status :: directive_status
  ci_effective_from :: int
  ci_expires_at :: "int option"
  ci_supersedes :: "string list option"
  ci_provenance :: directive_provenance

text \<open>An absent field is \<open>None\<close>; an expiry of \<open>null\<close> is \<open>Some None\<close>, a confidence of \<open>null\<close> is absent.\<close>

record version_input =
  vi_title :: "string option"
  vi_body :: "string option"
  vi_effective_from :: "int option"
  vi_expires_at :: "int option option"
  vi_source :: "source_ref option"
  vi_observed_at :: "int option"
  vi_freshness :: "freshness_status option"
  vi_confidence :: "rat option"

record proposal_input =
  pi_action :: proposal_action
  pi_kind :: directive_kind
  pi_title :: string
  pi_body :: string
  pi_scope :: string
  pi_target :: "string option"
  pi_rationale :: string
  pi_provenance :: directive_provenance

definition directive_kind_names :: "(string \<times> directive_kind) list" where
  "directive_kind_names =
     [(''decision'', DK_Decision), (''directive'', DK_Directive), (''fact'', DK_Fact), (''constraint'', DK_Constraint),
      (''priority'', DK_Priority), (''risk'', DK_Risk), (''hypothesis'', DK_Hypothesis)]"

definition proposal_action_names :: "(string \<times> proposal_action) list" where
  "proposal_action_names =
     [(''create'', PA_Create), (''version'', PA_Version), (''supersede'', PA_Supersede), (''expire'', PA_Expire),
      (''activate'', PA_Activate), (''revoke'', PA_Revoke)]"

definition contract_freshness :: "(string \<times> freshness_status) list" where
  "contract_freshness = [(''FRESH'', FRESH), (''STALE'', STALE), (''UNKNOWN'', UNKNOWN), (''ERROR'', ERROR)]"

definition contract_actor_kinds :: "(string \<times> actor_kind) list" where
  "contract_actor_kinds = [(''human'', Human), (''agent'', Agent), (''system'', System)]"

section \<open>Texts\<close>

text \<open>The control characters taken out of a line: not tab, line feed and carriage return.\<close>

definition stripped_char :: "char \<Rightarrow> bool" where
  "stripped_char c \<longleftrightarrow>
     (let n = of_char c :: nat in n \<le> 8 \<or> n = 11 \<or> n = 12 \<or> 14 \<le> n \<and> n \<le> 31 \<or> n = 127)"

text \<open>\<open>replace(/\s+/g, " ")\<close>\<close>

fun squeeze_spaces :: "bool \<Rightarrow> string \<Rightarrow> string" where
  "squeeze_spaces in_run [] = []"
| "squeeze_spaces in_run (c # s) =
     (if js_space c then (if in_run then squeeze_spaces True s else CHR '' '' # squeeze_spaces True s)
      else c # squeeze_spaces False s)"

text \<open>A line feed for a carriage return, with or without a line feed after it\<close>

fun unix_lines :: "string \<Rightarrow> string" where
  "unix_lines [] = []"
| "unix_lines [c] = [if of_char c = (13 :: nat) then char_of (10 :: nat) else c]"
| "unix_lines (c # d # s) =
     (if of_char c = (13 :: nat)
      then (if of_char d = (10 :: nat) then char_of (10 :: nat) # unix_lines s
            else char_of (10 :: nat) # unix_lines (d # s))
      else c # unix_lines (d # s))"

definition bounded_text :: "string \<Rightarrow> nat \<Rightarrow> string service_result" where
  "bounded_text s hi = require (s \<noteq> []) Invalid_Input (require (\<not> hi < length s) Invalid_Input (Inr s))"

definition sanitize_line :: "json option \<Rightarrow> nat \<Rightarrow> string service_result" where
  "sanitize_line v hi =
     (case v of
        Some (JStr s) \<Rightarrow> bounded_text (js_trim (squeeze_spaces False (filter (\<lambda>c. \<not> stripped_char c) s))) hi
      | _ \<Rightarrow> Inl Invalid_Input)"

definition sanitize_multiline :: "json option \<Rightarrow> nat \<Rightarrow> string service_result" where
  "sanitize_multiline v hi =
     (case v of
        Some (JStr s) \<Rightarrow> bounded_text (js_trim (unix_lines (filter (\<lambda>c. \<not> stripped_char c) s))) hi
      | _ \<Rightarrow> Inl Invalid_Input)"

definition sanitize_actor_id :: "json option \<Rightarrow> string service_result" where
  "sanitize_actor_id v =
     bindE (sanitize_line v 128) (\<lambda>s.
     require (list_all (\<lambda>c. is_alnum c \<or> c \<in> set ''._:-'') s \<and> CHR ''@'' \<notin> set s) Invalid_Input (Inr s))"

section \<open>Actors\<close>

definition blank_field :: "json option \<Rightarrow> bool" where
  "blank_field v \<longleftrightarrow> v = None \<or> v = Some JNull \<or> v = Some (JStr [])"

definition parse_actor_kind :: "json option \<Rightarrow> actor_kind service_result" where
  "parse_actor_kind v =
     (case v of
        Some (JStr s) \<Rightarrow>
          require (js_trim s \<noteq> []) Missing_Actor (
          case map_of contract_actor_kinds (js_trim s) of Some k \<Rightarrow> Inr k | None \<Rightarrow> Inl Unknown_Actor_Role)
      | _ \<Rightarrow> Inl Missing_Actor)"

definition parse_actor :: "json option \<Rightarrow> json option \<Rightarrow> actor_ref service_result" where
  "parse_actor id_raw kind_raw =
     require (\<not> blank_field id_raw) Missing_Actor (
     require (\<not> blank_field kind_raw) Missing_Actor (
     case sanitize_actor_id id_raw of
       Inl _ \<Rightarrow> Inl Invalid_Actor_Id
     | Inr i \<Rightarrow> bindE (parse_actor_kind kind_raw) (\<lambda>k. Inr \<lparr>ac_kind = k, ac_id = i, ac_display_name = None\<rparr>)))"

definition same_actor :: "actor_ref \<Rightarrow> actor_ref \<Rightarrow> bool" where
  "same_actor a b \<longleftrightarrow> ac_kind a = ac_kind b \<and> ac_id a = ac_id b"

definition assert_readable :: "actor_ref \<Rightarrow> string \<Rightarrow> unit service_result" where
  "assert_readable a founder =
     require (founder \<noteq> []) Unknown_Actor (
     require (\<not> (ac_kind a = Human \<and> ac_id a \<noteq> founder)) Unknown_Actor (Inr ()))"

definition assert_founder :: "actor_ref \<Rightarrow> string \<Rightarrow> unit service_result" where
  "assert_founder a founder =
     bindE (assert_readable a founder) (\<lambda>_.
     require (ac_kind a = Human) Agent_Mutation_Forbidden (
     require (ac_id a = founder) Unknown_Actor (Inr ())))"

definition assert_agent :: "actor_ref \<Rightarrow> string \<Rightarrow> unit service_result" where
  "assert_agent a founder =
     bindE (assert_readable a founder) (\<lambda>_. require (ac_kind a = Agent) Agent_Mutation_Forbidden (Inr ()))"

section \<open>Scopes\<close>

definition parse_scope :: "json option \<Rightarrow> string service_result" where
  "parse_scope v =
     (case v of
        Some (JStr s) \<Rightarrow>
          require (\<not> (length s < 2 \<or> 128 < length s)) Invalid_Input (
          require (scope_pattern s) Invalid_Input (Inr s))
      | _ \<Rightarrow> Inl Invalid_Input)"

definition repo_name_from_scope :: "string \<Rightarrow> string option" where
  "repo_name_from_scope s =
     (if starts_with s ''repo:'' \<and> repo_pattern (drop 5 s) then Some (drop 5 s) else None)"

text \<open>
  \<open>domains\<close> maps the name of a repository to its domain; a member that the map of the code inherits from
  \<open>Object.prototype\<close> is no string and equals no scope.
\<close>

definition expand_inherited_scopes :: "(string \<times> string) list \<Rightarrow> string \<Rightarrow> string list" where
  "expand_inherited_scopes domains query =
     (if query = ''company'' then [''company'']
      else if query \<in> set fixed_scopes then [''company'', query]
      else case repo_name_from_scope query of
        Some name \<Rightarrow>
          (case map_of domains name of
             Some d \<Rightarrow> if d \<noteq> [] then [''company'', d, query] else [''company'', query]
           | None \<Rightarrow> [''company'', query])
      | None \<Rightarrow> if starts_with query ''client:'' then [''company'', ''clients'', query] else [''company'', query])"

definition scope_visible_under_query :: "string \<Rightarrow> string \<Rightarrow> (string \<times> string) list \<Rightarrow> bool" where
  "scope_visible_under_query scope query domains \<longleftrightarrow> scope \<in> set (expand_inherited_scopes domains query)"

section \<open>Readers\<close>

definition assert_resource_id :: "json option \<Rightarrow> string service_result" where
  "assert_resource_id v =
     (case v of
        Some (JStr s) \<Rightarrow> require (length s \<le> 128 \<and> resource_id_pattern s) Invalid_Input (Inr s)
      | _ \<Rightarrow> Inl Invalid_Input)"

text \<open>\<open>parseUtcIso\<close> throws a plain error.\<close>

definition parse_utc_iso :: "string \<Rightarrow> int service_result" where
  "parse_utc_iso s =
     require (is_utc_datetime s \<and> (length s = 20 \<or> length s = 24)) Other_Error (
     case date_ms s of Some t \<Rightarrow> Inr t | None \<Rightarrow> Inl Other_Error)"

definition parse_optional_utc :: "json option \<Rightarrow> int option service_result" where
  "parse_optional_utc v =
     (case v of
        None \<Rightarrow> Inr None
      | Some (JStr s) \<Rightarrow> bindE (parse_utc_iso s) (\<lambda>t. Inr (Some t))
      | Some _ \<Rightarrow> Inl Invalid_Input)"

definition read_name :: "(string \<times> 'a) list \<Rightarrow> json option \<Rightarrow> 'a service_result" where
  "read_name names v =
     (case v of
        Some (JStr s) \<Rightarrow> (case map_of names s of Some x \<Rightarrow> Inr x | None \<Rightarrow> Inl Invalid_Input)
      | _ \<Rightarrow> Inl Invalid_Input)"

definition parse_directive_kind :: "json option \<Rightarrow> directive_kind service_result" where
  "parse_directive_kind = read_name directive_kind_names"

definition parse_freshness_status :: "json option \<Rightarrow> freshness_status service_result" where
  "parse_freshness_status = read_name contract_freshness"

definition parse_confidence_value :: "json option \<Rightarrow> rat service_result" where
  "parse_confidence_value v =
     (case v of
        Some (JNum r) \<Rightarrow> require (\<not> (r < 0 \<or> r > 1)) Invalid_Input (Inr r)
      | _ \<Rightarrow> Inl Invalid_Input)"

definition compute_freshness :: "int \<Rightarrow> int \<Rightarrow> freshness_status service_result" where
  "compute_freshness observed now =
     require (\<not> now - observed < 0) Invalid_Input (Inr (if now - observed \<le> 24 * 60 * 60 * 1000 then FRESH else STALE))"

text \<open>The body is an object whose keys are all known.\<close>

definition with_object :: "json option \<Rightarrow> string list \<Rightarrow> (json_object \<Rightarrow> 'a service_result) \<Rightarrow> 'a service_result" where
  "with_object v keys k =
     (case v of Some (JObj obj) \<Rightarrow> require (known_keys keys obj) Invalid_Input (k obj) | _ \<Rightarrow> Inl Invalid_Input)"

definition parse_source :: "json option \<Rightarrow> source_ref service_result" where
  "parse_source v = with_object v [''system'', ''kind'', ''locator'', ''label''] (\<lambda>obj.
     bindE (sanitize_line (field obj ''system'') 64) (\<lambda>system.
     require (source_system_pattern system) Invalid_Input (
     bindE (sanitize_line (field obj ''kind'') 64) (\<lambda>kind.
     require (source_kind_pattern kind) Invalid_Input (
     bindE (sanitize_line (field obj ''locator'') 512) (\<lambda>locator.
     bindE (if field obj ''label'' = None then Inr None
            else bindE (sanitize_line (field obj ''label'') 128) (\<lambda>l. Inr (Some l))) (\<lambda>label.
     Inr \<lparr>sr_system = system, sr_kind = kind, sr_locator = locator, sr_label = label\<rparr>)))))))"

definition parse_supersedes :: "json option \<Rightarrow> string list option service_result" where
  "parse_supersedes v =
     (case v of
        None \<Rightarrow> Inr None
      | Some JNull \<Rightarrow> Inr None
      | Some (JArr xs) \<Rightarrow>
          require (\<not> 32 < length xs) Invalid_Input (
          bindE (mapE (\<lambda>x. assert_resource_id (Some x)) xs) (\<lambda>ids.
          require (distinct ids) Invalid_Input (Inr (if ids = [] then None else Some ids))))
      | Some _ \<Rightarrow> Inl Invalid_Input)"

definition parse_directive_provenance :: "json_object \<Rightarrow> int \<Rightarrow> directive_provenance service_result" where
  "parse_directive_provenance obj now =
     bindE (parse_source (field obj ''source'')) (\<lambda>source.
     bindE (parse_optional_utc (field obj ''observed_at'')) (\<lambda>given.
     let observed = or_else given now in
     bindE (if field obj ''freshness_status'' = None then compute_freshness observed now
            else parse_freshness_status (field obj ''freshness_status'')) (\<lambda>f.
     require (field obj ''confidence'' \<noteq> None) Invalid_Input (
     bindE (parse_confidence_value (field obj ''confidence'')) (\<lambda>c.
     Inr \<lparr>dp_source = source, dp_observed_at = observed, dp_freshness = f, dp_confidence = c\<rparr>)))))"

definition create_keys :: "string list" where
  "create_keys =
     [''kind'', ''title'', ''body'', ''scope'', ''status'', ''effective_from'', ''expires_at'', ''supersedes'', ''source'',
      ''observed_at'', ''freshness_status'', ''confidence'']"

definition parse_create_input :: "json option \<Rightarrow> int \<Rightarrow> create_input service_result" where
  "parse_create_input v now = with_object v create_keys (\<lambda>obj.
     bindE (parse_directive_kind (field obj ''kind'')) (\<lambda>kind.
     bindE (sanitize_line (field obj ''title'') 200) (\<lambda>title.
     bindE (sanitize_multiline (field obj ''body'') 8000) (\<lambda>body.
     bindE (parse_scope (field obj ''scope'')) (\<lambda>scope.
     bindE (if field obj ''status'' = None then Inr Active
            else read_name [(''draft'', Draft), (''active'', Active)] (field obj ''status'')) (\<lambda>status.
     bindE (parse_optional_utc (field obj ''effective_from'')) (\<lambda>from.
     let effective = or_else from now in
     bindE (if field obj ''expires_at'' = Some JNull then Inr None
            else parse_optional_utc (field obj ''expires_at'')) (\<lambda>expires.
     require (case expires of Some t \<Rightarrow> effective < t | None \<Rightarrow> True) Invalid_Input (
     bindE (parse_supersedes (field obj ''supersedes'')) (\<lambda>supersedes.
     bindE (parse_directive_provenance obj now) (\<lambda>p.
     Inr \<lparr>ci_kind = kind, ci_title = title, ci_body = body, ci_scope = scope, ci_status = status,
          ci_effective_from = effective, ci_expires_at = expires, ci_supersedes = supersedes, ci_provenance = p\<rparr>)))))))))))"

definition version_keys :: "string list" where
  "version_keys =
     [''title'', ''body'', ''effective_from'', ''expires_at'', ''source'', ''observed_at'', ''freshness_status'', ''confidence'']"

text \<open>A field that is read when it is given\<close>

definition if_given :: "json option \<Rightarrow> 'a service_result \<Rightarrow> 'a option service_result" where
  "if_given v r = (if v = None then Inr None else bindE r (\<lambda>x. Inr (Some x)))"

definition parse_version_input :: "json option \<Rightarrow> int \<Rightarrow> version_input service_result" where
  "parse_version_input v now = with_object v version_keys (\<lambda>obj.
     bindE (if_given (field obj ''title'') (sanitize_line (field obj ''title'') 200)) (\<lambda>title.
     bindE (if_given (field obj ''body'') (sanitize_multiline (field obj ''body'') 8000)) (\<lambda>body.
     bindE (parse_optional_utc (field obj ''effective_from'')) (\<lambda>effective.
     bindE (if_given (field obj ''expires_at'')
              (if field obj ''expires_at'' = Some JNull then Inr None
               else parse_optional_utc (field obj ''expires_at''))) (\<lambda>expires.
     bindE (if_given (field obj ''source'') (parse_source (field obj ''source''))) (\<lambda>source.
     bindE (parse_optional_utc (field obj ''observed_at'')) (\<lambda>observed.
     bindE (if_given (field obj ''freshness_status'') (parse_freshness_status (field obj ''freshness_status''))) (\<lambda>given.
     bindE (if field obj ''confidence'' = Some JNull then Inr None
            else if_given (field obj ''confidence'') (parse_confidence_value (field obj ''confidence''))) (\<lambda>confidence.
     bindE (case (given, observed) of
              (None, Some t) \<Rightarrow> bindE (compute_freshness t now) (\<lambda>f. Inr (Some f))
            | _ \<Rightarrow> Inr given) (\<lambda>f.
     require (obj \<noteq> []) Invalid_Input (
     Inr \<lparr>vi_title = title, vi_body = body, vi_effective_from = effective, vi_expires_at = expires,
          vi_source = source, vi_observed_at = observed, vi_freshness = f, vi_confidence = confidence\<rparr>)))))))))))"

definition proposal_keys :: "string list" where
  "proposal_keys =
     [''action'', ''kind'', ''title'', ''body'', ''scope'', ''target_directive_id'', ''rationale'', ''source'', ''observed_at'',
      ''freshness_status'', ''confidence'']"

definition parse_proposal_input :: "json option \<Rightarrow> int \<Rightarrow> proposal_input service_result" where
  "parse_proposal_input v now = with_object v proposal_keys (\<lambda>obj.
     bindE (read_name proposal_action_names (field obj ''action'')) (\<lambda>action.
     bindE (parse_directive_provenance obj now) (\<lambda>p.
     bindE (if field obj ''target_directive_id'' = None \<or> field obj ''target_directive_id'' = Some JNull then Inr None
            else bindE (assert_resource_id (field obj ''target_directive_id'')) (\<lambda>t. Inr (Some t))) (\<lambda>target.
     require (\<not> (action \<noteq> PA_Create \<and> target = None)) Invalid_Input (
     bindE (parse_directive_kind (field obj ''kind'')) (\<lambda>kind.
     bindE (sanitize_line (field obj ''title'') 200) (\<lambda>title.
     bindE (sanitize_multiline (field obj ''body'') 8000) (\<lambda>body.
     bindE (parse_scope (field obj ''scope'')) (\<lambda>scope.
     bindE (sanitize_multiline (field obj ''rationale'') 4000) (\<lambda>rationale.
     Inr \<lparr>pi_action = action, pi_kind = kind, pi_title = title, pi_body = body, pi_scope = scope,
          pi_target = target, pi_rationale = rationale, pi_provenance = p\<rparr>))))))))))"

definition parse_path_id :: "string \<Rightarrow> string service_result" where
  "parse_path_id s = assert_resource_id (Some (JStr s))"

end
