(* ===== verification/Directive_Service.thy ===== *)
theory Directive_Service
  imports Directive_Input "HOL-Library.AList"
begin

text \<open>
  \<open>services/context/src/service.ts\<close> over the in-memory store of \<open>store/fixture.ts\<close>, with \<open>policy.ts\<close>: directives in
  immutable revisions, proposals of agents, the audit log and agent activities. A call changes the store step
  by step and may fail in between: a call is a function from a state to a result and a state, and what was
  stored before an error stays. Identifiers are drawn from a generator (an argument), the clock is read
  once per call (\<open>now\<close>), \<open>localeCompare\<close> is the order of collation keys. Log lines, the metadata of audit
  events and the payload and provenance of an activity are dropped.
\<close>

record service_env =
  ek_id :: "string \<Rightarrow> nat \<Rightarrow> string"
  ek_founder :: string
  ek_default_scope :: string
  ek_domains :: "(string \<times> string) list"
  ek_collate :: "string \<Rightarrow> string"

datatype activity_status = AS_Running | AS_Done | AS_Partial | AS_Blocked | AS_Failed

record activity_record =
  ay_id :: string
  ay_correlation_id :: string
  ay_agent_id :: string
  ay_scope :: string
  ay_status :: activity_status
  ay_goal :: string
  ay_summary :: string
  ay_started_at :: int
  ay_finished_at :: "int option"
  ay_blocker :: bool
  ay_actor :: actor_ref

record service_state =
  sy_revisions :: "directive_record list"
  sy_current :: "(string \<times> string) list"
  sy_audits :: "audit_record list"
  sy_proposals :: "directive_proposal list"
  sy_activities :: "activity_record list"
  sy_next :: nat

definition empty_service :: service_state where
  "empty_service =
     \<lparr>sy_revisions = [], sy_current = [], sy_audits = [], sy_proposals = [], sy_activities = [], sy_next = 0\<rparr>"

definition create_context_service :: "service_env \<Rightarrow> service_env service_result" where
  "create_context_service E =
     (let founder = js_trim (ek_founder E) in require (founder \<noteq> []) Invalid_Input (Inr (E\<lparr>ek_founder := founder\<rparr>)))"

section \<open>Calls\<close>

type_synonym 'a call = "service_state \<Rightarrow> 'a service_result \<times> service_state"

definition answer :: "'a \<Rightarrow> 'a call" where
  "answer x s = (Inr x, s)"

definition lift_result :: "'a service_result \<Rightarrow> 'a call" where
  "lift_result r s = (r, s)"

definition and_then :: "'a call \<Rightarrow> ('a \<Rightarrow> 'b call) \<Rightarrow> 'b call" where
  "and_then m k s = (case m s of (Inl e, t) \<Rightarrow> (Inl e, t) | (Inr x, t) \<Rightarrow> k x t)"

definition guard :: "bool \<Rightarrow> service_error \<Rightarrow> unit call" where
  "guard b e s = (if b then Inr () else Inl e, s)"

fun each :: "('a \<Rightarrow> unit call) \<Rightarrow> 'a list \<Rightarrow> unit call" where
  "each f [] = answer ()"
| "each f (x # xs) = and_then (f x) (\<lambda>_. each f xs)"

definition next_id :: "service_env \<Rightarrow> string \<Rightarrow> string call" where
  "next_id E ty s = (Inr (ek_id E ty (sy_next s)), s\<lparr>sy_next := sy_next s + 1\<rparr>)"

section \<open>Store\<close>

definition get_revision :: "string \<Rightarrow> service_state \<Rightarrow> directive_record option" where
  "get_revision rid s = List.find (\<lambda>r. dr_revision_id r = rid) (sy_revisions s)"

definition get_current :: "string \<Rightarrow> service_state \<Rightarrow> directive_record option" where
  "get_current d s = (case map_of (sy_current s) d of None \<Rightarrow> None | Some rid \<Rightarrow> get_revision rid s)"

definition list_current :: "service_state \<Rightarrow> directive_record list" where
  "list_current s = List.map_filter (\<lambda>(d, rid). get_revision rid s) (sy_current s)"

definition list_revisions :: "string \<Rightarrow> service_state \<Rightarrow> directive_record list" where
  "list_revisions d s = sort_key dr_version (filter (\<lambda>r. dr_id r = d) (sy_revisions s))"

definition insert_revision :: "directive_record \<Rightarrow> unit call" where
  "insert_revision r s =
     (if get_revision (dr_revision_id r) s \<noteq> None then (Inl Other_Error, s)
      else (Inr (), s\<lparr>sy_revisions := sy_revisions s @ [r]\<rparr>))"

definition set_current :: "string \<Rightarrow> string \<Rightarrow> unit call" where
  "set_current d rid s =
     (if get_revision rid s = None then (Inl Other_Error, s)
      else (Inr (), s\<lparr>sy_current := AList.update d rid (sy_current s)\<rparr>))"

definition append_audit :: "audit_record \<Rightarrow> unit call" where
  "append_audit a s = (Inr (), s\<lparr>sy_audits := sy_audits s @ [a]\<rparr>)"

definition get_proposal :: "string \<Rightarrow> service_state \<Rightarrow> directive_proposal option" where
  "get_proposal i s = List.find (\<lambda>p. dq_id p = i) (sy_proposals s)"

definition insert_proposal :: "directive_proposal \<Rightarrow> unit call" where
  "insert_proposal p s =
     (if get_proposal (dq_id p) s \<noteq> None then (Inl Other_Error, s)
      else (Inr (), s\<lparr>sy_proposals := sy_proposals s @ [p]\<rparr>))"

definition update_proposal :: "directive_proposal \<Rightarrow> unit call" where
  "update_proposal p s =
     (if get_proposal (dq_id p) s = None then (Inl Other_Error, s)
      else (Inr (), s\<lparr>sy_proposals := map (\<lambda>q. if dq_id q = dq_id p then p else q) (sy_proposals s)\<rparr>))"

definition store_activity :: "activity_record \<Rightarrow> unit call" where
  "store_activity a s =
     (Inr (), s\<lparr>sy_activities :=
        (if list_ex (\<lambda>b. ay_correlation_id b = ay_correlation_id a) (sy_activities s)
         then update_first (\<lambda>b. ay_correlation_id b = ay_correlation_id a) (\<lambda>_. a) (sy_activities s)
         else sy_activities s @ [a])\<rparr>)"

section \<open>Policy\<close>

definition is_active_at :: "directive_record \<Rightarrow> int \<Rightarrow> bool" where
  "is_active_at r now \<longleftrightarrow>
     dr_status r = Active \<and> dr_effective_from r \<le> now
     \<and> (case dr_expires_at r of None \<Rightarrow> True | Some t \<Rightarrow> now < t)"

fun kind_order :: "directive_kind \<Rightarrow> int" where
  "kind_order DK_Constraint = 0"
| "kind_order DK_Decision = 1"
| "kind_order DK_Directive = 2"
| "kind_order DK_Fact = 3"
| "kind_order DK_Priority = 4"
| "kind_order DK_Risk = 5"
| "kind_order DK_Hypothesis = 6"

definition compare_text :: "service_env \<Rightarrow> string \<Rightarrow> string \<Rightarrow> int" where
  "compare_text E a b = (if ek_collate E a < ek_collate E b then -1 else if ek_collate E b < ek_collate E a then 1 else 0)"

definition compare_directives :: "service_env \<Rightarrow> directive_record \<Rightarrow> directive_record \<Rightarrow> int" where
  "compare_directives E a b =
     (if kind_order (dr_kind a) \<noteq> kind_order (dr_kind b) then kind_order (dr_kind a) - kind_order (dr_kind b)
      else if compare_text E (dr_id a) (dr_id b) \<noteq> 0 then compare_text E (dr_id a) (dr_id b)
      else compare_text E (dr_revision_id a) (dr_revision_id b))"

definition terminal_status :: "directive_status \<Rightarrow> bool" where
  "terminal_status st \<longleftrightarrow> st = Superseded \<or> st = Expired \<or> st = Revoked"

section \<open>Parts of the calls\<close>

definition must_current :: "string \<Rightarrow> directive_record call" where
  "must_current d s = (case get_current d s of None \<Rightarrow> (Inl Directive_Not_Found, s) | Some r \<Rightarrow> (Inr r, s))"

definition write_audit :: "service_env \<Rightarrow> int \<Rightarrow> actor_ref \<Rightarrow> string \<Rightarrow> audit_entity \<Rightarrow> string \<Rightarrow> string option \<Rightarrow> unit call" where
  "write_audit E now actor action ty i rid =
     and_then (next_id E ''audit-event'') (\<lambda>a.
     append_audit \<lparr>dz_id = a, dz_at = now, dz_actor = actor\<lparr>ac_display_name := None\<rparr>, dz_action = action,
                   dz_entity_type = ty, dz_entity_id = i, dz_revision_id = rid\<rparr>)"

definition insert_current :: "directive_record \<Rightarrow> unit call" where
  "insert_current r = and_then (insert_revision r) (\<lambda>_. set_current (dr_id r) (dr_revision_id r))"

definition build_from_create ::
  "service_env \<Rightarrow> int \<Rightarrow> actor_ref \<Rightarrow> create_input \<Rightarrow> string \<Rightarrow> nat \<Rightarrow> directive_record call" where
  "build_from_create E now actor inp d version =
     and_then (next_id E ''directive-revision'') (\<lambda>rid.
     answer \<lparr>dr_id = d, dr_revision_id = rid, dr_version = version, dr_kind = ci_kind inp, dr_title = ci_title inp,
             dr_body = ci_body inp, dr_scope = ci_scope inp, dr_status = ci_status inp,
             dr_effective_from = ci_effective_from inp, dr_expires_at = ci_expires_at inp,
             dr_supersedes = ci_supersedes inp, dr_created_by = actor\<lparr>ac_display_name := None\<rparr>, dr_created_at = now,
             dr_updated_at = now, dr_provenance = ci_provenance inp\<rparr>)"

text \<open>\<open>snapshot\<close>: \<open>patch\<close> is applied to the current record.\<close>

definition snapshot :: "service_env \<Rightarrow> int \<Rightarrow> actor_ref \<Rightarrow> directive_record \<Rightarrow> (directive_record \<Rightarrow> directive_record)
    \<Rightarrow> directive_record call" where
  "snapshot E now actor current patch =
     and_then (next_id E ''directive-revision'') (\<lambda>rid.
     answer ((patch current)\<lparr>dr_revision_id := rid, dr_version := dr_version current + 1,
               dr_created_by := actor\<lparr>ac_display_name := None\<rparr>, dr_updated_at := now\<rparr>))"

definition close_one :: "service_env \<Rightarrow> int \<Rightarrow> actor_ref \<Rightarrow> string \<Rightarrow> unit call" where
  "close_one E now actor d =
     and_then (must_current d) (\<lambda>current.
     and_then (guard (dr_status current \<noteq> Superseded) Conflict) (\<lambda>_.
     and_then (guard (\<not> terminal_status (dr_status current)) Conflict) (\<lambda>_.
     and_then (snapshot E now actor current (\<lambda>r. r\<lparr>dr_status := Superseded\<rparr>)) (\<lambda>closed.
     and_then (insert_current closed) (\<lambda>_.
     write_audit E now actor ''directive.supersede'' Directive_Entity (dr_id closed) (Some (dr_revision_id closed)))))))"

definition close_as_superseded :: "service_env \<Rightarrow> int \<Rightarrow> actor_ref \<Rightarrow> string list \<Rightarrow> unit call" where
  "close_as_superseded E now actor ids = each (close_one E now actor) ids"

section \<open>Calls that change directives\<close>

definition create_directive :: "service_env \<Rightarrow> int \<Rightarrow> actor_ref \<Rightarrow> json option \<Rightarrow> directive_record call" where
  "create_directive E now actor raw =
     and_then (lift_result (assert_founder actor (ek_founder E))) (\<lambda>_.
     and_then (lift_result (parse_create_input raw now)) (\<lambda>inp.
     and_then (close_as_superseded E now actor (or_else (ci_supersedes inp) [])) (\<lambda>_.
     and_then (next_id E ''directive'') (\<lambda>d.
     and_then (build_from_create E now actor inp d 1) (\<lambda>r.
     and_then (insert_current r) (\<lambda>_.
     and_then (write_audit E now actor ''directive.create'' Directive_Entity (dr_id r) (Some (dr_revision_id r))) (\<lambda>_.
     answer r)))))))"

definition supersede :: "service_env \<Rightarrow> int \<Rightarrow> actor_ref \<Rightarrow> string \<Rightarrow> json option \<Rightarrow> directive_record call" where
  "supersede E now actor i raw =
     and_then (lift_result (assert_founder actor (ek_founder E))) (\<lambda>_.
     and_then (lift_result (parse_path_id i)) (\<lambda>d0.
     and_then (lift_result (parse_create_input raw now)) (\<lambda>inp.
     let predecessors = unique_strings (d0 # or_else (ci_supersedes inp) []) in
     and_then (close_as_superseded E now actor predecessors) (\<lambda>_.
     and_then (next_id E ''directive'') (\<lambda>d.
     and_then (build_from_create E now actor (inp\<lparr>ci_supersedes := Some predecessors\<rparr>) d 1) (\<lambda>r.
     and_then (insert_current r) (\<lambda>_.
     and_then (write_audit E now actor ''directive.create'' Directive_Entity (dr_id r) (Some (dr_revision_id r))) (\<lambda>_.
     answer r))))))))"

text \<open>A new revision of a directive that is neither superseded nor expired nor revoked, and its audit event\<close>

definition revise :: "service_env \<Rightarrow> int \<Rightarrow> actor_ref \<Rightarrow> string \<Rightarrow> directive_record \<Rightarrow> (directive_record \<Rightarrow> directive_record)
    \<Rightarrow> directive_record call" where
  "revise E now actor action current patch =
     and_then (snapshot E now actor current patch) (\<lambda>r.
     and_then (insert_current r) (\<lambda>_.
     and_then (write_audit E now actor action Directive_Entity (dr_id r) (Some (dr_revision_id r))) (\<lambda>_. answer r)))"

definition version_patch :: "version_input \<Rightarrow> int \<Rightarrow> directive_record \<Rightarrow> directive_record" where
  "version_patch inp now r =
     r\<lparr>dr_title := or_else (vi_title inp) (dr_title r), dr_body := or_else (vi_body inp) (dr_body r),
       dr_effective_from := or_else (vi_effective_from inp) (dr_effective_from r),
       dr_expires_at := or_else (vi_expires_at inp) (dr_expires_at r),
       dr_provenance :=
         \<lparr>dp_source = or_else (vi_source inp) (dp_source (dr_provenance r)),
          dp_observed_at = or_else (vi_observed_at inp) now,
          dp_freshness = or_else (vi_freshness inp) (dp_freshness (dr_provenance r)),
          dp_confidence = or_else (vi_confidence inp) (dp_confidence (dr_provenance r))\<rparr>\<rparr>"

definition create_version :: "service_env \<Rightarrow> int \<Rightarrow> actor_ref \<Rightarrow> string \<Rightarrow> json option \<Rightarrow> directive_record call" where
  "create_version E now actor i raw =
     and_then (lift_result (assert_founder actor (ek_founder E))) (\<lambda>_.
     and_then (lift_result (parse_path_id i)) (\<lambda>d.
     and_then (must_current d) (\<lambda>current.
     and_then (guard (dr_status current \<noteq> Superseded) Conflict) (\<lambda>_.
     and_then (guard (\<not> (dr_status current = Revoked \<or> dr_status current = Expired)) Conflict) (\<lambda>_.
     and_then (lift_result (parse_version_input raw now)) (\<lambda>inp.
     revise E now actor ''directive.version'' current (version_patch inp now)))))))"

text \<open>
  \<open>parse_date\<close> is \<open>new Date(s).getTime()\<close> on any string; \<open>toUtcIso\<close> of an invalid date throws a range error.
\<close>

definition expiry_of :: "(string \<Rightarrow> int option) \<Rightarrow> int \<Rightarrow> json option \<Rightarrow> int service_result" where
  "expiry_of parse_date now raw =
     (case raw of
        Some (JObj obj) \<Rightarrow>
          (case field obj ''expires_at'' of
             None \<Rightarrow> Inr now
           | Some JNull \<Rightarrow> Inr now
           | Some (JStr s) \<Rightarrow> (case parse_date s of Some t \<Rightarrow> Inr t | None \<Rightarrow> Inl Other_Error)
           | Some _ \<Rightarrow> Inl Invalid_Input)
      | _ \<Rightarrow> Inr now)"

definition expire :: "service_env \<Rightarrow> (string \<Rightarrow> int option) \<Rightarrow> int \<Rightarrow> actor_ref \<Rightarrow> string \<Rightarrow> json option \<Rightarrow> directive_record call" where
  "expire E parse_date now actor i raw =
     and_then (lift_result (assert_founder actor (ek_founder E))) (\<lambda>_.
     and_then (lift_result (parse_path_id i)) (\<lambda>d.
     and_then (must_current d) (\<lambda>current.
     and_then (guard (\<not> terminal_status (dr_status current)) Conflict) (\<lambda>_.
     and_then (lift_result (expiry_of parse_date now raw)) (\<lambda>t.
     revise E now actor ''directive.expire'' current (\<lambda>r. r\<lparr>dr_status := Expired, dr_expires_at := Some t\<rparr>))))))"

definition set_status ::
  "service_env \<Rightarrow> string \<Rightarrow> directive_status \<Rightarrow> int \<Rightarrow> actor_ref \<Rightarrow> string \<Rightarrow> directive_record call" where
  "set_status E action st now actor i =
     and_then (lift_result (assert_founder actor (ek_founder E))) (\<lambda>_.
     and_then (lift_result (parse_path_id i)) (\<lambda>d.
     and_then (must_current d) (\<lambda>current.
     and_then (guard (\<not> terminal_status (dr_status current)) Conflict) (\<lambda>_.
     revise E now actor action current (\<lambda>r. r\<lparr>dr_status := st\<rparr>)))))"

definition activate :: "service_env \<Rightarrow> int \<Rightarrow> actor_ref \<Rightarrow> string \<Rightarrow> directive_record call" where
  "activate E = set_status E ''directive.activate'' Active"

definition revoke :: "service_env \<Rightarrow> int \<Rightarrow> actor_ref \<Rightarrow> string \<Rightarrow> directive_record call" where
  "revoke E = set_status E ''directive.revoke'' Revoked"

section \<open>Proposals\<close>

definition known_target :: "proposal_input \<Rightarrow> unit call" where
  "known_target inp s =
     (case pi_target inp of
        None \<Rightarrow> (Inr (), s)
      | Some d \<Rightarrow> if get_current d s = None then (Inl Directive_Not_Found, s) else (Inr (), s))"

definition submit_proposal :: "service_env \<Rightarrow> int \<Rightarrow> actor_ref \<Rightarrow> json option \<Rightarrow> directive_proposal call" where
  "submit_proposal E now actor raw =
     and_then (lift_result (assert_agent actor (ek_founder E))) (\<lambda>_.
     and_then (lift_result (parse_proposal_input raw now)) (\<lambda>inp.
     and_then (known_target inp) (\<lambda>_.
     and_then (next_id E ''directive-proposal'') (\<lambda>i.
     let p = \<lparr>dq_id = i, dq_status = Pending, dq_action = pi_action inp, dq_kind = pi_kind inp, dq_title = pi_title inp,
              dq_body = pi_body inp, dq_scope = pi_scope inp, dq_target = pi_target inp,
              dq_rationale = pi_rationale inp, dq_created_by = actor\<lparr>ac_display_name := None\<rparr>, dq_created_at = now,
              dq_provenance = pi_provenance inp\<rparr> in
     and_then (insert_proposal p) (\<lambda>_.
     and_then (write_audit E now actor ''proposal.submit'' Proposal_Entity i None) (\<lambda>_. answer p))))))"

definition reject_proposal :: "service_env \<Rightarrow> int \<Rightarrow> actor_ref \<Rightarrow> string \<Rightarrow> directive_proposal call" where
  "reject_proposal E now actor i =
     and_then (lift_result (assert_founder actor (ek_founder E))) (\<lambda>_.
     and_then (lift_result (parse_path_id i)) (\<lambda>pid.
     and_then (\<lambda>s. (case get_proposal pid s of None \<Rightarrow> (Inl Proposal_Not_Found, s) | Some p \<Rightarrow> (Inr p, s))) (\<lambda>p.
     let q = p\<lparr>dq_status := Declined\<rparr> in
     and_then (update_proposal q) (\<lambda>_.
     and_then (write_audit E now actor ''proposal.reject'' Proposal_Entity (dq_id q) None) (\<lambda>_. answer q)))))"

section \<open>Agent activities\<close>

definition text_field :: "json_object \<Rightarrow> string \<Rightarrow> string option" where
  "text_field obj k = (case field obj k of Some (JStr s) \<Rightarrow> Some s | _ \<Rightarrow> None)"

definition trimmed_field :: "json_object \<Rightarrow> string \<Rightarrow> string option" where
  "trimmed_field obj k =
     (case text_field obj k of Some s \<Rightarrow> if js_trim s \<noteq> [] then Some (js_trim s) else None | None \<Rightarrow> None)"

definition activity_status_of :: "string \<Rightarrow> bool \<Rightarrow> activity_status" where
  "activity_status_of outcome blocker =
     (if outcome = ''blocked'' \<or> blocker then AS_Blocked
      else if outcome = ''failed'' then AS_Failed
      else if outcome = ''partial'' then AS_Partial else AS_Done)"

definition record_agent_activity :: "service_env \<Rightarrow> int \<Rightarrow> actor_ref \<Rightarrow> json option \<Rightarrow> activity_record call" where
  "record_agent_activity E now actor raw =
     and_then (lift_result (assert_readable actor (ek_founder E))) (\<lambda>_.
     case raw of
       Some (JObj body) \<Rightarrow>
         and_then (lift_result (parse_scope (Some (JStr (or_else (text_field body ''scope'') []))))) (\<lambda>scope.
         let blocker = (field body ''kind'' = Some (JStr ''blocker'')); summary = or_else (text_field body ''summary'') [] in
         and_then (guard (js_trim summary \<noteq> []) Invalid_Input) (\<lambda>_.
         and_then (case or_option (trimmed_field body ''session_id'') (trimmed_field body ''correlation_id'') of
                     Some c \<Rightarrow> answer c | None \<Rightarrow> next_id E ''agent-activity'') (\<lambda>c.
         and_then (\<lambda>s. (Inr (List.find (\<lambda>b. ay_correlation_id b = c) (sy_activities s)), s)) (\<lambda>existing.
         and_then (case existing of Some b \<Rightarrow> answer (ay_id b) | None \<Rightarrow> next_id E ''agent-activity'') (\<lambda>i.
         let a = \<lparr>ay_id = i, ay_correlation_id = c, ay_agent_id = ac_id actor, ay_scope = scope,
                  ay_status = activity_status_of (or_else (text_field body ''outcome'') ''completed'') blocker,
                  ay_goal = or_else (text_field body ''goal'') summary, ay_summary = summary,
                  ay_started_at = (case existing of Some b \<Rightarrow> ay_started_at b | None \<Rightarrow> now), ay_finished_at = Some now,
                  ay_blocker = blocker, ay_actor = actor\<lparr>ac_display_name := None\<rparr>\<rparr> in
         and_then (store_activity a) (\<lambda>_.
         and_then (write_audit E now actor ''agent_activity.record'' Activity_Entity i None) (\<lambda>_. answer a)))))))
     | _ \<Rightarrow> lift_result (Inl Invalid_Input))"

section \<open>Reading\<close>

record directive_view =
  dv_id :: string
  dv_revision_id :: string
  dv_version :: nat
  dv_kind :: directive_kind
  dv_title :: string
  dv_body :: string
  dv_scope :: string
  dv_status :: directive_status
  dv_effective_from :: int
  dv_expires_at :: "int option"
  dv_supersedes :: "string list option"
  dv_created_by :: actor_ref
  dv_provenance :: directive_provenance

definition to_view :: "directive_record \<Rightarrow> directive_view" where
  "to_view r =
     \<lparr>dv_id = dr_id r, dv_revision_id = dr_revision_id r, dv_version = dr_version r, dv_kind = dr_kind r,
      dv_title = dr_title r, dv_body = dr_body r, dv_scope = dr_scope r, dv_status = dr_status r,
      dv_effective_from = dr_effective_from r, dv_expires_at = dr_expires_at r, dv_supersedes = dr_supersedes r,
      dv_created_by = dr_created_by r, dv_provenance = dr_provenance r\<rparr>"

definition views_of :: "service_env \<Rightarrow> directive_record list \<Rightarrow> directive_view list" where
  "views_of E rs = map to_view (js_sort (compare_directives E) rs)"

definition visible_active :: "service_env \<Rightarrow> int \<Rightarrow> string \<Rightarrow> service_state \<Rightarrow> directive_record list" where
  "visible_active E now scope s =
     js_sort (compare_directives E)
       (filter (\<lambda>r. is_active_at r now \<and> scope_visible_under_query (dr_scope r) scope (ek_domains E)) (list_current s))"

record context_payload =
  kx_scope :: string
  kx_active :: "directive_view list"
  kx_of_kind :: "directive_kind \<Rightarrow> directive_view list"
  kx_source :: source_ref
  kx_observed_at :: int
  kx_freshness :: freshness_status
  kx_confidence :: rat

definition get_context :: "service_env \<Rightarrow> int \<Rightarrow> actor_ref \<Rightarrow> string \<Rightarrow> service_state \<Rightarrow> context_payload service_result" where
  "get_context E now actor scope s =
     bindE (assert_readable actor (ek_founder E)) (\<lambda>_.
     bindE (parse_scope (Some (JStr scope))) (\<lambda>query.
     let active = visible_active E now query s; views = views_of E active in
     Inr \<lparr>kx_scope = query, kx_active = views,
          kx_of_kind = (\<lambda>k. views_of E (filter (\<lambda>r. dr_kind r = k) active)),
          kx_source = (case views of v # _ \<Rightarrow> dp_source (dv_provenance v)
             | [] \<Rightarrow> \<lparr>sr_system = ''control-center'', sr_kind = ''context'', sr_locator = query, sr_label = None\<rparr>),
          kx_observed_at = (case views of v # _ \<Rightarrow> dp_observed_at (dv_provenance v) | [] \<Rightarrow> now),
          kx_freshness = (case views of v # _ \<Rightarrow> dp_freshness (dv_provenance v) | [] \<Rightarrow> UNKNOWN),
          kx_confidence = (case views of v # _ \<Rightarrow> dp_confidence (dv_provenance v) | [] \<Rightarrow> 0)\<rparr>))"

definition get_active_directives ::
  "service_env \<Rightarrow> int \<Rightarrow> actor_ref \<Rightarrow> string \<Rightarrow> service_state \<Rightarrow> directive_view list service_result" where
  "get_active_directives E now actor scope s =
     bindE (assert_readable actor (ek_founder E)) (\<lambda>_.
     bindE (parse_scope (Some (JStr scope))) (\<lambda>query. Inr (views_of E (visible_active E now query s))))"

definition resolve_scope :: "service_env \<Rightarrow> string option \<Rightarrow> string service_result" where
  "resolve_scope E scope =
     (case scope of
        Some s \<Rightarrow> parse_scope (Some (JStr (if s \<noteq> [] then s else ek_default_scope E)))
      | None \<Rightarrow> parse_scope (Some (JStr (ek_default_scope E))))"

text \<open>\<open>getPriorities\<close> and \<open>getDecisions\<close>\<close>

definition get_of_kind ::
  "service_env \<Rightarrow> directive_kind \<Rightarrow> int \<Rightarrow> actor_ref \<Rightarrow> string option \<Rightarrow> service_state \<Rightarrow> directive_view list service_result" where
  "get_of_kind E k now actor scope s =
     bindE (assert_readable actor (ek_founder E)) (\<lambda>_.
     bindE (resolve_scope E scope) (\<lambda>query.
     Inr (views_of E (filter (\<lambda>r. dr_kind r = k) (visible_active E now query s)))))"

definition get_directive :: "service_env \<Rightarrow> actor_ref \<Rightarrow> string \<Rightarrow> service_state \<Rightarrow> directive_record service_result" where
  "get_directive E actor i s =
     bindE (assert_readable actor (ek_founder E)) (\<lambda>_.
     bindE (parse_path_id i) (\<lambda>d. case get_current d s of None \<Rightarrow> Inl Directive_Not_Found | Some r \<Rightarrow> Inr r))"

definition revisions_of :: "service_env \<Rightarrow> actor_ref \<Rightarrow> string \<Rightarrow> service_state \<Rightarrow> directive_record list service_result" where
  "revisions_of E actor i s =
     bindE (assert_readable actor (ek_founder E)) (\<lambda>_.
     bindE (parse_path_id i) (\<lambda>d.
     require (list_revisions d s \<noteq> []) Directive_Not_Found (Inr (list_revisions d s))))"

definition list_proposals :: "service_env \<Rightarrow> actor_ref \<Rightarrow> service_state \<Rightarrow> directive_proposal list service_result" where
  "list_proposals E actor s =
     bindE (assert_readable actor (ek_founder E)) (\<lambda>_.
     Inr (if ac_kind actor = Agent then filter (\<lambda>p. same_actor (dq_created_by p) actor) (sy_proposals s)
          else sy_proposals s))"

definition list_audit :: "service_env \<Rightarrow> actor_ref \<Rightarrow> service_state \<Rightarrow> audit_record list service_result" where
  "list_audit E actor s = bindE (assert_founder actor (ek_founder E)) (\<lambda>_. Inr (sy_audits s))"

definition list_agent_activities ::
  "service_env \<Rightarrow> actor_ref \<Rightarrow> string option \<Rightarrow> service_state \<Rightarrow> activity_record list service_result" where
  "list_agent_activities E actor scope s =
     bindE (assert_readable actor (ek_founder E)) (\<lambda>_.
     case scope of
       None \<Rightarrow> Inr (sy_activities s)
     | Some q \<Rightarrow>
         if q = [] then Inr (sy_activities s)
         else bindE (parse_scope (Some (JStr q))) (\<lambda>query.
           Inr (filter (\<lambda>a. scope_visible_under_query (ay_scope a) query (ek_domains E)) (sy_activities s))))"

section \<open>Runs of the service\<close>

datatype service_call =
    Create_Directive "json option" | Create_Version string "json option" | Supersede_Directive string "json option"
  | Expire_Directive string "json option" | Activate_Directive string | Revoke_Directive string
  | Submit_Proposal "json option" | Reject_Proposal string | Record_Activity "json option"

definition run_call ::
  "service_env \<Rightarrow> (string \<Rightarrow> int option) \<Rightarrow> int \<Rightarrow> actor_ref \<Rightarrow> service_call \<Rightarrow> service_state \<Rightarrow> service_state" where
  "run_call E parse_date now actor c s =
     (case c of
        Create_Directive raw \<Rightarrow> snd (create_directive E now actor raw s)
      | Create_Version i raw \<Rightarrow> snd (create_version E now actor i raw s)
      | Supersede_Directive i raw \<Rightarrow> snd (supersede E now actor i raw s)
      | Expire_Directive i raw \<Rightarrow> snd (expire E parse_date now actor i raw s)
      | Activate_Directive i \<Rightarrow> snd (activate E now actor i s)
      | Revoke_Directive i \<Rightarrow> snd (revoke E now actor i s)
      | Submit_Proposal raw \<Rightarrow> snd (submit_proposal E now actor raw s)
      | Reject_Proposal i \<Rightarrow> snd (reject_proposal E now actor i s)
      | Record_Activity raw \<Rightarrow> snd (record_agent_activity E now actor raw s))"

text \<open>Calls run one after the other: the service never waits inside a call.\<close>

definition run_calls ::
  "service_env \<Rightarrow> ((string \<Rightarrow> int option) \<times> int \<times> actor_ref \<times> service_call) list \<Rightarrow> service_state \<Rightarrow> service_state" where
  "run_calls E calls s = foldl (\<lambda>t (parse_date, now, actor, c). run_call E parse_date now actor c t) s calls"

inductive service_reaches :: "service_env \<Rightarrow> service_state \<Rightarrow> bool" for E :: service_env where
  service_new: "service_reaches E empty_service"
| service_call: "service_reaches E s \<Longrightarrow> service_reaches E (run_call E parse_date now actor c s)"

end
