(* ===== verification/Directive_Laws.thy ===== *)
theory Directive_Laws
  imports Directive_Service
begin

text \<open>
  The directive service, refined to an abstract machine with two steps: a founder's new revision of a directive
  that is not closed, and a founder's new directive whose predecessors have just been superseded. Every
  call, successful or not, is a sequence of these steps, and the steps keep the invariant of the store.
\<close>

section \<open>The abstract machine\<close>

definition revs_of :: "string \<Rightarrow> service_state \<Rightarrow> directive_record list" where
  "revs_of d s = filter (\<lambda>r. dr_id r = d) (sy_revisions s)"

definition claims :: "directive_record \<Rightarrow> string list" where
  "claims r = or_else (dr_supersedes r) []"

definition superseded :: "string \<Rightarrow> service_state \<Rightarrow> bool" where
  "superseded d s \<longleftrightarrow> (case get_current d s of Some r \<Rightarrow> dr_status r = Superseded | None \<Rightarrow> False)"

definition unclaimed :: "string \<Rightarrow> service_state \<Rightarrow> bool" where
  "unclaimed d s \<longleftrightarrow> (\<forall>r \<in> set (sy_revisions s). d \<notin> set (claims r))"

definition by_founder :: "service_env \<Rightarrow> directive_record \<Rightarrow> bool" where
  "by_founder E r \<longleftrightarrow> ac_kind (dr_created_by r) = Human \<and> ac_id (dr_created_by r) = ek_founder E"

definition drawn :: "service_env \<Rightarrow> string \<Rightarrow> nat \<Rightarrow> nat \<Rightarrow> string \<Rightarrow> bool" where
  "drawn E ty lo hi i \<longleftrightarrow> (\<exists>k. lo \<le> k \<and> k < hi \<and> i = ek_id E ty k)"

definition pushed :: "directive_record \<Rightarrow> service_state \<Rightarrow> service_state \<Rightarrow> bool" where
  "pushed r s t \<longleftrightarrow>
     sy_revisions t = sy_revisions s @ [r]
     \<and> sy_current t = AList.update (dr_id r) (dr_revision_id r) (sy_current s) \<and> sy_next s < sy_next t"

inductive directive_step :: "service_env \<Rightarrow> service_state \<Rightarrow> service_state \<Rightarrow> bool" for E :: service_env where
  step_aside: "sy_revisions t = sy_revisions s \<Longrightarrow> sy_current t = sy_current s \<Longrightarrow> sy_next s \<le> sy_next t
    \<Longrightarrow> directive_step E s t"
| step_revise: "get_current (dr_id r) s = Some q \<Longrightarrow> \<not> terminal_status (dr_status q) \<Longrightarrow> dr_version r = dr_version q + 1
    \<Longrightarrow> dr_kind r = dr_kind q \<Longrightarrow> dr_scope r = dr_scope q \<Longrightarrow> dr_supersedes r = dr_supersedes q \<Longrightarrow> by_founder E r
    \<Longrightarrow> drawn E ''directive-revision'' (sy_next s) (sy_next t) (dr_revision_id r) \<Longrightarrow> pushed r s t
    \<Longrightarrow> directive_step E s t"
| step_create: "dr_version r = 1 \<Longrightarrow> by_founder E r \<Longrightarrow> drawn E ''directive'' (sy_next s) (sy_next t) (dr_id r)
    \<Longrightarrow> drawn E ''directive-revision'' (sy_next s) (sy_next t) (dr_revision_id r)
    \<Longrightarrow> \<forall>p \<in> set (claims r). superseded p s \<and> unclaimed p s \<Longrightarrow> pushed r s t
    \<Longrightarrow> directive_step E s t"

text \<open>What the generator of identifiers is relied on for: no type and number give an identifier twice.\<close>

definition fresh_ids :: "service_env \<Rightarrow> bool" where
  "fresh_ids E \<longleftrightarrow> inj (ek_id E ''directive'') \<and> inj (ek_id E ''directive-revision'')"

section \<open>The invariant\<close>

definition ids_inv :: "service_env \<Rightarrow> service_state \<Rightarrow> bool" where
  "ids_inv E s \<longleftrightarrow>
     distinct (map dr_revision_id (sy_revisions s)) \<and> distinct (map fst (sy_current s))
     \<and> (\<forall>r \<in> set (sy_revisions s). drawn E ''directive-revision'' 0 (sy_next s) (dr_revision_id r)
          \<and> drawn E ''directive'' 0 (sy_next s) (dr_id r))"

definition versions_inv :: "service_state \<Rightarrow> bool" where
  "versions_inv s \<longleftrightarrow>
     (\<forall>d. map dr_version (revs_of d s) = [1..<Suc (length (revs_of d s))]
        \<and> map_of (sy_current s) d = (if revs_of d s = [] then None else Some (dr_revision_id (last (revs_of d s)))))"

definition claims_inv :: "service_state \<Rightarrow> bool" where
  "claims_inv s \<longleftrightarrow>
     (\<forall>r \<in> set (sy_revisions s). \<forall>p \<in> set (claims r). superseded p s
        \<and> (\<forall>q \<in> set (sy_revisions s). p \<in> set (claims q) \<longrightarrow> dr_id q = dr_id r))"

definition service_inv :: "service_env \<Rightarrow> service_state \<Rightarrow> bool" where
  "service_inv E s \<longleftrightarrow>
     ids_inv E s \<and> versions_inv s \<and> claims_inv s \<and> (\<forall>r \<in> set (sy_revisions s). by_founder E r)"

lemma revs_of_empty [simp]: "revs_of d empty_service = []"
  by (simp add: revs_of_def empty_service_def)

lemma service_inv_empty: "service_inv E empty_service"
  by (simp add: service_inv_def ids_inv_def versions_inv_def claims_inv_def) (simp add: empty_service_def)

lemma find_distinct: "distinct (map f xs) \<Longrightarrow> x \<in> set xs \<Longrightarrow> List.find (\<lambda>y. f y = f x) xs = Some x"
  by (induction xs) auto

lemma find_revision:
  "distinct (map dr_revision_id (sy_revisions s)) \<Longrightarrow> r \<in> set (sy_revisions s) \<Longrightarrow> get_revision (dr_revision_id r) s = Some r"
  unfolding get_revision_def by (rule find_distinct)

lemma get_current_same:
  "sy_revisions t = sy_revisions s \<Longrightarrow> sy_current t = sy_current s \<Longrightarrow> get_current d t = get_current d s"
  by (simp add: get_current_def get_revision_def split: option.splits)

lemma get_revision_None: "get_revision i s = None \<longleftrightarrow> i \<notin> dr_revision_id ` set (sy_revisions s)"
  by (auto simp: get_revision_def find_None_iff)

lemma current_map:
  "service_inv E s \<Longrightarrow>
    map_of (sy_current s) d = (if revs_of d s = [] then None else Some (dr_revision_id (last (revs_of d s))))"
  unfolding service_inv_def versions_inv_def by blast

lemma current_is_last:
  assumes "service_inv E s"
  shows "get_current d s = (if revs_of d s = [] then None else Some (last (revs_of d s)))"
proof (cases "revs_of d s = []")
  case True
  then have "map_of (sy_current s) d = None" unfolding current_map [OF assms] by simp
  with True show ?thesis by (simp add: get_current_def)
next
  case False
  then have "map_of (sy_current s) d = Some (dr_revision_id (last (revs_of d s)))"
    unfolding current_map [OF assms] by simp
  moreover from False have "last (revs_of d s) \<in> set (revs_of d s)" by simp
  then have "last (revs_of d s) \<in> set (sy_revisions s)" by (simp add: revs_of_def)
  then have "get_revision (dr_revision_id (last (revs_of d s))) s = Some (last (revs_of d s))"
    using assms by (simp add: find_revision service_inv_def ids_inv_def)
  ultimately show ?thesis using False by (simp add: get_current_def)
qed

lemma current_in:
  assumes "service_inv E s" "get_current d s = Some q"
  shows "q \<in> set (sy_revisions s)" "dr_id q = d" "dr_version q = length (revs_of d s)" "revs_of d s \<noteq> []"
proof -
  from assms have n: "revs_of d s \<noteq> []" and q: "q = last (revs_of d s)"
    by (auto simp: current_is_last split: if_splits)
  from n q have "q \<in> set (revs_of d s)" by simp
  then show "q \<in> set (sy_revisions s)" "dr_id q = d" by (simp_all add: revs_of_def)
  show "revs_of d s \<noteq> []" by (rule n)
  have v: "map dr_version (revs_of d s) = [1..<Suc (length (revs_of d s))]"
    using assms(1) by (simp add: service_inv_def versions_inv_def)
  have "dr_version q = last (map dr_version (revs_of d s))" using n q by (simp add: last_map)
  also have "\<dots> = length (revs_of d s)" unfolding v using n by (simp add: Suc_le_eq)
  finally show "dr_version q = length (revs_of d s)" .
qed

section \<open>Pushing a revision\<close>

lemma revs_of_pushed: "pushed r s t \<Longrightarrow> revs_of d t = (if dr_id r = d then revs_of d s @ [r] else revs_of d s)"
  by (simp add: pushed_def revs_of_def)

lemma drawn_widen: "drawn E ty lo hi i \<Longrightarrow> lo' \<le> lo \<Longrightarrow> hi \<le> hi' \<Longrightarrow> drawn E ty lo' hi' i"
proof -
  assume "drawn E ty lo hi i" and le: "lo' \<le> lo" "hi \<le> hi'"
  then obtain k where "lo \<le> k" "k < hi" "i = ek_id E ty k" by (auto simp: drawn_def)
  with le have "lo' \<le> k \<and> k < hi' \<and> i = ek_id E ty k" by simp
  then show ?thesis unfolding drawn_def ..
qed

lemma drawn_disjoint: "inj (ek_id E ty) \<Longrightarrow> drawn E ty 0 n i \<Longrightarrow> drawn E ty n m j \<Longrightarrow> i \<noteq> j"
  by (auto simp: drawn_def dest: injD)

lemma ids_pushed:
  assumes "fresh_ids E" "ids_inv E s" "pushed r s t" "drawn E ''directive-revision'' (sy_next s) (sy_next t) (dr_revision_id r)"
    "drawn E ''directive'' 0 (sy_next t) (dr_id r)"
  shows "ids_inv E t"
proof -
  have "dr_revision_id q \<noteq> dr_revision_id r" if "q \<in> set (sy_revisions s)" for q
    using drawn_disjoint [OF _ _ assms(4)] assms(1,2) that by (simp add: fresh_ids_def ids_inv_def)
  then have "dr_revision_id r \<notin> dr_revision_id ` set (sy_revisions s)" by force
  moreover have "distinct (map fst (sy_current t))"
    using assms(2,3) by (simp add: pushed_def ids_inv_def distinct_update)
  moreover have "drawn E ''directive-revision'' 0 (sy_next t) (dr_revision_id q) \<and> drawn E ''directive'' 0 (sy_next t) (dr_id q)"
    if "q \<in> set (sy_revisions s)" for q
    using that assms(2,3) by (auto simp: ids_inv_def pushed_def intro: drawn_widen)
  moreover have "drawn E ''directive-revision'' 0 (sy_next t) (dr_revision_id r)"
    using assms(4) by (rule drawn_widen) simp_all
  ultimately show ?thesis using assms(2,3,5) by (auto simp: ids_inv_def pushed_def)
qed

lemma versions_pushed:
  assumes "versions_inv s" "pushed r s t" "dr_version r = Suc (length (revs_of (dr_id r) s))"
  shows "versions_inv t"
proof -
  have "map_of (sy_current t) d = (if d = dr_id r then Some (dr_revision_id r) else map_of (sy_current s) d)" for d
    using assms(2) by (simp add: pushed_def update_conv')
  then show ?thesis
    using assms(1,3) by (simp add: versions_inv_def revs_of_pushed [OF assms(2)])
qed

lemma current_pushed:
  assumes "service_inv E s" "ids_inv E t" "pushed r s t"
  shows "get_current d t = (if d = dr_id r then Some r else get_current d s)"
proof (cases "d = dr_id r")
  case True
  have "r \<in> set (sy_revisions t)" using assms(3) by (simp add: pushed_def)
  with assms(2) have "get_revision (dr_revision_id r) t = Some r" by (simp add: find_revision ids_inv_def)
  with True assms(3) show ?thesis by (simp add: get_current_def pushed_def update_conv')
next
  case False
  then have m: "map_of (sy_current t) d = map_of (sy_current s) d" using assms(3) by (simp add: pushed_def update_conv')
  show ?thesis
  proof (cases "get_current d s")
    case None
    then have "revs_of d s = []" using assms(1) by (simp add: current_is_last split: if_splits)
    then have "map_of (sy_current s) d = None" unfolding current_map [OF assms(1)] by simp
    with m None False show ?thesis by (simp add: get_current_def)
  next
    case (Some q)
    note q = current_in [OF assms(1) Some]
    have "get_revision (dr_revision_id q) t = Some q"
      using q(1) assms(2,3) by (simp add: find_revision ids_inv_def pushed_def)
    moreover have "map_of (sy_current s) d = Some (dr_revision_id q)"
      using Some q(4) unfolding current_map [OF assms(1)] current_is_last [OF assms(1)] by simp
    ultimately show ?thesis using m Some False by (simp add: get_current_def)
  qed
qed

lemma inv_parts:
  assumes "service_inv E s"
  shows inv_ids: "ids_inv E s" and inv_versions: "versions_inv s" and inv_claims: "claims_inv s"
    and inv_founder: "r \<in> set (sy_revisions s) \<Longrightarrow> by_founder E r"
    and inv_drawn: "r \<in> set (sy_revisions s) \<Longrightarrow> drawn E ''directive'' 0 (sy_next s) (dr_id r)"
  using assms unfolding service_inv_def ids_inv_def by blast+

lemma pushed_next: "pushed r s t \<Longrightarrow> sy_next s \<le> sy_next t"
  by (simp add: pushed_def)

lemma revised_drawn:
  assumes "service_inv E s" "get_current (dr_id r) s = Some q" "pushed r s t"
  shows "drawn E ''directive'' 0 (sy_next t) (dr_id r)"
  using inv_drawn [OF assms(1) current_in(1) [OF assms(1,2)]] unfolding current_in(2) [OF assms(1,2)]
  by (rule drawn_widen) (simp_all add: pushed_next [OF assms(3)])

lemma step_ids:
  assumes "fresh_ids E" "service_inv E s" "directive_step E s t"
  shows "ids_inv E t"
  using assms(3)
proof cases
  case step_aside
  with inv_ids [OF assms(2)] show ?thesis by (auto simp: ids_inv_def intro: drawn_widen)
next
  case (step_revise r q)
  show ?thesis
    by (rule ids_pushed [OF assms(1) inv_ids [OF assms(2)] step_revise(9,8) revised_drawn [OF assms(2) step_revise(1,9)]])
next
  case (step_create r)
  have "drawn E ''directive'' 0 (sy_next t) (dr_id r)" using step_create(3) by (rule drawn_widen) simp_all
  then show ?thesis by (rule ids_pushed [OF assms(1) inv_ids [OF assms(2)] step_create(6,4)])
qed

lemma created_new:
  assumes "fresh_ids E" "service_inv E s" "drawn E ''directive'' (sy_next s) n d"
  shows "revs_of d s = []"
proof (rule ccontr)
  assume "revs_of d s \<noteq> []"
  then obtain r where "r \<in> set (sy_revisions s)" "dr_id r = d" by (auto simp: revs_of_def filter_empty_conv)
  with inv_drawn [OF assms(2)] have "drawn E ''directive'' 0 (sy_next s) d" by blast
  from drawn_disjoint [OF _ this assms(3)] assms(1) show False by (simp add: fresh_ids_def)
qed

lemma terminal_frozen:
  assumes "fresh_ids E" "service_inv E s" "directive_step E s t" "get_current d s = Some q" "terminal_status (dr_status q)"
  shows "get_current d t = Some q"
  using assms(3)
proof cases
  case step_aside
  then show ?thesis using get_current_same [of t s d] assms(4) by simp
next
  case (step_revise r p)
  from step_revise(1,2) assms(4,5) have "d \<noteq> dr_id r" by auto
  with current_pushed [OF assms(2) step_ids [OF assms(1-3)] step_revise(9), of d] assms(4) show ?thesis by simp
next
  case (step_create r)
  have "revs_of (dr_id r) s = []" by (rule created_new [OF assms(1,2) step_create(3)])
  with current_in(4) [OF assms(2,4)] have "d \<noteq> dr_id r" by auto
  with current_pushed [OF assms(2) step_ids [OF assms(1-3)] step_create(6), of d] assms(4) show ?thesis by simp
qed

lemma superseded_frozen:
  assumes "fresh_ids E" "service_inv E s" "directive_step E s t" "superseded d s"
  shows "superseded d t"
  using assms(4) terminal_frozen [OF assms(1-3)] by (auto simp: superseded_def terminal_status_def split: option.splits)

section \<open>Steps keep the invariant\<close>

lemma claims_pushed:
  assumes "claims_inv s" "sy_revisions t = sy_revisions s @ [r]" "\<And>p. superseded p s \<Longrightarrow> superseded p t"
    "\<forall>p \<in> set (claims r). superseded p s \<and> (\<forall>q \<in> set (sy_revisions s). p \<in> set (claims q) \<longrightarrow> dr_id q = dr_id r)"
  shows "claims_inv t"
  unfolding claims_inv_def
proof (intro ballI conjI impI)
  fix a p assume a: "a \<in> set (sy_revisions t)" and p: "p \<in> set (claims a)"
  note old = assms(1) [unfolded claims_inv_def, rule_format]
  have "superseded p s"
  proof (cases "a = r")
    case True
    with assms(4) p show ?thesis by simp
  next
    case False
    with a assms(2) have "a \<in> set (sy_revisions s)" by simp
    from old [OF this p] show ?thesis by (rule conjunct1)
  qed
  then show "superseded p t" by (rule assms(3))
  fix q assume q: "q \<in> set (sy_revisions t)" "p \<in> set (claims q)"
  show "dr_id q = dr_id a"
  proof (cases "a = r \<or> q = r")
    case True
    with a p q assms(2,4) show ?thesis by fastforce
  next
    case False
    with a q(1) assms(2) have m: "a \<in> set (sy_revisions s)" "q \<in> set (sy_revisions s)" by simp_all
    from old [OF m(1) p] m(2) q(2) show ?thesis by blast
  qed
qed

lemma step_inv:
  assumes "fresh_ids E" "service_inv E s" "directive_step E s t"
  shows "service_inv E t"
  using assms(3)
proof cases
  case step_aside
  have "versions_inv t" using inv_versions [OF assms(2)] step_aside by (simp add: versions_inv_def revs_of_def del: upt_Suc)
  moreover have "claims_inv t = claims_inv s"
    unfolding claims_inv_def superseded_def get_current_same [OF step_aside(1,2)] step_aside(1) ..
  ultimately show ?thesis
    using step_ids [OF assms] inv_founder [OF assms(2)] inv_claims [OF assms(2)] step_aside(1) by (simp add: service_inv_def)
next
  case (step_revise r q)
  note q = current_in [OF assms(2) step_revise(1)]
  have revs: "sy_revisions t = sy_revisions s @ [r]" using step_revise(9) by (simp add: pushed_def)
  have "versions_inv t"
    using step_revise(3) q(3) by (intro versions_pushed [OF inv_versions [OF assms(2)] step_revise(9)]) simp
  moreover have "claims_inv t"
  proof (rule claims_pushed [OF inv_claims [OF assms(2)] revs superseded_frozen [OF assms]])
    have "claims r = claims q" using step_revise(6) by (simp add: claims_def)
    with q(1,2) inv_claims [OF assms(2)] show "\<forall>p \<in> set (claims r). superseded p s
        \<and> (\<forall>a \<in> set (sy_revisions s). p \<in> set (claims a) \<longrightarrow> dr_id a = dr_id r)"
      unfolding claims_inv_def by metis
  qed
  ultimately show ?thesis
    using step_ids [OF assms] inv_founder [OF assms(2)] revs step_revise(7) by (simp add: service_inv_def)
next
  case (step_create r)
  have revs: "sy_revisions t = sy_revisions s @ [r]" using step_create(6) by (simp add: pushed_def)
  have "versions_inv t"
    using created_new [OF assms(1,2) step_create(3)] step_create(1)
    by (intro versions_pushed [OF inv_versions [OF assms(2)] step_create(6)]) simp
  moreover have "claims_inv t"
    by (rule claims_pushed [OF inv_claims [OF assms(2)] revs superseded_frozen [OF assms]])
       (use step_create(5) in \<open>auto simp: unclaimed_def\<close>)
  ultimately show ?thesis
    using step_ids [OF assms] inv_founder [OF assms(2)] revs step_create(2) by (simp add: service_inv_def)
qed

abbreviation directive_steps :: "service_env \<Rightarrow> service_state \<Rightarrow> service_state \<Rightarrow> bool" where
  "directive_steps E \<equiv> (directive_step E)\<^sup>*\<^sup>*"

lemma steps_inv:
  assumes "directive_steps E s t" "fresh_ids E" "service_inv E s"
  shows "service_inv E t"
  using assms(1) by (induction rule: rtranclp_induct) (simp_all add: assms(2,3) step_inv)

lemma steps_frozen:
  assumes "directive_steps E s t" "fresh_ids E" "service_inv E s" "get_current d s = Some q" "terminal_status (dr_status q)"
  shows "get_current d t = Some q"
  using assms(1)
proof (induction rule: rtranclp_induct)
  case base
  show ?case by (rule assms(4))
next
  case (step t u)
  show ?case by (rule terminal_frozen [OF assms(2) steps_inv [OF step(1) assms(2,3)] step(2) step(3) assms(5)])
qed

lemma step_appends: "directive_step E s t \<Longrightarrow> \<exists>rs. sy_revisions t = sy_revisions s @ rs"
  by (erule directive_step.cases) (auto simp: pushed_def)

lemma steps_append: "directive_steps E s t \<Longrightarrow> \<exists>rs. sy_revisions t = sy_revisions s @ rs"
  by (induction rule: rtranclp_induct) (fastforce dest: step_appends)+

end
