(* ===== verification/Directive_Refine.thy ===== *)
theory Directive_Refine
  imports Directive_Laws
begin

text \<open>
  Every call of the directive service is a sequence of steps of the abstract machine. Most parts of a call
  leave the directives alone; what remains are two parts that run to the end once their guards are passed:
  a new revision of an open directive, and a new directive after its predecessors were closed.
\<close>

section \<open>Parts that leave the directives alone\<close>

definition leaves_alone :: "'a call \<Rightarrow> bool" where
  "leaves_alone m \<longleftrightarrow>
     (\<forall>s. sy_revisions (snd (m s)) = sy_revisions s \<and> sy_current (snd (m s)) = sy_current s \<and> sy_next s \<le> sy_next (snd (m s)))"

lemma leaves_alone_and_then:
  assumes "leaves_alone m" "\<And>x. leaves_alone (k x)"
  shows "leaves_alone (and_then m k)"
  unfolding leaves_alone_def
proof
  fix s
  obtain r t where m: "m s = (r, t)" by fastforce
  from assms(1) m have t: "sy_revisions t = sy_revisions s" "sy_current t = sy_current s" "sy_next s \<le> sy_next t"
    unfolding leaves_alone_def by (metis snd_conv)+
  show "sy_revisions (snd (and_then m k s)) = sy_revisions s \<and> sy_current (snd (and_then m k s)) = sy_current s
      \<and> sy_next s \<le> sy_next (snd (and_then m k s))"
  proof (cases r)
    case (Inl e)
    with m t show ?thesis by (simp add: and_then_def)
  next
    case (Inr x)
    from assms(2) [of x] have "sy_revisions (snd (k x t)) = sy_revisions t \<and> sy_current (snd (k x t)) = sy_current t
        \<and> sy_next t \<le> sy_next (snd (k x t))"
      unfolding leaves_alone_def by blast
    with Inr m t show ?thesis by (simp add: and_then_def)
  qed
qed

lemma leaves_alone_parts:
  "leaves_alone (answer x)" "leaves_alone (lift_result r)" "leaves_alone (guard b e)" "leaves_alone (next_id E ty)"
  "leaves_alone (append_audit a)" "leaves_alone (insert_proposal p)" "leaves_alone (update_proposal p)"
  "leaves_alone (store_activity c)" "leaves_alone (known_target inp)" "leaves_alone (must_current d)"
  by (simp_all add: leaves_alone_def answer_def lift_result_def guard_def next_id_def append_audit_def insert_proposal_def
      update_proposal_def store_activity_def known_target_def must_current_def split: option.splits)

lemma leaves_alone_read: "leaves_alone (\<lambda>s. (f s, s))"
  by (simp add: leaves_alone_def)

lemma leaves_alone_audit: "leaves_alone (write_audit E now actor action ty i rid)"
  unfolding write_audit_def by (intro leaves_alone_and_then leaves_alone_parts)

lemmas leaves_alone_intros = leaves_alone_and_then leaves_alone_parts leaves_alone_read leaves_alone_audit

lemma leaves_alone_step: "leaves_alone m \<Longrightarrow> directive_step E s (snd (m s))"
  unfolding leaves_alone_def by (intro step_aside) blast+

lemma submit_alone: "leaves_alone (submit_proposal E now actor raw)"
  unfolding submit_proposal_def Let_def by (intro leaves_alone_intros)

lemma reject_alone: "leaves_alone (reject_proposal E now actor i)"
proof -
  have "leaves_alone (\<lambda>s. case get_proposal pid s of None \<Rightarrow> (Inl Proposal_Not_Found, s) | Some p \<Rightarrow> (Inr p, s))" for pid
    by (simp add: leaves_alone_def split: option.splits)
  then show ?thesis unfolding reject_proposal_def Let_def by (intro leaves_alone_intros)
qed

lemma activity_alone: "leaves_alone (record_agent_activity E now actor raw)"
proof -
  have case_option: "leaves_alone (case v of None \<Rightarrow> m | Some x \<Rightarrow> k x)"
    if "leaves_alone m" "\<And>x. leaves_alone (k x)" for v and m :: "'a call" and k :: "'b \<Rightarrow> 'a call"
    using that by (cases v) simp_all
  show ?thesis unfolding record_agent_activity_def Let_def
    by (intro leaves_alone_and_then leaves_alone_parts)
       (auto intro!: leaves_alone_intros split: option.splits json.splits)
qed

section \<open>A new revision of an open directive\<close>

lemma founder_iff:
  "assert_founder a f = Inr u \<longleftrightarrow> f \<noteq> [] \<and> ac_kind a = Human \<and> ac_id a = f"
  by (auto simp: assert_founder_def assert_readable_def)

lemma fresh_revision:
  assumes "fresh_ids E" "service_inv E s" "sy_next s \<le> k"
  shows "get_revision (ek_id E ''directive-revision'' k) s = None"
proof -
  have "drawn E ''directive-revision'' (sy_next s) (Suc k) (ek_id E ''directive-revision'' k)"
    using assms(3) by (auto simp: drawn_def)
  then have "dr_revision_id r \<noteq> ek_id E ''directive-revision'' k" if "r \<in> set (sy_revisions s)" for r
    using inv_ids [OF assms(2)] assms(1) that by (auto simp: ids_inv_def fresh_ids_def dest: drawn_disjoint)
  then show ?thesis by (force simp: get_revision_None)
qed

lemma insert_current_run:
  assumes "get_revision (dr_revision_id r) s = None"
  shows "insert_current r s = (Inr (), s\<lparr>sy_revisions := sy_revisions s @ [r],
    sy_current := AList.update (dr_id r) (dr_revision_id r) (sy_current s)\<rparr>)"
proof -
  have "get_revision (dr_revision_id r) (s\<lparr>sy_revisions := sy_revisions s @ [r]\<rparr>) \<noteq> None"
    by (simp add: get_revision_None)
  with assms show ?thesis
    by (simp add: insert_current_def and_then_def insert_revision_def set_current_def)
qed

lemma get_revision_next [simp]: "get_revision i (s\<lparr>sy_next := n\<rparr>) = get_revision i s"
  by (simp add: get_revision_def)

definition keeps_identity :: "(directive_record \<Rightarrow> directive_record) \<Rightarrow> bool" where
  "keeps_identity patch \<longleftrightarrow>
     (\<forall>r. dr_id (patch r) = dr_id r \<and> dr_kind (patch r) = dr_kind r \<and> dr_scope (patch r) = dr_scope r
        \<and> dr_supersedes (patch r) = dr_supersedes r)"

lemma patches_keep_identity:
  "keeps_identity (version_patch inp now)" "keeps_identity (\<lambda>r. r\<lparr>dr_status := st\<rparr>)"
  "keeps_identity (\<lambda>r. r\<lparr>dr_status := st, dr_expires_at := e\<rparr>)"
  by (simp_all add: keeps_identity_def version_patch_def)

lemma revise_run:
  assumes "fresh_ids E" "service_inv E s" "get_current d s = Some q" "\<not> terminal_status (dr_status q)"
    "ac_kind actor = Human" "ac_id actor = ek_founder E" "keeps_identity patch"
  obtains r t where "revise E now actor action q patch s = (Inr r, t)" "directive_step E s t" "pushed r s t" "dr_id r = d"
    "dr_status r = dr_status (patch q)" "claims r = claims q"
proof -
  define r where "r = (patch q)\<lparr>dr_revision_id := ek_id E ''directive-revision'' (sy_next s), dr_version := Suc (dr_version q),
      dr_created_by := actor\<lparr>ac_display_name := None\<rparr>, dr_updated_at := now\<rparr>"
  define t where "t = snd (revise E now actor action q patch s)"
  have new: "get_revision (dr_revision_id r) (s\<lparr>sy_next := Suc (sy_next s)\<rparr>) = None"
    by (simp add: r_def fresh_revision [OF assms(1,2)])
  have run: "revise E now actor action q patch s = (Inr r, t)"
    by (simp add: t_def revise_def snapshot_def and_then_def next_id_def answer_def write_audit_def append_audit_def
        r_def [symmetric] insert_current_run [OF new])
  have push: "pushed r s t"
    by (simp add: t_def revise_def snapshot_def and_then_def next_id_def answer_def write_audit_def append_audit_def
        r_def [symmetric] insert_current_run [OF new] pushed_def)
  have id: "dr_id r = d" using current_in(2) [OF assms(2,3)] assms(7) by (simp add: r_def keeps_identity_def)
  have "drawn E ''directive-revision'' (sy_next s) (sy_next t) (dr_revision_id r)"
    using push by (auto simp: drawn_def pushed_def r_def)
  then have "directive_step E s t"
    using assms(3-7) id push
    by (intro step_revise [of r _ q]) (simp_all add: r_def keeps_identity_def by_founder_def)
  with run push id assms(7) show ?thesis
    by (intro that [of r t]) (simp_all add: r_def keeps_identity_def claims_def)
qed

text \<open>What is left of a call on one directive once its checks are passed\<close>

definition open_revision ::
  "service_env \<Rightarrow> int \<Rightarrow> actor_ref \<Rightarrow> service_state \<Rightarrow> directive_record service_result \<times> service_state \<Rightarrow> bool" where
  "open_revision E now actor s y \<longleftrightarrow>
     (\<exists>action d q patch. get_current d s = Some q \<and> \<not> terminal_status (dr_status q) \<and> ac_kind actor = Human
        \<and> ac_id actor = ek_founder E \<and> keeps_identity patch \<and> y = revise E now actor action q patch s)"

lemma open_revision_step:
  assumes "fresh_ids E" "service_inv E s" "open_revision E now actor s y"
  shows "directive_step E s (snd y)"
proof -
  from assms(3) obtain action d q patch where o: "get_current d s = Some q" "\<not> terminal_status (dr_status q)"
    "ac_kind actor = Human" "ac_id actor = ek_founder E" "keeps_identity patch" and y: "y = revise E now actor action q patch s"
    unfolding open_revision_def by blast
  from revise_run [OF assms(1,2) o] show ?thesis unfolding y by (metis snd_conv)
qed

lemmas call_simps = and_then_def lift_result_def must_current_def guard_def founder_iff

text \<open>A call on one directive fails before anything is stored, or it is a revision of an open directive.\<close>

definition fails_or_revises :: "service_env \<Rightarrow> int \<Rightarrow> actor_ref \<Rightarrow> service_state \<Rightarrow> directive_record call \<Rightarrow> bool" where
  "fails_or_revises E now actor s m \<longleftrightarrow> (\<exists>e. m s = (Inl e, s)) \<or> open_revision E now actor s (m s)"

lemma fails_or_revises_lift:
  "(\<And>x. r = Inr x \<Longrightarrow> fails_or_revises E now actor s (k x)) \<Longrightarrow> fails_or_revises E now actor s (and_then (lift_result r) k)"
  by (cases r) (simp_all add: fails_or_revises_def and_then_def lift_result_def)

lemma fails_or_revises_guard:
  "(b \<Longrightarrow> fails_or_revises E now actor s (k ())) \<Longrightarrow> fails_or_revises E now actor s (and_then (guard b e) k)"
  by (cases b) (simp_all add: fails_or_revises_def and_then_def guard_def)

lemma fails_or_revises_current:
  "(\<And>q. get_current d s = Some q \<Longrightarrow> fails_or_revises E now actor s (k q)) \<Longrightarrow>
    fails_or_revises E now actor s (and_then (must_current d) k)"
  by (cases "get_current d s") (simp_all add: fails_or_revises_def and_then_def must_current_def)

lemma fails_or_revises_revise:
  "get_current d s = Some q \<Longrightarrow> \<not> terminal_status (dr_status q) \<Longrightarrow> assert_founder actor (ek_founder E) = Inr u \<Longrightarrow>
    keeps_identity patch \<Longrightarrow> fails_or_revises E now actor s (revise E now actor action q patch)"
  unfolding fails_or_revises_def open_revision_def founder_iff by blast

lemmas fails_or_revises_intros = fails_or_revises_lift fails_or_revises_guard fails_or_revises_current

lemma set_status_cases: "fails_or_revises E now actor s (set_status E action st now actor i)"
  unfolding set_status_def by (intro fails_or_revises_intros) (rule fails_or_revises_revise, assumption+, rule patches_keep_identity)

lemma create_version_cases: "fails_or_revises E now actor s (create_version E now actor i raw)"
  unfolding create_version_def
  by (intro fails_or_revises_intros)
     (rule fails_or_revises_revise, assumption, simp add: terminal_status_def, assumption, rule patches_keep_identity)

lemma expire_cases: "fails_or_revises E now actor s (expire E parse_date now actor i raw)"
  unfolding expire_def by (intro fails_or_revises_intros) (rule fails_or_revises_revise, assumption+, rule patches_keep_identity)

lemma fails_or_revises_step:
  "fresh_ids E \<Longrightarrow> service_inv E s \<Longrightarrow> fails_or_revises E now actor s m \<Longrightarrow> directive_step E s (snd (m s))"
  unfolding fails_or_revises_def by (auto intro: open_revision_step step_aside)

section \<open>Closing predecessors\<close>

lemma unclaimed_of_open:
  assumes "claims_inv s" "\<not> superseded p s"
  shows "unclaimed p s"
  using assms unfolding claims_inv_def unclaimed_def by blast

lemma unclaimed_pushed:
  "unclaimed p s \<Longrightarrow> q \<in> set (sy_revisions s) \<Longrightarrow> claims r = claims q \<Longrightarrow> pushed r s t \<Longrightarrow> unclaimed p t"
  by (auto simp: unclaimed_def pushed_def)

lemma close_one_revises:
  assumes "get_current d s = Some q" "\<not> terminal_status (dr_status q)"
  shows "close_one E now actor d s =
    and_then (revise E now actor ''directive.supersede'' q (\<lambda>r. r\<lparr>dr_status := Superseded\<rparr>)) (\<lambda>_. answer ()) s"
  using assms
  by (simp add: close_one_def must_current_def guard_def terminal_status_def revise_def and_then_def answer_def
      split: sum.splits prod.splits)

lemma close_one_stuck:
  assumes "\<nexists>q. get_current d s = Some q \<and> \<not> terminal_status (dr_status q)"
  shows "\<exists>e. close_one E now actor d s = (Inl e, s)"
  using assms by (cases "get_current d s") (auto simp: close_one_def must_current_def guard_def and_then_def)

definition open_in :: "string \<Rightarrow> service_state \<Rightarrow> bool" where
  "open_in d s \<longleftrightarrow> (\<exists>q. get_current d s = Some q \<and> \<not> terminal_status (dr_status q))"

lemma close_one_run:
  assumes "fresh_ids E" "service_inv E s" "assert_founder actor (ek_founder E) = Inr u"
  obtains (stuck) e where "close_one E now actor d s = (Inl e, s)" "\<not> open_in d s"
  | (closed) t where "close_one E now actor d s = (Inr (), t)" "directive_step E s t" "superseded d t"
      "unclaimed d s" "\<And>p. unclaimed p s \<Longrightarrow> unclaimed p t" "open_in d s" "\<And>p. open_in p t \<Longrightarrow> open_in p s"
proof (cases "open_in d s")
  case False
  from close_one_stuck [OF this [unfolded open_in_def]] False show ?thesis using stuck by blast
next
  case True
  then obtain q where q: "get_current d s = Some q" "\<not> terminal_status (dr_status q)" unfolding open_in_def by blast
  from assms(3) have a: "ac_kind actor = Human" "ac_id actor = ek_founder E" by (simp_all add: founder_iff)
  have "\<exists>r t. revise E now actor ''directive.supersede'' q (\<lambda>r. r\<lparr>dr_status := Superseded\<rparr>) s = (Inr r, t)
      \<and> directive_step E s t \<and> pushed r s t \<and> dr_id r = d \<and> dr_status r = Superseded \<and> claims r = claims q"
    by (rule revise_run [OF assms(1,2) q a patches_keep_identity(2) [where st = Superseded], where now = now
        and action = "''directive.supersede''"], (rule exI)+, intro conjI, assumption+) simp_all
  then obtain r t where run: "revise E now actor ''directive.supersede'' q (\<lambda>r. r\<lparr>dr_status := Superseded\<rparr>) s = (Inr r, t)"
    and t: "directive_step E s t" "pushed r s t" "dr_id r = d" "dr_status r = Superseded" "claims r = claims q"
    by blast
  have now_current: "get_current p t = (if p = d then Some r else get_current p s)" for p
    using current_pushed [OF assms(2) step_ids [OF assms(1,2) t(1)] t(2)] t(3) by simp
  then have "superseded d t" using t(4) by (simp add: superseded_def)
  moreover have "open_in p s" if "open_in p t" for p
    using that t(4) by (auto simp: open_in_def now_current terminal_status_def split: if_splits)
  moreover have "unclaimed d s"
    using q by (intro unclaimed_of_open [OF inv_claims [OF assms(2)]]) (simp add: superseded_def terminal_status_def)
  moreover have "unclaimed p t" if "unclaimed p s" for p
    by (rule unclaimed_pushed [OF that current_in(1) [OF assms(2) q(1)] t(5,2)])
  moreover have "close_one E now actor d s = (Inr (), t)"
    by (simp add: close_one_revises [OF q] and_then_def run answer_def)
  ultimately show ?thesis using t(1) True closed by blast
qed

lemma superseded_steps:
  "directive_steps E s t \<Longrightarrow> fresh_ids E \<Longrightarrow> service_inv E s \<Longrightarrow> superseded d s \<Longrightarrow> superseded d t"
proof (induction rule: rtranclp_induct)
  case (step t u)
  from superseded_frozen [OF step.prems(1) steps_inv [OF step(1) step.prems(1,2)] step(2) step.IH [OF step.prems]]
  show ?case .
qed

lemma closing_run:
  assumes "fresh_ids E" "assert_founder actor (ek_founder E) = Inr u" "service_inv E s"
    "close_as_superseded E now actor ids s = (res, t)"
  shows "directive_steps E s t \<and> (res = Inr () \<longrightarrow> (\<forall>p \<in> set ids. superseded p t \<and> unclaimed p t \<and> open_in p s))
    \<and> (\<forall>p. unclaimed p s \<longrightarrow> unclaimed p t)"
  using assms(3,4)
proof (induction ids arbitrary: s)
  case Nil
  then show ?case by (simp add: close_as_superseded_def answer_def)
next
  case (Cons d ids)
  from assms(1) Cons.prems(1) assms(2) show ?case
  proof (cases rule: close_one_run [where now = now and d = d])
    case (stuck e)
    with Cons.prems(2) have "res = Inl e" "t = s" by (simp_all add: close_as_superseded_def and_then_def)
    then show ?thesis by simp
  next
    case (closed v)
    have v: "service_inv E v" by (rule step_inv [OF assms(1) Cons.prems(1) closed(2)])
    from Cons.prems(2) closed(1) have "close_as_superseded E now actor ids v = (res, t)"
      by (simp add: close_as_superseded_def and_then_def)
    from Cons.IH [OF v this] have i: "directive_steps E v t"
      "res = Inr () \<Longrightarrow> \<forall>p \<in> set ids. superseded p t \<and> unclaimed p t \<and> open_in p v" "\<And>p. unclaimed p v \<Longrightarrow> unclaimed p t"
      by blast+
    from superseded_steps [OF i(1) assms(1) v closed(3)] closed(2,4-7) i show ?thesis
      by (auto intro: converse_rtranclp_into_rtranclp)
  qed
qed

section \<open>A new directive\<close>

definition enter :: "service_env \<Rightarrow> int \<Rightarrow> actor_ref \<Rightarrow> create_input \<Rightarrow> directive_record call" where
  "enter E now actor inp =
     and_then (next_id E ''directive'') (\<lambda>d.
     and_then (build_from_create E now actor inp d 1) (\<lambda>r.
     and_then (insert_current r) (\<lambda>_.
     and_then (write_audit E now actor ''directive.create'' Directive_Entity (dr_id r) (Some (dr_revision_id r))) (\<lambda>_.
     answer r))))"

lemma create_enters:
  "create_directive E now actor raw =
     and_then (lift_result (assert_founder actor (ek_founder E))) (\<lambda>_.
     and_then (lift_result (parse_create_input raw now)) (\<lambda>inp.
     and_then (close_as_superseded E now actor (or_else (ci_supersedes inp) [])) (\<lambda>_. enter E now actor inp)))"
  unfolding create_directive_def enter_def ..

lemma supersede_enters:
  "supersede E now actor i raw =
     and_then (lift_result (assert_founder actor (ek_founder E))) (\<lambda>_.
     and_then (lift_result (parse_path_id i)) (\<lambda>d0.
     and_then (lift_result (parse_create_input raw now)) (\<lambda>inp.
     and_then (close_as_superseded E now actor (unique_strings (d0 # or_else (ci_supersedes inp) []))) (\<lambda>_.
     enter E now actor (inp\<lparr>ci_supersedes := Some (unique_strings (d0 # or_else (ci_supersedes inp) []))\<rparr>)))))"
  unfolding supersede_def enter_def Let_def ..

lemma enter_run:
  assumes "fresh_ids E" "service_inv E s" "assert_founder actor (ek_founder E) = Inr u"
    "\<forall>p \<in> set (or_else (ci_supersedes inp) []). superseded p s \<and> unclaimed p s"
  shows "\<exists>r t. enter E now actor inp s = (Inr r, t) \<and> directive_step E s t \<and> pushed r s t
    \<and> dr_supersedes r = ci_supersedes inp"
proof -
  define r where "r = \<lparr>dr_id = ek_id E ''directive'' (sy_next s), dr_revision_id = ek_id E ''directive-revision'' (Suc (sy_next s)),
      dr_version = 1, dr_kind = ci_kind inp, dr_title = ci_title inp,
      dr_body = ci_body inp, dr_scope = ci_scope inp, dr_status = ci_status inp,
      dr_effective_from = ci_effective_from inp, dr_expires_at = ci_expires_at inp,
      dr_supersedes = ci_supersedes inp, dr_created_by = actor\<lparr>ac_display_name := None\<rparr>, dr_created_at = now,
      dr_updated_at = now, dr_provenance = ci_provenance inp\<rparr>"
  define t where "t = snd (enter E now actor inp s)"
  have new: "get_revision (dr_revision_id r) (s\<lparr>sy_next := Suc (Suc (sy_next s))\<rparr>) = None"
    by (simp add: r_def fresh_revision [OF assms(1,2)])
  note run_simps = enter_def build_from_create_def and_then_def next_id_def answer_def write_audit_def append_audit_def
    r_def [symmetric, simplified] insert_current_run [OF new]
  have run: "enter E now actor inp s = (Inr r, t)" by (simp add: t_def run_simps)
  have push: "pushed r s t" by (simp add: t_def run_simps pushed_def)
  have n: "sy_next t = Suc (Suc (Suc (sy_next s)))" by (simp add: t_def run_simps)
  have "drawn E ''directive'' (sy_next s) (sy_next t) (dr_id r)"
    "drawn E ''directive-revision'' (sy_next s) (sy_next t) (dr_revision_id r)"
    unfolding drawn_def n by (intro exI [of _ "sy_next s"], simp add: r_def, intro exI [of _ "Suc (sy_next s)"], simp add: r_def)
  then have "directive_step E s t"
    using assms(3,4) push by (intro step_create [of r]) (simp_all add: r_def by_founder_def claims_def founder_iff)
  with run push show ?thesis by (auto simp: r_def)
qed

section \<open>Calls are sequences of steps\<close>

lemma close_and_enter:
  assumes "fresh_ids E" "service_inv E s" "assert_founder actor (ek_founder E) = Inr u"
  shows "directive_steps E s (snd (and_then (close_as_superseded E now actor (or_else (ci_supersedes inp) []))
    (\<lambda>_. enter E now actor inp) s))"
proof -
  obtain res t where c: "close_as_superseded E now actor (or_else (ci_supersedes inp) []) s = (res, t)" by fastforce
  note run = closing_run [OF assms(1,3,2) c]
  show ?thesis
  proof (cases res)
    case (Inl e)
    with c run show ?thesis by (simp add: and_then_def)
  next
    case (Inr x)
    with run have steps: "directive_steps E s t"
      and ready: "\<forall>p \<in> set (or_else (ci_supersedes inp) []). superseded p t \<and> unclaimed p t" by simp_all
    from enter_run [OF assms(1) steps_inv [OF steps assms(1,2)] assms(3) ready, of now]
    have "directive_step E t (snd (enter E now actor inp t))" by auto
    with steps Inr c show ?thesis by (simp add: and_then_def)
  qed
qed

lemma create_steps:
  assumes "fresh_ids E" "service_inv E s"
  shows "directive_steps E s (snd (create_directive E now actor raw s))"
proof (cases "assert_founder actor (ek_founder E)")
  case (Inl e)
  then show ?thesis by (simp add: create_enters and_then_def lift_result_def)
next
  case f: (Inr u)
  show ?thesis
  proof (cases "parse_create_input raw now")
    case (Inl e)
    with f show ?thesis by (simp add: create_enters and_then_def lift_result_def)
  next
    case (Inr inp)
    then have "create_directive E now actor raw s =
        and_then (close_as_superseded E now actor (or_else (ci_supersedes inp) [])) (\<lambda>_. enter E now actor inp) s"
      using f by (simp add: create_enters and_then_def [of "lift_result _"] lift_result_def)
    with close_and_enter [OF assms f, of now inp] show ?thesis by simp
  qed
qed

lemma supersede_steps:
  assumes "fresh_ids E" "service_inv E s"
  shows "directive_steps E s (snd (supersede E now actor i raw s))"
proof (cases "assert_founder actor (ek_founder E)")
  case (Inl e)
  then show ?thesis by (simp add: supersede_enters and_then_def lift_result_def)
next
  case f: (Inr u)
  show ?thesis
  proof (cases "bindE (parse_path_id i) (\<lambda>d. bindE (parse_create_input raw now) (\<lambda>inp. Inr (d, inp)))")
    case (Inl e)
    with f show ?thesis
      by (auto simp: supersede_enters and_then_def lift_result_def bindE_def split: sum.splits)
  next
    case (Inr y)
    then obtain d inp where p: "parse_path_id i = Inr d" "parse_create_input raw now = Inr inp"
      by (auto simp: bindE_def split: sum.splits)
    define all where "all = unique_strings (d # or_else (ci_supersedes inp) [])"
    from p f have "supersede E now actor i raw s =
        and_then (close_as_superseded E now actor all) (\<lambda>_. enter E now actor (inp\<lparr>ci_supersedes := Some all\<rparr>)) s"
      by (simp add: supersede_enters and_then_def [of "lift_result _"] lift_result_def all_def)
    with close_and_enter [OF assms f, of now "inp\<lparr>ci_supersedes := Some all\<rparr>"] show ?thesis by simp
  qed
qed

lemma run_call_steps:
  assumes "fresh_ids E" "service_inv E s"
  shows "directive_steps E s (run_call E parse_date now actor c s)"
proof -
  note one = fails_or_revises_step [OF assms] leaves_alone_step
  show ?thesis
    unfolding run_call_def activate_def revoke_def
    by (cases c)
       (auto intro: create_steps [OF assms] supersede_steps [OF assms] one set_status_cases create_version_cases expire_cases
          submit_alone reject_alone activity_alone)
qed

lemma service_reaches_steps: "service_reaches E s \<Longrightarrow> fresh_ids E \<Longrightarrow> directive_steps E empty_service s \<and> service_inv E s"
proof (induction rule: service_reaches.induct)
  case service_new
  show ?case by (simp add: service_inv_empty)
next
  case (service_call s parse_date now actor c)
  from service_call.IH [OF service_call.prems] have s: "directive_steps E empty_service s" "service_inv E s" by simp_all
  note c = run_call_steps [OF service_call.prems s(2), of parse_date now actor c]
  from s(1) c steps_inv [OF c service_call.prems s(2)] show ?case by simp
qed

lemmas service_reaches_inv = service_reaches_steps [THEN conjunct2]

end
