(* ===== verification/Directive_Properties.thy ===== *)
theory Directive_Properties
  imports Directive_Refine
begin

text \<open>
  What the directive service promises, over all states its calls reach: only the founder directs, revisions
  are numbered and never change, closed directives stay closed, a directive has one successor, and a reader
  gets exactly the directives in force for the scope.
\<close>

section \<open>Runs\<close>

lemma run_calls_steps:
  assumes "fresh_ids E" "service_inv E s"
  shows "directive_steps E s (run_calls E calls s)"
  using assms(2)
proof (induction calls arbitrary: s)
  case Nil
  then show ?case by (simp add: run_calls_def)
next
  case (Cons c calls)
  obtain parse_date now actor k where c: "c = (parse_date, now, actor, k)" by (metis prod.exhaust)
  let ?t = "run_call E parse_date now actor k s"
  from run_call_steps [OF assms(1) Cons.prems] have t: "directive_steps E s ?t" .
  with Cons.IH [OF steps_inv [OF t assms(1) Cons.prems]] show ?case
    by (simp add: run_calls_def c)
qed

lemma list_revisions_in_order: "service_inv E s \<Longrightarrow> list_revisions d s = revs_of d s"
proof -
  assume "service_inv E s"
  then have "map dr_version (revs_of d s) = [1..<Suc (length (revs_of d s))]"
    using inv_versions unfolding versions_inv_def by blast
  then have "sorted (map dr_version (revs_of d s))" by (metis sorted_upt)
  then have "sort_key dr_version (revs_of d s) = revs_of d s" by (rule sort_key_id_if_sorted)
  then show ?thesis by (simp add: list_revisions_def revs_of_def)
qed

section \<open>Reading\<close>

lemma js_insert_perm: "mset (js_insert cmp x ys) = add_mset x (mset ys)"
  by (induction ys) auto

lemma js_sort_perm: "mset (js_sort cmp xs) = mset xs"
  by (induction xs) (simp_all add: js_sort_def js_insert_perm)

lemma set_js_sort [simp]: "set (js_sort cmp xs) = set xs"
  by (metis js_sort_perm mset_eq_setD)

lemma distinct_map_js_sort: "distinct (map f (js_sort cmp xs)) \<longleftrightarrow> distinct (map f xs)"
  by (metis js_sort_perm mset_eq_imp_distinct_iff mset_map)

lemma set_views_of [simp]: "set (views_of E rs) = to_view ` set rs"
  by (simp add: views_of_def)

lemma list_current_entries:
  assumes "service_inv E s"
  shows "map dr_id (list_current s) = map fst (sy_current s)"
    "set (list_current s) = {r. get_current (dr_id r) s = Some r}"
proof -
  have d: "distinct (map fst (sy_current s))" using inv_ids [OF assms] by (simp add: ids_inv_def)
  have entry: "\<exists>r. get_revision rid s = Some r \<and> dr_id r = e \<and> get_current e s = Some r" if "(e, rid) \<in> set (sy_current s)" for e rid
  proof -
    from that d have m: "map_of (sy_current s) e = Some rid" by simp
    with current_map [OF assms, of e] have "revs_of e s \<noteq> []" by auto
    then obtain r where r: "get_current e s = Some r" using current_is_last [OF assms, of e] by auto
    with m have "get_revision rid s = Some r" by (simp add: get_current_def)
    with r current_in(2) [OF assms r] show ?thesis by blast
  qed
  have "map dr_id (List.map_filter (\<lambda>(e, rid). get_revision rid s) xs) = map fst xs" if "set xs \<subseteq> set (sy_current s)" for xs
    using that by (induction xs) (auto simp: List.map_filter_simps dest!: entry)
  then show "map dr_id (list_current s) = map fst (sy_current s)" by (simp add: list_current_def)
  show "set (list_current s) = {r. get_current (dr_id r) s = Some r}"
  proof (intro equalityI subsetI CollectI)
    fix r assume "r \<in> set (list_current s)"
    then obtain e rid where "(e, rid) \<in> set (sy_current s)" "get_revision rid s = Some r"
      by (auto simp: list_current_def List.map_filter_def)
    with entry show "get_current (dr_id r) s = Some r" by fastforce
  next
    fix r assume "r \<in> {r. get_current (dr_id r) s = Some r}"
    then have r: "get_current (dr_id r) s = Some r" by simp
    then obtain rid where m: "map_of (sy_current s) (dr_id r) = Some rid" "get_revision rid s = Some r"
      by (auto simp: get_current_def split: option.splits)
    from m(1) have "(dr_id r, rid) \<in> set (sy_current s)" by (rule map_of_SomeD)
    with m(2) show "r \<in> set (list_current s)" by (force simp: list_current_def List.map_filter_def)
  qed
qed

lemma visible_active_exact:
  assumes "service_inv E s"
  shows "set (visible_active E now scope s) = {r. get_current (dr_id r) s = Some r \<and> is_active_at r now
      \<and> dr_scope r \<in> set (expand_inherited_scopes (ek_domains E) scope)}"
    "distinct (map dr_id (visible_active E now scope s))"
proof -
  show "set (visible_active E now scope s) = {r. get_current (dr_id r) s = Some r \<and> is_active_at r now
      \<and> dr_scope r \<in> set (expand_inherited_scopes (ek_domains E) scope)}"
    using list_current_entries(2) [OF assms] by (auto simp: visible_active_def scope_visible_under_query_def)
  have "distinct (map dr_id (list_current s))"
    using inv_ids [OF assms] by (simp add: list_current_entries(1) [OF assms] ids_inv_def)
  then show "distinct (map dr_id (visible_active E now scope s))"
    by (simp add: visible_active_def distinct_map_js_sort distinct_map_filter)
qed

section \<open>Samples\<close>

definition sample_env :: service_env where
  "sample_env = \<lparr>ek_id = (\<lambda>ty n. ''cc:'' @ ty @ '':'' @ replicate (Suc n) CHR ''i''), ek_founder = ''tiago'',
     ek_default_scope = ''company'', ek_domains = [], ek_collate = id\<rparr>"

definition sample_founder :: actor_ref where
  "sample_founder = \<lparr>ac_kind = Human, ac_id = ''tiago'', ac_display_name = None\<rparr>"

definition sample_agent :: actor_ref where
  "sample_agent = \<lparr>ac_kind = Agent, ac_id = ''tiago'', ac_display_name = None\<rparr>"

definition sample_fields :: json_object where
  "sample_fields = [(''kind'', JStr ''fact''), (''title'', JStr ''T''), (''body'', JStr ''B''), (''scope'', JStr ''company''),
     (''source'', JObj [(''system'', JStr ''crm''), (''kind'', JStr ''note''), (''locator'', JStr ''x'')]), (''confidence'', JNum 1)]"

definition sample_created :: service_state where
  "sample_created =
     run_call sample_env (\<lambda>_. None) 0 sample_founder (Create_Directive (Some (JObj sample_fields))) empty_service"

definition sample_linked :: service_state where
  "sample_linked = run_call sample_env (\<lambda>_. None) 0 sample_founder
     (Supersede_Directive ''cc:directive:i'' (Some (JObj sample_fields))) sample_created"

lemma sample_fresh: "fresh_ids sample_env"
  by (simp add: fresh_ids_def sample_env_def inj_on_def replicate_eq_replicate)

lemma sample_reached: "service_reaches sample_env sample_created" "service_reaches sample_env sample_linked"
  unfolding sample_linked_def sample_created_def by (intro service_reaches.intros)+

text \<open>One evaluation of the two calls gives the facts the witnesses use.\<close>

lemma sample_evaluated:
  "let y = supersede sample_env 0 sample_founder ''cc:directive:i'' (Some (JObj sample_fields)) sample_created; s = snd y in
     (case fst y of Inr r \<Rightarrow> True | Inl _ \<Rightarrow> False)
     \<and> (case get_current ''cc:directive:i'' s of Some q \<Rightarrow> dr_status q = Superseded | None \<Rightarrow> False)
     \<and> map dr_version (list_revisions ''cc:directive:i'' s) = [1, 2]
     \<and> list_ex (\<lambda>r. dr_supersedes r = Some [''cc:directive:i'']) (sy_revisions s)
     \<and> (case get_context sample_env 0 sample_founder ''company'' s of
          Inr p \<Rightarrow> map dv_id (kx_active p) = [''cc:directive:iiiiii''] | Inl _ \<Rightarrow> False)"
  by code_simp

lemma sample_linked_run:
  "sample_linked = snd (supersede sample_env 0 sample_founder ''cc:directive:i'' (Some (JObj sample_fields)) sample_created)"
  by (simp add: sample_linked_def run_call_def)

lemmas sample_linked_facts = sample_evaluated [unfolded Let_def sample_linked_run [symmetric]]

lemma sample_supersede:
    "case fst (supersede sample_env 0 sample_founder ''cc:directive:i'' (Some (JObj sample_fields)) sample_created) of
       Inr r \<Rightarrow> True | Inl _ \<Rightarrow> False"
  and sample_superseded:
    "case get_current ''cc:directive:i'' sample_linked of Some q \<Rightarrow> dr_status q = Superseded | None \<Rightarrow> False"
  and sample_revisions: "map dr_version (list_revisions ''cc:directive:i'' sample_linked) = [1, 2]"
  and sample_successor: "list_ex (\<lambda>r. dr_supersedes r = Some [''cc:directive:i'']) (sy_revisions sample_linked)"
  and sample_context:
    "case get_context sample_env 0 sample_founder ''company'' sample_linked of
       Inr p \<Rightarrow> map dv_id (kx_active p) = [''cc:directive:iiiiii''] | Inl _ \<Rightarrow> False"
  using sample_linked_facts by blast+

lemma sample_failed_supersede:
  "fst (supersede sample_env 0 sample_founder ''cc:directive:i''
     (Some (JObj ((''supersedes'', JArr [JStr ''cc:directive:x'']) # sample_fields))) sample_created) = Inl Directive_Not_Found"
  by code_simp

section \<open>Properties\<close>

lemma parts_set_aside:
  assumes "\<not> (ac_kind actor = Human \<and> ac_id actor = ek_founder E)"
  shows "sy_revisions (run_call E parse_date now actor c s) = sy_revisions s
    \<and> sy_current (run_call E parse_date now actor c s) = sy_current s"
proof -
  obtain e where e: "assert_founder actor (ek_founder E) = Inl e"
    using assms by (cases "assert_founder actor (ek_founder E)") (auto simp: founder_iff)
  have alone: "sy_revisions (snd (m s)) = sy_revisions s \<and> sy_current (snd (m s)) = sy_current s" if "leaves_alone m"
    for m :: "'b call"
    using that by (simp add: leaves_alone_def)
  show ?thesis
    by (cases c)
       (simp_all add: run_call_def create_directive_def create_version_def supersede_def expire_def activate_def revoke_def
          set_status_def and_then_def [of "lift_result _"] lift_result_def e alone [OF submit_alone]
          alone [OF reject_alone] alone [OF activity_alone])
qed

lemma list_current_same:
  "sy_revisions t = sy_revisions s \<Longrightarrow> sy_current t = sy_current s \<Longrightarrow> list_current t = list_current s"
  by (simp add: list_current_def get_revision_def)

text \<open>
  C15. Only the founder directs: no call of an agent, of the system or of another person, whatever it
  asks for, adds a revision or moves what is current, and every reader gets the same context as before.
\<close>

theorem only_founder_directs:
  assumes "\<not> (ac_kind actor = Human \<and> ac_id actor = ek_founder E)"
  shows "sy_revisions (run_call E parse_date now actor c s) = sy_revisions s
    \<and> get_current d (run_call E parse_date now actor c s) = get_current d s
    \<and> get_context E at_time reader scope (run_call E parse_date now actor c s) = get_context E at_time reader scope s"
proof -
  note same = parts_set_aside [OF assms, of parse_date now c s, THEN conjunct1]
    parts_set_aside [OF assms, of parse_date now c s, THEN conjunct2]
  show ?thesis
    unfolding get_context_def visible_active_def list_current_same [OF same] get_current_same [OF same] same(1) by simp
qed

theorem only_founder_directs_witness:
  "sy_revisions (run_call sample_env (\<lambda>_. None) 0 sample_agent (Revoke_Directive ''cc:directive:i'') sample_created)
    = sy_revisions sample_created"
proof -
  have "\<not> (ac_kind sample_agent = Human \<and> ac_id sample_agent = ek_founder sample_env)" by (simp add: sample_agent_def)
  from only_founder_directs [OF this] show ?thesis by blast
qed

text \<open>
  C16. In every state the calls reach, the revisions of a directive are numbered 1, 2, ... in the
  order they were made, all made by the founder, and what is current is the last of them.
\<close>

theorem revisions_numbered:
  assumes "service_reaches E s" "fresh_ids E"
  shows "map dr_version (list_revisions d s) = [1..<Suc (length (list_revisions d s))]
    \<and> get_current d s = (if list_revisions d s = [] then None else Some (last (list_revisions d s)))
    \<and> list_all (\<lambda>r. dr_id r = d \<and> ac_kind (dr_created_by r) = Human \<and> ac_id (dr_created_by r) = ek_founder E)
        (list_revisions d s)"
proof -
  have inv: "service_inv E s" by (rule service_reaches_inv [OF assms])
  have v: "map dr_version (revs_of d s) = [1..<Suc (length (revs_of d s))]"
    using inv_versions [OF inv] unfolding versions_inv_def by blast
  have "list_all (\<lambda>r. dr_id r = d \<and> by_founder E r) (revs_of d s)"
    using inv_founder [OF inv] by (auto simp: list_all_iff revs_of_def)
  with v current_is_last [OF inv, of d] show ?thesis
    unfolding list_revisions_in_order [OF inv] by_founder_def by blast
qed

theorem revisions_numbered_witness:
  "map dr_version (list_revisions ''cc:directive:i'' sample_linked) = [1, 2]
    \<and> get_current ''cc:directive:i'' sample_linked = Some (last (list_revisions ''cc:directive:i'' sample_linked))"
proof -
  have "list_revisions ''cc:directive:i'' sample_linked \<noteq> []" using sample_revisions by force
  with revisions_numbered [OF sample_reached(2) sample_fresh, of "''cc:directive:i''"] sample_revisions
  show ?thesis by argo
qed

text \<open>
  C11. A closed directive stays closed: whatever calls follow, of anybody and in any order, a directive that is
  superseded, expired or revoked keeps its current revision, and no call takes a revision away.
\<close>

theorem closed_directive_final:
  assumes "service_reaches E s" "fresh_ids E" "get_current d s = Some q" "dr_status q \<in> {Superseded, Expired, Revoked}"
  shows "get_current d (run_calls E calls s) = Some q
    \<and> (\<exists>rs. sy_revisions (run_calls E calls s) = sy_revisions s @ rs)"
proof -
  have inv: "service_inv E s" by (rule service_reaches_inv [OF assms(1,2)])
  note steps = run_calls_steps [OF assms(2) inv, of calls]
  from assms(4) have "terminal_status (dr_status q)" by (auto simp: terminal_status_def)
  with steps_frozen [OF steps assms(2) inv assms(3)] steps_append [OF steps] show ?thesis by blast
qed

theorem closed_directive_final_witness:
  "get_current ''cc:directive:i'' (run_calls sample_env [(\<lambda>_. None, 5, sample_founder, Activate_Directive ''cc:directive:i'')]
     sample_linked) = get_current ''cc:directive:i'' sample_linked"
proof -
  obtain q where q: "get_current ''cc:directive:i'' sample_linked = Some q" "dr_status q \<in> {Superseded, Expired, Revoked}"
    using sample_superseded by (auto split: option.splits)
  from closed_directive_final [OF sample_reached(2) sample_fresh q] q(1) show ?thesis by metis
qed

text \<open>
  C12. In every state the calls reach, a directive that some revision names as its predecessor is superseded,
  and only one directive names it: no directive has two successors.
\<close>

theorem one_successor:
  assumes "service_reaches E s" "fresh_ids E" "r \<in> set (sy_revisions s)" "dr_supersedes r = Some ps" "p \<in> set ps"
  shows "(\<exists>q. get_current p s = Some q \<and> dr_status q = Superseded)
    \<and> (\<forall>r2 \<in> set (sy_revisions s). \<forall>ps2. dr_supersedes r2 = Some ps2 \<and> p \<in> set ps2 \<longrightarrow> dr_id r2 = dr_id r)"
proof -
  have "claims_inv s" by (rule inv_claims [OF service_reaches_inv [OF assms(1,2)]])
  moreover have p: "p \<in> set (claims r)" using assms(4,5) by (simp add: claims_def)
  ultimately have a: "superseded p s" "\<And>q. q \<in> set (sy_revisions s) \<Longrightarrow> p \<in> set (claims q) \<Longrightarrow> dr_id q = dr_id r"
    using assms(3) unfolding claims_inv_def by blast+
  have "p \<in> set (claims q)" if "dr_supersedes q = Some qs" "p \<in> set qs" for q qs
    using that by (simp add: claims_def)
  with a show ?thesis by (fastforce simp: superseded_def split: option.splits)
qed

theorem one_successor_witness:
  "\<exists>q. get_current ''cc:directive:i'' sample_linked = Some q \<and> dr_status q = Superseded"
proof -
  obtain r where "r \<in> set (sy_revisions sample_linked)" "dr_supersedes r = Some [''cc:directive:i'']"
    using sample_successor by (auto simp: list_ex_iff)
  from one_successor [OF sample_reached(2) sample_fresh this, of "''cc:directive:i''"] show ?thesis by simp
qed

text \<open>
  C13. The context of a scope is exact: its active directives are, each once, the current revisions that are
  active and within their dates and whose scope is the scope asked for or one it inherits from; the lists
  by kind divide them.
\<close>

theorem context_exact:
  assumes "service_reaches E s" "fresh_ids E" "get_context E now actor scope s = Inr p"
  shows "set (kx_active p) = to_view ` {r. get_current (dr_id r) s = Some r \<and> dr_status r = Active
        \<and> dr_effective_from r \<le> now \<and> (\<forall>t. dr_expires_at r = Some t \<longrightarrow> now < t)
        \<and> dr_scope r \<in> set (expand_inherited_scopes (ek_domains E) scope)}
    \<and> distinct (map dv_id (kx_active p)) \<and> set (kx_of_kind p k) = {v \<in> set (kx_active p). dv_kind v = k}"
proof -
  have inv: "service_inv E s" by (rule service_reaches_inv [OF assms(1,2)])
  let ?va = "visible_active E now scope s"
  from assms(3) have p: "kx_active p = views_of E ?va" "kx_of_kind p k = views_of E (filter (\<lambda>r. dr_kind r = k) ?va)"
    by (auto simp: get_context_def Let_def parse_scope_def require_def split: if_splits)
  have a: "is_active_at r now \<longleftrightarrow> dr_status r = Active \<and> dr_effective_from r \<le> now
      \<and> (\<forall>t. dr_expires_at r = Some t \<longrightarrow> now < t)" for r
    by (auto simp: is_active_at_def split: option.splits)
  have "dv_id \<circ> to_view = dr_id" by (simp add: fun_eq_iff to_view_def)
  then have "distinct (map dv_id (kx_active p))"
    using visible_active_exact(2) [OF inv, of now scope]
    unfolding p(1) views_of_def by (simp add: distinct_map_js_sort)
  moreover have "set (kx_of_kind p k) = {v \<in> set (kx_active p). dv_kind v = k}"
    unfolding p by (auto simp: to_view_def)
  moreover have "set (kx_active p) = to_view ` set ?va" unfolding p(1) by simp
  ultimately show ?thesis unfolding visible_active_exact(1) [OF inv] a by simp
qed

theorem context_exact_witness:
  "\<exists>p. get_context sample_env 0 sample_founder ''company'' sample_linked = Inr p
    \<and> map dv_id (kx_active p) = [''cc:directive:iiiiii''] \<and> set (kx_of_kind p DK_Fact) = {v \<in> set (kx_active p). dv_kind v = DK_Fact}"
proof -
  obtain p where p: "get_context sample_env 0 sample_founder ''company'' sample_linked = Inr p"
    "map dv_id (kx_active p) = [''cc:directive:iiiiii'']"
    using sample_context by (auto split: sum.splits)
  note c = context_exact [OF sample_reached(2) sample_fresh p(1), of DK_Fact, THEN conjunct2, THEN conjunct2]
  show ?thesis by (intro exI [of _ p] conjI p c)
qed

text \<open>
  C14. A supersede that succeeds links both sides: the new directive is current at version 1, names the
  directive it replaces, and every directive it names was open before and is superseded now.
\<close>

theorem supersede_links:
  assumes "service_reaches E s" "fresh_ids E" "supersede E now actor i raw s = (Inr r, t)"
  shows "get_current (dr_id r) t = Some r \<and> dr_version r = 1 \<and> (\<exists>ps. dr_supersedes r = Some ps \<and> i \<in> set ps
    \<and> list_all (\<lambda>p. (\<exists>q. get_current p s = Some q \<and> dr_status q \<in> {Draft, Active})
        \<and> (\<exists>q. get_current p t = Some q \<and> dr_status q = Superseded)) ps)"
proof -
  have inv: "service_inv E s" by (rule service_reaches_inv [OF assms(1,2)])
  from assms(3) obtain u inp d where f: "assert_founder actor (ek_founder E) = Inr u"
    and i: "parse_path_id i = Inr d" "parse_create_input raw now = Inr inp"
    by (auto simp: supersede_enters and_then_def [of "lift_result _"] lift_result_def split: sum.splits)
  have d: "d = i" using i(1) by (auto simp: parse_path_id_def assert_resource_id_def require_def split: if_splits)
  define ps where "ps = unique_strings (i # or_else (ci_supersedes inp) [])"
  have run: "supersede E now actor i raw s =
      and_then (close_as_superseded E now actor ps) (\<lambda>_. enter E now actor (inp\<lparr>ci_supersedes := Some ps\<rparr>)) s"
    using f i by (simp add: supersede_enters and_then_def [of "lift_result _"] lift_result_def ps_def d)
  obtain res v where c: "close_as_superseded E now actor ps s = (res, v)" by fastforce
  with run assms(3) have res: "res = Inr ()" and e: "enter E now actor (inp\<lparr>ci_supersedes := Some ps\<rparr>) v = (Inr r, t)"
    by (cases res; simp add: and_then_def)+
  from closing_run [OF assms(2) f inv c] res have closed: "directive_steps E s v"
    "\<forall>p \<in> set ps. superseded p v \<and> unclaimed p v \<and> open_in p s" by simp_all
  have v: "service_inv E v" by (rule steps_inv [OF closed(1) assms(2) inv])
  have "\<forall>p \<in> set (or_else (ci_supersedes (inp\<lparr>ci_supersedes := Some ps\<rparr>)) []). superseded p v \<and> unclaimed p v"
    using closed(2) by simp
  from enter_run [OF assms(2) v f this, of now] e
  have t: "directive_step E v t" "pushed r v t" "dr_supersedes r = Some ps" by auto
  have one: "dr_version r = 1" using e
    by (auto simp: enter_def build_from_create_def and_then_def next_id_def answer_def split: prod.splits sum.splits)
  have cur: "get_current (dr_id r) t = Some r"
    using current_pushed [OF v step_ids [OF assms(2) v t(1)] t(2)] by simp
  have "(\<exists>q. get_current p s = Some q \<and> dr_status q \<in> {Draft, Active}) \<and> (\<exists>q. get_current p t = Some q \<and> dr_status q = Superseded)"
    if "p \<in> set ps" for p
  proof
    from closed(2) that have "open_in p s" by blast
    then obtain q where "get_current p s = Some q" "\<not> terminal_status (dr_status q)" unfolding open_in_def by blast
    then show "\<exists>q. get_current p s = Some q \<and> dr_status q \<in> {Draft, Active}"
      by (cases "dr_status q") (auto simp: terminal_status_def)
    from superseded_frozen [OF assms(2) v t(1)] closed(2) that have "superseded p t" by blast
    then show "\<exists>q. get_current p t = Some q \<and> dr_status q = Superseded" by (auto simp: superseded_def split: option.splits)
  qed
  moreover have "i \<in> set ps" by (simp add: ps_def)
  ultimately show ?thesis using cur one t(3) by (simp add: list_all_iff)
qed

theorem supersede_links_witness:
  "\<exists>r t. supersede sample_env 0 sample_founder ''cc:directive:i'' (Some (JObj sample_fields)) sample_created = (Inr r, t)
    \<and> get_current (dr_id r) t = Some r"
proof -
  obtain r t where run:
    "supersede sample_env 0 sample_founder ''cc:directive:i'' (Some (JObj sample_fields)) sample_created = (Inr r, t)"
    using sample_supersede by (metis (lifting) prod.exhaust_sel sum.case_eq_if sum.collapse(2))
  from supersede_links [OF sample_reached(1) sample_fresh run] run show ?thesis by blast
qed

text \<open>
  A supersede of two directives of which the second does not exist or is closed fails, but the first is
  superseded by then and stays so, without a successor.
\<close>

lemma failed_supersede_closes:
  assumes "service_reaches E s" "fresh_ids E" "assert_founder actor (ek_founder E) = Inr u" "parse_path_id i = Inr d"
    "parse_create_input raw now = Inr inp" "ci_supersedes inp = Some [p]" "open_in i s" "\<not> open_in p s"
  shows "\<exists>e t. supersede E now actor i raw s = (Inl e, t) \<and> superseded i t \<and> unclaimed i t"
proof -
  have inv: "service_inv E s" by (rule service_reaches_inv [OF assms(1,2)])
  have d: "d = i" using assms(4) by (auto simp: parse_path_id_def assert_resource_id_def require_def split: if_splits)
  have "p \<noteq> i" using assms(7,8) by auto
  then have ps: "unique_strings [i, p] = [i, p]" by simp
  from assms(2) inv assms(3) show ?thesis
  proof (cases rule: close_one_run [where now = now and d = i])
    case (stuck e)
    with assms(7) show ?thesis by simp
  next
    case (closed t)
    have "\<not> open_in p t" using closed(7) assms(8) by blast
    then obtain e where e: "close_one E now actor p t = (Inl e, t)"
      using close_one_stuck [of p t] unfolding open_in_def by blast
    have "close_as_superseded E now actor [i, p] s = (Inl e, t)"
      by (simp add: close_as_superseded_def and_then_def closed(1) e)
    then have "supersede E now actor i raw s = (Inl e, t)"
      using assms(3-6) by (simp add: supersede_enters and_then_def lift_result_def d ps)
    with closed(3,4,5) show ?thesis by blast
  qed
qed

end
