(* ===== verification/Spec2Isabelle.thy ===== *)
theory Spec2Isabelle
  imports Attention_Properties Work_Order_Properties Work_Order_Projection Work_Order_Store_Properties Business_Calendar_Laws
    Agent_Ledger_Properties Finance_Properties Finance_Ledger_Properties
    Operator_Properties Collector_Properties Commercial_Properties Directive_Properties
begin

text \<open>
  A model of the control center of this repository (\<open>src/control-center\<close>, TypeScript), the server side that
  observes a company and lets its operator act: it collects observations from other systems, computes
  read models from them, keeps the event-sourced delivery of sold work and a ledger of what agents did, and
  forwards a few confirmed commands to another system. Every definition is translated from the code; names
  follow the code, in snake case.

  \<^bold>\<open>Parts, and where they are modelled\<close>

  \<^item> Shared: \<open>Prelude\<close> has the results that are an error (\<open>Inl\<close>) or a value (\<open>Inr\<close>), guards in the order of
    the code, and the string and array functions of the language; \<open>Json\<close> the JSON values; \<open>Iso_Date\<close>
    instants and \<open>new Date(s)\<close>; \<open>Event_Sourcing\<close> and \<open>Keyed_Log\<close> two locales, interpreted on the model of
    the work orders (\<open>wo\<close>) and of the finance ledger (\<open>observations\<close>).
  \<^item> Delivery (\<open>domains/delivery/src\<close>): \<open>Work_Order\<close> holds the types (\<open>contracts/src/types.ts\<close>),
    \<open>Work_Order_Aggregate\<close> the aggregate (\<open>aggregate.ts\<close>: \<open>createWorkOrder\<close>, \<open>decideWorkOrder\<close> and one handler
    per event), \<open>Work_Order_Lifecycle\<close> its abstract lifecycle, \<open>Work_Order_Stream\<close> replay,
    \<open>Work_Order_Store\<close> the tables and transactions (\<open>store.ts\<close>), \<open>Work_Order_Projection\<close> the read view
    (\<open>project.ts\<close>), \<open>Business_Calendar\<close> the business-day clock (\<open>clock.ts\<close>). The state is the work order with
    its version; the store calls the aggregate on the row it locked and writes row and event together.
  \<^item> Agent activity (\<open>domains/agent-activity/src\<close>): \<open>Agent_Activity\<close> the transitions of a session (\<open>apply.ts\<close>),
    \<open>Agent_Ledger\<close> the service over a repository (\<open>ledger.ts\<close>, \<open>store.ts\<close>, \<open>queries.ts\<close>). The repository is a
    locale, interpreted on the in-memory store.
  \<^item> Finance (\<open>domains/finance/src\<close>): \<open>Finance_Types\<close>, \<open>Finance_Validate\<close> (readers of untrusted JSON),
    \<open>Finance_Aggregate\<close> (from observations to the read model), \<open>Finance_Ledger\<close> (the ledger of observations and
    the manual adjustments). \<open>Finance_Events\<close> and \<open>Finance_Accounting\<close> hold the lemmas.
  \<^item> Attention (\<open>intelligence/attention/src\<close>): \<open>Attention_Types\<close>, \<open>Attention_Score\<close>, \<open>Attention_Merge\<close>,
    \<open>Attention_Rank\<close>, \<open>Attention_Validate\<close> follow the pipeline: read a request, merge correlated signals, score
    with integers, sort, choose a diverse list, apply an override.
  \<^item> Operator (\<open>security/src\<close>, \<open>connectors/warmbly/src\<close>): \<open>Forward_Auth\<close> reads the identity a trusted proxy
    asserts, \<open>Circuit_Breaker\<close> the breaker of the HTTP clients, \<open>Operator_Channel\<close> actions, allowlist,
    confirmation store and audit ledger, \<open>Operator_Calls\<close> the calls (\<open>channel.ts\<close>, \<open>client.ts\<close>). A call that
    posts is two steps, before and after the answer, so that calls interleave.
  \<^item> Collectors (\<open>connectors/runner/src\<close>): \<open>Collector_Runner\<close> is the scheduler (\<open>scheduler.ts\<close>) with its timers,
    runs and \<open>stop\<close> as a step relation, one step per awaited answer, and the storing of a run
    (\<open>persist.ts\<close>).
  \<^item> Commercial (\<open>domains/commercial/src\<close>): \<open>Commercial_Normalize\<close> reads records into stages, amounts and
    probabilities, \<open>Commercial_Project\<close> computes the summary.
  \<^item> Context (\<open>services/context/src\<close>): \<open>Directive_Input\<close> has the data, who may do what, scopes and the readers
    of request bodies (\<open>types.ts\<close>, \<open>actor.ts\<close>, \<open>scope.ts\<close>, \<open>sanitize.ts\<close>, \<open>validate.ts\<close>), \<open>Directive_Service\<close> the
    calls (\<open>service.ts\<close>) on the in-memory store (\<open>store/fixture.ts\<close>), which the database store keeps in front of
    its tables. A call is a function from a state to an error or a value and a state: what it stored
    before an error stays. \<open>Directive_Laws\<close> states the abstract machine of two steps, a new revision and a new
    directive, and its invariant; \<open>Directive_Refine\<close> shows that every call is a sequence of these steps.

  \<^bold>\<open>What is proved\<close>

  \<^item> \<open>Work_Order_Properties\<close>: a replayed order is well formed, every applied event follows the abstract
    lifecycle (a refinement), each gate that needs a human has a signed event, final stages stay final, and
    of two decisions on one version one is rejected. \<open>Work_Order_Store_Properties\<close>: in every reachable store
    each row is the replay of its events, an identity has one active order, the second writer is held.
    \<open>Business_Calendar_Laws\<close>: \<open>addBusinessDays\<close> returns, on the right day or, at the end of the range of \<open>Date\<close>, with a
    \<open>RangeError\<close>.
  \<^item> \<open>Agent_Ledger_Properties\<close>: over all reachable ledgers, revisions are numbered and only appended, an
    approval was stamped by a founder; and one stored start with an impossible date blocks the ledger.
  \<^item> \<open>Finance_Properties\<close>: receivables are conserved between total, aging and clients, every figure is a safe
    integer, the order of observations that do not tie does not matter, reading an event is sound.
    \<open>Finance_Ledger_Properties\<close>: adjustments apply once and are audited.
  \<^item> \<open>Attention_Properties\<close>: without an override "attention now" is the best part of the candidates
    in order and "today" a diverse choice, under any override both are bounded, merging loses no signal, overrides
    are audited, requests that can be read are served, the reason text decomposes.
  \<^item> \<open>Operator_Properties\<close>: a release of the kill switch was confirmed by the same operator and not revoked in
    between, posts go to three paths only, every call is recorded in every interleaving, and an identified
    operator gets through. \<open>Circuit_Breaker\<close> and \<open>Forward_Auth\<close> characterise refusal and identity.
  \<^item> \<open>Collector_Properties\<close>: no source leaves the schedule or enters it twice, runs of a source do not overlap
    under its lock, every run ends and gives its lock back, a returned \<open>stop\<close> is final.
  \<^item> \<open>Commercial_Properties\<close>: every record is counted once, the pipeline amounts add up what they state,
    attention shows the worst exceptions, amounts convert to cents exactly.
  \<^item> \<open>Directive_Properties\<close>: only the founder directs, revisions are numbered and kept, closed directives stay
    closed, a directive has at most one successor, a supersede links both sides, and the context of a scope is
    exact. The hypothesis on the generator of identifiers, \<open>fresh_ids\<close>, is that it never repeats one.

  The files ending in \<open>_Laws\<close> hold the lemmas these properties rest on, \<open>_Samples\<close> the histories the witnesses
  evaluate. Lemmas named in the manifest's findings show behaviours that are not intended, such as a rework that
  hides an overdue order, a lost adjustment, a \<open>stop\<close> that gives up early, or a failed supersede that closes
  what it should have replaced.

  \<^bold>\<open>Parameters, bounds and idealisations\<close>

  \<^item> Code that is not in the repository is an argument: the JSON-schema verdict (Ajv) and SHA-256, random
    numbers and identifiers, the time-zone offset (\<open>Intl\<close>), the collation of \<open>localeCompare\<close> as a sort key,
    \<open>isIP\<close> and \<open>BlockList\<close>, the answers of the network and the database.
  \<^item> Money and instants are whole numbers with the checks of the code (\<open>Number.isSafeInteger\<close>); where the code
    computes with doubles, the rounding is a parameter (\<open>cy_double\<close>) with the documented accuracy as hypothesis,
    or the result is exact in the stated range (shares up to nine hundred billion cents, pipeline sums up to
    \<open>2^53\<close> cents). A calendar date keeps the range of \<open>Date\<close>, beyond which the code throws a \<open>RangeError\<close>.
  \<^item> Loops are structural recursion, or \<open>partial_function (option)\<close> for \<open>addBusinessDays\<close>, whose return is proved.
    Fuel is used twice: \<open>decode_uri_component\<close> has the length of the string, of which every round takes a
    character or more, and \<open>to_fixed2\<close> fourteen doublings, enough for every share of one basis point or more. A
    run of a collector awaits at most eight answers and one for each snapshot of its envelope.
  \<^item> Characters are code units below 256; error messages, log lines and texts for the reader are dropped, error
    codes are kept. A transaction of the delivery store is one step, because the advisory locks it takes
    first serialize the transactions that could interfere.

  \<^bold>\<open>Not modelled\<close>

  The browser applications (\<open>apps\<close>), whose code is rendering and requests; the HTTP server of the context
  service, the MCP server and the SQL repositories, which route requests and run statements; the connectors' clients and mappers and the
  projectors of the runner, which translate documents of other systems; the importer, the deployment, quality
  and supply-chain tools, which read files and run commands; the client and engineering read models and the
  operational views of the context service, which are pure code of the same kind as the modelled read
  models; the Python tools. The manifest lists each with its reason.
\<close>

end
